(* ===== verification/Prelude.thy ===== *)
theory Prelude
  imports Main "HOL-Library.Word" "HOL-Library.Char_ord" "HOL-Library.List_Lexorder"
begin

text \<open>
  Shared vocabulary of the development: Rust results and fallible effects on an explicit state,
  what an effect leaves alone, keeps or adds to a log, and the lemma collections the component
  theories rewrite with. Strings, integers and their parsing are in \<open>Rust_Strings\<close>, ordered maps
  in \<open>Ordered_Map\<close>.

  Strings are character lists; a character stands for a Unicode scalar value up to
  U+00FF. Rust compares strings by their UTF-8 bytes, which orders them like their
  scalar values, so the lexicographic order of \<open>HOL-Library.List_Lexorder\<close> is Rust's.
\<close>

named_theorems res_simps \<open>equations that run results and effects\<close>
named_theorems str_simps \<open>equations of the string operations\<close>
named_theorems frame_intros \<open>what an effect leaves alone\<close>
named_theorems keeps_intros \<open>which invariants an effect keeps\<close>
named_theorems emits_intros \<open>what an effect adds to a log\<close>
named_theorems yields_intros \<open>what the result of an effect satisfies\<close>
named_theorems map_simps \<open>equations of ordered maps\<close>

section \<open>Results and effects\<close>

text \<open>\<^verbatim>\<open>Result<A, E>\<close> is \<open>'e + 'a\<close> with \<open>Inl\<close> the error. \<open>rbind\<close> is the \<^verbatim>\<open>?\<close> operator.\<close>

type_synonym ('e, 'a) result = "'e + 'a"

definition ok_or :: "'e \<Rightarrow> 'a option \<Rightarrow> 'e + 'a" where
  "ok_or e x = (case x of None \<Rightarrow> Inl e | Some a \<Rightarrow> Inr a)"

definition rbind :: "'e + 'a \<Rightarrow> ('a \<Rightarrow> 'e + 'b) \<Rightarrow> 'e + 'b" where
  "rbind r f = (case r of Inl e \<Rightarrow> Inl e | Inr a \<Rightarrow> f a)"

definition map_err :: "('e \<Rightarrow> 'f) \<Rightarrow> 'e + 'a \<Rightarrow> 'f + 'a" where
  "map_err f r = (case r of Inl e \<Rightarrow> Inl (f e) | Inr a \<Rightarrow> Inr a)"

definition res_ok :: "'e + 'a \<Rightarrow> 'a option" where
  "res_ok r = (case r of Inl _ \<Rightarrow> None | Inr a \<Rightarrow> Some a)"

definition unwrap_or :: "'a \<Rightarrow> 'a option \<Rightarrow> 'a" where
  "unwrap_or d x = (case x of None \<Rightarrow> d | Some a \<Rightarrow> a)"

lemma ok_or_simps [simp, res_simps]:
  "ok_or e None = Inl e" "ok_or e (Some a) = Inr a"
  by (simp_all add: ok_or_def)

lemma ok_or_eq_Inr [simp]: "ok_or e x = Inr a \<longleftrightarrow> x = Some a"
  by (cases x) simp_all

lemma ok_or_eq_Inl [simp]: "ok_or e x = Inl e' \<longleftrightarrow> x = None \<and> e' = e"
  by (cases x) auto

lemma rbind_simps [simp, res_simps]:
  "rbind (Inl e) f = Inl e" "rbind (Inr a) f = f a"
  by (simp_all add: rbind_def)

lemma rbind_eq_Inr: "rbind r f = Inr b \<longleftrightarrow> (\<exists>a. r = Inr a \<and> f a = Inr b)"
  by (cases r) simp_all

lemma map_err_simps [simp, res_simps]:
  "map_err f (Inl e) = Inl (f e)" "map_err f (Inr a) = Inr a"
  by (simp_all add: map_err_def)

lemma map_err_eq_Inr [simp]: "map_err f r = Inr a \<longleftrightarrow> r = Inr a"
  by (cases r) simp_all

lemma res_ok_simps [simp, res_simps]:
  "res_ok (Inl e) = None" "res_ok (Inr a) = Some a"
  by (simp_all add: res_ok_def)

lemma unwrap_or_simps [simp, res_simps]:
  "unwrap_or d None = d" "unwrap_or d (Some a) = a"
  by (simp_all add: unwrap_or_def)

text \<open>\<^verbatim>\<open>iter().map(f).collect::<Result<Vec<_>, _>>()\<close>: the first error ends it.\<close>

fun try_map :: "('a \<Rightarrow> 'e + 'b) \<Rightarrow> 'a list \<Rightarrow> 'e + 'b list" where
  "try_map f [] = Inr []"
| "try_map f (x # xs) = rbind (f x) (\<lambda>y. rbind (try_map f xs) (\<lambda>ys. Inr (y # ys)))"

lemma try_map_Inr: "try_map f xs = Inr ys \<longleftrightarrow> list_all2 (\<lambda>x y. f x = Inr y) xs ys"
proof (induction xs arbitrary: ys)
  case (Cons x xs)
  then show ?case by (cases ys) (auto simp: rbind_eq_Inr)
qed auto

lemma try_map_Inl: "try_map f xs = Inl e \<Longrightarrow> \<exists>x \<in> set xs. f x = Inl e"
  by (induction xs) (auto simp: rbind_def split: sum.splits)

lemma try_map_append:
  "try_map f (xs @ ys) = rbind (try_map f xs) (\<lambda>as. rbind (try_map f ys) (\<lambda>bs. Inr (as @ bs)))"
  by (induction xs) (auto simp: rbind_def split: sum.splits)

text \<open>
  A fallible effect passes a state on whether it fails or not: what an \<^verbatim>\<open>async fn\<close>
  that returns a \<^verbatim>\<open>Result\<close> has done before its error stays done.
\<close>

type_synonym ('s, 'e, 'a) eff = "'s \<Rightarrow> ('e + 'a) \<times> 's"

definition ret :: "'a \<Rightarrow> ('s, 'e, 'a) eff" where
  "ret a s = (Inr a, s)"

definition throw :: "'e \<Rightarrow> ('s, 'e, 'a) eff" where
  "throw e s = (Inl e, s)"

definition ebind :: "('s, 'e, 'a) eff \<Rightarrow> ('a \<Rightarrow> ('s, 'e, 'b) eff) \<Rightarrow> ('s, 'e, 'b) eff" where
  "ebind m f s = (case m s of (Inl e, s') \<Rightarrow> (Inl e, s') | (Inr a, s') \<Rightarrow> f a s')"

definition lift_res :: "'e + 'a \<Rightarrow> ('s, 'e, 'a) eff" where
  "lift_res r s = (r, s)"

definition emap_err :: "('e \<Rightarrow> 'f) \<Rightarrow> ('s, 'e, 'a) eff \<Rightarrow> ('s, 'f, 'a) eff" where
  "emap_err f m s = (case m s of (r, s') \<Rightarrow> (map_err f r, s'))"

lemma ret_run [simp, res_simps]: "ret a s = (Inr a, s)"
  by (simp add: ret_def)

lemma throw_run [simp, res_simps]: "throw e s = (Inl e, s)"
  by (simp add: throw_def)

lemma lift_res_run [simp, res_simps]: "lift_res r s = (r, s)"
  by (simp add: lift_res_def)

lemma ebind_Inl [res_simps]: "m s = (Inl e, s') \<Longrightarrow> ebind m f s = (Inl e, s')"
  by (simp add: ebind_def)

lemma ebind_Inr [res_simps]: "m s = (Inr a, s') \<Longrightarrow> ebind m f s = f a s'"
  by (simp add: ebind_def)

lemma ebind_eq_Inr:
  "ebind m f s = (Inr b, s'') \<longleftrightarrow> (\<exists>a s'. m s = (Inr a, s') \<and> f a s' = (Inr b, s''))"
  by (auto simp: ebind_def split: prod.splits sum.splits)

lemma ebind_eq_Inl:
  "ebind m f s = (Inl e, s'') \<longleftrightarrow>
     m s = (Inl e, s'') \<or> (\<exists>a s'. m s = (Inr a, s') \<and> f a s' = (Inl e, s''))"
  by (auto simp: ebind_def split: prod.splits sum.splits)

lemma emap_err_eq_Inr: "emap_err f m s = (Inr a, s') \<longleftrightarrow> m s = (Inr a, s')"
  by (auto simp: emap_err_def split: prod.splits)

lemma emap_err_eq_Inl: "emap_err f m s = (Inl e, s') \<longleftrightarrow> (\<exists>d. m s = (Inl d, s') \<and> e = f d)"
proof (cases "m s")
  case (Pair r t)
  then show ?thesis by (cases r) (auto simp: emap_err_def)
qed

lemma emap_err_run: "emap_err f m s = (r, s') \<longleftrightarrow> (\<exists>q. m s = (q, s') \<and> r = map_err f q)"
  by (auto simp: emap_err_def split: prod.splits)

lemma map_err_neq_Inr [simp]: "Inr a = map_err f r \<longleftrightarrow> r = Inr a"
  by (cases r) auto

lemmas eff_elims = ebind_eq_Inr ebind_eq_Inl emap_err_eq_Inr emap_err_eq_Inl

text \<open>An effect frames a part \<open>f\<close> of the state when it leaves it alone, whether it fails or not.\<close>

definition frame :: "('s \<Rightarrow> 'x) \<Rightarrow> ('s, 'e, 'a) eff \<Rightarrow> bool" where
  "frame f m \<longleftrightarrow> (\<forall>s. f (snd (m s)) = f s)"

lemma frameI: "(\<And>s r s'. m s = (r, s') \<Longrightarrow> f s' = f s) \<Longrightarrow> frame f m"
  by (auto simp: frame_def) (metis prod.collapse)

lemma frameD: "frame f m \<Longrightarrow> m s = (r, s') \<Longrightarrow> f s' = f s"
  by (metis frame_def snd_conv)

lemma frame_ret [frame_intros]: "frame f (ret a)"
  by (simp add: frame_def)

lemma frame_throw [frame_intros]: "frame f (throw e)"
  by (simp add: frame_def)

lemma frame_lift_res [frame_intros]: "frame f (lift_res r)"
  by (simp add: frame_def)

lemma frame_ebind [frame_intros]:
  "frame f m \<Longrightarrow> (\<And>a. frame f (g a)) \<Longrightarrow> frame f (ebind m g)"
  by (auto simp: frame_def ebind_def split_beta split: sum.split)

lemma frame_emap_err [frame_intros]: "frame f m \<Longrightarrow> frame f (emap_err h m)"
  by (auto simp: frame_def emap_err_def split_beta)

lemma frame_if [frame_intros]:
  "(b \<Longrightarrow> frame f m) \<Longrightarrow> (\<not> b \<Longrightarrow> frame f m') \<Longrightarrow> frame f (if b then m else m')"
  by simp

lemma frame_option [frame_intros]:
  "(x = None \<Longrightarrow> frame f m) \<Longrightarrow> (\<And>a. x = Some a \<Longrightarrow> frame f (g a)) \<Longrightarrow>
     frame f (case x of None \<Rightarrow> m | Some a \<Rightarrow> g a)"
  by (cases x) simp_all

lemma frame_prod [frame_intros]:
  "(\<And>a b. p = (a, b) \<Longrightarrow> frame f (g a b)) \<Longrightarrow> frame f (case p of (a, b) \<Rightarrow> g a b)"
  by (cases p) simp

text \<open>
  A part of the state that is a log, which an effect only adds entries with a property to,
  whether it fails or not: the requests a resolver sends, the changes a command makes.
\<close>

definition emits :: "('s \<Rightarrow> 'x list) \<Rightarrow> ('x \<Rightarrow> bool) \<Rightarrow> ('s, 'e, 'a) eff \<Rightarrow> bool" where
  "emits log P m \<longleftrightarrow> (\<forall>s. \<exists>new. log (snd (m s)) = log s @ new \<and> list_all P new)"

lemma emitsD:
  "emits log P m \<Longrightarrow> m s = (r, s') \<Longrightarrow> \<exists>new. log s' = log s @ new \<and> list_all P new"
  by (metis emits_def snd_conv)

lemma frame_emits: "frame log m \<Longrightarrow> emits log P m"
  by (simp add: frame_def emits_def)

lemma emits_ret [emits_intros]: "emits log P (ret a)"
  by (simp add: emits_def)

lemma emits_throw [emits_intros]: "emits log P (throw e)"
  by (simp add: emits_def)

lemma emits_lift_res [emits_intros]: "emits log P (lift_res r)"
  by (simp add: emits_def)

lemma emits_ebind [emits_intros]:
  assumes "emits log P m" and "\<And>a. emits log P (g a)"
  shows "emits log P (ebind m g)"
  unfolding emits_def
proof
  fix s
  obtain r s1 where m: "m s = (r, s1)" by force
  from emitsD [OF assms(1) m] obtain new1
    where new1: "log s1 = log s @ new1" "list_all P new1" by blast
  show "\<exists>new. log (snd (ebind m g s)) = log s @ new \<and> list_all P new"
  proof (cases r)
    case (Inr a)
    obtain r2 s2 where g: "g a s1 = (r2, s2)" by force
    from emitsD [OF assms(2) g] new1 m g Inr show ?thesis by (force simp: ebind_def)
  qed (use m new1 in \<open>auto simp: ebind_def\<close>)
qed

lemma emits_emap_err [emits_intros]: "emits log P m \<Longrightarrow> emits log P (emap_err h m)"
  by (auto simp: emits_def emap_err_def split_beta)

lemma emits_if [emits_intros]:
  "(b \<Longrightarrow> emits log P m) \<Longrightarrow> (\<not> b \<Longrightarrow> emits log P m') \<Longrightarrow> emits log P (if b then m else m')"
  by simp

lemma emits_option [emits_intros]:
  "(x = None \<Longrightarrow> emits log P m) \<Longrightarrow> (\<And>a. x = Some a \<Longrightarrow> emits log P (g a)) \<Longrightarrow>
     emits log P (case x of None \<Rightarrow> m | Some a \<Rightarrow> g a)"
  by (cases x) simp_all

lemma emits_sum [emits_intros]:
  "(\<And>e. x = Inl e \<Longrightarrow> emits log P (f e)) \<Longrightarrow> (\<And>a. x = Inr a \<Longrightarrow> emits log P (g a)) \<Longrightarrow>
     emits log P (case x of Inl e \<Rightarrow> f e | Inr a \<Rightarrow> g a)"
  by (cases x) simp_all

lemma emits_prod [emits_intros]:
  "(\<And>a b. p = (a, b) \<Longrightarrow> emits log P (g a b)) \<Longrightarrow> emits log P (case p of (a, b) \<Rightarrow> g a b)"
  by (cases p) simp

lemma emits_weaken: "emits log P m \<Longrightarrow> (\<And>x. P x \<Longrightarrow> Q x) \<Longrightarrow> emits log Q m"
  unfolding emits_def by (metis list_all_iff)

text \<open>An effect keeps an invariant whether it fails or not.\<close>

definition keeps :: "('s \<Rightarrow> bool) \<Rightarrow> ('s, 'e, 'a) eff \<Rightarrow> bool" where
  "keeps P m \<longleftrightarrow> (\<forall>s. P s \<longrightarrow> P (snd (m s)))"

lemma keepsD: "keeps P m \<Longrightarrow> m s = (r, s') \<Longrightarrow> P s \<Longrightarrow> P s'"
  by (metis keeps_def snd_conv)

lemma frame_keeps: "frame f m \<Longrightarrow> keeps (\<lambda>s. Q (f s)) m"
  by (simp add: frame_def keeps_def)

lemma keeps_ret [keeps_intros]: "keeps P (ret a)"
  by (simp add: keeps_def)

lemma keeps_throw [keeps_intros]: "keeps P (throw e)"
  by (simp add: keeps_def)

lemma keeps_lift_res [keeps_intros]: "keeps P (lift_res r)"
  by (simp add: keeps_def)

lemma keeps_ebind [keeps_intros]:
  "keeps P m \<Longrightarrow> (\<And>a. keeps P (g a)) \<Longrightarrow> keeps P (ebind m g)"
  by (auto simp: keeps_def ebind_def split_beta split: sum.split)

lemma keeps_if [keeps_intros]:
  "(b \<Longrightarrow> keeps P m) \<Longrightarrow> (\<not> b \<Longrightarrow> keeps P m') \<Longrightarrow> keeps P (if b then m else m')"
  by simp

lemma keeps_option [keeps_intros]:
  "(x = None \<Longrightarrow> keeps P m) \<Longrightarrow> (\<And>a. x = Some a \<Longrightarrow> keeps P (g a)) \<Longrightarrow>
     keeps P (case x of None \<Rightarrow> m | Some a \<Rightarrow> g a)"
  by (cases x) simp_all

lemma keeps_prod [keeps_intros]:
  "(\<And>a b. p = (a, b) \<Longrightarrow> keeps P (g a b)) \<Longrightarrow> keeps P (case p of (a, b) \<Rightarrow> g a b)"
  by (cases p) simp

text \<open>Every result of an effect that succeeds satisfies a condition.\<close>

definition yields :: "('a \<Rightarrow> bool) \<Rightarrow> ('s, 'e, 'a) eff \<Rightarrow> bool" where
  "yields P m \<longleftrightarrow> (\<forall>s a s'. m s = (Inr a, s') \<longrightarrow> P a)"

lemma yieldsD: "yields P m \<Longrightarrow> m s = (Inr a, s') \<Longrightarrow> P a"
  by (auto simp: yields_def)

lemma yields_ret [yields_intros]: "P a \<Longrightarrow> yields P (ret a)"
  by (simp add: yields_def)

lemma yields_throw [yields_intros]: "yields P (throw e)"
  by (simp add: yields_def)

lemma yields_lift_res [yields_intros]: "(\<And>a. r = Inr a \<Longrightarrow> P a) \<Longrightarrow> yields P (lift_res r)"
  by (auto simp: yields_def)

lemma yields_ebind: "yields Q m \<Longrightarrow> (\<And>a. Q a \<Longrightarrow> yields P (g a)) \<Longrightarrow> yields P (ebind m g)"
  by (fastforce simp: yields_def ebind_def split: prod.splits sum.splits)

lemma yields_continue [yields_intros]: "(\<And>a. yields P (g a)) \<Longrightarrow> yields P (ebind m g)"
  by (rule yields_ebind [where Q = "\<lambda>_. True"]) (simp_all add: yields_def)

lemma yields_lift_bind: "(\<And>a. r = Inr a \<Longrightarrow> yields P (g a)) \<Longrightarrow> yields P (ebind (lift_res r) g)"
  by (rule yields_ebind [where Q = "\<lambda>a. r = Inr a"]) (simp_all add: yields_lift_res)

lemma yields_if [yields_intros]:
  "(b \<Longrightarrow> yields P m) \<Longrightarrow> (\<not> b \<Longrightarrow> yields P m') \<Longrightarrow> yields P (if b then m else m')"
  by simp

lemma yields_prod [yields_intros]:
  "(\<And>a b. p = (a, b) \<Longrightarrow> yields P (g a b)) \<Longrightarrow> yields P (case p of (a, b) \<Rightarrow> g a b)"
  by (cases p) simp

lemma yields_weaken: "yields P m \<Longrightarrow> (\<And>x. P x \<Longrightarrow> Q x) \<Longrightarrow> yields Q m"
  by (auto simp: yields_def)

end
