(* ===== verification/Rust_Strings.thy ===== *)
theory Rust_Strings
  imports Prelude
begin

text \<open>
  The operations of Rust's \<^verbatim>\<open>str\<close> and \<^verbatim>\<open>u32\<close> the sources call: character classes, trimming,
  splitting, joining, prefixes, decimal printing and \<^verbatim>\<open>str::parse::<u32>\<close>, with the
  round trip between printing and parsing that identifiers and labels rely on; and of \<^verbatim>\<open>Path\<close>: file
  names, extensions and the parents of a path, which get shorter until there is none.
\<close>

section \<open>Character classes\<close>

definition code :: "char \<Rightarrow> nat" where
  "code c = of_char c"

definition is_ascii_digit :: "char \<Rightarrow> bool" where
  "is_ascii_digit c \<longleftrightarrow> 48 \<le> code c \<and> code c \<le> 57"

definition is_ascii_letter :: "char \<Rightarrow> bool" where
  "is_ascii_letter c \<longleftrightarrow> (65 \<le> code c \<and> code c \<le> 90) \<or> (97 \<le> code c \<and> code c \<le> 122)"

text \<open>\<^verbatim>\<open>char::is_alphanumeric\<close>: letters and numeric characters, up to U+00FF.\<close>

definition is_alphanumeric :: "char \<Rightarrow> bool" where
  "is_alphanumeric c \<longleftrightarrow>
     is_ascii_digit c \<or> is_ascii_letter c \<or>
     code c \<in> {170, 181, 186, 178, 179, 185, 188, 189, 190} \<or>
     (192 \<le> code c \<and> code c \<noteq> 215 \<and> code c \<noteq> 247)"

text \<open>\<^verbatim>\<open>char::is_whitespace\<close> (the property White\_Space), up to U+00FF.\<close>

definition is_whitespace :: "char \<Rightarrow> bool" where
  "is_whitespace c \<longleftrightarrow> (9 \<le> code c \<and> code c \<le> 13) \<or> code c \<in> {32, 133, 160}"

lemma code_lt_256 [simp]: "code c < 256"
  by (cases c) (simp add: code_def)

lemma letter_not_digit: "is_ascii_letter c \<Longrightarrow> \<not> is_ascii_digit c"
  by (auto simp: is_ascii_letter_def is_ascii_digit_def)

lemma digit_not_letter: "is_ascii_digit c \<Longrightarrow> \<not> is_ascii_letter c"
  using letter_not_digit by blast

section \<open>Slices of strings\<close>

definition trim_start :: "string \<Rightarrow> string" where
  "trim_start s = dropWhile is_whitespace s"

definition trim :: "string \<Rightarrow> string" where
  "trim s = rev (dropWhile is_whitespace (rev (dropWhile is_whitespace s)))"

text \<open>\<^verbatim>\<open>trim_matches(c)\<close>: drop every leading and trailing occurrence of a character.\<close>

definition trim_matches :: "char \<Rightarrow> string \<Rightarrow> string" where
  "trim_matches c s = rev (dropWhile (\<lambda>x. x = c) (rev (dropWhile (\<lambda>x. x = c) s)))"

fun strip_prefix :: "string \<Rightarrow> string \<Rightarrow> string option" where
  "strip_prefix [] s = Some s"
| "strip_prefix (p # ps) [] = None"
| "strip_prefix (p # ps) (c # cs) = (if p = c then strip_prefix ps cs else None)"

lemma strip_prefix_append [simp, str_simps]: "strip_prefix p (p @ s) = Some s"
  by (induction p) simp_all

lemma strip_prefix_Some: "strip_prefix p s = Some r \<longleftrightarrow> s = p @ r"
  by (induction p s rule: strip_prefix.induct) auto

lemma strip_prefix_None: "strip_prefix p s = None \<longleftrightarrow> (\<forall>r. s \<noteq> p @ r)"
  by (metis not_Some_eq strip_prefix_Some)

text \<open>\<^verbatim>\<open>split_once(pat)\<close>: cut at the first occurrence of the pattern.\<close>

fun split_once :: "string \<Rightarrow> string \<Rightarrow> (string \<times> string) option" where
  "split_once pat [] = (if pat = [] then Some ([], []) else None)"
| "split_once pat (c # cs) =
     (case strip_prefix pat (c # cs) of
        Some r \<Rightarrow> Some ([], r)
      | None \<Rightarrow> map_option (\<lambda>(a, b). (c # a, b)) (split_once pat cs))"

lemma split_once_Some: "split_once pat s = Some (a, b) \<Longrightarrow> s = a @ pat @ b"
proof (induction s arbitrary: a)
  case Nil
  then show ?case by (simp split: if_splits)
next
  case (Cons c cs)
  then show ?case by (auto simp: strip_prefix_Some split: option.splits)
qed

lemma split_once_char:
  "d \<notin> set a \<Longrightarrow> split_once [d] (a @ d # b) = Some (a, b)"
  by (induction a) auto

lemma split_once_char_None: "split_once [d] s = None \<longleftrightarrow> d \<notin> set s"
  by (induction s) (auto split: option.splits)

lemma split_once_char_Some: "split_once [d] s = Some (a, b) \<Longrightarrow> d \<notin> set a"
  by (induction s arbitrary: a) (auto split: option.splits if_splits)

text \<open>\<^verbatim>\<open>contains(pat)\<close>.\<close>

definition str_contains :: "string \<Rightarrow> string \<Rightarrow> bool" where
  "str_contains pat s \<longleftrightarrow> split_once pat s \<noteq> None"

text \<open>\<^verbatim>\<open>split(c)\<close>: one piece more than there are separators, so never empty.\<close>

fun split_char :: "char \<Rightarrow> string \<Rightarrow> string list" where
  "split_char d [] = [[]]"
| "split_char d (c # cs) =
     (if c = d then [] # split_char d cs
      else (case split_char d cs of [] \<Rightarrow> [[c]] | p # ps \<Rightarrow> (c # p) # ps))"

lemma split_char_nonempty [simp]: "split_char d s \<noteq> []"
  by (induction s) (auto split: list.splits)

lemma split_char_none: "d \<notin> set s \<Longrightarrow> split_char d s = [s]"
  by (induction s) auto

lemma split_char_cons: "d \<notin> set a \<Longrightarrow> split_char d (a @ d # b) = a # split_char d b"
  by (induction a) auto

text \<open>\<^verbatim>\<open>join(sep)\<close> on a slice of strings.\<close>

fun join :: "string \<Rightarrow> string list \<Rightarrow> string" where
  "join sep [] = []"
| "join sep [s] = s"
| "join sep (s # t # ts) = s @ sep @ join sep (t # ts)"

lemma split_char_join:
  assumes "ps \<noteq> []" and "\<forall>p \<in> set ps. d \<notin> set p"
  shows "split_char d (join [d] ps) = ps"
  using assms
proof (induction ps)
  case (Cons p ps)
  then show ?case
    by (cases ps) (simp_all add: split_char_none split_char_cons)
qed simp

lemma join_split_char: "join [d] (split_char d s) = s"
proof (induction s)
  case (Cons c cs)
  then show ?case
    by (cases "split_char d cs"; cases "tl (split_char d cs)") auto
qed simp

text \<open>
  \<^verbatim>\<open>lines()\<close>: a line ends with a newline, whose carriage return goes with it; a last line
  without a newline stays as it is, and there is none when the text is empty or ends a line.
\<close>

definition strip_cr :: "string \<Rightarrow> string" where
  "strip_cr s = (if s \<noteq> [] \<and> code (last s) = 13 then butlast s else s)"

definition newline :: char where "newline = CHR 0x0A"

definition lines :: "string \<Rightarrow> string list" where
  "lines s =
     (let ps = split_char newline s in
      map strip_cr (butlast ps) @ (if last ps = [] then [] else [last ps]))"

lemma split_char_append:
  "split_char d (a @ d # b) = split_char d a @ split_char d b"
proof (induction a)
  case (Cons c a)
  then show ?case by (cases "split_char d a") auto
qed simp

lemma lines_append: "lines (a @ newline # b) = lines (a @ [newline]) @ lines b"
  by (simp add: lines_def Let_def split_char_append butlast_append last_append)

lemma lines_Nil [simp]: "lines [] = []"
  by (simp add: lines_def)

section \<open>Unsigned 32-bit numbers as text\<close>

type_synonym u32 = "32 word"

definition digit_char :: "nat \<Rightarrow> char" where
  "digit_char n = char_of (48 + n)"

text \<open>\<^verbatim>\<open>to_string()\<close> of an unsigned number.\<close>

fun show_nat :: "nat \<Rightarrow> string" where
  "show_nat n = (if n < 10 then [digit_char n]
                 else show_nat (n div 10) @ [digit_char (n mod 10)])"

declare show_nat.simps [simp del]

definition show_u32 :: "u32 \<Rightarrow> string" where
  "show_u32 w = show_nat (unat w)"

datatype int_error = Empty | InvalidDigit | PosOverflow

definition to_digit :: "char \<Rightarrow> nat option" where
  "to_digit c = (if is_ascii_digit c then Some (code c - 48) else None)"

fun parse_digits :: "nat \<Rightarrow> string \<Rightarrow> int_error + nat" where
  "parse_digits acc [] = Inr acc"
| "parse_digits acc (c # cs) =
     (case to_digit c of
        None \<Rightarrow> Inl InvalidDigit
      | Some x \<Rightarrow> (if 2 ^ 32 \<le> acc * 10 + x then Inl PosOverflow
                   else parse_digits (acc * 10 + x) cs))"

text \<open>\<^verbatim>\<open>str::parse::<u32>\<close>: an optional plus sign, then at least one digit.\<close>

definition parse_u32 :: "string \<Rightarrow> int_error + u32" where
  "parse_u32 s =
     (if s = [] then Inl Empty
      else if s = ''+'' \<or> s = ''-'' then Inl InvalidDigit
      else rbind (parse_digits 0 (if hd s = CHR ''+'' then tl s else s)) (\<lambda>n. Inr (of_nat n)))"

lemma code_digit_char: "n < 10 \<Longrightarrow> code (digit_char n) = 48 + n"
  by (simp add: code_def digit_char_def)

lemma digit_char_eqs [simp, str_simps]:
  "digit_char 0 = CHR ''0''" "digit_char (Suc 0) = CHR ''1''" "digit_char 2 = CHR ''2''"
  "digit_char 3 = CHR ''3''" "digit_char 4 = CHR ''4''" "digit_char 5 = CHR ''5''"
  "digit_char 6 = CHR ''6''" "digit_char 7 = CHR ''7''" "digit_char 8 = CHR ''8''"
  "digit_char 9 = CHR ''9''"
  by (simp_all add: digit_char_def char_of_def bit_0)

lemma digit_char_is_digit [simp]: "n < 10 \<Longrightarrow> is_ascii_digit (digit_char n)"
  by (simp add: is_ascii_digit_def code_digit_char)

lemma to_digit_digit_char [simp]: "n < 10 \<Longrightarrow> to_digit (digit_char n) = Some n"
  by (simp add: to_digit_def code_digit_char)

lemma show_nat_nonempty [simp]: "show_nat n \<noteq> []"
  by (subst show_nat.simps) simp

lemma show_nat_digits: "\<forall>c \<in> set (show_nat n). is_ascii_digit c"
proof (induction n rule: show_nat.induct)
  case (1 n)
  then show ?case by (subst show_nat.simps) auto
qed

lemma show_nat_no_char: "\<not> is_ascii_digit d \<Longrightarrow> d \<notin> set (show_nat n)"
  using show_nat_digits by blast

lemma parse_digits_append:
  "parse_digits acc (xs @ ys) = rbind (parse_digits acc xs) (\<lambda>a. parse_digits a ys)"
  by (induction acc xs rule: parse_digits.induct) (auto split: option.splits)

lemma parse_digits_show_nat: "n < 2 ^ 32 \<Longrightarrow> parse_digits 0 (show_nat n) = Inr n"
proof (induction n rule: show_nat.induct)
  case (1 n)
  show ?case
  proof (cases "n < 10")
    case True
    with 1 show ?thesis by (subst show_nat.simps) simp
  next
    case False
    have "n div 10 < 2 ^ 32" using "1.prems" by simp
    with False 1 have "parse_digits 0 (show_nat (n div 10)) = Inr (n div 10)" by simp
    with False "1.prems" show ?thesis
      by (subst show_nat.simps) (simp add: parse_digits_append)
  qed
qed

lemma parse_u32_of_digits:
  assumes "ds \<noteq> []" and "\<forall>c \<in> set ds. is_ascii_digit c"
  shows "parse_u32 ds = rbind (parse_digits 0 ds) (\<lambda>n. Inr (of_nat n))"
proof -
  have d: "is_ascii_digit (hd ds)" using assms by simp
  then have "hd ds \<noteq> CHR ''+''" "hd ds \<noteq> CHR ''-''"
    by (auto simp: is_ascii_digit_def code_def)
  then have "ds \<noteq> ''+''" "ds \<noteq> ''-''" by auto
  with \<open>hd ds \<noteq> CHR ''+''\<close> assms(1) show ?thesis by (simp add: parse_u32_def)
qed

lemma parse_show_u32 [simp]: "parse_u32 (show_u32 w) = Inr w"
proof -
  have "unat w < 2 ^ 32" using unsigned_less [where w = w and 'a = nat] by simp
  then have "parse_digits 0 (show_nat (unat w)) = Inr (unat w)"
    by (rule parse_digits_show_nat)
  moreover have "parse_u32 (show_nat (unat w)) =
      rbind (parse_digits 0 (show_nat (unat w))) (\<lambda>n. Inr (of_nat n))"
    by (rule parse_u32_of_digits) (simp_all add: show_nat_digits)
  ultimately show ?thesis by (simp add: show_u32_def)
qed

lemma show_u32_inj: "show_u32 v = show_u32 w \<longleftrightarrow> v = w"
  by (metis Inr_inject parse_show_u32)

lemma show_u32_nonempty [simp]: "show_u32 w \<noteq> []"
  by (simp add: show_u32_def)

lemma show_u32_digits: "\<forall>c \<in> set (show_u32 w). is_ascii_digit c"
  by (simp add: show_u32_def show_nat_digits)

lemma parse_digits_bound: "parse_digits acc s = Inr n \<Longrightarrow> acc < 2 ^ 32 \<Longrightarrow> n < 2 ^ 32"
  by (induction acc s rule: parse_digits.induct) (auto split: option.splits if_splits)

section \<open>Paths\<close>

text \<open>\<^verbatim>\<open>Path::file_name\<close>: the last component, unless it is \<^verbatim>\<open>..\<close>.\<close>

definition path_components :: "string \<Rightarrow> string list" where
  "path_components p = filter (\<lambda>c. c \<noteq> [] \<and> c \<noteq> ''.'') (split_char CHR ''/'' p)"

definition path_file_name :: "string \<Rightarrow> string option" where
  "path_file_name p =
     (let cs = path_components p in
      if cs = [] \<or> last cs = ''..'' then None else Some (last cs))"

text \<open>
  \<^verbatim>\<open>Path::extension\<close>: what follows the last dot of the file name, unless that dot is the first
  character or there is none.
\<close>

definition path_extension :: "string \<Rightarrow> string option" where
  "path_extension p =
     (case path_file_name p of
        None \<Rightarrow> None
      | Some n \<Rightarrow>
          (let parts = split_char CHR ''.'' n in
           if join ''.'' (butlast parts) = [] then None else Some (last parts)))"

text \<open>
  \<^verbatim>\<open>Path::parent\<close> on the components in reverse: slashes and dots at the end are dropped, but not a
  first component, which is empty for an absolute path.
\<close>

fun strip_tail :: "string list \<Rightarrow> string list" where
  "strip_tail (c # d # cs) = (if c = [] \<or> c = ''.'' then strip_tail (d # cs) else c # d # cs)"
| "strip_tail cs = cs"

definition path_of_components :: "string list \<Rightarrow> string" where
  "path_of_components cs = (if cs = [[]] then ''/'' else join ''/'' (rev cs))"

definition path_parent :: "string \<Rightarrow> string option" where
  "path_parent p =
     (case strip_tail (rev (split_char CHR ''/'' p)) of
        [] \<Rightarrow> None
      | [c] \<Rightarrow> (if c = [] then None else Some [])
      | c # cs \<Rightarrow> Some (path_of_components (strip_tail cs)))"

lemma strip_tail_suffix: "\<exists>ds. cs = ds @ strip_tail cs"
proof (induction cs rule: strip_tail.induct)
  case (1 c d cs)
  then show ?case by (cases "c = [] \<or> c = ''.''") (auto, (metis append_Cons)+)
qed simp_all

lemma strip_tail_nonempty [simp]: "strip_tail cs = [] \<longleftrightarrow> cs = []"
  by (induction cs rule: strip_tail.induct) auto

lemma strip_tail_hd: "strip_tail cs = c # d # ds \<Longrightarrow> c \<noteq> []"
  by (induction cs rule: strip_tail.induct) (auto split: if_splits)

lemma join_snoc: "cs \<noteq> [] \<Longrightarrow> join sep (cs @ [c]) = join sep cs @ sep @ c"
proof (induction sep cs rule: join.induct)
  case (3 sep s t ts)
  then show ?case by simp
qed simp_all

lemma length_join_append: "cs \<noteq> [] \<Longrightarrow> length (join sep cs) \<le> length (join sep (cs @ ds))"
proof (induction ds rule: rev_induct)
  case (snoc d ds)
  then show ?case using join_snoc [of "cs @ ds" sep d] by simp
qed simp

lemma length_join_suffix: "cs \<noteq> [] \<Longrightarrow> length (join sep (rev cs)) \<le> length (join sep (rev (ds @ cs)))"
  using length_join_append [of "rev cs" sep "rev ds"] by simp

lemma path_parent_shorter:
  assumes "path_parent p = Some q"
  shows "length q < length p"
proof -
  let ?ps = "rev (split_char CHR ''/'' p)"
  have p: "p = join ''/'' (rev ?ps)" by (simp add: join_split_char)
  obtain ds where ds: "?ps = ds @ strip_tail ?ps" using strip_tail_suffix by blast
  consider (one) c where "strip_tail ?ps = [c]" "c \<noteq> []" "q = []"
    | (more) c d cs where "strip_tail ?ps = c # d # cs" "q = path_of_components (strip_tail (d # cs))"
    using assms by (auto simp: path_parent_def split: list.splits if_splits)
  then show ?thesis
  proof cases
    case one
    with ds length_join_suffix [of "[c]" "''/''" ds] p show ?thesis by fastforce
  next
    case more
    obtain es where es: "d # cs = es @ strip_tail (d # cs)" using strip_tail_suffix by blast
    have "length (join ''/'' (rev (strip_tail (d # cs)))) \<le> length (join ''/'' (rev (d # cs)))"
      using length_join_suffix [of "strip_tail (d # cs)" "''/''" es] es by simp
    moreover have "length (join ''/'' (rev (c # d # cs))) \<le> length p"
      using length_join_suffix [of "c # d # cs" "''/''" ds] ds more(1) p by simp
    moreover have "length (join ''/'' (rev (c # d # cs))) = length (join ''/'' (rev (d # cs))) + 1 + length c"
      using join_snoc [of "rev (d # cs)" "''/''" c] by simp
    moreover have "0 < length c" using strip_tail_hd [OF more(1)] by simp
    ultimately show ?thesis
      using more(2) by (cases c) (auto simp: path_of_components_def)
  qed
qed

text \<open>\<^verbatim>\<open>Path::ancestors\<close>: a path, its parent, and so on.\<close>

function path_ancestors :: "string \<Rightarrow> string list" where
  "path_ancestors p = p # (case path_parent p of Some q \<Rightarrow> path_ancestors q | None \<Rightarrow> [])"
  by pat_completeness auto
termination by (relation "measure length") (auto dest: path_parent_shorter)

declare path_ancestors.simps [simp del]

end
