(* ===== verification/Auth_Core.thy ===== *)
theory Auth_Core
  imports Rust_Strings
begin

text \<open>
  The crate \<^verbatim>\<open>auth-core\<close>: the table of refresh tokens shared by the gateway, the daemon and the
  broker (\<^verbatim>\<open>database.rs\<close>, \<^verbatim>\<open>entity/oidc_tokens.rs\<close>) and the claims of an access token
  (\<^verbatim>\<open>oidc.rs\<close>).

  What the crate takes from outside is a record of services on a state \<open>'n\<close>: the clock,
  whether a database statement fails, the sealed boxes, the token endpoint. The state of a
  component extends \<open>auth_env\<close>, so that the operations here run in the gateway, the daemon and
  the broker alike.
\<close>

section \<open>Time and bytes\<close>

text \<open>
  A \<^verbatim>\<open>DateTime<Utc>\<close> is its nanoseconds since the epoch, at most \<^verbatim>\<open>DateTime::MAX_UTC\<close>; adding a
  duration that leads past it panics.
\<close>

type_synonym utc = int

definition seconds :: "nat \<Rightarrow> int" where
  "seconds n = int n * 1000000000"

definition days :: "nat \<Rightarrow> int" where
  "days n = seconds (n * 86400)"

definition max_utc :: utc where
  "max_utc = 8210266876799 * 1000000000 + 999999999"

definition utc_add :: "utc \<Rightarrow> int \<Rightarrow> utc option" where
  "utc_add t d = (if t + d \<le> max_utc then Some (t + d) else None)"

type_synonym u8 = "8 word"

text \<open>\<^verbatim>\<open>str::as_bytes\<close> and \<^verbatim>\<open>String::from_utf8\<close>, on the scalars up to U+00FF.\<close>

definition utf8_char :: "char \<Rightarrow> u8 list" where
  "utf8_char c =
     (if code c < 128 then [of_nat (code c)]
      else [of_nat (192 + code c div 64), of_nat (128 + code c mod 64)])"

definition as_bytes :: "string \<Rightarrow> u8 list" where
  "as_bytes s = concat (map utf8_char s)"

fun from_utf8 :: "u8 list \<Rightarrow> string option" where
  "from_utf8 [] = Some []"
| "from_utf8 (b # bs) =
     (if unat b < 128 then map_option ((#) (char_of (unat b))) (from_utf8 bs)
      else case bs of
             [] \<Rightarrow> None
           | b2 # bs' \<Rightarrow>
               (if (unat b = 194 \<or> unat b = 195) \<and> 128 \<le> unat b2 \<and> unat b2 < 192
                then map_option ((#) (char_of ((unat b - 192) * 64 + (unat b2 - 128))))
                       (from_utf8 bs')
                else None))"

lemma unat_of_nat_u8 [simp]: "n < 256 \<Longrightarrow> unat (of_nat n :: u8) = n"
  by (simp add: unat_of_nat take_bit_eq_mod)

lemma char_of_code [simp]: "char_of (code c) = c"
  by (simp add: code_def)

lemma from_utf8_char: "from_utf8 (utf8_char c @ bs) = map_option ((#) c) (from_utf8 bs)"
proof (cases "code c < 128")
  case True
  then show ?thesis by (simp add: utf8_char_def)
next
  case False
  define q r where "q = code c div 64" and "r = code c mod 64"
  have "128 div 64 \<le> q" "q \<le> 255 div 64"
    using False div_le_mono[of "code c" 255 64] code_lt_256[of c] unfolding q_def
    by (auto intro!: div_le_mono)
  then have q: "q = 2 \<or> q = 3" by auto
  have r: "r < 64" and c: "code c = q * 64 + r"
    by (simp_all add: q_def r_def)
  have bytes: "utf8_char c = [of_nat (192 + q), of_nat (128 + r)]"
    using False by (simp add: utf8_char_def q_def r_def)
  have "unat (of_nat (192 + q) :: u8) = 192 + q" "unat (of_nat (128 + r) :: u8) = 128 + r"
    using q r by (simp_all only: unat_of_nat_u8) auto
  then have "from_utf8 (utf8_char c @ bs) =
      map_option ((#) (char_of (q * 64 + r))) (from_utf8 bs)"
    using q r unfolding bytes append_Cons append_Nil from_utf8.simps
    by (auto simp del: of_nat_add of_nat_numeral)
  then show ?thesis using c by (metis char_of_code)
qed

lemma from_utf8_as_bytes [simp]: "from_utf8 (as_bytes s) = Some s"
  by (induction s) (simp_all add: as_bytes_def from_utf8_char)

section \<open>Services\<close>

type_synonym key = "u8 list"

text \<open>What the token endpoint answers.\<close>

record token_response =
  tr_access_token :: string
  tr_refresh_token :: "string option"
  tr_expires_in :: "nat option"
  tr_id_token :: "string option"

datatype auth_error =
    DbError string
  | NoTokenRow string "string option"
  | DecryptFailed
  | StoredTokenExpired utc
  | Utf8Error
  | OidcError string
  | SessionError string
  | BodyError string
  | Failed string
  | Panicked string

record 'n auth_services =
  clock :: "'n \<Rightarrow> utc \<times> 'n"
  db_fault :: "'n \<Rightarrow> string option \<times> 'n"
  seal :: "u8 list \<Rightarrow> key \<Rightarrow> 'n \<Rightarrow> u8 list \<times> 'n"
  open_sealed :: "u8 list \<Rightarrow> key \<Rightarrow> key \<Rightarrow> u8 list option"
  token_endpoint :: "string \<Rightarrow> 'n \<Rightarrow> (string + token_response) \<times> 'n"

text \<open>A row of the table \<^verbatim>\<open>oidc_tokens\<close>, whose primary key is the subject.\<close>

record token_row =
  row_issuer :: string
  row_subject :: string
  row_encrypted_refresh_token :: "u8 list"
  row_expires_at :: "utc option"
  row_created_at :: utc
  row_updated_at :: utc

type_synonym token_table = "string \<rightharpoonup> token_row"

record 'n auth_env =
  net :: 'n
  oidc_tokens :: token_table

text \<open>A call that only moves the outside world, and a statement on the table, which may fail.\<close>

definition outside :: "('n \<Rightarrow> 'a \<times> 'n) \<Rightarrow> (('n, 'z) auth_env_scheme, 'e, 'a) eff" where
  "outside f w = (case f (net w) of (a, n) \<Rightarrow> (Inr a, w\<lparr>net := n\<rparr>))"

abbreviation utc_now ::
  "('n, 'y) auth_services_scheme \<Rightarrow> (('n, 'z) auth_env_scheme, 'e, utc) eff" where
  "utc_now sv \<equiv> outside (clock sv)"

definition db_exec ::
  "('n, 'y) auth_services_scheme \<Rightarrow> (token_table \<Rightarrow> 'a \<times> token_table) \<Rightarrow>
   (('n, 'z) auth_env_scheme, auth_error, 'a) eff" where
  "db_exec sv f =
     ebind (outside (db_fault sv)) (\<lambda>fault w.
       case fault of
         Some msg \<Rightarrow> (Inl (DbError msg), w)
       | None \<Rightarrow> (case f (oidc_tokens w) of (a, t) \<Rightarrow> (Inr a, w\<lparr>oidc_tokens := t\<rparr>)))"

text \<open>\<^verbatim>\<open>Utc::now() + duration\<close>\<close>

definition now_plus ::
  "('n, 'y) auth_services_scheme \<Rightarrow> int \<Rightarrow> (('n, 'z) auth_env_scheme, auth_error, utc) eff" where
  "now_plus sv d =
     ebind (utc_now sv) (\<lambda>t. lift_res (ok_or (Panicked ''DateTime + Duration overflowed'')
                                          (utc_add t d)))"

section \<open>The table of refresh tokens\<close>

record stored_token =
  st_issuer :: string
  st_subject :: string
  st_refresh_token_secret :: string

text \<open>What \<^verbatim>\<open>RefreshTokenInfo\<close> gives of a token.\<close>

record refresh_token_info =
  rt_secret :: string
  rt_issuer :: string
  rt_subject :: string

definition find_row :: "string \<Rightarrow> string option \<Rightarrow> token_table \<Rightarrow> token_row option" where
  "find_row subject issuer t =
     (case t subject of
        None \<Rightarrow> None
      | Some row \<Rightarrow>
          (case issuer of
             None \<Rightarrow> Some row
           | Some iss \<Rightarrow> (if row_issuer row = iss then Some row else None)))"

definition check_expiry ::
  "('n, 'y) auth_services_scheme \<Rightarrow> utc option \<Rightarrow> (('n, 'z) auth_env_scheme, auth_error, unit) eff"
where
  "check_expiry sv expires_at =
     (case expires_at of
        None \<Rightarrow> ret ()
      | Some dt \<Rightarrow>
          ebind (utc_now sv) (\<lambda>now. if dt < now then throw (StoredTokenExpired dt) else ret ()))"

definition read_token_from_database ::
  "('n, 'y) auth_services_scheme \<Rightarrow> string \<Rightarrow> string option \<Rightarrow> key \<Rightarrow> key \<Rightarrow>
   (('n, 'z) auth_env_scheme, auth_error, stored_token) eff" where
  "read_token_from_database sv subject issuer public_key secret_key =
     ebind (db_exec sv (\<lambda>t. (find_row subject issuer t, t))) (\<lambda>found.
     ebind (lift_res (ok_or (NoTokenRow subject issuer) found)) (\<lambda>row.
     ebind (lift_res (ok_or DecryptFailed
              (open_sealed sv (row_encrypted_refresh_token row) public_key secret_key)))
       (\<lambda>decrypted.
     ebind (check_expiry sv (row_expires_at row)) (\<lambda>_.
     ebind (lift_res (ok_or Utf8Error (from_utf8 decrypted))) (\<lambda>secret.
     ret \<lparr>st_issuer = row_issuer row, st_subject = row_subject row,
          st_refresh_token_secret = secret\<rparr>)))))"

definition token_exists_in_database ::
  "('n, 'y) auth_services_scheme \<Rightarrow> string \<Rightarrow> (('n, 'z) auth_env_scheme, auth_error, bool) eff"
where
  "token_exists_in_database sv subject =
     ebind (db_exec sv (\<lambda>t. (find_row subject None t, t))) (\<lambda>found.
       case found of
         None \<Rightarrow> ret False
       | Some row \<Rightarrow>
           (case row_expires_at row of
              None \<Rightarrow> ret True
            | Some dt \<Rightarrow> ebind (utc_now sv) (\<lambda>now. ret (\<not> dt < now))))"

text \<open>The insert with its \<^verbatim>\<open>ON CONFLICT\<close>: a row that is there keeps its creation time.\<close>

definition upsert :: "token_row \<Rightarrow> token_table \<Rightarrow> token_table" where
  "upsert row t =
     t(row_subject row \<mapsto>
        (case t (row_subject row) of
           None \<Rightarrow> row
         | Some old \<Rightarrow>
             old\<lparr>row_issuer := row_issuer row, row_subject := row_subject row,
                 row_encrypted_refresh_token := row_encrypted_refresh_token row,
                 row_expires_at := row_expires_at row, row_updated_at := row_updated_at row\<rparr>))"

definition write_token_to_database ::
  "('n, 'y) auth_services_scheme \<Rightarrow> refresh_token_info \<Rightarrow> key \<Rightarrow>
   (('n, 'z) auth_env_scheme, auth_error, unit) eff" where
  "write_token_to_database sv token public_key =
     ebind (outside (seal sv (as_bytes (rt_secret token)) public_key)) (\<lambda>encrypted.
     ebind (now_plus sv (days 30)) (\<lambda>expires_at.
     ebind (utc_now sv) (\<lambda>created_at.
     ebind (utc_now sv) (\<lambda>updated_at.
     db_exec sv (\<lambda>t. ((), upsert
       \<lparr>row_issuer = rt_issuer token, row_subject = rt_subject token,
        row_encrypted_refresh_token = encrypted, row_expires_at = Some expires_at,
        row_created_at = created_at, row_updated_at = updated_at\<rparr> t))))))"

definition delete_token_from_database ::
  "('n, 'y) auth_services_scheme \<Rightarrow> string \<Rightarrow> (('n, 'z) auth_env_scheme, auth_error, unit) eff"
where
  "delete_token_from_database sv subject = db_exec sv (\<lambda>t. ((), t(subject := None)))"

section \<open>Access tokens\<close>

record access_token_claims =
  atc_subject :: string
  atc_expires_at :: "utc option"

text \<open>
  \<open>decode_claims\<close> is base64 and JSON decoding of a payload into its \<^verbatim>\<open>sub\<close> and \<^verbatim>\<open>exp\<close>. Seconds
  outside the range of \<^verbatim>\<open>DateTime::from_timestamp\<close> count as no expiry.
\<close>

definition min_timestamp :: int where
  "min_timestamp = - 8334601228800"

definition from_timestamp :: "int \<Rightarrow> utc option" where
  "from_timestamp s =
     (if min_timestamp \<le> s \<and> s \<le> 8210266876799 then Some (s * 1000000000) else None)"

definition claims_from_access_token ::
  "(string \<Rightarrow> string + string \<times> int option) \<Rightarrow> string \<Rightarrow> auth_error + access_token_claims"
where
  "claims_from_access_token decode_claims access_token =
     (case split_char (CHR ''.'') access_token of
        _ # payload # _ \<Rightarrow>
          rbind (map_err Failed (decode_claims payload)) (\<lambda>(sub, exp).
          Inr \<lparr>atc_subject = sub, atc_expires_at = Option.bind exp from_timestamp\<rparr>)
      | _ \<Rightarrow> Inl (Failed ''access token is not a well-formed JWT''))"

definition exchange_refresh_token ::
  "('n, 'y) auth_services_scheme \<Rightarrow> string \<Rightarrow>
   (('n, 'z) auth_env_scheme, auth_error, token_response) eff" where
  "exchange_refresh_token sv refresh_token =
     ebind (outside (token_endpoint sv refresh_token)) (\<lambda>r. lift_res (map_err OidcError r))"

section \<open>Lemmas\<close>

lemmas auth_run = ebind_def outside_def db_exec_def now_plus_def lift_res_def ok_or_def

text \<open>What the operations leave alone: the extension of the state, and the table when they only read.\<close>

lemma outside_fst: "outside f w = (Inr a, w') \<Longrightarrow> fst (f (net w)) = a"
  by (auto simp: outside_def split: prod.splits)

lemma frame_outside [frame_intros]:
  "frame auth_env.more (outside f)" "frame oidc_tokens (outside f)"
  by (auto simp: frame_def outside_def split_beta)

lemma frame_db_exec [frame_intros]:
  "frame auth_env.more (db_exec sv f)"
  by (auto simp: frame_def db_exec_def ebind_def outside_def split_beta split: option.split)

lemma frame_db_query [frame_intros]:
  "frame oidc_tokens (db_exec sv (\<lambda>t. (g t, t)))"
  by (auto simp: frame_def db_exec_def ebind_def outside_def split_beta split: option.split)

lemma frame_now_plus [frame_intros]:
  "frame auth_env.more (now_plus sv d)" "frame oidc_tokens (now_plus sv d)"
  unfolding now_plus_def by (intro frame_intros)+

lemma frame_write [frame_intros]: "frame auth_env.more (write_token_to_database sv token pk)"
  unfolding write_token_to_database_def by (intro frame_intros)

lemma frame_delete [frame_intros]: "frame auth_env.more (delete_token_from_database sv s)"
  unfolding delete_token_from_database_def by (intro frame_intros)

lemma frame_exchange [frame_intros]:
  "frame auth_env.more (exchange_refresh_token sv t)" "frame oidc_tokens (exchange_refresh_token sv t)"
  unfolding exchange_refresh_token_def by (intro frame_intros)+

lemma frame_exists [frame_intros]:
  "frame auth_env.more (token_exists_in_database sv s)"
  "frame oidc_tokens (token_exists_in_database sv s)"
  unfolding token_exists_in_database_def by (intro frame_intros)+

lemma frame_read [frame_intros]:
  "frame auth_env.more (read_token_from_database sv s i pk sk)"
  "frame oidc_tokens (read_token_from_database sv s i pk sk)"
  unfolding read_token_from_database_def check_expiry_def by (intro frame_intros)+

text \<open>A row is stored under its own subject, and every operation keeps it so.\<close>

definition table_wf :: "token_table \<Rightarrow> bool" where
  "table_wf t \<longleftrightarrow> (\<forall>s row. t s = Some row \<longrightarrow> row_subject row = s)"

text \<open>The sealed boxes of one key pair open to what was sealed.\<close>

definition sealed_box ::
  "('n, 'y) auth_services_scheme \<Rightarrow> key \<Rightarrow> key \<Rightarrow> bool" where
  "sealed_box sv pk sk \<longleftrightarrow> (\<forall>m n. open_sealed sv (fst (seal sv m pk n)) pk sk = Some m)"

text \<open>The time a write computes the expiry from: the clock right after sealing.\<close>

definition write_time ::
  "('n, 'y) auth_services_scheme \<Rightarrow> refresh_token_info \<Rightarrow> key \<Rightarrow> ('n, 'z) auth_env_scheme \<Rightarrow> utc"
where
  "write_time sv token pk w = fst (clock sv (snd (seal sv (as_bytes (rt_secret token)) pk (net w))))"

lemma write_run:
  assumes "write_token_to_database sv token pk w = (r, w')"
  shows "(r \<noteq> Inr () \<and> oidc_tokens w' = oidc_tokens w) \<or>
    (r = Inr () \<and> (\<exists>row. oidc_tokens w' = upsert row (oidc_tokens w) \<and>
       row_subject row = rt_subject token \<and> row_issuer row = rt_issuer token \<and>
       row_encrypted_refresh_token row = fst (seal sv (as_bytes (rt_secret token)) pk (net w)) \<and>
       row_expires_at row = Some (write_time sv token pk w + days 30)))"
  using assms
  by (auto simp: write_token_to_database_def ebind_def outside_def now_plus_def utc_add_def
      write_time_def db_exec_def split_beta Let_def split: option.splits if_splits
      intro!: exI[of _ "\<lparr>row_issuer = rt_issuer token, row_subject = rt_subject token,
        row_encrypted_refresh_token = _, row_expires_at = _,
        row_created_at = _, row_updated_at = _\<rparr>"])

lemma upsert_get:
  "upsert row t s =
     (if s = row_subject row
      then Some (case t s of None \<Rightarrow> row
                 | Some old \<Rightarrow> row\<lparr>row_created_at := row_created_at old\<rparr>)
      else t s)"
  by (cases "t s") (auto simp: upsert_def split: option.splits)

lemma db_ok_run:
  assumes "db_fault sv (net w) = (None, n)"
  shows "db_exec sv f w = (Inr (fst (f (oidc_tokens w))),
           w\<lparr>net := n, oidc_tokens := snd (f (oidc_tokens w))\<rparr>)"
  using assms by (simp add: db_exec_def ebind_def outside_def split: prod.splits)

lemma delete_run:
  assumes "delete_token_from_database sv subject w = (r, w')"
  shows "oidc_tokens w' = (if r = Inr () then (oidc_tokens w)(subject := None) else oidc_tokens w)"
  using assms
  by (auto simp: delete_token_from_database_def auth_run split: prod.splits option.splits)

lemma read_ok:
  assumes "oidc_tokens w subject = Some row" and "issuer = None \<or> issuer = Some (row_issuer row)"
    and "open_sealed sv (row_encrypted_refresh_token row) pk sk = Some (as_bytes secret)"
    and "db_fault sv (net w) = (None, n)" and "clock sv n = (now, n')"
    and "\<And>dt. row_expires_at row = Some dt \<Longrightarrow> now \<le> dt"
  shows "\<exists>w'. read_token_from_database sv subject issuer pk sk w =
    (Inr \<lparr>st_issuer = row_issuer row, st_subject = row_subject row,
          st_refresh_token_secret = secret\<rparr>, w')"
proof -
  have f: "find_row subject issuer (oidc_tokens w) = Some row"
    using assms(1,2) by (auto simp: find_row_def)
  show ?thesis
  proof (cases "row_expires_at row")
    case None
    then show ?thesis
      using f assms(3,4)
      by (simp add: read_token_from_database_def ebind_def db_ok_run check_expiry_def)
  next
    case (Some dt)
    then have "\<not> dt < now" using assms(6) by force
    then show ?thesis
      using f assms(3-5) Some
      by (simp add: read_token_from_database_def ebind_def db_ok_run check_expiry_def outside_def)
  qed
qed

text \<open>The services answer: no fault of the database, and the clock is a month from its range's end.\<close>

definition auth_up :: "('n, 'y) auth_services_scheme \<Rightarrow> bool" where
  "auth_up sv \<longleftrightarrow> (\<forall>n. fst (db_fault sv n) = None \<and> fst (clock sv n) + days 30 \<le> max_utc)"

lemma auth_up_add: "auth_up sv \<Longrightarrow> d \<le> days 30 \<Longrightarrow> utc_add (fst (clock sv n)) d = Some (fst (clock sv n) + d)"
  by (auto simp: auth_up_def utc_add_def dest: spec [of _ n])

lemma now_plus_up:
  "auth_up sv \<Longrightarrow> d \<le> days 30 \<Longrightarrow> \<exists>t w'. now_plus sv d w = (Inr t, w')"
  using auth_up_add [of sv d "net w"]
  by (simp add: now_plus_def ebind_def outside_def split_beta)

lemma db_exec_up: "auth_up sv \<Longrightarrow> \<exists>w'. db_exec sv f w = (Inr (fst (f (oidc_tokens w))), w')"
  using db_ok_run [of sv w _ f] by (metis auth_up_def prod.collapse)

lemma outside_run: "\<exists>w'. outside f w = (Inr (fst (f (net w))), w')"
  by (auto simp: outside_def split: prod.split)

lemma write_up:
  assumes "auth_up sv"
  shows "\<exists>w'. write_token_to_database sv token pk w = (Inr (), w')"
proof -
  obtain c w1 where 1: "outside (seal sv (as_bytes (rt_secret token)) pk) w = (Inr c :: auth_error + u8 list, w1)"
    using outside_run by blast
  obtain t w2 where 2: "now_plus sv (days 30) w1 = (Inr t, w2)"
    using now_plus_up [OF assms] by blast
  obtain a w3 where 3: "utc_now sv w2 = (Inr a :: auth_error + utc, w3)" using outside_run by blast
  obtain b w4 where 4: "utc_now sv w3 = (Inr b :: auth_error + utc, w4)" using outside_run by blast
  let ?row = "\<lparr>row_issuer = rt_issuer token, row_subject = rt_subject token,
      row_encrypted_refresh_token = c, row_expires_at = Some t, row_created_at = a, row_updated_at = b\<rparr>"
  obtain w5 where "db_exec sv (\<lambda>t. ((), upsert ?row t)) w4 = (Inr (), w5)"
    using db_exec_up [OF assms, of "\<lambda>t. ((), upsert ?row t)" w4] by auto
  then show ?thesis using 1 2 3 4 by (simp add: write_token_to_database_def ebind_def)
qed

text \<open>
  C23. A refresh token written to the database is read back, for its subject and with or without
  its issuer, until thirty days after the write, and its subject counts as authenticated for
  exactly as long; afterwards the read fails because the token has expired.
\<close>

theorem write_then_read:
  assumes "sealed_box sv pk sk"
    and "write_token_to_database sv token pk w = (Inr (), w1)"
    and "oidc_tokens w2 = oidc_tokens w1"
    and "db_fault sv (net w2) = (None, n)" and "clock sv n = (now, n')"
    and "issuer = None \<or> issuer = Some (rt_issuer token)"
  shows "fst (read_token_from_database sv (rt_subject token) issuer pk sk w2) =
      (if write_time sv token pk w + days 30 < now
       then Inl (StoredTokenExpired (write_time sv token pk w + days 30))
       else Inr \<lparr>st_issuer = rt_issuer token, st_subject = rt_subject token,
                 st_refresh_token_secret = rt_secret token\<rparr>) \<and>
    fst (token_exists_in_database sv (rt_subject token) w2) =
      Inr (now \<le> write_time sv token pk w + days 30)"
proof -
  obtain row where row: "oidc_tokens w2 = upsert row (oidc_tokens w)"
    "row_subject row = rt_subject token" "row_issuer row = rt_issuer token"
    "row_encrypted_refresh_token row = fst (seal sv (as_bytes (rt_secret token)) pk (net w))"
    "row_expires_at row = Some (write_time sv token pk w + days 30)"
    using write_run[OF assms(2)] assms(3) by auto
  obtain row' where t: "oidc_tokens w2 (rt_subject token) = Some row'"
    and row': "row_subject row' = rt_subject token" "row_issuer row' = rt_issuer token"
      "row_encrypted_refresh_token row' = fst (seal sv (as_bytes (rt_secret token)) pk (net w))"
      "row_expires_at row' = Some (write_time sv token pk w + days 30)"
    using row by (cases "oidc_tokens w (rt_subject token)") (auto simp: upsert_get)
  have "find_row (rt_subject token) issuer (oidc_tokens w2) = Some row'"
    "find_row (rt_subject token) None (oidc_tokens w2) = Some row'"
    using t row' assms(6) by (auto simp: find_row_def)
  moreover have "open_sealed sv (row_encrypted_refresh_token row') pk sk
      = Some (as_bytes (rt_secret token))"
    using assms(1) row' by (simp add: sealed_box_def)
  ultimately show ?thesis
    using assms(4,5) row'
    by (auto simp: read_token_from_database_def token_exists_in_database_def check_expiry_def
        ebind_def db_ok_run outside_def split: prod.splits)
qed

text \<open>
  Writing a token touches the row of its subject only and keeps the time that row was
  created; a write that fails leaves the table as it is; every row stays under its own subject.
\<close>

theorem write_keeps:
  assumes "write_token_to_database sv token pk w = (r, w')" and "table_wf (oidc_tokens w)"
  shows "table_wf (oidc_tokens w') \<and>
    (r \<noteq> Inr () \<longrightarrow> oidc_tokens w' = oidc_tokens w) \<and>
    (\<forall>s. s \<noteq> rt_subject token \<longrightarrow> oidc_tokens w' s = oidc_tokens w s) \<and>
    (\<forall>old. oidc_tokens w (rt_subject token) = Some old \<longrightarrow>
       (\<exists>new. oidc_tokens w' (rt_subject token) = Some new \<and>
         row_created_at new = row_created_at old))"
  using write_run[OF assms(1)] assms(2)
  by (auto simp: upsert_get table_wf_def split: option.splits if_splits)

text \<open>
  After a token is deleted its subject has none: reading it fails, the subject does not
  count as authenticated, and no other row is touched.
\<close>

theorem delete_then_gone:
  assumes "delete_token_from_database sv subject w = (Inr (), w1)"
    and "oidc_tokens w2 = oidc_tokens w1" and "db_fault sv (net w2) = (None, n)"
  shows "fst (read_token_from_database sv subject issuer pk sk w2) = Inl (NoTokenRow subject issuer) \<and>
    fst (token_exists_in_database sv subject w2) = Inr False \<and>
    (\<forall>s. s \<noteq> subject \<longrightarrow> oidc_tokens w1 s = oidc_tokens w s)"
  using delete_run[OF assms(1)] assms(2,3)
  by (simp add: read_token_from_database_def token_exists_in_database_def ebind_def db_ok_run
      find_row_def)

section \<open>Services on a simulated clock\<close>

definition demo_auth :: "int auth_services" where
  "demo_auth =
     \<lparr>clock = (\<lambda>n. (n, n + 1)), db_fault = (\<lambda>n. (None, n)),
      seal = (\<lambda>m pk n. (pk @ m, n)), open_sealed = (\<lambda>c pk sk. Some (drop (length pk) c)),
      token_endpoint = (\<lambda>rt n. (Inr \<lparr>tr_access_token = ''at2'', tr_refresh_token = Some ''rt2'',
         tr_expires_in = Some 300, tr_id_token = None\<rparr>, n))\<rparr>"

definition demo_info :: refresh_token_info where
  "demo_info = \<lparr>rt_secret = ''rt1'', rt_issuer = ''iss'', rt_subject = ''sub''\<rparr>"

abbreviation env_at :: "int \<Rightarrow> token_table \<Rightarrow> int auth_env" where
  "env_at n t \<equiv> \<lparr>net = n, oidc_tokens = t\<rparr>"

abbreviation demo_row :: token_row where
  "demo_row \<equiv> \<lparr>row_issuer = ''iss'', row_subject = ''sub'',
     row_encrypted_refresh_token = 7 # as_bytes ''rt1'', row_expires_at = Some (days 30),
     row_created_at = 1, row_updated_at = 2\<rparr>"

lemma demo_write:
  "write_token_to_database demo_auth demo_info [7] (env_at 0 Map.empty) =
     (Inr (), env_at 3 [''sub'' \<mapsto> demo_row])"
  by (simp add: write_token_to_database_def auth_run utc_add_def demo_auth_def demo_info_def
      upsert_def max_utc_def days_def seconds_def)

lemma demo_sealed_box: "sealed_box demo_auth pk sk"
  by (simp add: sealed_box_def demo_auth_def)

theorem write_then_read_witness:
  "fst (read_token_from_database demo_auth ''sub'' None [7] [8]
        (env_at 1000 [''sub'' \<mapsto> demo_row])) =
     Inr \<lparr>st_issuer = ''iss'', st_subject = ''sub'', st_refresh_token_secret = ''rt1''\<rparr> \<and>
   fst (token_exists_in_database demo_auth ''sub'' (env_at (days 31) [''sub'' \<mapsto> demo_row])) =
     Inr False"
proof -
  have t: "write_time demo_auth demo_info [7] (env_at 0 Map.empty) = 0"
    by (simp add: write_time_def demo_auth_def)
  show ?thesis
    using write_then_read [OF demo_sealed_box [of "[7]" "[8]"] demo_write,
        of "env_at 1000 [''sub'' \<mapsto> demo_row]" 1000 1000 1001 None]
      write_then_read [OF demo_sealed_box [of "[7]" "[8]"] demo_write,
        of "env_at (days 31) [''sub'' \<mapsto> demo_row]" "days 31" "days 31" "days 31 + 1" None]
    unfolding t by (simp add: demo_auth_def demo_info_def days_def seconds_def)
qed

theorem write_keeps_witness:
  "table_wf (oidc_tokens (env_at 3 [''sub'' \<mapsto> demo_row]))"
proof -
  have "table_wf (oidc_tokens (env_at 0 Map.empty))" by (simp add: table_wf_def)
  from write_keeps [OF demo_write this] show ?thesis by (rule conjunct1)
qed

theorem delete_then_gone_witness:
  "fst (token_exists_in_database demo_auth ''sub'' (env_at 5 Map.empty)) = Inr False"
proof -
  have d: "delete_token_from_database demo_auth ''sub'' (env_at 5 [''sub'' \<mapsto> demo_row]) =
      (Inr (), env_at 5 Map.empty)"
    by (simp add: delete_token_from_database_def auth_run demo_auth_def)
  show ?thesis
    using delete_then_gone [OF d, of "env_at 5 Map.empty" 5 None "[]" "[]"]
    by (simp add: demo_auth_def)
qed

end
