(* ===== verification/Inject_Token.thy ===== *)
theory Inject_Token
  imports Auth_Core
begin

text \<open>
  The middleware of \<^verbatim>\<open>auth-core/src/middleware\<close>: a request is forwarded with a bearer token of a
  token store, which is refreshed when it has expired and once more when the answer asks for a
  retry. The traits \<^verbatim>\<open>TokenStore\<close>, \<^verbatim>\<open>TokenInspector\<close> and \<^verbatim>\<open>RetryPolicy\<close> are a record of operations;
  the locale \<open>token_store_laws\<close> states what an implementation promises, and the properties of the
  middleware are proved in it once, for the gateway and the daemon.
\<close>

section \<open>Requests\<close>

text \<open>
  Header names are lower case; a name has the list of its values. A body that cannot be read is
  an error. \<open>sent\<close> logs the requests handed to the next service.
\<close>

record http_request =
  req_method :: string
  req_uri :: string
  req_headers :: "string \<Rightarrow> string list"
  req_body :: "string + string"

record http_response =
  resp_status :: nat
  resp_headers :: "string \<Rightarrow> string list"
  resp_body :: "string + string"

record 'n proxy_services = "'n auth_services" +
  header_value_ok :: "string \<Rightarrow> bool"
  next_service :: "http_request \<Rightarrow> 'n \<Rightarrow> http_response \<times> 'n"

record 'n proxy_env = "'n auth_env" +
  sent :: "http_request list"

definition status_response :: "nat \<Rightarrow> http_response" where
  "status_response s = \<lparr>resp_status = s, resp_headers = (\<lambda>_. []), resp_body = Inr ''''\<rparr>"

text \<open>
  A handler's result as a response: an error is answered with its text, and the health check with
  202. These are \<^verbatim>\<open>auth-core/src/error.rs\<close> and \<^verbatim>\<open>healthcheck.rs\<close>.
\<close>

definition error_response :: "string \<Rightarrow> http_response" where
  "error_response msg =
     (status_response 500)\<lparr>resp_body := Inr (''Something went wrong: '' @ msg)\<rparr>"

definition into_response :: "('e \<Rightarrow> string) \<Rightarrow> ('a \<Rightarrow> http_response) \<Rightarrow> 'e + 'a \<Rightarrow> http_response" where
  "into_response show_error respond r =
     (case r of Inl e \<Rightarrow> error_response (show_error e) | Inr a \<Rightarrow> respond a)"

definition healthcheck :: http_response where
  "healthcheck = status_response 202"

definition run_next ::
  "('n, 'y) proxy_services_scheme \<Rightarrow> http_request \<Rightarrow>
   (('n, 'z) proxy_env_scheme, 'e, http_response) eff" where
  "run_next sv req w =
     (case next_service sv req (net w) of
        (resp, n) \<Rightarrow> (Inr resp, w\<lparr>net := n, sent := sent w @ [req]\<rparr>))"

definition clone_request :: "http_request \<Rightarrow> auth_error + http_request \<times> http_request" where
  "clone_request req =
     rbind (map_err BodyError (req_body req)) (\<lambda>bytes.
     Inr (req\<lparr>req_body := Inr bytes\<rparr>, req\<lparr>req_body := Inr bytes\<rparr>))"

definition prepare_headers ::
  "(string \<Rightarrow> bool) \<Rightarrow> http_request \<Rightarrow> string \<Rightarrow> auth_error + http_request" where
  "prepare_headers ok req bearer_token =
     (let value = ''Bearer '' @ bearer_token
      in if ok value
         then Inr (req\<lparr>req_headers := (req_headers req)(''authorization'' := [value], ''cookie'' := [])\<rparr>)
         else Inl (Panicked ''InvalidHeaderValue''))"

section \<open>Token stores\<close>

record ('w, 't) token_store =
  load_token :: "'w \<Rightarrow> 't option \<times> 'w"
  save_token :: "'t \<Rightarrow> ('w, auth_error, unit) eff"
  refresh_and_persist :: "'t \<Rightarrow> ('w, auth_error, 't) eff"
  is_expired :: "'t \<Rightarrow> ('w, auth_error, bool) eff"
  bearer_value :: "'t \<Rightarrow> string option"
  should_retry :: "nat \<Rightarrow> string \<Rightarrow> bool"

definition with_bearer ::
  "(string \<Rightarrow> bool) \<Rightarrow> string option \<Rightarrow> http_request \<Rightarrow> auth_error + http_request" where
  "with_bearer ok bearer req =
     (case bearer of Some b \<Rightarrow> prepare_headers ok req b | None \<Rightarrow> Inr req)"

text \<open>\<^verbatim>\<open>inject_token_with\<close> from the cloning of the request on, with a token that has not expired.\<close>

definition forward_with ::
  "('n, 'y) proxy_services_scheme \<Rightarrow> (('n, 'z) proxy_env_scheme, 't) token_store \<Rightarrow>
   http_request \<Rightarrow> 't \<Rightarrow> (('n, 'z) proxy_env_scheme, auth_error, http_response) eff" where
  "forward_with sv store req token =
     ebind (lift_res (clone_request req)) (\<lambda>(primary_req, retry_req).
     ebind (lift_res (with_bearer (header_value_ok sv) (bearer_value store token) primary_req))
       (\<lambda>primary_req.
     ebind (run_next sv primary_req) (\<lambda>response.
     ebind (lift_res (map_err BodyError (resp_body response))) (\<lambda>response_bytes.
     if should_retry store (resp_status response) response_bytes
     then ebind (refresh_and_persist store token) (\<lambda>token.
          ebind (lift_res (with_bearer (header_value_ok sv) (bearer_value store token) retry_req))
            (\<lambda>retry_req.
          run_next sv retry_req))
     else ret (response\<lparr>resp_body := Inr response_bytes\<rparr>)))))"

definition inject_token_with ::
  "('n, 'y) proxy_services_scheme \<Rightarrow> (('n, 'z) proxy_env_scheme, 't) token_store \<Rightarrow>
   http_request \<Rightarrow> (('n, 'z) proxy_env_scheme, auth_error, http_response) eff" where
  "inject_token_with sv store req w =
     (case load_token store w of
        (None, w) \<Rightarrow> (Inr (status_response 401), w)
      | (Some token, w) \<Rightarrow>
          ebind (is_expired store token) (\<lambda>expired.
          ebind (if expired then refresh_and_persist store token else ret token) (\<lambda>token.
          forward_with sv store req token)) w)"

section \<open>What a token store promises\<close>

text \<open>An invariant that the operations of a store and the next service keep, the middleware keeps.\<close>

lemma keeps_inject:
  fixes P :: "('n, 'z) proxy_env_scheme \<Rightarrow> bool"
  assumes "\<And>w. P w \<Longrightarrow> P (snd (load_token store w))"
    and "\<And>t. keeps P (is_expired store t)" "\<And>t. keeps P (refresh_and_persist store t)"
    and "\<And>q. keeps P (run_next sv q :: (('n, 'z) proxy_env_scheme, auth_error, http_response) eff)"
  shows "keeps P (inject_token_with sv store req)"
proof -
  have f: "keeps P (forward_with sv store req t)" for t
    unfolding forward_with_def
    by (intro keeps_ebind keeps_prod keeps_if keeps_ret keeps_lift_res assms(3,4))
  have g: "keeps P (ebind (is_expired store t) (\<lambda>expired.
      ebind (if expired then refresh_and_persist store t else ret t) (forward_with sv store req)))" for t
    by (intro keeps_intros assms(2,3) f)
  show ?thesis
    using assms(1) g
    by (auto simp: keeps_def inject_token_with_def split_beta split: option.split)
qed

text \<open>The request handed on for a request: same method, URI and body, the token and no cookie.\<close>

definition forwarded :: "http_request \<Rightarrow> string \<Rightarrow> http_request \<Rightarrow> bool" where
  "forwarded req bearer q \<longleftrightarrow>
     res_ok (req_body req) \<noteq> None \<and>
     q = req\<lparr>req_headers := (req_headers req)(
                ''authorization'' := [''Bearer '' @ bearer], ''cookie'' := [])\<rparr>"

text \<open>
  What the middleware may hand on: at most two requests, each with the bearer of the token the
  store held or of one that refreshes of it have led to, and the answer it returns is for a
  request with the bearer of the token the store then holds.
\<close>

definition renews :: "('w, 't) token_store \<Rightarrow> 't \<Rightarrow> 't \<Rightarrow> bool" where
  "renews store t t' \<longleftrightarrow> (\<exists>w w'. refresh_and_persist store t w = (Inr t', w'))"

definition exchange_ok ::
  "(('n, 'z) proxy_env_scheme \<Rightarrow> 't option) \<Rightarrow> ('t \<Rightarrow> string option) \<Rightarrow> ('t \<Rightarrow> 't \<Rightarrow> bool) \<Rightarrow>
   http_request \<Rightarrow> ('n, 'z) proxy_env_scheme \<Rightarrow> auth_error + http_response \<Rightarrow>
   ('n, 'z) proxy_env_scheme \<Rightarrow> bool"
where
  "exchange_ok held bearer renew req w r w' \<longleftrightarrow>
     (\<exists>reqs. sent w' = sent w @ reqs \<and> length reqs \<le> 2 \<and>
        (\<forall>q \<in> set reqs. \<exists>t0 t b. held w = Some t0 \<and> renew\<^sup>*\<^sup>* t0 t \<and> bearer t = Some b \<and>
           forwarded req b q) \<and>
        (reqs \<noteq> [] \<and> (\<exists>resp. r = Inr resp) \<longrightarrow>
           (\<exists>t b. held w' = Some t \<and> bearer t = Some b \<and> forwarded req b (last reqs))))"

lemma exchange_ok_none: "sent w' = sent w \<Longrightarrow> exchange_ok held bearer renew req w r w'"
  by (simp add: exchange_ok_def)

lemma exchange_ok_mono:
  assumes "exchange_ok held bearer renew req w r w'" and "\<And>t t'. renew t t' \<Longrightarrow> renew' t t'"
  shows "exchange_ok held bearer renew' req w r w'"
proof -
  have star: "renew\<^sup>*\<^sup>* t t' \<Longrightarrow> renew'\<^sup>*\<^sup>* t t'" for t t'
    using mono_rtranclp assms(2) by metis
  obtain reqs where "sent w' = sent w @ reqs \<and> length reqs \<le> 2 \<and>
      (\<forall>q \<in> set reqs. \<exists>t0 t b. held w = Some t0 \<and> renew\<^sup>*\<^sup>* t0 t \<and> bearer t = Some b \<and>
         forwarded req b q) \<and>
      (reqs \<noteq> [] \<and> (\<exists>resp. r = Inr resp) \<longrightarrow>
         (\<exists>t b. held w' = Some t \<and> bearer t = Some b \<and> forwarded req b (last reqs)))"
    using assms(1) unfolding exchange_ok_def by blast
  then show ?thesis unfolding exchange_ok_def by (intro exI [of _ reqs]) (blast intro: star)
qed

lemma exchange_ok_from:
  assumes "exchange_ok held bearer renew req w1 r w'" and "held w1 = Some t'" "sent w1 = sent w"
    and "held w = Some t" "renew\<^sup>*\<^sup>* t t'"
  shows "exchange_ok held bearer renew req w r w'"
proof -
  obtain reqs where reqs: "sent w' = sent w1 @ reqs" "length reqs \<le> 2"
      "\<forall>q \<in> set reqs. \<exists>t b. renew\<^sup>*\<^sup>* t' t \<and> bearer t = Some b \<and> forwarded req b q"
      "reqs \<noteq> [] \<and> (\<exists>resp. r = Inr resp) \<longrightarrow>
         (\<exists>t b. held w' = Some t \<and> bearer t = Some b \<and> forwarded req b (last reqs))"
    using assms(1,2) by (auto simp: exchange_ok_def)
  have "\<forall>q \<in> set reqs. \<exists>t0 t b. held w = Some t0 \<and> renew\<^sup>*\<^sup>* t0 t \<and> bearer t = Some b \<and> forwarded req b q"
    using reqs(3) assms(4) rtranclp_trans[OF assms(5)] by blast
  then show ?thesis using reqs(1,2,4) assms(3) by (simp add: exchange_ok_def)
qed

text \<open>\<open>held\<close> is the token in the store, \<open>info\<close> what the database keeps of a token.\<close>

locale token_store_laws =
  fixes sv :: "('n, 'y) proxy_services_scheme"
    and store :: "(('n, 'z) proxy_env_scheme, 't) token_store"
    and held :: "('n, 'z) proxy_env_scheme \<Rightarrow> 't option"
    and info :: "'t \<Rightarrow> refresh_token_info"
    and pk :: key
  assumes load_frame: "load_token store w = (lt, w') \<Longrightarrow>
      sent w' = sent w \<and> oidc_tokens w' = oidc_tokens w \<and> held w' = held w"
    and load_held: "load_token store w = (Some t, w') \<Longrightarrow> held w = Some t"
    and expired_frame: "is_expired store t w = (r, w') \<Longrightarrow>
      sent w' = sent w \<and> oidc_tokens w' = oidc_tokens w \<and> held w' = held w \<and> (\<exists>b. r = Inr b)"
    and fresh_bearer: "is_expired store t w = (Inr False, w') \<Longrightarrow> bearer_value store t \<noteq> None"
    and held_next: "held (w\<lparr>net := n, sent := s\<rparr>) = held w"
    and refresh_sent: "refresh_and_persist store t w = (rr, w') \<Longrightarrow> sent w' = sent w"
    and refresh_ok: "refresh_and_persist store t w = (Inr t', w') \<Longrightarrow>
      bearer_value store t' \<noteq> None \<and> held w' = Some t' \<and>
      rt_subject (info t') = rt_subject (info t) \<and>
      (\<exists>row n. oidc_tokens w' (rt_subject (info t')) = Some row \<and>
         row_encrypted_refresh_token row = fst (seal sv (as_bytes (rt_secret (info t'))) pk n))"
begin

lemma run_next_eq:
  "run_next sv q w = (r, w') \<Longrightarrow>
     sent w' = sent w @ [q] \<and> held w' = held w \<and> oidc_tokens w' = oidc_tokens w \<and>
     (\<exists>resp. r = Inr resp)"
  using held_next by (auto simp: run_next_def split: prod.splits)

lemma with_bearer_ok:
  assumes "clone_request req = Inr (p, q)"
    and "with_bearer ok (bearer_value store t) p' = Inr s" and "p' = p \<or> p' = q"
    and "bearer_value store t \<noteq> None"
  shows "\<exists>b. bearer_value store t = Some b \<and> forwarded req b s"
  using assms
  by (cases "req_body req")
    (auto simp: clone_request_def with_bearer_def prepare_headers_def forwarded_def Let_def
      split: if_splits)

text \<open>
  The prologue of the middleware: the token it goes on with is held by the store and has a bearer
  value, and it is the refreshed one when the loaded one has expired.
\<close>

lemma current_token:
  assumes "load_token store w = (Some t, w1)" and "is_expired store t w1 = (Inr expired, w2)"
    and "(if expired then refresh_and_persist store t else ret t) w2 = (r, w3)"
  shows "sent w3 = sent w"
    and "r = Inr t' \<Longrightarrow> held w3 = Some t' \<and> bearer_value store t' \<noteq> None \<and> (renews store)\<^sup>*\<^sup>* t t'"
proof -
  have s: "sent w2 = sent w" "held w2 = Some t"
    using load_frame[OF assms(1)] load_held[OF assms(1)] expired_frame[OF assms(2)] by auto
  show "sent w3 = sent w"
    using s assms(3) refresh_sent by (auto split: if_splits)
  have "held w3 = Some t' \<and> bearer_value store t' \<noteq> None" if "r = Inr t'"
    using s assms(2,3) refresh_ok fresh_bearer that by (auto split: if_splits)
  moreover have "(renews store)\<^sup>*\<^sup>* t t'" if "r = Inr t'"
  proof (cases expired)
    case True
    then have "renews store t t'" using assms(3) that by (auto simp: renews_def)
    then show ?thesis by blast
  qed (use assms(3) that in simp)
  ultimately show "held w3 = Some t' \<and> bearer_value store t' \<noteq> None \<and> (renews store)\<^sup>*\<^sup>* t t'"
    if "r = Inr t'" using that by blast
qed

lemma inject_no_token:
  "load_token store w = (None, w') \<Longrightarrow>
     inject_token_with sv store req w = (Inr (status_response 401), w') \<and> sent w' = sent w"
  using load_frame by (simp add: inject_token_with_def)

text \<open>The second attempt, after a first request has been sent.\<close>

lemma retry_ok:
  assumes "ebind (refresh_and_persist store t) (\<lambda>token.
      ebind (lift_res (with_bearer ok (bearer_value store token) q)) (run_next sv)) w = (r, w')"
    and "clone_request req = Inr (p, q)"
  shows "(\<exists>e. r = Inl e) \<and> sent w' = sent w \<or>
    (\<exists>t' b s. held w' = Some t' \<and> renews store t t' \<and> bearer_value store t' = Some b \<and>
       forwarded req b s \<and> sent w' = sent w @ [s])"
proof -
  obtain rt w2 where rt: "refresh_and_persist store t w = (rt, w2)"
    by (cases "refresh_and_persist store t w")
  show ?thesis
  proof (cases "\<exists>t' s. rt = Inr t' \<and> with_bearer ok (bearer_value store t') q = Inr s")
    case False
    then show ?thesis
      using assms(1) rt refresh_sent[OF rt] by (auto simp: ebind_def split: sum.splits)
  next
    case True
    then obtain t' s where t': "rt = Inr t'"
      and s: "with_bearer ok (bearer_value store t') q = Inr s" by blast
    have "run_next sv s w2 = (r, w')" using assms(1) rt t' s by (simp add: ebind_def)
    moreover have "renews store t t'" using rt t' by (auto simp: renews_def)
    ultimately show ?thesis
      using run_next_eq refresh_ok[OF rt[unfolded t']] refresh_sent[OF rt]
        with_bearer_ok[OF assms(2) s] by metis
  qed
qed

text \<open>Forwarding with a token the store holds.\<close>

lemma forward_with_ok:
  assumes "forward_with sv store req t w = (r, w')"
    and "held w = Some t" "bearer_value store t \<noteq> None"
  shows "exchange_ok held (bearer_value store) (renews store) req w r w' \<and>
    (sent w' \<noteq> sent w \<longrightarrow>
       (\<exists>b. bearer_value store t = Some b \<and> forwarded req b (sent w' ! length (sent w))))"
proof (cases "\<exists>p q s. clone_request req = Inr (p, q) \<and>
    with_bearer (header_value_ok sv) (bearer_value store t) p = Inr s")
  case False
  then have "sent w' = sent w"
    using assms(1) by (auto simp: forward_with_def ebind_def split: sum.splits prod.splits)
  then show ?thesis by (simp add: exchange_ok_none)
next
  case True
  then obtain p q s where c: "clone_request req = Inr (p, q)"
    and s: "with_bearer (header_value_ok sv) (bearer_value store t) p = Inr s" by blast
  obtain resp w1 where n: "run_next sv s w = (Inr resp :: auth_error + http_response, w1)"
    using run_next_eq by (metis surj_pair)
  obtain b where b: "bearer_value store t = Some b" "forwarded req b s"
    using with_bearer_ok[OF c s] assms(3) by blast
  have w1: "sent w1 = sent w @ [s]" "held w1 = Some t"
    using run_next_eq[OF n] assms(2) by auto
  have "w' = w1 \<or> ebind (refresh_and_persist store t) (\<lambda>token.
      ebind (lift_res (with_bearer (header_value_ok sv) (bearer_value store token) q))
        (run_next sv)) w1 = (r, w')"
    using assms(1) c s n
    by (cases "resp_body resp") (auto simp: forward_with_def ebind_def split: if_splits)
  then show ?thesis
  proof
    assume "w' = w1"
    then show ?thesis using w1 b assms(2) by (auto simp: exchange_ok_def)
  next
    assume "ebind (refresh_and_persist store t) (\<lambda>token.
      ebind (lift_res (with_bearer (header_value_ok sv) (bearer_value store token) q))
        (run_next sv)) w1 = (r, w')"
    from retry_ok[OF this c] show ?thesis
    proof (elim disjE exE conjE)
      fix e assume "r = Inl e" "sent w' = sent w1"
      then show ?thesis using w1 b assms(2) by (auto simp: exchange_ok_def nth_append)
    next
      fix t' b' s' assume t': "held w' = Some t'" "renews store t t'" "bearer_value store t' = Some b'"
        "forwarded req b' s'" "sent w' = sent w1 @ [s']"
      then have "(renews store)\<^sup>*\<^sup>* t t'" by blast
      then show ?thesis using w1 b assms(2) t'
        by (fastforce simp: exchange_ok_def nth_append)
    qed
  qed
qed

lemma inject_ok:
  assumes "inject_token_with sv store req w = (r, w')"
  shows "exchange_ok held (bearer_value store) (renews store) req w r w'"
proof -
  obtain lt w1 where l: "load_token store w = (lt, w1)" by (cases "load_token store w")
  show ?thesis
  proof (cases lt)
    case None
    then show ?thesis using l inject_no_token assms by (auto intro: exchange_ok_none)
  next
    case (Some t)
    obtain ex w2 where ex: "is_expired store t w1 = (Inr ex, w2)"
      using expired_frame by (metis surj_pair sum.exhaust)
    obtain rt w3 where rt: "(if ex then refresh_and_persist store t else ret t) w2 = (rt, w3)"
      by (metis surj_pair)
    note cur = current_token[OF l[unfolded Some] ex rt]
    have run: "ebind (\<lambda>_. (rt, w3)) (forward_with sv store req) w2 = (r, w')"
      using assms l Some ex rt by (auto simp: inject_token_with_def ebind_def)
    show ?thesis
    proof (cases rt)
      case (Inl e)
      then show ?thesis using run cur(1) by (simp add: ebind_def exchange_ok_none)
    next
      case (Inr t')
      then have "forward_with sv store req t' w3 = (r, w')"
        using run by (simp add: ebind_def)
      from forward_with_ok[OF this] cur(2)[OF Inr] have "exchange_ok held (bearer_value store)
          (renews store) req w3 r w'" by blast
      then show ?thesis
        using exchange_ok_from cur(1) cur(2)[OF Inr] load_held l Some by metis
    qed
  qed
qed

text \<open>An expired token is never sent: it is refreshed first, or nothing is sent.\<close>

lemma inject_expired:
  assumes "load_token store w = (Some t, w1)" and "is_expired store t w1 = (Inr True, w2)"
    and "inject_token_with sv store req w = (r, w')" and "sent w' \<noteq> sent w"
  shows "\<exists>t' b w3. refresh_and_persist store t w2 = (Inr t', w3) \<and>
    bearer_value store t' = Some b \<and> forwarded req b (sent w' ! length (sent w))"
proof -
  obtain rt w3 where rt: "refresh_and_persist store t w2 = (rt, w3)"
    by (cases "refresh_and_persist store t w2")
  have rt': "(if True then refresh_and_persist store t else ret t) w2 = (rt, w3)"
    using rt by simp
  note cur = current_token[OF assms(1,2) rt']
  have run: "ebind (\<lambda>_. (rt, w3)) (forward_with sv store req) w2 = (r, w')"
    using assms(1-3) rt by (auto simp: inject_token_with_def ebind_def)
  then obtain t' where t': "rt = Inr t'" using cur(1) assms(4) by (cases rt) (auto simp: ebind_def)
  have "forward_with sv store req t' w3 = (r, w')" using run t' by (simp add: ebind_def)
  from forward_with_ok[OF this] cur(2)[OF t'] cur(1) assms(4) rt t' show ?thesis by auto
qed

end

end
