(* ===== verification/Gateway.thy ===== *)
theory Gateway
  imports Inject_Token
begin

text \<open>
  The service \<^verbatim>\<open>auth-gateway\<close>: the session of a browser, the handlers \<^verbatim>\<open>login\<close>, \<^verbatim>\<open>callback\<close>,
  \<^verbatim>\<open>logout\<close>, \<^verbatim>\<open>status\<close> and \<^verbatim>\<open>userinfo\<close>, and the token store behind its proxy.

  The state is that of one browser session with the shared token table. The identity provider,
  random values and the session store's failures are services.
\<close>

section \<open>Session data\<close>

record login_session_data =
  ls_csrf_token :: string
  ls_pcke_verifier :: string
  ls_nonce :: string
  ls_return_to_url :: "string option"

record token_session_data =
  ts_issuer :: string
  ts_subject :: string
  ts_access_token :: string
  ts_access_token_expires_at :: utc
  ts_refresh_token :: string
  ts_name :: "string option"
  ts_preferred_username :: "string option"
  ts_fedid :: "string option"

definition token_session_data_new ::
  "string \<Rightarrow> string \<Rightarrow> string \<Rightarrow> utc \<Rightarrow> string \<Rightarrow> string option \<Rightarrow> string option \<Rightarrow> string option \<Rightarrow>
   token_session_data" where
  [simp]: "token_session_data_new issuer subject access_token access_token_expires_at refresh_token
      name preferred_username fedid =
     \<lparr>ts_issuer = issuer, ts_subject = subject, ts_access_token = access_token,
      ts_access_token_expires_at = access_token_expires_at, ts_refresh_token = refresh_token,
      ts_name = name, ts_preferred_username = preferred_username, ts_fedid = fedid\<rparr>"

definition login_session_data_new ::
  "string \<Rightarrow> string \<Rightarrow> string \<Rightarrow> string option \<Rightarrow> login_session_data" where
  [simp]: "login_session_data_new csrf_token pcke_verifier nonce return_to_url =
     \<lparr>ls_csrf_token = csrf_token, ls_pcke_verifier = pcke_verifier, ls_nonce = nonce,
      ls_return_to_url = return_to_url\<rparr>"

definition TOKEN_KEY :: string where
  "TOKEN_KEY = ''token_session_data''"

definition LOGIN_KEY :: string where
  "LOGIN_KEY = ''auth_session_data''"

datatype session_value = LoginV login_session_data | TokenV token_session_data

text \<open>The verified claims of an ID token; a name may come in several languages.\<close>

record id_claims =
  cl_issuer :: string
  cl_subject :: string
  cl_access_token_hash :: "string option"
  cl_name :: "(string option \<rightharpoonup> string) option"
  cl_preferred_username :: "string option"
  cl_fedid :: "string option"

record 'n gateway_services = "'n proxy_services" +
  session_fault :: "'n \<Rightarrow> string option \<times> 'n"
  redirect_url_new :: "string \<Rightarrow> string + string"
  authorize_url :: "string \<Rightarrow> string list \<Rightarrow> 'n \<Rightarrow> (string \<times> string \<times> string \<times> string) \<times> 'n"
  code_endpoint :: "string \<Rightarrow> string \<Rightarrow> string \<Rightarrow> 'n \<Rightarrow> (string + token_response) \<times> 'n"
  id_token_claims :: "string \<Rightarrow> string \<Rightarrow> 'n \<Rightarrow> (string + id_claims) \<times> 'n"
  access_token_hash :: "string \<Rightarrow> string \<Rightarrow> string + string"
  decode_claims :: "string \<Rightarrow> string + string \<times> int option"
  header_to_str_ok :: "string \<Rightarrow> bool"

record 'n gateway_env = "'n proxy_env" +
  session_data :: "string \<rightharpoonup> session_value"

record app_state =
  app_public_key :: key
  app_callback_url :: string
  app_callback_default_return_to_url :: string
  app_cors_allow :: "(string \<Rightarrow> bool) list option"
  app_session_secure :: bool

type_synonym ('n, 'y, 'z, 'a) gateway_eff = "(('n, 'z) gateway_env_scheme, auth_error, 'a) eff"

section \<open>The session\<close>

definition session_op ::
  "('n, 'y) gateway_services_scheme \<Rightarrow> ('n, 'y, 'z, 'a) gateway_eff \<Rightarrow> ('n, 'y, 'z, 'a) gateway_eff"
where
  "session_op sv f =
     ebind (outside (session_fault sv)) (\<lambda>fault.
       case fault of Some msg \<Rightarrow> throw (SessionError msg) | None \<Rightarrow> f)"

definition session_get_token ::
  "('n, 'y) gateway_services_scheme \<Rightarrow> ('n, 'y, 'z, token_session_data option) gateway_eff" where
  "session_get_token sv =
     session_op sv (\<lambda>w.
       case session_data w TOKEN_KEY of
         None \<Rightarrow> (Inr None, w)
       | Some (TokenV t) \<Rightarrow> (Inr (Some t), w)
       | Some (LoginV _) \<Rightarrow> (Inl (SessionError ''deserialize''), w))"

definition session_remove_login ::
  "('n, 'y) gateway_services_scheme \<Rightarrow> ('n, 'y, 'z, login_session_data option) gateway_eff" where
  "session_remove_login sv =
     session_op sv (\<lambda>w.
       let w' = w\<lparr>session_data := (session_data w)(LOGIN_KEY := None)\<rparr>
       in case session_data w LOGIN_KEY of
            None \<Rightarrow> (Inr None, w')
          | Some (LoginV l) \<Rightarrow> (Inr (Some l), w')
          | Some (TokenV _) \<Rightarrow> (Inl (SessionError ''deserialize''), w'))"

definition session_insert ::
  "('n, 'y) gateway_services_scheme \<Rightarrow> string \<Rightarrow> session_value \<Rightarrow> ('n, 'y, 'z, unit) gateway_eff"
where
  "session_insert sv key value =
     session_op sv (\<lambda>w. (Inr (), w\<lparr>session_data := (session_data w)(key \<mapsto> value)\<rparr>))"

definition session_flush ::
  "('n, 'y) gateway_services_scheme \<Rightarrow> ('n, 'y, 'z, unit) gateway_eff" where
  "session_flush sv = (\<lambda>w.
     ebind (outside (session_fault sv)) (\<lambda>fault.
       case fault of Some msg \<Rightarrow> throw (SessionError msg) | None \<Rightarrow> ret ())
     (w\<lparr>session_data := Map.empty\<rparr>))"

section \<open>Tokens of a session\<close>

definition expires_in :: "token_response \<Rightarrow> int" where
  "expires_in response = seconds (unwrap_or 60 (tr_expires_in response))"

definition from_token_response ::
  "('n, 'y) auth_services_scheme \<Rightarrow> token_response \<Rightarrow> string \<Rightarrow> string \<Rightarrow> string option \<Rightarrow>
   string option \<Rightarrow> string option \<Rightarrow> (('n, 'z) auth_env_scheme, auth_error, token_session_data) eff"
where
  "from_token_response sv response issuer subject name preferred_username fedid =
     ebind (lift_res (ok_or (Failed ''Token Response did not return a refresh token'')
              (tr_refresh_token response))) (\<lambda>refresh_token.
     ebind (now_plus sv (expires_in response)) (\<lambda>expires_at.
     ret (token_session_data_new issuer subject (tr_access_token response) expires_at refresh_token
            name preferred_username fedid)))"

definition update_tokens ::
  "('n, 'y) auth_services_scheme \<Rightarrow> token_session_data \<Rightarrow> token_response \<Rightarrow>
   (('n, 'z) auth_env_scheme, auth_error, token_session_data) eff" where
  "update_tokens sv token response =
     ebind (now_plus sv (expires_in response)) (\<lambda>expires_at.
     ret (token\<lparr>ts_refresh_token := unwrap_or (ts_refresh_token token) (tr_refresh_token response),
                ts_access_token := tr_access_token response,
                ts_access_token_expires_at := expires_at\<rparr>))"

definition session_token_info :: "token_session_data \<Rightarrow> refresh_token_info" where
  "session_token_info t =
     \<lparr>rt_secret = ts_refresh_token t, rt_issuer = ts_issuer t, rt_subject = ts_subject t\<rparr>"

definition gateway_save_token ::
  "('n, 'y) gateway_services_scheme \<Rightarrow> token_session_data \<Rightarrow> ('n, 'y, 'z, unit) gateway_eff" where
  "gateway_save_token sv token = session_insert sv TOKEN_KEY (TokenV token)"

definition gateway_refresh ::
  "('n, 'y) gateway_services_scheme \<Rightarrow> app_state \<Rightarrow> token_session_data \<Rightarrow>
   ('n, 'y, 'z, token_session_data) gateway_eff" where
  "gateway_refresh sv st token =
     ebind (exchange_refresh_token sv (ts_refresh_token token)) (\<lambda>response.
     ebind (update_tokens sv token response) (\<lambda>new_token.
     ebind (write_token_to_database sv (session_token_info new_token) (app_public_key st)) (\<lambda>_.
     ebind (gateway_save_token sv new_token) (\<lambda>_.
     ret new_token))))"

definition session_token_is_expired ::
  "('n, 'y) gateway_services_scheme \<Rightarrow> token_session_data \<Rightarrow> ('n, 'y, 'z, bool) gateway_eff" where
  [simp]: "session_token_is_expired sv t =
     ebind (utc_now sv) (\<lambda>now. ret (ts_access_token_expires_at t \<le> now))"

definition gateway_store ::
  "('n, 'y) gateway_services_scheme \<Rightarrow> app_state \<Rightarrow>
   (('n, 'z) gateway_env_scheme, token_session_data) token_store" where
  "gateway_store sv st =
     \<lparr>load_token = (\<lambda>w. case session_get_token sv w of
        (Inl _, w') \<Rightarrow> (None, w') | (Inr t, w') \<Rightarrow> (t, w')),
      save_token = gateway_save_token sv,
      refresh_and_persist = gateway_refresh sv st,
      is_expired = session_token_is_expired sv,
      bearer_value = (\<lambda>t. Some (ts_access_token t)),
      should_retry = (\<lambda>status _. status = 401)\<rparr>"

definition gateway_inject_token ::
  "('n, 'y) gateway_services_scheme \<Rightarrow> app_state \<Rightarrow> http_request \<Rightarrow>
   ('n, 'y, 'z, http_response) gateway_eff" where
  "gateway_inject_token sv st req = inject_token_with sv (gateway_store sv st) req"

section \<open>Handlers\<close>

definition validate_return_to ::
  "(string \<Rightarrow> bool) list option \<Rightarrow> string option \<Rightarrow> string option" where
  "validate_return_to cors_allow return_to =
     (case return_to of
        None \<Rightarrow> None
      | Some url \<Rightarrow>
          (case cors_allow of
             None \<Rightarrow> None
           | Some res \<Rightarrow> (if list_ex (\<lambda>re. re url) res then Some url else None)))"

definition login_scopes :: "string list" where
  "login_scopes = [''openid'', ''offline_access'', ''posix-uid'', ''fedid'']"

definition login ::
  "('n, 'y) gateway_services_scheme \<Rightarrow> app_state \<Rightarrow> string option \<Rightarrow>
   ('n, 'y, 'z, string) gateway_eff" where
  "login sv st return_to =
     ebind (lift_res (map_err Failed (redirect_url_new sv (app_callback_url st)))) (\<lambda>redirect_url.
     ebind (outside (authorize_url sv redirect_url login_scopes))
       (\<lambda>(auth_url, csrf_token, nonce, pkce_verifier).
     ebind (session_insert sv LOGIN_KEY (LoginV
        (login_session_data_new csrf_token pkce_verifier nonce
           (validate_return_to (app_cors_allow st) return_to)))) (\<lambda>_.
     ret auth_url)))"

definition check_access_token_hash ::
  "('n, 'y) gateway_services_scheme \<Rightarrow> token_response \<Rightarrow> string \<Rightarrow> id_claims \<Rightarrow> auth_error + unit"
where
  "check_access_token_hash sv response id_token claims =
     (case cl_access_token_hash claims of
        None \<Rightarrow> Inr ()
      | Some expected \<Rightarrow>
          rbind (map_err OidcError (access_token_hash sv (tr_access_token response) id_token))
            (\<lambda>actual. if actual \<noteq> expected then Inl (Failed ''Invalid access token'') else Inr ()))"

text \<open>The part of \<^verbatim>\<open>callback\<close> that talks to the identity provider.\<close>

definition callback_token ::
  "('n, 'y) gateway_services_scheme \<Rightarrow> app_state \<Rightarrow> string \<Rightarrow> login_session_data \<Rightarrow>
   ('n, 'y, 'z, token_session_data) gateway_eff" where
  "callback_token sv st auth_code login_data =
     ebind (lift_res (map_err Failed (redirect_url_new sv (app_callback_url st)))) (\<lambda>redirect_url.
     ebind (outside (code_endpoint sv auth_code (ls_pcke_verifier login_data) redirect_url)) (\<lambda>answer.
     ebind (lift_res (map_err OidcError answer)) (\<lambda>token_response.
     ebind (lift_res (ok_or (Failed ''Server did not return an ID token'')
              (tr_id_token token_response))) (\<lambda>id_token.
     ebind (outside (id_token_claims sv id_token (ls_nonce login_data))) (\<lambda>verified.
     ebind (lift_res (map_err OidcError verified)) (\<lambda>claims.
     ebind (lift_res (check_access_token_hash sv token_response id_token claims)) (\<lambda>_.
     from_token_response sv token_response (cl_issuer claims) (cl_subject claims)
       (Option.bind (cl_name claims) (\<lambda>name. name None))
       (cl_preferred_username claims) (cl_fedid claims))))))))"

definition callback ::
  "('n, 'y) gateway_services_scheme \<Rightarrow> app_state \<Rightarrow> string \<Rightarrow> string \<Rightarrow>
   ('n, 'y, 'z, string) gateway_eff" where
  "callback sv st auth_code state_param =
     ebind (session_remove_login sv) (\<lambda>removed.
     ebind (lift_res (ok_or (Failed ''session expired'') removed)) (\<lambda>login_data.
     ebind (if ls_csrf_token login_data \<noteq> state_param then throw (Failed ''invalid state'') else ret ())
       (\<lambda>_.
     ebind (callback_token sv st auth_code login_data) (\<lambda>token_data.
     ebind (write_token_to_database sv (session_token_info token_data) (app_public_key st)) (\<lambda>_.
     ebind (session_insert sv TOKEN_KEY (TokenV token_data)) (\<lambda>_.
     ebind (session_op sv (ret ())) (\<lambda>_.
     ret (unwrap_or (app_callback_default_return_to_url st) (ls_return_to_url login_data)))))))))"

definition logout ::
  "('n, 'y) gateway_services_scheme \<Rightarrow> ('n, 'y, 'z, nat) gateway_eff" where
  "logout sv =
     ebind (session_get_token sv) (\<lambda>token_session_data.
     ebind (case token_session_data of
              Some token_data \<Rightarrow> delete_token_from_database sv (ts_subject token_data)
            | None \<Rightarrow> ret ()) (\<lambda>_.
     ebind (session_flush sv) (\<lambda>_.
     ret 200)))"

definition cache_headers :: "(string \<times> string) list" where
  "cache_headers =
     [(''cache-control'', ''private, max-age=30''), (''vary'', ''Authorization'')]"

definition bearer_of :: "('n, 'y) gateway_services_scheme \<Rightarrow> (string \<Rightarrow> string list) \<Rightarrow> string option"
where
  "bearer_of sv headers =
     (case headers ''authorization'' of
        [] \<Rightarrow> None
      | value # _ \<Rightarrow> (if header_to_str_ok sv value then strip_prefix ''Bearer '' value else None))"

definition status ::
  "('n, 'y) gateway_services_scheme \<Rightarrow> (string \<Rightarrow> string list) \<Rightarrow>
   ('n, 'y, 'z, (string \<times> string) list \<times> bool) gateway_eff" where
  "status sv headers =
     ebind (lift_res (ok_or (Failed ''missing or malformed Authorization header'')
              (bearer_of sv headers))) (\<lambda>access_token.
     ebind (lift_res (claims_from_access_token (decode_claims sv) access_token)) (\<lambda>claims.
     ebind (case atc_expires_at claims of
              None \<Rightarrow> ret False
            | Some expires_at \<Rightarrow> ebind (utc_now sv) (\<lambda>now. ret (expires_at \<le> now))) (\<lambda>expired.
     if expired then ret (cache_headers, False)
     else ebind (token_exists_in_database sv (atc_subject claims)) (\<lambda>is_authenticated.
          ret (cache_headers, is_authenticated)))))"

record user_info =
  ui_name :: "string option"
  ui_preferred_username :: "string option"
  ui_fedid :: "string option"

text \<open>\<open>None\<close> is the answer 401.\<close>

definition userinfo ::
  "('n, 'y) gateway_services_scheme \<Rightarrow> ('n, 'y, 'z, user_info option) gateway_eff" where
  "userinfo sv =
     ebind (session_get_token sv) (\<lambda>token_session_data.
     ret (map_option (\<lambda>token. \<lparr>ui_name = ts_name token,
        ui_preferred_username = ts_preferred_username token, ui_fedid = ts_fedid token\<rparr>)
        token_session_data))"

datatype same_site = Strict | Lax

definition cookie_same_site :: "string option \<Rightarrow> same_site" where
  "cookie_same_site config = (if config = Some ''lax'' then Lax else Strict)"

definition cors_origin_ok :: "(string \<Rightarrow> bool) list option \<Rightarrow> string option \<Rightarrow> bool" where
  "cors_origin_ok cors_allow origin =
     (case cors_allow of
        None \<Rightarrow> False
      | Some res \<Rightarrow> (case origin of None \<Rightarrow> False | Some orig \<Rightarrow> list_ex (\<lambda>re. re orig) res))"

section \<open>Lemmas\<close>

lemma more_gateway:
  fixes w w' :: "('n, 'z) gateway_env_scheme"
  assumes "auth_env.more w' = auth_env.more w"
  shows "sent w' = sent w" "session_data w' = session_data w"
  using assms by (cases w; cases w'; simp)+

lemma frame_more_gateway:
  fixes m :: "(('n, 'z) gateway_env_scheme, 'e, 'a) eff"
  assumes "frame auth_env.more m"
  shows "frame sent m" "frame session_data m"
  using assms by (auto simp: frame_def intro!: more_gateway)

lemma frame_session_op:
  fixes m :: "('n, 'y, 'z, 'a) gateway_eff"
  shows "frame oidc_tokens m \<Longrightarrow> frame oidc_tokens (session_op sv m)"
    and "frame sent m \<Longrightarrow> frame sent (session_op sv m)"
    and "frame session_data m \<Longrightarrow> frame session_data (session_op sv m)"
  by (auto simp: frame_def session_op_def ebind_def outside_def split_beta split: option.split)

lemma frame_session_insert:
  "frame oidc_tokens (session_insert sv k v)" "frame sent (session_insert sv k v)"
  unfolding session_insert_def
  by (rule frame_session_op, simp add: frame_def)+

lemma session_get_token_run:
  assumes "session_get_token sv w = (r, w')"
  shows "oidc_tokens w' = oidc_tokens w \<and> sent w' = sent w \<and> session_data w' = session_data w"
    and "r = Inr (Some t) \<Longrightarrow> session_data w TOKEN_KEY = Some (TokenV t)"
    and "r = Inr None \<Longrightarrow> session_data w TOKEN_KEY = None"
  using assms
  by (auto simp: session_get_token_def session_op_def ebind_def outside_def
      split: prod.splits option.splits session_value.splits)

lemma session_insert_run:
  assumes "session_insert sv k v w = (r, w')"
  shows "session_data w' = (if r = Inr () then (session_data w)(k \<mapsto> v) else session_data w)"
  using assms
  by (auto simp: session_insert_def session_op_def ebind_def outside_def
      split: prod.splits option.splits)

lemma update_tokens_run:
  assumes "update_tokens sv t resp w = (Inr t', w')"
  shows "ts_subject t' = ts_subject t" "ts_access_token t' = tr_access_token resp"
    "ts_refresh_token t' = unwrap_or (ts_refresh_token t) (tr_refresh_token resp)"
  using assms by (auto simp: update_tokens_def eff_elims)

lemma frame_update_tokens [frame_intros]:
  "frame auth_env.more (update_tokens sv t resp)" "frame oidc_tokens (update_tokens sv t resp)"
  unfolding update_tokens_def by (intro frame_intros)+

lemma frame_from_token_response [frame_intros]:
  "frame auth_env.more (from_token_response sv resp i s n p f)"
  "frame oidc_tokens (from_token_response sv resp i s n p f)"
  unfolding from_token_response_def by (intro frame_intros)+

lemma frame_gateway_refresh: "frame sent (gateway_refresh sv st t)"
  unfolding gateway_refresh_def gateway_save_token_def
  by (intro frame_ebind frame_ret frame_session_insert frame_more_gateway(1)
      frame_exchange frame_update_tokens frame_write)

text \<open>The row that holds the refresh token of a session token, sealed for the key of the table.\<close>

definition row_holds ::
  "('n, 'y) auth_services_scheme \<Rightarrow> key \<Rightarrow> token_table \<Rightarrow> refresh_token_info \<Rightarrow> bool" where
  "row_holds sv pk t token \<longleftrightarrow>
     (\<exists>row n. t (rt_subject token) = Some row \<and>
        row_encrypted_refresh_token row = fst (seal sv (as_bytes (rt_secret token)) pk n))"

lemma write_row_holds:
  "write_token_to_database sv token pk w = (Inr (), w') \<Longrightarrow>
     row_holds sv pk (oidc_tokens w') token"
  by (drule write_run) (auto simp: row_holds_def upsert_get split: option.splits)

lemma gateway_refresh_ok:
  assumes "gateway_refresh sv st t w = (Inr t', w')"
  shows "session_data w' = (session_data w)(TOKEN_KEY \<mapsto> TokenV t')"
    and "row_holds sv (app_public_key st) (oidc_tokens w') (session_token_info t')"
    and "ts_subject t' = ts_subject t"
proof -
  obtain resp w1 w2 w3 where ex: "exchange_refresh_token sv (ts_refresh_token t) w = (Inr resp, w1)"
    and up: "update_tokens sv t resp w1 = (Inr t', w2)"
    and wr: "write_token_to_database sv (session_token_info t') (app_public_key st) w2 = (Inr (), w3)"
    and ins: "session_insert sv TOKEN_KEY (TokenV t') w3 = (Inr (), w')"
    using assms unfolding gateway_refresh_def gateway_save_token_def by (auto simp: ebind_eq_Inr)
  have "session_data w3 = session_data w"
    using frameD[OF frame_more_gateway(2)[OF frame_exchange(1)] ex]
      frameD[OF frame_more_gateway(2)[OF frame_update_tokens(1)] up]
      frameD[OF frame_more_gateway(2)[OF frame_write] wr] by simp
  then show "session_data w' = (session_data w)(TOKEN_KEY \<mapsto> TokenV t')"
    using session_insert_run[OF ins] by simp
  show "row_holds sv (app_public_key st) (oidc_tokens w') (session_token_info t')"
    using write_row_holds[OF wr] frameD[OF frame_session_insert(1) ins] by simp
  show "ts_subject t' = ts_subject t" using update_tokens_run[OF up] by simp
qed

text \<open>A token that the provider has answered with to the refresh token of another.\<close>

definition gateway_renews ::
  "('n, 'y) auth_services_scheme \<Rightarrow> token_session_data \<Rightarrow> token_session_data \<Rightarrow> bool" where
  "gateway_renews sv t t' \<longleftrightarrow>
     (\<exists>n resp. fst (token_endpoint sv (ts_refresh_token t) n) = Inr resp \<and>
        ts_access_token t' = tr_access_token resp \<and>
        ts_refresh_token t' = unwrap_or (ts_refresh_token t) (tr_refresh_token resp) \<and>
        ts_issuer t' = ts_issuer t \<and> ts_subject t' = ts_subject t)"

lemma gateway_refresh_renews:
  "gateway_refresh sv st t w = (Inr t', w') \<Longrightarrow> gateway_renews sv t t'"
  by (auto simp: gateway_refresh_def gateway_renews_def exchange_refresh_token_def update_tokens_def
      ebind_eq_Inr dest!: outside_fst) blast

definition gateway_held :: "('n, 'z) gateway_env_scheme \<Rightarrow> token_session_data option" where
  "gateway_held w = (case session_data w TOKEN_KEY of Some (TokenV t) \<Rightarrow> Some t | _ \<Rightarrow> None)"

interpretation gw: token_store_laws sv "gateway_store sv st" gateway_held session_token_info
    "app_public_key st"
  for sv :: "('n, 'y) gateway_services_scheme" and st
proof unfold_locales
  fix w w' :: "('n, 'z) gateway_env_scheme" and lt
  assume "load_token (gateway_store sv st) w = (lt, w')"
  then show "sent w' = sent w \<and> oidc_tokens w' = oidc_tokens w \<and> gateway_held w' = gateway_held w"
    using session_get_token_run(1)[of sv w]
    by (auto simp: gateway_store_def gateway_held_def split: prod.splits sum.splits)
next
  fix w w' :: "('n, 'z) gateway_env_scheme" and t
  assume "load_token (gateway_store sv st) w = (Some t, w')"
  then show "gateway_held w = Some t"
    using session_get_token_run(2)[of sv w]
    by (auto simp: gateway_store_def gateway_held_def split: prod.splits sum.splits)
next
  fix w w' :: "('n, 'z) gateway_env_scheme" and t r
  assume "is_expired (gateway_store sv st) t w = (r, w')"
  then show "sent w' = sent w \<and> oidc_tokens w' = oidc_tokens w \<and> gateway_held w' = gateway_held w \<and>
      (\<exists>b. r = Inr b)"
    by (auto simp: gateway_store_def gateway_held_def ebind_def outside_def split: prod.splits)
next
  fix w w' :: "('n, 'z) gateway_env_scheme" and t t'
  assume "refresh_and_persist (gateway_store sv st) t w = (Inr t', w')"
  then have "gateway_refresh sv st t w = (Inr t', w')" by (simp add: gateway_store_def)
  from gateway_refresh_ok[OF this]
  show "bearer_value (gateway_store sv st) t' \<noteq> None \<and> gateway_held w' = Some t' \<and>
      rt_subject (session_token_info t') = rt_subject (session_token_info t) \<and>
      (\<exists>row n. oidc_tokens w' (rt_subject (session_token_info t')) = Some row \<and>
         row_encrypted_refresh_token row =
           fst (seal sv (as_bytes (rt_secret (session_token_info t'))) (app_public_key st) n))"
    by (simp add: gateway_store_def gateway_held_def session_token_info_def row_holds_def)
qed (auto simp: gateway_store_def gateway_held_def dest: frameD[OF frame_gateway_refresh])

section \<open>Handlers\<close>

lemma frame_callback_token:
  "frame auth_env.more (callback_token sv st c l)" "frame oidc_tokens (callback_token sv st c l)"
  unfolding callback_token_def by (intro frame_intros)+

text \<open>A token of the callback carries the claims verified against the nonce of the login.\<close>

lemma callback_token_claims:
  assumes "callback_token sv st c l w = (Inr t, w')"
  shows "\<exists>id_token claims n. fst (id_token_claims sv id_token (ls_nonce l) n) = Inr claims \<and>
    ts_subject t = cl_subject claims \<and> ts_issuer t = cl_issuer claims"
  using assms unfolding callback_token_def from_token_response_def
  by (auto simp: ebind_eq_Inr dest!: outside_fst) (metis)

lemma session_remove_login_run:
  assumes "session_remove_login sv w = (r, w')"
  shows "oidc_tokens w' = oidc_tokens w \<and> sent w' = sent w"
    and "r = Inr x \<Longrightarrow> session_data w' = (session_data w)(LOGIN_KEY := None)"
    and "session_data w' = session_data w \<or> session_data w' = (session_data w)(LOGIN_KEY := None)"
    and "r = Inr (Some l) \<Longrightarrow> session_data w LOGIN_KEY = Some (LoginV l)"
  using assms
  by (auto simp: session_remove_login_def session_op_def ebind_def outside_def Let_def
      split: prod.splits option.splits session_value.splits)

lemma keys_differ [simp]: "TOKEN_KEY \<noteq> LOGIN_KEY" "LOGIN_KEY \<noteq> TOKEN_KEY"
  by (simp_all add: TOKEN_KEY_def LOGIN_KEY_def)

text \<open>What a callback does: it stops before it writes, or it goes through the whole flow.\<close>

lemma callback_tail:
  assumes "ebind (write_token_to_database sv (session_token_info t) (app_public_key st)) (\<lambda>_.
      ebind (session_insert sv TOKEN_KEY (TokenV t)) (\<lambda>_.
      ebind (session_op sv (ret ())) (\<lambda>_. ret u))) w = (r, w')"
  shows "\<exists>wr w3.
    write_token_to_database sv (session_token_info t) (app_public_key st) w = (wr, w3) \<and>
    oidc_tokens w' = oidc_tokens w3 \<and> sent w' = sent w \<and>
    (session_data w' = session_data w \<or>
     session_data w' = (session_data w)(TOKEN_KEY \<mapsto> TokenV t)) \<and>
    (\<forall>url. r = Inr url \<longrightarrow> wr = Inr () \<and> url = u \<and>
       session_data w' = (session_data w)(TOKEN_KEY \<mapsto> TokenV t))"
proof -
  obtain wr w3 where wr:
    "write_token_to_database sv (session_token_info t) (app_public_key st) w = (wr, w3)"
    by fastforce
  have w3: "sent w3 = sent w" "session_data w3 = session_data w"
    using frameD[OF frame_more_gateway(1)[OF frame_write] wr]
      frameD[OF frame_more_gateway(2)[OF frame_write] wr] by auto
  show ?thesis
  proof (cases wr)
    case (Inl e)
    then show ?thesis using assms wr w3 by (auto simp: ebind_def)
  next
    case (Inr u)
    obtain ir w4 where ir: "session_insert sv TOKEN_KEY (TokenV t) w3 = (ir, w4)"
      by fastforce
    obtain sr w5 where sr: "session_op sv (ret ()) w4 = (sr, w5)"
      by fastforce
    note fr = frameD[OF frame_session_insert(1) ir] frameD[OF frame_session_insert(2) ir]
      frameD[OF frame_session_op(1)[OF frame_ret] sr] frameD[OF frame_session_op(2)[OF frame_ret] sr]
      frameD[OF frame_session_op(3)[OF frame_ret] sr] session_insert_run[OF ir]
    show ?thesis
      using assms wr w3 Inr ir sr fr
      by (cases ir; cases sr) (auto simp: ebind_def)
  qed
qed

lemma callback_cases:
  fixes w :: "('n, 'z) gateway_env_scheme"
  assumes "callback sv st c s w = (r, w')"
  obtains (stopped) e where "r = Inl e" "oidc_tokens w' = oidc_tokens w" "sent w' = sent w"
      "session_data w' = session_data w \<or> session_data w' = (session_data w)(LOGIN_KEY := None)"
  | (verified) l t wr and w1 w2 w3 :: "('n, 'z) gateway_env_scheme" where "session_data w LOGIN_KEY = Some (LoginV l)" "ls_csrf_token l = s"
      "callback_token sv st c l w1 = (Inr t, w2)" "oidc_tokens w2 = oidc_tokens w"
      "session_data w2 = (session_data w)(LOGIN_KEY := None)"
      "write_token_to_database sv (session_token_info t) (app_public_key st) w2 = (wr, w3)"
      "oidc_tokens w' = oidc_tokens w3" "sent w' = sent w"
      "session_data w' = session_data w2 \<or> session_data w' = (session_data w2)(TOKEN_KEY \<mapsto> TokenV t)"
      "\<forall>url. r = Inr url \<longrightarrow> wr = Inr () \<and>
         url = unwrap_or (app_callback_default_return_to_url st) (ls_return_to_url l) \<and>
         session_data w' = (session_data w2)(TOKEN_KEY \<mapsto> TokenV t)"
proof -
  obtain rr w1 where rr: "session_remove_login sv w = (rr, w1)" by fastforce
  note rm = session_remove_login_run[OF rr]
  show thesis
  proof (cases "\<exists>l. rr = Inr (Some l) \<and> ls_csrf_token l = s \<and>
      (\<exists>t. fst (callback_token sv st c l w1) = Inr t)")
    case False
    have "\<exists>l e. r = Inl e \<and> (w' = w1 \<or> w' = snd (callback_token sv st c l w1))"
    proof (cases "\<exists>l. rr = Inr (Some l) \<and> ls_csrf_token l = s")
      case True
      then obtain l e w2 where "rr = Inr (Some l)" "ls_csrf_token l = s"
        "callback_token sv st c l w1 = (Inl e, w2)"
        using False by (metis fst_conv surj_pair sum.exhaust)
      then show ?thesis using assms rr by (auto simp: callback_def ebind_def intro!: exI[of _ l])
    next
      case no: False
      then show ?thesis
        using assms rr unfolding callback_def
        by (cases rr; cases "projr rr") (auto simp: ebind_def)
    qed
    then obtain l e where "r = Inl e" "w' = w1 \<or> w' = snd (callback_token sv st c l w1)" by blast
    moreover have "oidc_tokens (snd (callback_token sv st c l w1)) = oidc_tokens w1"
      "sent (snd (callback_token sv st c l w1)) = sent w1"
      "session_data (snd (callback_token sv st c l w1)) = session_data w1"
      using frame_callback_token(2)[of sv st c l] frame_more_gateway[OF frame_callback_token(1)]
      unfolding frame_def by blast+
    ultimately show thesis using stopped rm(1,3) by metis
  next
    case True
    then obtain l t w2 where l: "rr = Inr (Some l)" "ls_csrf_token l = s"
      and t: "callback_token sv st c l w1 = (Inr t, w2)" by (metis prod.collapse)
    note fr = frameD[OF frame_callback_token(2) t]
      frameD[OF frame_more_gateway(1)[OF frame_callback_token(1)] t]
      frameD[OF frame_more_gateway(2)[OF frame_callback_token(1)] t]
    have "ebind (write_token_to_database sv (session_token_info t) (app_public_key st)) (\<lambda>_.
      ebind (session_insert sv TOKEN_KEY (TokenV t)) (\<lambda>_.
      ebind (session_op sv (ret ())) (\<lambda>_.
        ret (unwrap_or (app_callback_default_return_to_url st) (ls_return_to_url l))))) w2 = (r, w')"
      using assms rr l t by (simp add: callback_def ebind_def)
    from callback_tail[OF this] show thesis
      using verified[OF rm(4)[OF l(1)] l(2) t] fr rm(1) rm(2)[OF l(1)] by auto
  qed
qed

section \<open>Properties\<close>

text \<open>
  C3. A callback cannot be forged. Unless the session holds a pending login whose CSRF token is
  the \<^verbatim>\<open>state\<close> parameter, a callback stores no token, neither in the session nor in the
  database, and fails. When it succeeds, the pending login is used up, the token is in the
  session, its refresh token in the database under the subject of an ID token verified with the
  nonce of that login, and the browser is sent to the return URL of that login.
\<close>

theorem callback_checks:
  assumes "callback sv st c s w = (r, w')"
  shows "((\<nexists>l. session_data w LOGIN_KEY = Some (LoginV l) \<and> ls_csrf_token l = s) \<longrightarrow>
      (\<exists>e. r = Inl e) \<and> oidc_tokens w' = oidc_tokens w \<and>
      session_data w' TOKEN_KEY = session_data w TOKEN_KEY) \<and>
    (\<forall>url. r = Inr url \<longrightarrow>
      (\<exists>l t id_token claims n. session_data w LOGIN_KEY = Some (LoginV l) \<and> ls_csrf_token l = s \<and>
         session_data w' LOGIN_KEY = None \<and> session_data w' TOKEN_KEY = Some (TokenV t) \<and>
         fst (id_token_claims sv id_token (ls_nonce l) n) = Inr claims \<and>
         ts_subject t = cl_subject claims \<and>
         row_holds sv (app_public_key st) (oidc_tokens w') (session_token_info t) \<and>
         url = unwrap_or (app_callback_default_return_to_url st) (ls_return_to_url l)))"
  using assms
proof (cases rule: callback_cases)
  case (verified l t wr w1 w2 w3)
  have "\<exists>id_token claims n. fst (id_token_claims sv id_token (ls_nonce l) n) = Inr claims \<and>
    ts_subject t = cl_subject claims"
    using callback_token_claims[OF verified(3)] by blast
  moreover have "row_holds sv (app_public_key st) (oidc_tokens w') (session_token_info t)"
    if "wr = Inr ()"
    using write_row_holds verified(6,7) that by metis
  ultimately show ?thesis using verified by auto
qed auto

text \<open>The states a session goes through: its requests, and whatever else moves the world.\<close>

inductive gateway_step ::
  "('n, 'y) gateway_services_scheme \<Rightarrow> app_state \<Rightarrow> 'n gateway_env \<Rightarrow> 'n gateway_env \<Rightarrow> bool"
  for sv st where
  step_login: "login sv st return_to w = (r, w') \<Longrightarrow> gateway_step sv st w w'"
| step_callback: "callback sv st c s w = (r, w') \<Longrightarrow> gateway_step sv st w w'"
| step_logout: "logout sv w = (r, w') \<Longrightarrow> gateway_step sv st w w'"
| step_userinfo: "userinfo sv w = (r, w') \<Longrightarrow> gateway_step sv st w w'"
| step_proxy: "gateway_inject_token sv st req w = (r, w') \<Longrightarrow> gateway_step sv st w w'"
| step_status: "status sv headers w = (r, w') \<Longrightarrow> gateway_step sv st w w'"
| step_elsewhere: "session_data w' = session_data w \<Longrightarrow> gateway_step sv st w w'"

definition return_ok :: "app_state \<Rightarrow> string option \<Rightarrow> bool" where
  "return_ok st url =
     (case url of
        None \<Rightarrow> True
      | Some u \<Rightarrow> (case app_cors_allow st of None \<Rightarrow> False | Some res \<Rightarrow> list_ex (\<lambda>re. re u) res))"

definition session_ok :: "app_state \<Rightarrow> (string \<rightharpoonup> session_value) \<Rightarrow> bool" where
  "session_ok st d \<longleftrightarrow>
     (\<forall>v. d LOGIN_KEY = Some v \<longrightarrow> (\<exists>l. v = LoginV l \<and> return_ok st (ls_return_to_url l))) \<and>
     (\<forall>v. d TOKEN_KEY = Some v \<longrightarrow> (\<exists>t. v = TokenV t))"

lemma return_ok_validate: "return_ok st (validate_return_to (app_cors_allow st) u)"
  by (auto simp: return_ok_def validate_return_to_def split: option.splits)

lemma session_ok_upd [simp]:
  "session_ok st d \<Longrightarrow> session_ok st (d(LOGIN_KEY := None))"
  "session_ok st d \<Longrightarrow> session_ok st (d(TOKEN_KEY \<mapsto> TokenV t))"
  "session_ok st Map.empty"
  by (auto simp: session_ok_def)

lemma login_session:
  assumes "login sv st u w = (r, w')"
  shows "session_data w' = session_data w \<or>
    (\<exists>l. session_data w' = (session_data w)(LOGIN_KEY \<mapsto> LoginV l) \<and> return_ok st (ls_return_to_url l))"
  using assms
  by (auto simp: login_def ebind_def outside_def return_ok_validate
      split: prod.splits sum.splits dest!: session_insert_run)

section \<open>Every handler keeps the session well formed\<close>

lemma keeps_session_ok:
  fixes m :: "(('n, 'z) gateway_env_scheme, 'e, 'a) eff"
  assumes "frame auth_env.more m"
  shows "keeps (\<lambda>w. session_ok st (session_data w)) m"
  using frame_more_gateway(2)[OF assms] by (simp add: frame_def keeps_def)

lemma keeps_session_op:
  "keeps (\<lambda>w. session_ok st (session_data w)) m \<Longrightarrow>
     keeps (\<lambda>w. session_ok st (session_data w)) (session_op sv m)"
  unfolding session_op_def
  by (rule keeps_ebind, rule keeps_session_ok, rule frame_outside, rule keeps_option)
    (simp_all add: keeps_throw)

lemma session_ok_inserts:
  "keeps (\<lambda>w. session_ok st (session_data w)) (session_insert sv TOKEN_KEY (TokenV t))"
  "return_ok st (ls_return_to_url l) \<Longrightarrow>
     keeps (\<lambda>w. session_ok st (session_data w)) (session_insert sv LOGIN_KEY (LoginV l))"
  unfolding session_insert_def
  by (rule keeps_session_op, simp add: keeps_def session_ok_def)+

lemma session_ok_others:
  "keeps (\<lambda>w. session_ok st (session_data w)) (session_get_token sv)"
  "keeps (\<lambda>w. session_ok st (session_data w)) (session_remove_login sv)"
  "keeps (\<lambda>w. session_ok st (session_data w)) (session_flush sv)"
  unfolding session_get_token_def session_remove_login_def session_flush_def session_op_def
  by (auto simp: keeps_def Let_def ebind_def outside_def split_beta
      split: option.split session_value.split)

lemma session_ok_handlers:
  "keeps (\<lambda>w. session_ok st (session_data w)) (login sv st u)"
  "keeps (\<lambda>w. session_ok st (session_data w)) (callback sv st c s)"
  "keeps (\<lambda>w. session_ok st (session_data w)) (logout sv)"
  "keeps (\<lambda>w. session_ok st (session_data w)) (userinfo sv)"
  "keeps (\<lambda>w. session_ok st (session_data w)) (status sv hs)"
  unfolding login_def callback_def logout_def userinfo_def status_def
  by (intro keeps_ebind keeps_prod keeps_if keeps_option keeps_ret keeps_throw keeps_lift_res
      session_ok_inserts session_ok_others keeps_session_op keeps_session_ok frame_outside
      frame_callback_token frame_write frame_delete frame_exists;
      simp add: return_ok_validate)+

lemma session_ok_proxy:
  fixes sv :: "('n, 'y) gateway_services_scheme"
  shows "keeps (\<lambda>w. session_ok st (session_data w))
    (gateway_inject_token sv st req :: ('n, 'y, 'z, http_response) gateway_eff)"
  unfolding gateway_inject_token_def
proof (rule keeps_inject)
  show "keeps (\<lambda>w. session_ok st (session_data w)) (refresh_and_persist (gateway_store sv st) t)" for t
    unfolding gateway_store_def gateway_refresh_def gateway_save_token_def
    by (simp, intro keeps_ebind keeps_ret session_ok_inserts keeps_session_ok
        frame_exchange frame_update_tokens frame_write)
next
  fix w :: "('n, 'z) gateway_env_scheme"
  assume "session_ok st (session_data w)"
  then show "session_ok st (session_data (snd (load_token (gateway_store sv st) w)))"
    using session_ok_others(1)[of st sv]
    by (auto simp: gateway_store_def keeps_def split_beta split: sum.split)
qed (auto simp: gateway_store_def run_next_def keeps_def ebind_def outside_def split_beta)

lemma gateway_step_session_ok:
  assumes "gateway_step sv st w w'" and "session_ok st (session_data w)"
  shows "session_ok st (session_data w')"
  using assms
proof cases
  case (step_login u r)
  then show ?thesis using assms(2) keepsD[OF session_ok_handlers(1)] by blast
next
  case (step_callback c s r)
  then show ?thesis using assms(2) keepsD[OF session_ok_handlers(2)] by blast
next
  case (step_logout r)
  then show ?thesis using assms(2) keepsD[OF session_ok_handlers(3)] by blast
next
  case (step_userinfo r)
  then show ?thesis using assms(2) keepsD[OF session_ok_handlers(4)] by blast
next
  case (step_proxy req r)
  then show ?thesis using assms(2) keepsD[OF session_ok_proxy] by blast
next
  case (step_status hs r)
  then show ?thesis using assms(2) keepsD[OF session_ok_handlers(5)] by blast
qed simp

text \<open>
  C7. The login cannot be used as an open redirect. Whatever requests a browser session has made,
  with whatever return URLs, and whatever has happened elsewhere in between, a callback that
  succeeds sends the browser to the configured default or to a URL that one of the configured
  origins matches.
\<close>

theorem no_open_redirect:
  assumes "(gateway_step sv st)\<^sup>*\<^sup>* w0 w" and "session_data w0 = Map.empty"
    and "callback sv st c s w = (Inr url, w')"
  shows "url = app_callback_default_return_to_url st \<or>
    (\<exists>res re. app_cors_allow st = Some res \<and> re \<in> set res \<and> re url)"
proof -
  have "session_ok st (session_data w)"
    using assms(1)
    by induction (auto simp: assms(2) intro: gateway_step_session_ok)
  moreover obtain l where "session_data w LOGIN_KEY = Some (LoginV l)"
    "url = unwrap_or (app_callback_default_return_to_url st) (ls_return_to_url l)"
    using assms(3) by (cases rule: callback_cases) auto
  ultimately show ?thesis
    by (cases "ls_return_to_url l")
      (auto simp: session_ok_def return_ok_def list_ex_iff split: option.splits)
qed

lemma logout_run:
  assumes "logout sv w = (Inr u, w')"
  shows "session_data w' = Map.empty \<and> sent w' = sent w \<and>
    oidc_tokens w' = (case gateway_held w of None \<Rightarrow> oidc_tokens w
                      | Some t \<Rightarrow> (oidc_tokens w)(ts_subject t := None))"
proof -
  obtain g w1 d w2 where g: "session_get_token sv w = (Inr g, w1)"
    and d: "(case g of Some t \<Rightarrow> delete_token_from_database sv (ts_subject t) | None \<Rightarrow> ret ()) w1 =
      (Inr d, w2)"
    and f: "session_flush sv w2 = (Inr (), w')"
    using assms unfolding logout_def by (auto simp: ebind_eq_Inr)
  note gr = session_get_token_run[OF g]
  have held: "gateway_held w = g"
    using gr(2,3) by (cases g) (auto simp: gateway_held_def)
  have "oidc_tokens w2 = (case g of None \<Rightarrow> oidc_tokens w1
                          | Some t \<Rightarrow> (oidc_tokens w1)(ts_subject t := None))"
    using d by (auto split: option.splits dest!: delete_run)
  moreover have "sent w2 = sent w1"
    using d by (cases g) (auto dest: frameD[OF frame_more_gateway(1)[OF frame_delete]])
  ultimately show ?thesis
    using f gr(1) held
    by (auto simp: session_flush_def ebind_def outside_def split: prod.splits option.splits)
qed

text \<open>
  C24. Logging out revokes. After a successful logout the session is empty and the database has no
  token for the subject that was logged in, everybody else's rows are untouched, and the proxy
  answers the session's next request with 401 without forwarding it.
\<close>

theorem logout_revokes:
  assumes "gateway_held w = Some t" and "logout sv w = (Inr u, w')"
  shows "session_data w' = Map.empty \<and> oidc_tokens w' = (oidc_tokens w)(ts_subject t := None) \<and>
    fst (gateway_inject_token sv st req w') = Inr (status_response 401) \<and>
    sent (snd (gateway_inject_token sv st req w')) = sent w"
proof -
  note lo = logout_run[OF assms(2)]
  then have "fst (load_token (gateway_store sv st) w') = None"
    by (simp add: gateway_store_def session_get_token_def session_op_def ebind_def outside_def
        split: prod.splits option.splits)
  then have l: "load_token (gateway_store sv st) w' = (None, snd (load_token (gateway_store sv st) w'))"
    by (metis prod.collapse)
  show ?thesis
    using gw.inject_no_token[OF l, of req] lo assms(1) by (simp add: gateway_inject_token_def)
qed

lemma gateway_exchange:
  assumes "gateway_inject_token sv st req w = (r, w')"
  shows "exchange_ok gateway_held (\<lambda>t. Some (ts_access_token t)) (gateway_renews sv) req w r w'"
proof -
  have bv: "bearer_value (gateway_store sv st) = (\<lambda>t. Some (ts_access_token t))"
    by (simp add: gateway_store_def)
  show ?thesis
    using gw.inject_ok[OF assms[unfolded gateway_inject_token_def]] unfolding bv
    by (rule exchange_ok_mono) (auto simp: renews_def gateway_store_def dest: gateway_refresh_renews)
qed

text \<open>
  C11. What the proxy forwards: at most two requests for one, each with the method, URI and body it
  received, no cookie, and instead of any \<^verbatim>\<open>Authorization\<close> a bearer token of the session: its access
  token, or one the provider has answered with to the session's refresh token. The answer
  belongs to a request with the token the session then holds. Without a token in the session
  nothing is forwarded and the answer is 401. A token that has expired is not sent: what is
  sent first carries the token a refresh has returned.
\<close>

theorem gateway_forwards:
  assumes "gateway_inject_token sv st req w = (r, w')"
  shows "exchange_ok gateway_held (\<lambda>t. Some (ts_access_token t)) (gateway_renews sv)
      req w r w' \<and>
    (gateway_held w = None \<longrightarrow> r = Inr (status_response 401) \<and> sent w' = sent w) \<and>
    (\<forall>t w1 now n. session_get_token sv w = (Inr (Some t), w1) \<and> clock sv (net w1) = (now, n) \<and>
       ts_access_token_expires_at t \<le> now \<and> sent w' \<noteq> sent w \<longrightarrow>
       (\<exists>t' w2. gateway_refresh sv st t (w1\<lparr>net := n\<rparr>) = (Inr t', w2) \<and>
          forwarded req (ts_access_token t') (sent w' ! length (sent w))))"
proof (intro conjI impI allI)
  note inj = assms[unfolded gateway_inject_token_def]
  show "exchange_ok gateway_held (\<lambda>t. Some (ts_access_token t)) (gateway_renews sv)
      req w r w'"
    by (rule gateway_exchange[OF assms])
  { assume none: "gateway_held w = None"
    obtain lt w1 where l: "load_token (gateway_store sv st) w = (lt, w1)" by fastforce
    then have "lt = None" using none gw.load_held[of sv st w] by (cases lt) auto
    then have "r = Inr (status_response 401) \<and> sent w' = sent w"
      using gw.inject_no_token[of sv st w w1 req] l inj by auto }
  then show "gateway_held w = None \<Longrightarrow> r = Inr (status_response 401)"
    and "gateway_held w = None \<Longrightarrow> sent w' = sent w" by blast+
  fix t w1 now n
  assume a: "session_get_token sv w = (Inr (Some t), w1) \<and> clock sv (net w1) = (now, n) \<and>
    ts_access_token_expires_at t \<le> now \<and> sent w' \<noteq> sent w"
  have l: "load_token (gateway_store sv st) w = (Some t, w1)"
    using a by (simp add: gateway_store_def)
  have ex: "is_expired (gateway_store sv st) t w1 = (Inr True, w1\<lparr>net := n\<rparr>)"
    using a by (simp add: gateway_store_def ebind_def outside_def)
  show "\<exists>t' w2. gateway_refresh sv st t (w1\<lparr>net := n\<rparr>) = (Inr t', w2) \<and>
      forwarded req (ts_access_token t') (sent w' ! length (sent w))"
    using gw.inject_expired[OF l ex inj] a by (auto simp: gateway_store_def)
qed

lemma status_split:
  "CHR ''.'' \<notin> set h \<Longrightarrow> CHR ''.'' \<notin> set p \<Longrightarrow>
     split_char (CHR ''.'') (h @ CHR ''.'' # p @ CHR ''.'' # rest) =
       h # p # split_char (CHR ''.'') rest"
  by (simp add: split_char_cons)

text \<open>
  C26. \<^verbatim>\<open>/auth/status\<close> says whether the subject named in the payload of the bearer token has an
  unexpired refresh token, and false when the token says that it has expired itself. Nothing
  else counts: the signature is not looked at, so any third part gives the same answer.
\<close>

theorem status_answer:
  assumes "bearer_of sv headers = Some (h @ CHR ''.'' # p @ CHR ''.'' # signature)"
    and "CHR ''.'' \<notin> set h" and "CHR ''.'' \<notin> set p"
    and "decode_claims sv p = Inr (sub, Some exp)" and "from_timestamp exp = Some expires_at"
    and "clock sv (net w) = (now, n)" and "db_fault sv n = (None, n1)" and "clock sv n1 = (now1, n2)"
  shows "fst (status sv headers w) =
    Inr (cache_headers, now < expires_at \<and>
      (\<exists>row. oidc_tokens w sub = Some row \<and>
         (\<forall>dt. row_expires_at row = Some dt \<longrightarrow> now1 \<le> dt)))"
proof -
  have c: "claims_from_access_token (decode_claims sv) (h @ CHR ''.'' # p @ CHR ''.'' # signature) =
      Inr \<lparr>atc_subject = sub, atc_expires_at = Some expires_at\<rparr>"
    using assms(2-5) by (simp add: claims_from_access_token_def status_split)
  have db: "fst (token_exists_in_database sv sub (w\<lparr>net := n\<rparr>)) =
      Inr (\<exists>row. oidc_tokens w sub = Some row \<and>
         (\<forall>dt. row_expires_at row = Some dt \<longrightarrow> now1 \<le> dt))"
    using assms(7,8)
    by (auto simp: token_exists_in_database_def ebind_def db_ok_run find_row_def outside_def
        split: option.splits)
  show ?thesis
  proof (cases "now < expires_at")
    case True
    then show ?thesis using assms(1,6) c db
      by (cases "token_exists_in_database sv sub (w\<lparr>net := n\<rparr>)")
        (simp add: status_def ebind_def outside_def)
  next
    case False
    then show ?thesis using assms(1,6) c by (simp add: status_def ebind_def outside_def)
  qed
qed

section \<open>A session against a simulated provider\<close>

definition demo_gateway :: "int gateway_services" where
  "demo_gateway =
     \<lparr>clock = clock demo_auth, db_fault = db_fault demo_auth, seal = seal demo_auth,
      open_sealed = open_sealed demo_auth, token_endpoint = token_endpoint demo_auth,
      header_value_ok = (\<lambda>_. True),
      next_service = (\<lambda>req n. (status_response
         (if req_headers req ''authorization'' = [''Bearer at2''] then 200 else 401), n)),
      session_fault = (\<lambda>n. (None, n)), redirect_url_new = Inr,
      authorize_url = (\<lambda>_ _ n. ((''provider'', ''csrf'', ''nonce'', ''pkce''), n)),
      code_endpoint = (\<lambda>_ _ _ n. (Inr \<lparr>tr_access_token = ''at1'', tr_refresh_token = Some ''rt1'',
         tr_expires_in = Some 300, tr_id_token = Some ''id''\<rparr>, n)),
      id_token_claims = (\<lambda>_ _ n. (Inr \<lparr>cl_issuer = ''iss'', cl_subject = ''sub'',
         cl_access_token_hash = None, cl_name = None, cl_preferred_username = None,
         cl_fedid = None\<rparr>, n)),
      access_token_hash = (\<lambda>_ _. Inr ''''), decode_claims = (\<lambda>p. Inr (p, Some 1000)),
      header_to_str_ok = (\<lambda>_. True)\<rparr>"

definition demo_app :: app_state where
  "demo_app = \<lparr>app_public_key = [7], app_callback_url = ''cb'',
     app_callback_default_return_to_url = ''home'',
     app_cors_allow = Some [\<lambda>u. u = ''https://ok''], app_session_secure = True\<rparr>"

definition demo_login_data :: login_session_data where
  "demo_login_data = \<lparr>ls_csrf_token = ''csrf'', ls_pcke_verifier = ''pkce'', ls_nonce = ''nonce'',
     ls_return_to_url = None\<rparr>"

definition demo_token :: token_session_data where
  "demo_token = \<lparr>ts_issuer = ''iss'', ts_subject = ''sub'', ts_access_token = ''at1'',
     ts_access_token_expires_at = seconds 300, ts_refresh_token = ''rt1'', ts_name = None,
     ts_preferred_username = None, ts_fedid = None\<rparr>"

abbreviation gateway_at ::
  "int \<Rightarrow> token_table \<Rightarrow> (string \<rightharpoonup> session_value) \<Rightarrow> int gateway_env" where
  "gateway_at n t d \<equiv> \<lparr>net = n, oidc_tokens = t, sent = [], session_data = d\<rparr>"

lemma demo_login:
  "login demo_gateway demo_app (Some ''https://evil'') (gateway_at 0 Map.empty Map.empty) =
     (Inr ''provider'', gateway_at 0 Map.empty [LOGIN_KEY \<mapsto> LoginV demo_login_data])"
  by (simp add: login_def ebind_def outside_def demo_gateway_def demo_app_def session_insert_def
      session_op_def validate_return_to_def demo_login_data_def)

lemma demo_callback:
  "\<exists>w'. callback demo_gateway demo_app ''code'' ''csrf''
     (gateway_at 0 Map.empty [LOGIN_KEY \<mapsto> LoginV demo_login_data]) = (Inr ''home'', w')"
  by (simp add: callback_def callback_token_def ebind_def outside_def demo_gateway_def demo_app_def
      session_insert_def session_remove_login_def session_op_def demo_login_data_def
      check_access_token_hash_def from_token_response_def now_plus_def utc_add_def max_utc_def
      expires_in_def seconds_def days_def write_token_to_database_def db_exec_def demo_auth_def
      Let_def)

theorem callback_checks_witness:
  "\<exists>w' t. session_data w' TOKEN_KEY = Some (TokenV t) \<and>
     callback demo_gateway demo_app ''code'' ''csrf''
       (gateway_at 0 Map.empty [LOGIN_KEY \<mapsto> LoginV demo_login_data]) = (Inr ''home'', w')"
proof -
  obtain w' where w': "callback demo_gateway demo_app ''code'' ''csrf''
       (gateway_at 0 Map.empty [LOGIN_KEY \<mapsto> LoginV demo_login_data]) = (Inr ''home'', w')"
    using demo_callback by blast
  from callback_checks [OF w'] obtain t where "session_data w' TOKEN_KEY = Some (TokenV t)" by auto
  then show ?thesis using w' by blast
qed

theorem no_open_redirect_witness:
  "\<exists>w'. callback demo_gateway demo_app ''code'' ''csrf''
       (gateway_at 0 Map.empty [LOGIN_KEY \<mapsto> LoginV demo_login_data]) = (Inr ''home'', w') \<and>
     (''home'' = app_callback_default_return_to_url demo_app \<or>
      (\<exists>res re. app_cors_allow demo_app = Some res \<and> re \<in> set res \<and> re ''home''))"
proof -
  obtain w' where w': "callback demo_gateway demo_app ''code'' ''csrf''
       (gateway_at 0 Map.empty [LOGIN_KEY \<mapsto> LoginV demo_login_data]) = (Inr ''home'', w')"
    using demo_callback by blast
  have "(gateway_step demo_gateway demo_app)\<^sup>*\<^sup>* (gateway_at 0 Map.empty Map.empty)
      (gateway_at 0 Map.empty [LOGIN_KEY \<mapsto> LoginV demo_login_data])"
    using step_login[OF demo_login] by blast
  from no_open_redirect [OF this _ w'] w' show ?thesis by auto
qed

abbreviation demo_session_env :: "int \<Rightarrow> int gateway_env" where
  "demo_session_env n \<equiv> gateway_at n [''sub'' \<mapsto> demo_row] [TOKEN_KEY \<mapsto> TokenV demo_token]"

lemma demo_logout:
  "logout demo_gateway (demo_session_env 5) = (Inr 200, gateway_at 5 Map.empty Map.empty)"
  by (simp add: logout_def session_get_token_def session_flush_def session_op_def ebind_def
      outside_def demo_gateway_def demo_auth_def delete_token_from_database_def db_exec_def
      demo_token_def)

definition demo_request :: http_request where
  "demo_request = \<lparr>req_method = ''POST'', req_uri = ''/api'',
     req_headers = (\<lambda>_. [])(''cookie'' := [''id=1'']), req_body = Inr ''q''\<rparr>"

theorem logout_revokes_witness:
  "fst (gateway_inject_token demo_gateway demo_app demo_request
      (gateway_at 5 Map.empty Map.empty)) = Inr (status_response 401)"
proof -
  have "gateway_held (demo_session_env 5) = Some demo_token" by (simp add: gateway_held_def)
  from logout_revokes [OF this demo_logout] show ?thesis by blast
qed

text \<open>A token that expires between the requests is refreshed, and its cookie stays behind.\<close>

theorem gateway_forwards_witness:
  "\<exists>q. sent (snd (gateway_inject_token demo_gateway demo_app demo_request
          (demo_session_env (seconds 400)))) = [q] \<and> forwarded demo_request ''at2'' q"
proof -
  let ?w = "demo_session_env (seconds 400)"
  obtain r w' where run: "gateway_inject_token demo_gateway demo_app demo_request ?w = (r, w')"
    by fastforce
  have sent: "length (sent w') = 1"
    using run
    by (auto simp: gateway_inject_token_def inject_token_with_def gateway_store_def
        session_get_token_def session_op_def ebind_def outside_def demo_gateway_def demo_auth_def
        demo_token_def seconds_def gateway_refresh_def exchange_refresh_token_def update_tokens_def
        now_plus_def utc_add_def max_utc_def expires_in_def write_token_to_database_def days_def
        db_exec_def gateway_save_token_def session_insert_def forward_with_def clone_request_def
        demo_request_def with_bearer_def prepare_headers_def run_next_def status_response_def)
  have get: "session_get_token demo_gateway ?w = (Inr (Some demo_token), ?w)"
    by (simp add: session_get_token_def session_op_def ebind_def outside_def demo_gateway_def)
  have now: "clock demo_gateway (net ?w) = (seconds 400, seconds 400 + 1)"
    by (simp add: demo_gateway_def demo_auth_def)
  from gateway_forwards [OF run] get now sent
  obtain t' w2 where "gateway_refresh demo_gateway demo_app demo_token
      (?w\<lparr>net := seconds 400 + 1\<rparr>) = (Inr t', w2)"
    and fw: "forwarded demo_request (ts_access_token t') (sent w' ! 0)"
    by (fastforce simp: demo_token_def seconds_def)
  then have "ts_access_token t' = ''at2''"
    by (auto simp: gateway_refresh_def ebind_eq_Inr exchange_refresh_token_def outside_def
        demo_gateway_def demo_auth_def dest!: update_tokens_run(2))
  then show ?thesis using fw run sent by (cases "sent w'") auto
qed

theorem status_answer_witness:
  "fst (status demo_gateway ((\<lambda>_. [])(''authorization'' := [''Bearer h.sub.forged'']))
      (gateway_at 5 [''sub'' \<mapsto> demo_row] Map.empty)) = Inr (cache_headers, True)"
  using status_answer [of demo_gateway "(\<lambda>_. [])(''authorization'' := [''Bearer h.sub.forged''])"
      "''h''" "''sub''" "''forged''" "''sub''" 1000 "1000 * 1000000000"
      "gateway_at 5 [''sub'' \<mapsto> demo_row] Map.empty" 5 6 6 6 7]
  by (simp add: demo_gateway_def demo_auth_def bearer_of_def from_timestamp_def min_timestamp_def
      days_def seconds_def)

end
