(* ===== verification/Daemon.thy ===== *)
theory Daemon
  imports Inject_Token
begin

text \<open>
  The sidecar \<^verbatim>\<open>auth-daemon\<close>: it finds the subject a pod works for, reads that subject's refresh
  token from the database once, and forwards the pod's requests with access tokens it refreshes.

  Its state is the token behind its lock; a GraphQL answer with errors counts as a failure.
\<close>

section \<open>State\<close>

record token_data =
  td_issuer :: string
  td_subject :: string
  td_access_token :: "string option"
  td_access_token_expires_at :: utc
  td_refresh_token :: string

definition token_data_new :: "string \<Rightarrow> string \<Rightarrow> string option \<Rightarrow> utc \<Rightarrow> string \<Rightarrow> token_data" where
  [simp]: "token_data_new issuer subject access_token access_token_expires_at refresh_token =
     \<lparr>td_issuer = issuer, td_subject = subject, td_access_token = access_token,
      td_access_token_expires_at = access_token_expires_at, td_refresh_token = refresh_token\<rparr>"

record 'n daemon_env = "'n proxy_env" +
  daemon_token :: "token_data option"

type_synonym ('n, 'z, 'a) daemon_eff = "(('n, 'z) daemon_env_scheme, auth_error, 'a) eff"

text \<open>
  \<open>graphql_errors\<close> is JSON decoding of a body: the length of its array \<^verbatim>\<open>errors\<close>, if the body is
  JSON with such an array. \<open>issuer_url_ok\<close> is the parsing of a URL.
\<close>

record 'n daemon_services = "'n proxy_services" +
  issuer_url_ok :: "string \<Rightarrow> bool"
  graphql_errors :: "string \<Rightarrow> nat option"

record daemon_config =
  dc_public_key :: "key option"
  dc_secret_key :: "key option"

section \<open>Tokens\<close>

definition daemon_token_info :: "token_data \<Rightarrow> refresh_token_info" where
  "daemon_token_info t =
     \<lparr>rt_secret = td_refresh_token t, rt_issuer = td_issuer t, rt_subject = td_subject t\<rparr>"

definition daemon_update_tokens ::
  "('n, 'y) auth_services_scheme \<Rightarrow> token_data \<Rightarrow> token_response \<Rightarrow>
   (('n, 'z) auth_env_scheme, auth_error, token_data) eff" where
  "daemon_update_tokens sv token response =
     ebind (now_plus sv (seconds (unwrap_or 60 (tr_expires_in response)))) (\<lambda>expires_at.
     ret (token\<lparr>td_refresh_token := unwrap_or (td_refresh_token token) (tr_refresh_token response),
                td_access_token := Some (tr_access_token response),
                td_access_token_expires_at := expires_at\<rparr>))"

definition daemon_is_expired ::
  "('n, 'y) auth_services_scheme \<Rightarrow> token_data \<Rightarrow> (('n, 'z) auth_env_scheme, auth_error, bool) eff"
where
  "daemon_is_expired sv t =
     ebind (utc_now sv) (\<lambda>now. ret (td_access_token_expires_at t \<le> now \<or> td_access_token t = None))"

definition daemon_save_token :: "token_data \<Rightarrow> ('n, 'z, unit) daemon_eff" where
  "daemon_save_token token w = (Inr (), w\<lparr>daemon_token := Some token\<rparr>)"

definition daemon_refresh ::
  "('n, 'y) daemon_services_scheme \<Rightarrow> key \<Rightarrow> token_data \<Rightarrow> ('n, 'z, token_data) daemon_eff" where
  "daemon_refresh sv public_key token =
     ebind (exchange_refresh_token sv (td_refresh_token token)) (\<lambda>response.
     ebind (daemon_update_tokens sv token response) (\<lambda>new_token.
     ebind (write_token_to_database sv (daemon_token_info new_token) public_key) (\<lambda>_.
     ebind (daemon_save_token new_token) (\<lambda>_.
     ret new_token))))"

text \<open>A status is a success from 200 to 299.\<close>

definition is_success :: "nat \<Rightarrow> bool" where
  "is_success s \<longleftrightarrow> 200 \<le> s \<and> s < 300"

definition daemon_should_retry :: "('n, 'y) daemon_services_scheme \<Rightarrow> nat \<Rightarrow> string \<Rightarrow> bool" where
  "daemon_should_retry sv status body =
     (if \<not> is_success status then True
      else case graphql_errors sv body of None \<Rightarrow> False | Some n \<Rightarrow> n \<noteq> 0)"

definition daemon_store ::
  "('n, 'y) daemon_services_scheme \<Rightarrow> key \<Rightarrow> (('n, 'z) daemon_env_scheme, token_data) token_store"
where
  "daemon_store sv public_key =
     \<lparr>load_token = (\<lambda>w. (daemon_token w, w)),
      save_token = daemon_save_token,
      refresh_and_persist = daemon_refresh sv public_key,
      is_expired = daemon_is_expired sv,
      bearer_value = td_access_token,
      should_retry = daemon_should_retry sv\<rparr>"

definition daemon_inject_token ::
  "('n, 'y) daemon_services_scheme \<Rightarrow> key \<Rightarrow> http_request \<Rightarrow> ('n, 'z, http_response) daemon_eff"
where
  "daemon_inject_token sv public_key req = inject_token_with sv (daemon_store sv public_key) req"

section \<open>Start-up\<close>

text \<open>\<^verbatim>\<open>RouterState::with_database\<close>: the token starts without an access token, expired.\<close>

definition daemon_start ::
  "('n, 'y) daemon_services_scheme \<Rightarrow> daemon_config \<Rightarrow> string \<Rightarrow> ('n, 'z, key) daemon_eff" where
  "daemon_start sv config subject =
     ebind (lift_res (ok_or (Failed ''Invalid public key'') (dc_public_key config))) (\<lambda>public_key.
     ebind (lift_res (ok_or (Failed ''Invalid secret key'') (dc_secret_key config))) (\<lambda>private_key.
     ebind (read_token_from_database sv subject None public_key private_key) (\<lambda>stored.
     ebind (lift_res (if issuer_url_ok sv (st_issuer stored) then Inr ()
                      else Inl (Failed ''invalid issuer URL''))) (\<lambda>_.
     ebind (utc_now sv) (\<lambda>now.
     ebind (daemon_save_token
        (token_data_new (st_issuer stored) (st_subject stored) None now
           (st_refresh_token_secret stored))) (\<lambda>_.
     ret public_key))))))"

text \<open>
  \<^verbatim>\<open>resolve_subject\<close>: the pod's namespace and name come from files, the labels of the pod and of
  its workflow from the Kubernetes API.
\<close>

record pod_services =
  namespace_file :: "string + string"
  hostname_file :: "string + string"
  pod_labels :: "string \<Rightarrow> string \<Rightarrow> string + (string \<rightharpoonup> string) option"
  workflow_labels :: "string \<Rightarrow> string \<Rightarrow> string + (string \<rightharpoonup> string) option"

definition WORKFLOW_LABEL :: string where
  "WORKFLOW_LABEL = ''workflows.argoproj.io/workflow''"

definition CREATOR_LABEL :: string where
  "CREATOR_LABEL = ''workflows.argoproj.io/creator''"

definition label_of :: "string \<Rightarrow> (string \<rightharpoonup> string) option \<Rightarrow> string option" where
  "label_of l labels = Option.bind labels (\<lambda>m. m l)"

definition resolve_subject :: "pod_services \<Rightarrow> string + string" where
  "resolve_subject ps =
     rbind (namespace_file ps) (\<lambda>namespace_text.
     let namespace = trim namespace_text in
     rbind (hostname_file ps) (\<lambda>hostname_text.
     let pod_name = trim hostname_text in
     rbind (pod_labels ps namespace pod_name) (\<lambda>labels.
     rbind (ok_or ''label workflows.argoproj.io/workflow missing on pod''
              (label_of WORKFLOW_LABEL labels)) (\<lambda>workflow_name.
     rbind (workflow_labels ps namespace workflow_name) (\<lambda>labels.
     ok_or ''label workflows.argoproj.io/creator missing on workflow''
       (label_of CREATOR_LABEL labels))))))"

section \<open>The daemon is a token store\<close>

lemma more_daemon:
  fixes w w' :: "('n, 'z) daemon_env_scheme"
  assumes "auth_env.more w' = auth_env.more w"
  shows "sent w' = sent w" "daemon_token w' = daemon_token w"
  using assms by (cases w; cases w'; simp)+

lemma frame_more_daemon:
  fixes m :: "(('n, 'z) daemon_env_scheme, 'e, 'a) eff"
  assumes "frame auth_env.more m"
  shows "frame sent m" "frame daemon_token m"
  using assms by (auto simp: frame_def intro!: more_daemon)

lemma frame_daemon [frame_intros]:
  "frame auth_env.more (daemon_update_tokens sv t resp)"
  "frame auth_env.more (daemon_is_expired sv t)" "frame oidc_tokens (daemon_is_expired sv t)"
  unfolding daemon_update_tokens_def daemon_is_expired_def by (intro frame_intros)+

lemma frame_daemon_save: "frame sent (daemon_save_token u)" "frame oidc_tokens (daemon_save_token u)"
  by (simp_all add: frame_def daemon_save_token_def)

lemma frame_daemon_refresh: "frame sent (daemon_refresh sv pk t)"
  unfolding daemon_refresh_def
  by (intro frame_ebind frame_ret frame_daemon_save frame_more_daemon(1) frame_exchange frame_daemon
      frame_write)

lemma daemon_refresh_ok:
  assumes "daemon_refresh sv pk t w = (Inr t', w')"
  shows "daemon_token w' = Some t'" "td_access_token t' \<noteq> None" "td_subject t' = td_subject t"
    and "\<exists>row n. oidc_tokens w' (td_subject t') = Some row \<and>
      row_encrypted_refresh_token row = fst (seal sv (as_bytes (td_refresh_token t')) pk n)"
proof -
  obtain resp w1 w2 w3 where ex: "exchange_refresh_token sv (td_refresh_token t) w = (Inr resp, w1)"
    and up: "daemon_update_tokens sv t resp w1 = (Inr t', w2)"
    and wr: "write_token_to_database sv (daemon_token_info t') pk w2 = (Inr (), w3)"
    and sv: "daemon_save_token t' w3 = (Inr (), w')"
    using assms unfolding daemon_refresh_def by (auto simp: ebind_eq_Inr)
  show "daemon_token w' = Some t'" using sv by (auto simp: daemon_save_token_def)
  show "td_access_token t' \<noteq> None" "td_subject t' = td_subject t"
    using up by (auto simp: daemon_update_tokens_def eff_elims)
  show "\<exists>row n. oidc_tokens w' (td_subject t') = Some row \<and>
      row_encrypted_refresh_token row = fst (seal sv (as_bytes (td_refresh_token t')) pk n)"
    using write_run[OF wr] sv
    by (auto simp: daemon_save_token_def upsert_get daemon_token_info_def split: option.splits)
qed

text \<open>A token that the provider has answered with to the refresh token of another.\<close>

definition daemon_renews ::
  "('n, 'y) auth_services_scheme \<Rightarrow> token_data \<Rightarrow> token_data \<Rightarrow> bool" where
  "daemon_renews sv t t' \<longleftrightarrow>
     (\<exists>n resp. fst (token_endpoint sv (td_refresh_token t) n) = Inr resp \<and>
        td_access_token t' = Some (tr_access_token resp) \<and>
        td_refresh_token t' = unwrap_or (td_refresh_token t) (tr_refresh_token resp) \<and>
        td_issuer t' = td_issuer t \<and> td_subject t' = td_subject t)"

lemma daemon_refresh_renews:
  "daemon_refresh sv pk t w = (Inr t', w') \<Longrightarrow> daemon_renews sv t t'"
  by (auto simp: daemon_refresh_def daemon_renews_def exchange_refresh_token_def
      daemon_update_tokens_def ebind_eq_Inr dest!: outside_fst) blast

interpretation dm: token_store_laws sv "daemon_store sv pk" daemon_token daemon_token_info pk
  for sv :: "('n, 'y) daemon_services_scheme" and pk
proof unfold_locales
  fix w w' :: "('n, 'z) daemon_env_scheme" and t r
  assume "is_expired (daemon_store sv pk) t w = (r, w')"
  then have e: "daemon_is_expired sv t w = (r, w')" by (simp add: daemon_store_def)
  show "sent w' = sent w \<and> oidc_tokens w' = oidc_tokens w \<and> daemon_token w' = daemon_token w \<and>
      (\<exists>b. r = Inr b)"
    using frameD[OF frame_more_daemon(1)[OF frame_daemon(2)] e] frameD[OF frame_daemon(3) e]
      frameD[OF frame_more_daemon(2)[OF frame_daemon(2)] e] e
    by (auto simp: daemon_is_expired_def ebind_def outside_def split: prod.splits)
next
  fix w w' :: "('n, 'z) daemon_env_scheme" and t
  assume "is_expired (daemon_store sv pk) t w = (Inr False, w')"
  then show "bearer_value (daemon_store sv pk) t \<noteq> None"
    by (auto simp: daemon_store_def daemon_is_expired_def eff_elims)
next
  fix w w' :: "('n, 'z) daemon_env_scheme" and t t'
  assume "refresh_and_persist (daemon_store sv pk) t w = (Inr t', w')"
  then have "daemon_refresh sv pk t w = (Inr t', w')" by (simp add: daemon_store_def)
  from daemon_refresh_ok[OF this]
  show "bearer_value (daemon_store sv pk) t' \<noteq> None \<and> daemon_token w' = Some t' \<and>
      rt_subject (daemon_token_info t') = rt_subject (daemon_token_info t) \<and>
      (\<exists>row n. oidc_tokens w' (rt_subject (daemon_token_info t')) = Some row \<and>
         row_encrypted_refresh_token row =
           fst (seal sv (as_bytes (rt_secret (daemon_token_info t'))) pk n))"
    by (simp add: daemon_store_def daemon_token_info_def)
qed (auto simp: daemon_store_def dest: frameD[OF frame_daemon_refresh])

text \<open>
  C25. What the daemon forwards: at most two requests for one, each with the method, URI and body
  it received, no cookie and a bearer token of the daemon: the one it held, or one the provider has
  answered with to its refresh token. The answer belongs to a request with
  the token the daemon then holds. Before it has any access token it sends none: what is sent
  first carries the token that a refresh has returned.
\<close>

theorem daemon_forwards:
  assumes "daemon_inject_token sv pk req w = (r, w')" and "daemon_token w = Some t"
  shows "exchange_ok daemon_token td_access_token (daemon_renews sv)
      req w r w' \<and>
    (td_access_token t = None \<and> sent w' \<noteq> sent w \<longrightarrow>
       (\<exists>t' b w1 w2. daemon_refresh sv pk t (w\<lparr>net := w1\<rparr>) = (Inr t', w2) \<and>
          td_access_token t' = Some b \<and> td_subject t' = td_subject t \<and>
          forwarded req b (sent w' ! length (sent w))))"
proof (intro conjI impI)
  note inj = assms(1)[unfolded daemon_inject_token_def]
  have bv: "bearer_value (daemon_store sv pk) = td_access_token"
    by (simp add: daemon_store_def)
  show "exchange_ok daemon_token td_access_token (daemon_renews sv)
      req w r w'"
    using dm.inject_ok[OF inj] unfolding bv
    by (rule exchange_ok_mono) (auto simp: renews_def daemon_store_def dest: daemon_refresh_renews)
  assume a: "td_access_token t = None \<and> sent w' \<noteq> sent w"
  have l: "load_token (daemon_store sv pk) w = (Some t, w)"
    using assms(2) by (simp add: daemon_store_def)
  obtain now n where "clock sv (net w) = (now, n)" by fastforce
  then have ex: "is_expired (daemon_store sv pk) t w = (Inr True, w\<lparr>net := n\<rparr>)"
    using a by (simp add: daemon_store_def daemon_is_expired_def ebind_def outside_def)
  from dm.inject_expired[OF l ex inj] a
  show "\<exists>t' b w1 w2. daemon_refresh sv pk t (w\<lparr>net := w1\<rparr>) = (Inr t', w2) \<and>
      td_access_token t' = Some b \<and> td_subject t' = td_subject t \<and>
      forwarded req b (sent w' ! length (sent w))"
    using daemon_refresh_ok(3) by (fastforce simp: daemon_store_def)
qed

text \<open>What the daemon starts with is what the database holds for its subject.\<close>

lemma daemon_start_run:
  assumes "dc_public_key config = Some pk" and "dc_secret_key config = Some sk"
    and "read_token_from_database sv subject None pk sk w = (Inr stored, w1)"
    and "issuer_url_ok sv (st_issuer stored)"
  shows "\<exists>w2 t. daemon_start sv config subject w = (Inr pk, w2) \<and> daemon_token w2 = Some t \<and>
    td_subject t = st_subject stored \<and> td_issuer t = st_issuer stored \<and>
    td_refresh_token t = st_refresh_token_secret stored \<and> td_access_token t = None"
  using assms
  by (auto simp: daemon_start_def ebind_def outside_def daemon_save_token_def split: prod.splits)

section \<open>A daemon against a simulated provider\<close>

definition demo_daemon :: "int daemon_services" where
  "demo_daemon =
     \<lparr>clock = clock demo_auth, db_fault = db_fault demo_auth, seal = seal demo_auth,
      open_sealed = open_sealed demo_auth, token_endpoint = token_endpoint demo_auth,
      header_value_ok = (\<lambda>_. True), next_service = (\<lambda>req n. (status_response 200, n)),
      issuer_url_ok = (\<lambda>_. True),
      graphql_errors = (\<lambda>body. if body = '''' then Some 1 else None)\<rparr>"

definition demo_td :: token_data where
  "demo_td = \<lparr>td_issuer = ''iss'', td_subject = ''sub'', td_access_token = None,
     td_access_token_expires_at = 0, td_refresh_token = ''rt1''\<rparr>"

definition demo_req :: http_request where
  "demo_req = \<lparr>req_method = ''POST'', req_uri = ''/'',
     req_headers = (\<lambda>_. [])(''cookie'' := [''id=1'']), req_body = Inr ''q''\<rparr>"

theorem daemon_forwards_witness:
  "\<exists>b q. forwarded demo_req b q \<and>
     q = sent (snd (daemon_inject_token demo_daemon [7] demo_req
       \<lparr>net = 1, oidc_tokens = Map.empty, sent = [], daemon_token = Some demo_td\<rparr>)) ! 0"
proof -
  let ?w = "\<lparr>net = 1, oidc_tokens = Map.empty, sent = [], daemon_token = Some demo_td\<rparr>"
  obtain r w' where run: "daemon_inject_token demo_daemon [7] demo_req ?w = (r, w')" by fastforce
  have "sent w' \<noteq> []"
    using run
    by (auto simp: daemon_inject_token_def inject_token_with_def daemon_store_def
        daemon_is_expired_def ebind_def outside_def demo_daemon_def demo_auth_def demo_td_def
        seconds_def daemon_refresh_def exchange_refresh_token_def daemon_update_tokens_def
        now_plus_def utc_add_def max_utc_def write_token_to_database_def days_def
        db_exec_def daemon_save_token_def forward_with_def clone_request_def
        demo_req_def with_bearer_def prepare_headers_def run_next_def status_response_def
        daemon_should_retry_def is_success_def)
  moreover have "daemon_token ?w = Some demo_td" by simp
  ultimately show ?thesis
    using daemon_forwards [OF run, of demo_td] run by (auto simp: demo_td_def)
qed

end
