(* ===== verification/Broker.thy ===== *)
theory Broker
  imports Inject_Token
begin

text \<open>
  The service \<^verbatim>\<open>auth-broker\<close>: an external authorizer that trades the service account token of a
  workflow pod for an access token of the user who created the workflow.

  Its state is the two caches and the shared token table. A cache forgets entries after their time
  to live or when it is full: which ones is a service, asked before every lookup. The locks that
  serialise refreshes are the subject of \<open>Broker_Locks\<close>.
\<close>

section \<open>Errors\<close>

datatype authz_error =
    MissingToken
  | TokenNotAuthenticated
  | NoUsername
  | UnexpectedUsernameFormat string
  | MissingPodName
  | PodNotFound string
  | PodUidMismatch string string
  | SubjectResolution string
  | TokenValidation string

definition show_authz_error :: "authz_error \<Rightarrow> string" where
  "show_authz_error e =
     (case e of
        MissingToken \<Rightarrow> ''missing service account token''
      | TokenNotAuthenticated \<Rightarrow> ''service account token not authenticated''
      | NoUsername \<Rightarrow> ''token review returned no username''
      | UnexpectedUsernameFormat s \<Rightarrow> ''unexpected token username format: '' @ s
      | MissingPodName \<Rightarrow> ''token review missing pod name''
      | PodNotFound s \<Rightarrow> ''pod not found: '' @ s
      | PodUidMismatch expected actual \<Rightarrow>
          ''pod uid mismatch: token says '' @ expected @ '', k8s reports '' @ actual
      | SubjectResolution s \<Rightarrow> ''subject resolution failed: '' @ s
      | TokenValidation s \<Rightarrow> ''token validation failed: '' @ s)"

definition authz_status_code :: "authz_error \<Rightarrow> nat" where
  "authz_status_code e = (case e of TokenValidation _ \<Rightarrow> 503 | _ \<Rightarrow> 403)"

definition authz_error_response :: "authz_error \<Rightarrow> http_response" where
  "authz_error_response e =
     (status_response (authz_status_code e))\<lparr>resp_body := Inr (show_authz_error e)\<rparr>"

section \<open>The Kubernetes API\<close>

record review_user =
  user_username :: "string option"
  user_extra :: "(string \<rightharpoonup> string list) option"

record review_status =
  review_authenticated :: "bool option"
  review_user :: "review_user option"

text \<open>A token review is its status, if it has one.\<close>

type_synonym token_review = "review_status option"

record pod =
  pod_meta_namespace :: "string option"
  pod_meta_name :: "string option"
  pod_meta_uid :: "string option"
  pod_meta_labels :: "(string \<rightharpoonup> string) option"

record cached_token =
  ct_access_token :: string
  ct_expires_at :: utc
  ct_refresh_token :: string
  ct_issuer :: string
  ct_subject :: string

record 'n broker_services = "'n auth_services" +
  broker_header_value_ok :: "string \<Rightarrow> bool"
  broker_to_str_ok :: "string \<Rightarrow> bool"
  create_token_review :: "string \<Rightarrow> 'n \<Rightarrow> (string + token_review) \<times> 'n"
  get_pod :: "string \<Rightarrow> string \<Rightarrow> 'n \<Rightarrow> (string + pod) \<times> 'n"
  get_workflow_labels :: "string \<Rightarrow> string \<Rightarrow> 'n \<Rightarrow> (string + (string \<rightharpoonup> string) option) \<times> 'n"
  evicted :: "'n \<Rightarrow> string set \<times> 'n"
  broker_issuer_url_ok :: "string \<Rightarrow> bool"
  debug_error :: "auth_error \<Rightarrow> string"

record 'n broker_env = "'n auth_env" +
  subject_cache :: "string \<rightharpoonup> string"
  token_cache :: "string \<rightharpoonup> cached_token"

record broker_keys =
  bk_public :: key
  bk_secret :: key

type_synonym ('n, 'z, 'e, 'a) broker_eff = "(('n, 'z) broker_env_scheme, 'e, 'a) eff"

section \<open>Caches\<close>

definition TOKEN_GRACE_PERIOD_SECS :: nat where
  "TOKEN_GRACE_PERIOD_SECS = 30"

definition DEFAULT_TOKEN_EXPIRY_SECS :: nat where
  "DEFAULT_TOKEN_EXPIRY_SECS = 60"

definition get_cached_subject ::
  "('n, 'y) broker_services_scheme \<Rightarrow> string \<Rightarrow> ('n, 'z, 'e, string option) broker_eff" where
  "get_cached_subject sv pod_key =
     ebind (outside (evicted sv)) (\<lambda>gone w.
       let cache = (subject_cache w) |` (- gone)
       in (Inr (cache pod_key), w\<lparr>subject_cache := cache\<rparr>))"

definition set_cached_subject :: "string \<Rightarrow> string \<Rightarrow> ('n, 'z, 'e, unit) broker_eff" where
  "set_cached_subject pod_key subject w =
     (Inr (), w\<lparr>subject_cache := (subject_cache w)(pod_key \<mapsto> subject)\<rparr>)"

definition get_cached_token ::
  "('n, 'y) broker_services_scheme \<Rightarrow> string \<Rightarrow> ('n, 'z, 'e, cached_token option) broker_eff" where
  "get_cached_token sv subject =
     ebind (outside (evicted sv)) (\<lambda>gone w.
       let cache = (token_cache w) |` (- gone)
       in (Inr (cache subject), w\<lparr>token_cache := cache\<rparr>))"

definition insert_cached_token :: "string \<Rightarrow> cached_token \<Rightarrow> ('n, 'z, 'e, unit) broker_eff" where
  "insert_cached_token subject token w =
     (Inr (), w\<lparr>token_cache := (token_cache w)(subject \<mapsto> token)\<rparr>)"

section \<open>Access tokens\<close>

text \<open>The access token of the cache, when it lasts longer than the grace period.\<close>

definition fresh_cached_token ::
  "('n, 'y) broker_services_scheme \<Rightarrow> string \<Rightarrow> ('n, 'z, auth_error, string option) broker_eff" where
  "fresh_cached_token sv subject =
     ebind (get_cached_token sv subject) (\<lambda>cached.
       case cached of
         None \<Rightarrow> ret None
       | Some token \<Rightarrow>
           ebind (now_plus sv (seconds TOKEN_GRACE_PERIOD_SECS)) (\<lambda>grace.
           ret (if ct_expires_at token > grace then Some (ct_access_token token) else None)))"

text \<open>\<^verbatim>\<open>chrono::Duration::from_std\<close>: at most \<^verbatim>\<open>i64::MAX\<close> milliseconds.\<close>

definition duration_from_std :: "int \<Rightarrow> auth_error + int" where
  "duration_from_std d =
     (if d \<le> 9223372036854775807 * 1000000 then Inr d
      else Inl (Failed ''token expiry duration out of range''))"

definition cached_token_info :: "cached_token \<Rightarrow> refresh_token_info" where
  "cached_token_info t =
     \<lparr>rt_secret = ct_refresh_token t, rt_issuer = ct_issuer t, rt_subject = ct_subject t\<rparr>"

text \<open>After the exchange: a rotated refresh token is written back, then the token is cached.\<close>

definition store_refreshed ::
  "('n, 'y) broker_services_scheme \<Rightarrow> broker_keys \<Rightarrow> string \<Rightarrow> stored_token \<Rightarrow> token_response \<Rightarrow>
   utc \<Rightarrow> string \<Rightarrow> ('n, 'z, auth_error, string) broker_eff" where
  "store_refreshed sv keys subject stored response expires_at issuer =
     (let access_token = tr_access_token response;
          new_refresh_secret =
            unwrap_or (st_refresh_token_secret stored) (tr_refresh_token response) in
     ebind (if tr_refresh_token response \<noteq> None
            then ebind (utc_now sv) (\<lambda>now.
                 write_token_to_database sv (cached_token_info
                   \<lparr>ct_access_token = '''', ct_expires_at = now,
                    ct_refresh_token = new_refresh_secret, ct_issuer = issuer,
                    ct_subject = subject\<rparr>) (bk_public keys))
            else ret ()) (\<lambda>_.
     ebind (insert_cached_token subject
        \<lparr>ct_access_token = access_token, ct_expires_at = expires_at,
         ct_refresh_token = new_refresh_secret, ct_issuer = issuer, ct_subject = subject\<rparr>) (\<lambda>_.
     ret access_token)))"

text \<open>The refresh under the lock: read, exchange, store.\<close>

definition refresh_locked ::
  "('n, 'y) broker_services_scheme \<Rightarrow> broker_keys \<Rightarrow> string \<Rightarrow>
   ('n, 'z, auth_error, string) broker_eff" where
  "refresh_locked sv keys subject =
     ebind (read_token_from_database sv subject None (bk_public keys) (bk_secret keys)) (\<lambda>stored.
     ebind (exchange_refresh_token sv (st_refresh_token_secret stored)) (\<lambda>response.
     ebind (utc_now sv) (\<lambda>now.
     ebind (lift_res (duration_from_std
              (seconds (unwrap_or DEFAULT_TOKEN_EXPIRY_SECS (tr_expires_in response))))) (\<lambda>d.
     ebind (lift_res (ok_or (Panicked ''DateTime + Duration overflowed'') (utc_add now d)))
       (\<lambda>expires_at.
     ebind (lift_res (if broker_issuer_url_ok sv (st_issuer stored) then Inr (st_issuer stored)
                      else Inl (Failed ''invalid issuer URL''))) (\<lambda>issuer.
     store_refreshed sv keys subject stored response expires_at issuer))))))"

definition get_or_refresh_token ::
  "('n, 'y) broker_services_scheme \<Rightarrow> broker_keys \<Rightarrow> string \<Rightarrow>
   ('n, 'z, auth_error, string) broker_eff" where
  "get_or_refresh_token sv keys subject =
     ebind (fresh_cached_token sv subject) (\<lambda>first.
       case first of
         Some token \<Rightarrow> ret token
       | None \<Rightarrow>
           ebind (fresh_cached_token sv subject) (\<lambda>second.
             case second of
               Some token \<Rightarrow> ret token
             | None \<Rightarrow> refresh_locked sv keys subject))"

section \<open>Pods\<close>

definition extract_service_account_token ::
  "('n, 'y) broker_services_scheme \<Rightarrow> http_request \<Rightarrow> authz_error + string" where
  "extract_service_account_token sv req =
     (case req_headers req ''k8s-pod-service-account-token'' of
        [] \<Rightarrow> Inl MissingToken
      | v # _ \<Rightarrow> (if broker_to_str_ok sv v then Inr v else Inl MissingToken))"

record pod_identity =
  pi_namespace :: string
  pi_name :: string
  pi_uid :: "string option"

definition extra_value :: "token_review \<Rightarrow> string \<Rightarrow> string option" where
  "extra_value review key =
     Option.bind review (\<lambda>s. Option.bind (review_user s) (\<lambda>u. Option.bind (user_extra u) (\<lambda>e.
     Option.bind (e key) (\<lambda>v. case v of [] \<Rightarrow> None | x # _ \<Rightarrow> Some x))))"

definition pod_identity_new :: "token_review \<Rightarrow> authz_error + pod_identity" where
  "pod_identity_new review =
     (if \<not> unwrap_or False (Option.bind review review_authenticated)
      then Inl TokenNotAuthenticated
      else rbind (ok_or NoUsername
             (Option.bind review (\<lambda>s. Option.bind (review_user s) user_username))) (\<lambda>username.
           rbind (ok_or (UnexpectedUsernameFormat username)
             (Option.bind (strip_prefix ''system:serviceaccount:'' username) (split_once '':'')))
             (\<lambda>(namespace, _).
           rbind (ok_or MissingPodName (extra_value review ''authentication.kubernetes.io/pod-name''))
             (\<lambda>pod_name.
           Inr \<lparr>pi_namespace = namespace, pi_name = pod_name,
                pi_uid = extra_value review ''authentication.kubernetes.io/pod-uid''\<rparr>))))"

definition label_in :: "string \<Rightarrow> (string \<rightharpoonup> string) option \<Rightarrow> string option" where
  "label_in l labels = Option.bind labels (\<lambda>m. m l)"

definition broker_resolve_subject ::
  "('n, 'y) broker_services_scheme \<Rightarrow> pod \<Rightarrow> ('n, 'z, authz_error, string) broker_eff" where
  "broker_resolve_subject sv pod =
     (let pod_namespace = unwrap_or ''default'' (pod_meta_namespace pod);
          pod_name = unwrap_or '''' (pod_meta_name pod) in
      ebind (lift_res (ok_or (SubjectResolution
               (''label workflows.argoproj.io/workflow missing on pod '' @ pod_namespace @ ''/'' @
                pod_name))
               (label_in ''workflows.argoproj.io/workflow'' (pod_meta_labels pod)))) (\<lambda>workflow_name.
      ebind (outside (get_workflow_labels sv pod_namespace workflow_name)) (\<lambda>answer.
      ebind (lift_res (map_err (\<lambda>e. SubjectResolution (''failed to get workflow '' @ pod_namespace @
               ''/'' @ workflow_name @ '': '' @ e)) answer)) (\<lambda>labels.
      lift_res (ok_or (SubjectResolution
               (''label workflows.argoproj.io/creator missing on workflow '' @ pod_namespace @ ''/'' @
                workflow_name))
               (label_in ''workflows.argoproj.io/creator'' labels))))))"

section \<open>Authorization\<close>

definition check_uid :: "pod_identity \<Rightarrow> pod \<Rightarrow> authz_error + unit" where
  "check_uid identity pod =
     (case pi_uid identity of
        None \<Rightarrow> Inr ()
      | Some expected \<Rightarrow>
          (let actual = unwrap_or '''' (pod_meta_uid pod)
           in if actual \<noteq> expected then Inl (PodUidMismatch expected actual) else Inr ()))"

definition subject_for ::
  "('n, 'y) broker_services_scheme \<Rightarrow> string \<Rightarrow> pod \<Rightarrow> ('n, 'z, authz_error, string) broker_eff" where
  "subject_for sv pod_key pod =
     ebind (get_cached_subject sv pod_key) (\<lambda>cached.
       case cached of
         Some s \<Rightarrow> ret s
       | None \<Rightarrow>
           ebind (broker_resolve_subject sv pod) (\<lambda>s.
           ebind (set_cached_subject pod_key s) (\<lambda>_.
           ret s)))"

text \<open>\<^verbatim>\<open>authorize_request_inner\<close> up to the check of the pod's UID, and from there on.\<close>

definition identify_pod ::
  "('n, 'y) broker_services_scheme \<Rightarrow> http_request \<Rightarrow>
   ('n, 'z, authz_error, pod_identity \<times> pod) broker_eff" where
  "identify_pod sv req =
     ebind (lift_res (extract_service_account_token sv req)) (\<lambda>service_account_token.
     ebind (outside (create_token_review sv service_account_token)) (\<lambda>answer.
     ebind (lift_res (map_err TokenValidation answer)) (\<lambda>token_review.
     ebind (lift_res (pod_identity_new token_review)) (\<lambda>identity.
     ebind (outside (get_pod sv (pi_namespace identity) (pi_name identity))) (\<lambda>answer.
     ebind (lift_res (map_err (\<lambda>e. PodNotFound (pi_namespace identity @ ''/'' @ pi_name identity @
              '': '' @ e)) answer)) (\<lambda>pod.
     ebind (lift_res (check_uid identity pod)) (\<lambda>_.
     ret (identity, pod))))))))"

definition grant_token ::
  "('n, 'y) broker_services_scheme \<Rightarrow> broker_keys \<Rightarrow> pod_identity \<Rightarrow> pod \<Rightarrow>
   ('n, 'z, authz_error, http_response) broker_eff" where
  "grant_token sv keys identity pod =
     ebind (subject_for sv (pi_namespace identity @ ''/'' @ pi_name identity @ ''/'' @
              unwrap_or '''' (pod_meta_uid pod)) pod) (\<lambda>subject.
     ebind (emap_err (\<lambda>e. TokenValidation (debug_error sv e)) (get_or_refresh_token sv keys subject))
       (\<lambda>access_token.
     let bearer = ''Bearer '' @ access_token in
     if broker_header_value_ok sv bearer
     then ret ((status_response 200)\<lparr>resp_headers := (\<lambda>_. [])(''authorization'' := [bearer])\<rparr>)
     else throw (TokenValidation ''InvalidHeaderValue'')))"

definition authorize_request_inner ::
  "('n, 'y) broker_services_scheme \<Rightarrow> broker_keys \<Rightarrow> http_request \<Rightarrow>
   ('n, 'z, authz_error, http_response) broker_eff" where
  "authorize_request_inner sv keys req =
     ebind (identify_pod sv req) (\<lambda>(identity, pod). grant_token sv keys identity pod)"

definition authorize_request ::
  "('n, 'y) broker_services_scheme \<Rightarrow> broker_keys \<Rightarrow> http_request \<Rightarrow>
   ('n, 'z, 'e, http_response) broker_eff" where
  "authorize_request sv keys req w =
     (case authorize_request_inner sv keys req w of
        (Inr response, w') \<Rightarrow> (Inr response, w')
      | (Inl e, w') \<Rightarrow> (Inr (authz_error_response e), w'))"

text \<open>\<^verbatim>\<open>health_check\<close>, with the answer of the database to a ping.\<close>

definition health_check :: "string option \<Rightarrow> nat" where
  "health_check ping_error = (case ping_error of None \<Rightarrow> 200 | Some _ \<Rightarrow> 503)"

section \<open>Refreshing\<close>

lemma more_broker:
  fixes w w' :: "('n, 'z) broker_env_scheme"
  assumes "auth_env.more w' = auth_env.more w"
  shows "token_cache w' = token_cache w" "subject_cache w' = subject_cache w"
  using assms by (cases w; cases w'; simp)+

lemma frame_more_broker:
  fixes m :: "(('n, 'z) broker_env_scheme, 'e, 'a) eff"
  assumes "frame auth_env.more m"
  shows "frame token_cache m" "frame subject_cache m"
  using assms by (auto simp: frame_def intro!: more_broker)

text \<open>The row of a subject opens to a refresh token.\<close>

definition row_opens ::
  "('n, 'y) auth_services_scheme \<Rightarrow> key \<Rightarrow> key \<Rightarrow> token_table \<Rightarrow> string \<Rightarrow> string \<Rightarrow> bool" where
  "row_opens sv pk sk t subject secret \<longleftrightarrow>
     (\<exists>row bytes. t subject = Some row \<and>
        open_sealed sv (row_encrypted_refresh_token row) pk sk = Some bytes \<and>
        from_utf8 bytes = Some secret)"

lemma read_opens:
  assumes "read_token_from_database sv subject i pk sk w = (Inr stored, w')"
  shows "row_opens sv pk sk (oidc_tokens w) subject (st_refresh_token_secret stored)"
  using assms
  by (auto simp: read_token_from_database_def ebind_eq_Inr db_exec_def outside_def row_opens_def
      find_row_def split: prod.splits option.splits if_splits)

lemma write_opens:
  assumes "sealed_box sv pk sk" and "write_token_to_database sv token pk w = (Inr (), w')"
  shows "row_opens sv pk sk (oidc_tokens w') (rt_subject token) (rt_secret token)"
  using write_run[OF assms(2)] assms(1)
  by (auto simp: row_opens_def upsert_get sealed_box_def split: option.splits)

text \<open>
  A cached token comes from a refresh: the provider gave it for the refresh token \<open>old\<close> the row of
  the subject held; the refresh token kept with it is the provider's new one where there is one and \<open>old\<close>
  otherwise, and that is what the row holds afterwards. Other rows stay, and so does this one if the token
  is not rotated.
\<close>

definition refreshed_from ::
  "('n, 'y) auth_services_scheme \<Rightarrow> broker_keys \<Rightarrow> string \<Rightarrow> token_table \<Rightarrow> token_table \<Rightarrow>
     cached_token \<Rightarrow> bool" where
  "refreshed_from sv keys subject t t' ct \<longleftrightarrow>
     (\<exists>old resp n. row_opens sv (bk_public keys) (bk_secret keys) t subject old \<and>
        fst (token_endpoint sv old n) = Inr resp \<and> ct_access_token ct = tr_access_token resp \<and>
        ct_refresh_token ct = unwrap_or old (tr_refresh_token resp) \<and>
        row_opens sv (bk_public keys) (bk_secret keys) t' subject (ct_refresh_token ct) \<and>
        (tr_refresh_token resp = None \<longrightarrow> t' = t) \<and> (\<forall>s. s \<noteq> subject \<longrightarrow> t' s = t s))"

lemma write_others:
  "write_token_to_database sv token pk w = (Inr (), w') \<Longrightarrow> s \<noteq> rt_subject token \<Longrightarrow>
     oidc_tokens w' s = oidc_tokens w s"
  by (auto dest!: write_run simp: upsert_get)

lemma store_refreshed_ok:
  assumes "sealed_box sv (bk_public keys) (bk_secret keys)"
    and "store_refreshed sv keys subject stored resp expires_at issuer w = (Inr token, w')"
    and "row_opens sv (bk_public keys) (bk_secret keys) (oidc_tokens w) subject
      (st_refresh_token_secret stored)"
  shows "\<exists>ct. token_cache w' subject = Some ct \<and> ct_access_token ct = token \<and>
    token = tr_access_token resp \<and>
    ct_refresh_token ct = unwrap_or (st_refresh_token_secret stored) (tr_refresh_token resp) \<and>
    row_opens sv (bk_public keys) (bk_secret keys) (oidc_tokens w') subject (ct_refresh_token ct) \<and>
    (tr_refresh_token resp = None \<longrightarrow> oidc_tokens w' = oidc_tokens w) \<and>
    (\<forall>s. s \<noteq> subject \<longrightarrow> oidc_tokens w' s = oidc_tokens w s)"
proof (cases "tr_refresh_token resp")
  case None
  then show ?thesis
    using assms(2,3) by (auto simp: store_refreshed_def Let_def ebind_eq_Inr insert_cached_token_def)
next
  case (Some rt)
  obtain now w1 w2 where now: "utc_now sv w = (Inr now :: auth_error + utc, w1)"
    and wr: "write_token_to_database sv (cached_token_info
      \<lparr>ct_access_token = '''', ct_expires_at = now, ct_refresh_token = rt, ct_issuer = issuer,
       ct_subject = subject\<rparr>) (bk_public keys) w1 = (Inr (), w2)"
    and w': "token = tr_access_token resp" "w' = w2\<lparr>token_cache := (token_cache w2)(subject \<mapsto>
      \<lparr>ct_access_token = tr_access_token resp, ct_expires_at = expires_at, ct_refresh_token = rt,
       ct_issuer = issuer, ct_subject = subject\<rparr>)\<rparr>"
    using assms(2) Some
    by (auto simp: store_refreshed_def Let_def ebind_eq_Inr insert_cached_token_def)
  have "oidc_tokens w1 = oidc_tokens w" using frameD [OF frame_outside(2) now] by simp
  then show ?thesis
    using Some w' write_opens [OF assms(1) wr] write_others [OF wr]
    by (simp add: cached_token_info_def)
qed

lemma refresh_locked_ok:
  assumes "sealed_box sv (bk_public keys) (bk_secret keys)"
    and "refresh_locked sv keys subject w = (Inr token, w')"
  shows "\<exists>ct. token_cache w' subject = Some ct \<and> ct_access_token ct = token \<and>
    refreshed_from sv keys subject (oidc_tokens w) (oidc_tokens w') ct"
proof -
  obtain stored w1 resp w2 now w3 expires_at issuer where
    rd: "read_token_from_database sv subject None (bk_public keys) (bk_secret keys) w =
      (Inr stored, w1)"
    and ex: "exchange_refresh_token sv (st_refresh_token_secret stored) w1 = (Inr resp, w2)"
    and now: "utc_now sv w2 = (Inr now :: auth_error + utc, w3)"
    and st: "store_refreshed sv keys subject stored resp expires_at issuer w3 = (Inr token, w')"
    using assms(2) unfolding refresh_locked_def by (auto simp: ebind_eq_Inr)
  have t: "oidc_tokens w3 = oidc_tokens w"
    using frameD[OF frame_read(2) rd] frameD[OF frame_exchange(2) ex]
      frameD[OF frame_outside(2) now] by simp
  have answer: "fst (token_endpoint sv (st_refresh_token_secret stored) (net w1)) = Inr resp"
    using ex by (auto simp: exchange_refresh_token_def ebind_def outside_def map_err_eq_Inr
        split: prod.splits sum.splits)
  have row: "row_opens sv (bk_public keys) (bk_secret keys) (oidc_tokens w3) subject
      (st_refresh_token_secret stored)"
    using read_opens[OF rd] t by simp
  from store_refreshed_ok[OF assms(1) st row] row answer show ?thesis
    unfolding refreshed_from_def t by metis
qed

lemma fresh_cached_run:
  assumes "fresh_cached_token sv subject w = (r, w')"
  shows "oidc_tokens w' = oidc_tokens w"
    and "r = Inr (Some token) \<Longrightarrow>
      \<exists>ct. token_cache w' subject = Some ct \<and> token_cache w subject = Some ct \<and>
        ct_access_token ct = token \<and>
        (\<exists>n. fst (clock sv n) + seconds TOKEN_GRACE_PERIOD_SECS < ct_expires_at ct)"
  using assms
  by (auto simp: fresh_cached_token_def get_cached_token_def ebind_def outside_def Let_def
      now_plus_def utc_add_def restrict_map_def split: prod.splits option.splits sum.splits if_splits)
    (metis fst_conv)


section \<open>Who gets a token\<close>

text \<open>A subject in the cache was resolved for a pod with the key it is cached under.\<close>

definition pod_key_of :: "pod_identity \<Rightarrow> pod \<Rightarrow> string" where
  "pod_key_of identity pod = pi_namespace identity @ ''/'' @ pi_name identity @ ''/'' @
     unwrap_or '''' (pod_meta_uid pod)"

definition resolved_as ::
  "'n broker_services \<Rightarrow> pod_identity \<Rightarrow> pod \<Rightarrow> string \<Rightarrow> bool" where
  "resolved_as sv identity pod s \<longleftrightarrow>
     (\<exists>n. fst (get_pod sv (pi_namespace identity) (pi_name identity) n) = Inr pod) \<and>
     check_uid identity pod = Inr () \<and>
     (\<exists>w :: 'n broker_env. fst (broker_resolve_subject sv pod w) = Inr s)"

definition subject_cache_ok :: "'n broker_services \<Rightarrow> (string \<rightharpoonup> string) \<Rightarrow> bool" where
  "subject_cache_ok sv cache \<longleftrightarrow>
     (\<forall>k s. cache k = Some s \<longrightarrow>
        (\<exists>identity pod. k = pod_key_of identity pod \<and> resolved_as sv identity pod s))"

lemma frame_resolve: "frame auth_env.more (broker_resolve_subject sv pod)"
  unfolding broker_resolve_subject_def Let_def by (intro frame_intros)

lemma subject_cache_ok_upd:
  "subject_cache_ok sv c \<Longrightarrow> resolved_as sv identity pod s \<Longrightarrow>
     subject_cache_ok sv (c(pod_key_of identity pod \<mapsto> s))"
  unfolding subject_cache_ok_def by (metis fun_upd_apply option.inject)

lemma subject_for_run:
  fixes w w' :: "'n broker_env"
  assumes "subject_for sv (pod_key_of identity pod) pod w = (r, w')"
    and "subject_cache_ok sv (subject_cache w)"
    and "fst (get_pod sv (pi_namespace identity) (pi_name identity) n) = Inr pod"
    and "check_uid identity pod = Inr ()"
  shows "subject_cache_ok sv (subject_cache w')"
    and "r = Inr s \<Longrightarrow> \<exists>identity' pod'. pod_key_of identity' pod' = pod_key_of identity pod \<and>
      resolved_as sv identity' pod' s"
proof -
  obtain gone n1 where g: "evicted sv (net w) = (gone, n1)" by fastforce
  let ?c = "subject_cache w |` (- gone)"
  let ?w = "w\<lparr>net := n1, subject_cache := ?c\<rparr>"
  have c: "subject_cache_ok sv ?c"
    using assms(2) by (auto simp: subject_cache_ok_def restrict_map_def)
  have get: "get_cached_subject sv (pod_key_of identity pod) w =
      (Inr (?c (pod_key_of identity pod)) :: authz_error + string option, ?w)"
    using g by (simp add: get_cached_subject_def ebind_def outside_def Let_def)
  have "subject_cache_ok sv (subject_cache w') \<and> (\<forall>s. r = Inr s \<longrightarrow>
    (\<exists>identity' pod'. pod_key_of identity' pod' = pod_key_of identity pod \<and>
      resolved_as sv identity' pod' s))"
  proof (cases "?c (pod_key_of identity pod)")
    case (Some s)
    then have rs: "r = Inr s" "w' = ?w" using assms(1) get by (auto simp: subject_for_def ebind_def)
    then show ?thesis using c Some unfolding subject_cache_ok_def
      by (metis (no_types, lifting) broker_env.select_convs(1) broker_env.surjective
          broker_env.update_convs(1) sum.inject(2))
  next
    case None
    obtain rr w2 where res: "broker_resolve_subject sv pod ?w = (rr, w2)" by fastforce
    have w2: "subject_cache w2 = ?c"
      using frameD[OF frame_more_broker(2)[OF frame_resolve] res] by simp
    show ?thesis
    proof (cases rr)
      case (Inl e)
      then show ?thesis using assms(1) get None res w2 c by (auto simp: subject_for_def ebind_def)
    next
      case (Inr s)
      then have "resolved_as sv identity pod s"
        using assms(3,4) res unfolding resolved_as_def by (metis fst_conv)
      then show ?thesis
        using assms(1) get None res w2 c Inr
        by (auto simp: subject_for_def ebind_def set_cached_subject_def
            intro!: subject_cache_ok_upd)
    qed
  qed
  then show "subject_cache_ok sv (subject_cache w')"
    and "r = Inr s \<Longrightarrow> \<exists>identity' pod'. pod_key_of identity' pod' = pod_key_of identity pod \<and>
      resolved_as sv identity' pod' s" by blast+
qed

lemma identify_pod_run:
  assumes "identify_pod sv req w = (r, w')"
  shows "auth_env.more w' = auth_env.more w"
    and "r = Inr (identity, pod) \<Longrightarrow> \<exists>sa_token review n n'.
      extract_service_account_token sv req = Inr sa_token \<and>
      fst (create_token_review sv sa_token n) = Inr review \<and> pod_identity_new review = Inr identity \<and>
      fst (get_pod sv (pi_namespace identity) (pi_name identity) n') = Inr pod \<and>
      check_uid identity pod = Inr ()"
proof -
  have "frame auth_env.more (identify_pod sv req)"
    unfolding identify_pod_def by (intro frame_intros)
  from frameD[OF this assms] show "auth_env.more w' = auth_env.more w" .
  assume "r = Inr (identity, pod)"
  with assms show "\<exists>sa_token review n n'.
      extract_service_account_token sv req = Inr sa_token \<and>
      fst (create_token_review sv sa_token n) = Inr review \<and> pod_identity_new review = Inr identity \<and>
      fst (get_pod sv (pi_namespace identity) (pi_name identity) n') = Inr pod \<and>
      check_uid identity pod = Inr ()"
    by (auto simp: identify_pod_def ebind_eq_Inr dest!: outside_fst)
qed

lemma reviewed_authenticated:
  "pod_identity_new review = Inr identity \<Longrightarrow> Option.bind review review_authenticated = Some True"
  by (cases "Option.bind review review_authenticated")
    (auto simp: pod_identity_new_def split: if_splits)

lemma frame_get_or_refresh: "frame subject_cache (get_or_refresh_token sv keys subject)"
proof -
  have c: "frame subject_cache (fresh_cached_token sv subject)"
    by (auto simp: frame_def fresh_cached_token_def get_cached_token_def ebind_def outside_def
        Let_def now_plus_def split_beta split: option.split sum.split)
  have i: "frame subject_cache (insert_cached_token s t)" for s t
    by (simp add: frame_def insert_cached_token_def)
  have st: "frame subject_cache (store_refreshed sv keys subject a b d e)" for a b d e
    unfolding store_refreshed_def Let_def
    by (intro frame_ebind frame_if frame_ret i frame_more_broker(2) frame_outside frame_write)
  show ?thesis
    unfolding get_or_refresh_token_def refresh_locked_def
    by (intro frame_ebind frame_option frame_ret frame_lift_res c st frame_more_broker(2) frame_read
        frame_exchange frame_outside)
qed

lemma grant_token_run:
  fixes w w' :: "'n broker_env"
  assumes "grant_token sv keys identity pod w = (r, w')"
    and "subject_cache_ok sv (subject_cache w)"
    and "fst (get_pod sv (pi_namespace identity) (pi_name identity) n) = Inr pod"
    and "check_uid identity pod = Inr ()"
  shows "subject_cache_ok sv (subject_cache w') \<and>
    (\<forall>resp. r = Inr resp \<longrightarrow> (\<exists>identity' pod' subject token w1 w2.
       pod_key_of identity' pod' = pod_key_of identity pod \<and>
       resolved_as sv identity' pod' subject \<and>
       get_or_refresh_token sv keys subject (w1 :: 'n broker_env) = (Inr token, w2) \<and>
       resp_headers resp ''authorization'' = [''Bearer '' @ token]))"
proof -
  obtain sr w1 where s: "subject_for sv (pod_key_of identity pod) pod w = (sr, w1)" by fastforce
  note sub = subject_for_run[OF s assms(2-4)]
  show ?thesis
  proof (cases sr)
    case (Inl e)
    then show ?thesis using assms(1) s sub(1) by (auto simp: grant_token_def pod_key_of_def ebind_def)
  next
    case (Inr subject)
    obtain tr w2 where t: "get_or_refresh_token sv keys subject w1 = (tr, w2)" by fastforce
    have "subject_cache w' = subject_cache w1 \<and> (\<forall>resp. r = Inr resp \<longrightarrow>
        (\<exists>token. tr = Inr token \<and> resp_headers resp ''authorization'' = [''Bearer '' @ token]))"
      using assms(1) s Inr t frameD[OF frame_get_or_refresh t]
      by (cases tr) (auto simp: grant_token_def pod_key_of_def ebind_def emap_err_def Let_def
          status_response_def split: if_splits)
    then show ?thesis using sub(1) sub(2)[OF Inr] t by metis
  qed
qed

text \<open>
  C8. The broker gives a token only to a pod it can name: the presented service account token was
  authenticated by a token review that names the pod, the Kubernetes API returned that pod with
  the same UID, and the access token is the one of a subject resolved (now or earlier, from the
  labels of the pod and its workflow) for a pod with the same namespace, name and UID. Every
  other outcome is an answer 403 or 503 without any token.
\<close>

theorem authorize_confined:
  fixes w w' :: "'n broker_env"
  assumes "authorize_request_inner sv keys req w = (r, w')"
    and "subject_cache_ok sv (subject_cache w)"
  shows "subject_cache_ok sv (subject_cache w') \<and>
    (case r of
       Inl e \<Rightarrow> resp_status (authz_error_response e) \<in> {403, 503} \<and>
         resp_headers (authz_error_response e) ''authorization'' = []
     | Inr resp \<Rightarrow>
         \<exists>sa_token review identity identity' pod pod' subject token n w1 w2.
           extract_service_account_token sv req = Inr sa_token \<and>
           fst (create_token_review sv sa_token n) = Inr review \<and>
           Option.bind review review_authenticated = Some True \<and>
           pod_identity_new review = Inr identity \<and> check_uid identity pod = Inr () \<and>
           pod_key_of identity' pod' = pod_key_of identity pod \<and>
           resolved_as sv identity' pod' subject \<and>
           get_or_refresh_token sv keys subject (w1 :: 'n broker_env) = (Inr token, w2) \<and>
           resp_headers resp ''authorization'' = [''Bearer '' @ token])"
proof -
  obtain i w1 where i: "identify_pod sv req w = (i, w1)" by fastforce
  have w1: "subject_cache w1 = subject_cache w"
    using more_broker(2)[OF identify_pod_run(1)[OF i]] .
  show ?thesis
  proof (cases i)
    case (Inl e)
    then show ?thesis
      using assms i w1
      by (auto simp: authorize_request_inner_def ebind_def authz_error_response_def
          authz_status_code_def status_response_def split: authz_error.splits)
  next
    case (Inr ip)
    obtain identity pod where ip: "ip = (identity, pod)" by fastforce
    have g: "grant_token sv keys identity pod w1 = (r, w')"
      using assms(1) i Inr ip by (simp add: authorize_request_inner_def ebind_def)
    obtain sa review n n' where id: "extract_service_account_token sv req = Inr sa"
      "fst (create_token_review sv sa n) = Inr review" "pod_identity_new review = Inr identity"
      "fst (get_pod sv (pi_namespace identity) (pi_name identity) n') = Inr pod"
      "check_uid identity pod = Inr ()"
      using identify_pod_run(2)[OF i] Inr ip by blast
    show ?thesis
      using grant_token_run[OF g _ id(4,5)] assms(2) w1 id reviewed_authenticated[OF id(3)]
      by (cases r) (auto simp: authz_error_response_def authz_status_code_def status_response_def
          split: authz_error.splits, metis)
  qed
qed

section \<open>When the services answer\<close>

lemma fresh_miss:
  "token_cache w subject = None \<Longrightarrow> \<exists>w'. fresh_cached_token sv subject w = (Inr None, w') \<and>
     oidc_tokens w' = oidc_tokens w \<and> token_cache w' subject = None"
  by (auto simp: fresh_cached_token_def get_cached_token_def ebind_def outside_def Let_def
      restrict_map_def split: prod.split)

lemma store_refreshed_up:
  assumes "auth_up sv"
  shows "\<exists>w'. store_refreshed sv keys subject stored resp expires_at issuer w =
      (Inr (tr_access_token resp), w') \<and>
    token_cache w' subject = Some \<lparr>ct_access_token = tr_access_token resp, ct_expires_at = expires_at,
      ct_refresh_token = unwrap_or (st_refresh_token_secret stored) (tr_refresh_token resp),
      ct_issuer = issuer, ct_subject = subject\<rparr>"
proof (cases "tr_refresh_token resp")
  case None
  then show ?thesis by (simp add: store_refreshed_def Let_def ebind_def insert_cached_token_def)
next
  case (Some rt)
  obtain a w1 where 1: "utc_now sv w = (Inr a :: auth_error + utc, w1)" using outside_run by blast
  obtain w2 where 2: "write_token_to_database sv (cached_token_info
     \<lparr>ct_access_token = '''', ct_expires_at = a, ct_refresh_token = rt, ct_issuer = issuer,
      ct_subject = subject\<rparr>) (bk_public keys) w1 = (Inr (), w2)"
    using write_up [OF assms] by blast
  show ?thesis
    using Some 1 2 by (simp add: store_refreshed_def Let_def ebind_def insert_cached_token_def)
qed

text \<open>The provider answers to a refresh token, with an access token of at most a month.\<close>

definition provider_up :: "('n, 'y) auth_services_scheme \<Rightarrow> string \<Rightarrow> bool" where
  "provider_up sv rt \<longleftrightarrow> (\<forall>n. \<exists>resp. fst (token_endpoint sv rt n) = Inr resp \<and>
     seconds (unwrap_or DEFAULT_TOKEN_EXPIRY_SECS (tr_expires_in resp)) \<le> days 30)"

lemma refresh_locked_up:
  assumes "auth_up sv" and "provider_up sv rt"
    and "oidc_tokens w subject = Some row" and "\<And>iss. broker_issuer_url_ok sv iss"
    and "open_sealed sv (row_encrypted_refresh_token row) (bk_public keys) (bk_secret keys) =
      Some (as_bytes rt)"
    and "\<And>dt n. row_expires_at row = Some dt \<Longrightarrow> fst (clock sv n) \<le> dt"
  shows "\<exists>n resp w' ct. fst (token_endpoint sv rt n) = Inr resp \<and>
    refresh_locked sv keys subject w = (Inr (tr_access_token resp), w') \<and>
    token_cache w' subject = Some ct \<and> ct_access_token ct = tr_access_token resp \<and>
    ct_refresh_token ct = unwrap_or rt (tr_refresh_token resp)"
proof -
  obtain n where n: "db_fault sv (net w) = (None, n)"
    using assms(1) by (metis auth_up_def prod.collapse)
  obtain w1 where 1: "read_token_from_database sv subject None (bk_public keys) (bk_secret keys) w =
      (Inr \<lparr>st_issuer = row_issuer row, st_subject = row_subject row, st_refresh_token_secret = rt\<rparr>, w1)"
    using read_ok [OF assms(3) _ assms(5) n surjective_pairing] assms(6) by blast
  obtain resp where resp: "fst (token_endpoint sv rt (net w1)) = Inr resp"
    and d: "seconds (unwrap_or DEFAULT_TOKEN_EXPIRY_SECS (tr_expires_in resp)) \<le> days 30"
    using assms(2) by (auto simp: provider_up_def)
  obtain w2 where 2: "exchange_refresh_token sv rt w1 = (Inr resp, w2)"
    using resp by (cases "token_endpoint sv rt (net w1)")
      (auto simp: exchange_refresh_token_def ebind_def outside_def)
  obtain now n' where c: "clock sv (net w2) = (now, n')" by fastforce
  have "duration_from_std (seconds (unwrap_or DEFAULT_TOKEN_EXPIRY_SECS (tr_expires_in resp))) =
      Inr (seconds (unwrap_or DEFAULT_TOKEN_EXPIRY_SECS (tr_expires_in resp)))"
    using d by (simp add: duration_from_std_def days_def seconds_def)
  then have run: "refresh_locked sv keys subject w = store_refreshed sv keys subject
      \<lparr>st_issuer = row_issuer row, st_subject = row_subject row, st_refresh_token_secret = rt\<rparr> resp
      (now + seconds (unwrap_or DEFAULT_TOKEN_EXPIRY_SECS (tr_expires_in resp))) (row_issuer row)
      (w2\<lparr>net := n'\<rparr>)"
    using 1 2 c auth_up_add [OF assms(1) d, of "net w2"] assms(4)
    by (simp add: refresh_locked_def ebind_def outside_def)
  show ?thesis
    unfolding run using resp store_refreshed_up [OF assms(1)] by fastforce
qed

lemma get_or_refresh_up:
  assumes "auth_up sv" and "provider_up sv rt" and "token_cache w subject = None"
    and "oidc_tokens w subject = Some row" and "\<And>iss. broker_issuer_url_ok sv iss"
    and "open_sealed sv (row_encrypted_refresh_token row) (bk_public keys) (bk_secret keys) =
      Some (as_bytes rt)"
    and "\<And>dt n. row_expires_at row = Some dt \<Longrightarrow> fst (clock sv n) \<le> dt"
  shows "\<exists>n resp w' ct. fst (token_endpoint sv rt n) = Inr resp \<and>
    get_or_refresh_token sv keys subject w = (Inr (tr_access_token resp), w') \<and>
    token_cache w' subject = Some ct \<and> ct_access_token ct = tr_access_token resp \<and>
    ct_refresh_token ct = unwrap_or rt (tr_refresh_token resp)"
proof -
  obtain w1 where 1: "fresh_cached_token sv subject w = (Inr None, w1)"
      "oidc_tokens w1 = oidc_tokens w" "token_cache w1 subject = None"
    using fresh_miss [OF assms(3)] by blast
  obtain w2 where 2: "fresh_cached_token sv subject w1 = (Inr None, w2)"
      "oidc_tokens w2 = oidc_tokens w" "token_cache w2 subject = None"
    using fresh_miss [OF 1(3)] 1(2) by metis
  have "get_or_refresh_token sv keys subject w = refresh_locked sv keys subject w2"
    using 1(1) 2(1) by (simp add: get_or_refresh_token_def ebind_def)
  with refresh_locked_up [OF assms(1,2) _ assms(5,6,7), of w2 subject] assms(4) 2(2)
  show ?thesis by simp
qed

text \<open>A pod whose workflow names its creator gets the creator's token.\<close>

lemma resolve_up:
  assumes "label_in ''workflows.argoproj.io/workflow'' (pod_meta_labels pod) = Some wname"
    and "\<And>n. fst (get_workflow_labels sv (unwrap_or ''default'' (pod_meta_namespace pod)) wname n) = Inr labels"
    and "label_in ''workflows.argoproj.io/creator'' labels = Some subject"
  shows "\<exists>n. broker_resolve_subject sv pod w = (Inr subject, w\<lparr>net := n\<rparr>)"
  using assms assms(2) [of "net w"]
  by (cases "get_workflow_labels sv (unwrap_or ''default'' (pod_meta_namespace pod)) wname (net w)")
    (auto simp: broker_resolve_subject_def ebind_def outside_def Let_def)

lemma subject_for_up:
  assumes "subject_cache w pod_key = None"
    and "label_in ''workflows.argoproj.io/workflow'' (pod_meta_labels pod) = Some wname"
    and "\<And>n. fst (get_workflow_labels sv (unwrap_or ''default'' (pod_meta_namespace pod)) wname n) = Inr labels"
    and "label_in ''workflows.argoproj.io/creator'' labels = Some subject"
  shows "\<exists>w'. subject_for sv pod_key pod w = (Inr subject, w') \<and> oidc_tokens w' = oidc_tokens w \<and>
    token_cache w' = token_cache w"
proof -
  obtain w1 where 1: "get_cached_subject sv pod_key w = (Inr None :: authz_error + string option, w1)"
      "oidc_tokens w1 = oidc_tokens w" "token_cache w1 = token_cache w"
    using assms(1) by (cases "evicted sv (net w)")
      (auto simp: get_cached_subject_def ebind_def outside_def Let_def restrict_map_def)
  obtain n where "broker_resolve_subject sv pod w1 = (Inr subject, w1\<lparr>net := n\<rparr>)"
    using resolve_up [OF assms(2-4)] by blast
  with 1 show ?thesis by (simp add: subject_for_def ebind_def set_cached_subject_def)
qed

lemma grant_up:
  assumes "auth_up sv" and "provider_up sv rt"
    and "subject_cache w (pod_key_of identity pod) = None" and "token_cache w subject = None"
    and "label_in ''workflows.argoproj.io/workflow'' (pod_meta_labels pod) = Some wname"
    and "\<And>n. fst (get_workflow_labels sv (unwrap_or ''default'' (pod_meta_namespace pod)) wname n) = Inr labels"
    and "label_in ''workflows.argoproj.io/creator'' labels = Some subject"
    and "oidc_tokens w subject = Some row" and "\<And>iss. broker_issuer_url_ok sv iss"
    and "open_sealed sv (row_encrypted_refresh_token row) (bk_public keys) (bk_secret keys) =
      Some (as_bytes rt)"
    and "\<And>dt n. row_expires_at row = Some dt \<Longrightarrow> fst (clock sv n) \<le> dt"
    and "\<And>v. broker_header_value_ok sv v"
  shows "\<exists>n resp answer w' ct. fst (token_endpoint sv rt n) = Inr resp \<and>
    grant_token sv keys identity pod w = (Inr answer, w') \<and> resp_status answer = 200 \<and>
    resp_headers answer ''authorization'' = [''Bearer '' @ tr_access_token resp] \<and>
    token_cache w' subject = Some ct \<and> ct_access_token ct = tr_access_token resp \<and>
    ct_refresh_token ct = unwrap_or rt (tr_refresh_token resp)"
proof -
  obtain w1 where 1: "subject_for sv (pod_key_of identity pod) pod w = (Inr subject, w1)"
      "oidc_tokens w1 = oidc_tokens w" "token_cache w1 = token_cache w"
    using subject_for_up [OF assms(3,5,6,7)] by blast
  obtain n resp w2 ct where 2: "fst (token_endpoint sv rt n) = Inr resp"
      "get_or_refresh_token sv keys subject w1 = (Inr (tr_access_token resp), w2)"
      "token_cache w2 subject = Some ct" "ct_access_token ct = tr_access_token resp"
      "ct_refresh_token ct = unwrap_or rt (tr_refresh_token resp)"
    using get_or_refresh_up [OF assms(1,2) _ _ assms(9,10,11), of w1 subject] assms(4,8) 1(2,3)
    by auto
  show ?thesis
    using 1(1) 2 assms(12)
    by (intro exI [of _ n] exI [of _ resp] exI [of _ ct])
      (auto simp: grant_token_def pod_key_of_def ebind_def emap_err_def Let_def status_response_def)
qed

section \<open>A broker against a simulated cluster and provider\<close>

definition demo_review :: token_review where
  "demo_review = Some \<lparr>review_authenticated = Some True, review_user = Some
     \<lparr>user_username = Some ''system:serviceaccount:ns1:argo-workflow'',
      user_extra = Some [''authentication.kubernetes.io/pod-name'' \<mapsto> [''pod1''],
        ''authentication.kubernetes.io/pod-uid'' \<mapsto> [''u1'']]\<rparr>\<rparr>"

definition demo_pod :: pod where
  "demo_pod = \<lparr>pod_meta_namespace = Some ''ns1'', pod_meta_name = Some ''pod1'',
     pod_meta_uid = Some ''u1'',
     pod_meta_labels = Some [''workflows.argoproj.io/workflow'' \<mapsto> ''wf1'']\<rparr>"

definition demo_broker :: "int broker_services" where
  "demo_broker =
     \<lparr>clock = clock demo_auth, db_fault = db_fault demo_auth, seal = seal demo_auth,
      open_sealed = open_sealed demo_auth, token_endpoint = token_endpoint demo_auth,
      broker_header_value_ok = (\<lambda>_. True), broker_to_str_ok = (\<lambda>_. True),
      create_token_review = (\<lambda>_ n. (Inr demo_review, n)),
      get_pod = (\<lambda>_ _ n. (Inr demo_pod, n)),
      get_workflow_labels = (\<lambda>_ _ n. (Inr (Some [''workflows.argoproj.io/creator'' \<mapsto> ''sub'']), n)),
      evicted = (\<lambda>n. ({}, n)), broker_issuer_url_ok = (\<lambda>_. True), debug_error = (\<lambda>_. ''error'')\<rparr>"

definition demo_keys :: broker_keys where
  "demo_keys = \<lparr>bk_public = [7], bk_secret = [8]\<rparr>"

abbreviation demo_broker_env :: "int broker_env" where
  "demo_broker_env \<equiv> \<lparr>net = 5, oidc_tokens = [''sub'' \<mapsto> demo_row],
     subject_cache = Map.empty, token_cache = Map.empty\<rparr>"

definition demo_pod_request :: http_request where
  "demo_pod_request = \<lparr>req_method = ''GET'', req_uri = ''/'',
     req_headers = (\<lambda>_. [])(''k8s-pod-service-account-token'' := [''sa'']), req_body = Inr ''''\<rparr>"

lemma demo_drop [simp]: "drop (Suc 0) (7 # as_bytes s) = as_bytes s"
  by simp

lemma demo_refresh:
  "\<exists>w'. get_or_refresh_token demo_broker demo_keys ''sub'' demo_broker_env = (Inr ''at2'', w')"
  by (simp add: get_or_refresh_token_def fresh_cached_token_def get_cached_token_def ebind_def
      outside_def demo_broker_def demo_auth_def demo_keys_def refresh_locked_def
      read_token_from_database_def db_exec_def find_row_def check_expiry_def days_def seconds_def
      exchange_refresh_token_def duration_from_std_def utc_add_def max_utc_def
      DEFAULT_TOKEN_EXPIRY_SECS_def store_refreshed_def write_token_to_database_def now_plus_def
      insert_cached_token_def Let_def)


theorem authorize_confined_witness:
  "\<exists>resp. fst (authorize_request_inner demo_broker demo_keys demo_pod_request demo_broker_env) =
     Inr resp \<and> (\<exists>token. resp_headers resp ''authorization'' = [''Bearer '' @ token])"
proof -
  obtain r w' where run: "authorize_request_inner demo_broker demo_keys demo_pod_request
      demo_broker_env = (r, w')" by fastforce
  have "\<exists>resp. r = Inr resp"
    using run
    by (auto simp: authorize_request_inner_def identify_pod_def ebind_def outside_def
      extract_service_account_token_def demo_pod_request_def demo_broker_def demo_review_def
      pod_identity_new_def extra_value_def check_uid_def demo_pod_def grant_token_def subject_for_def
      get_cached_subject_def broker_resolve_subject_def label_in_def set_cached_subject_def
      get_or_refresh_token_def fresh_cached_token_def get_cached_token_def emap_err_def
      demo_auth_def demo_keys_def refresh_locked_def
      read_token_from_database_def db_exec_def find_row_def check_expiry_def days_def seconds_def
      exchange_refresh_token_def duration_from_std_def utc_add_def max_utc_def
      DEFAULT_TOKEN_EXPIRY_SECS_def store_refreshed_def write_token_to_database_def now_plus_def
      insert_cached_token_def Let_def)
  then obtain resp where resp: "r = Inr resp" by blast
  have "subject_cache_ok demo_broker (subject_cache demo_broker_env)"
    by (simp add: subject_cache_ok_def)
  from authorize_confined [OF run this] show ?thesis
    unfolding run resp by auto
qed

end
