(* ===== verification/Auth_Startup.thy ===== *)
theory Auth_Startup
  imports Gateway Daemon Broker
begin

text \<open>
  How the three authentication services start: \<^verbatim>\<open>config.rs\<close>, the client and key helpers of
  \<^verbatim>\<open>oidc.rs\<close>, \<^verbatim>\<open>bin/keygen.rs\<close> and the migration of \<^verbatim>\<open>auth-core\<close>, \<^verbatim>\<open>AppState::new\<close> of the
  gateway, \<^verbatim>\<open>RouterState::new\<close> of the daemon, \<^verbatim>\<open>AuthBrokerState::new\<close> and \<^verbatim>\<open>k8s.rs\<close> of the
  broker. Files, JSON and YAML, base64, regular expressions, the identity provider, the database
  and the Kubernetes client are services.
\<close>

section \<open>Configuration\<close>

record common_config =
  cc_client_id :: string
  cc_client_secret :: string
  cc_oidc_provider_url :: string
  cc_port :: "16 word"
  cc_postgres_user :: string
  cc_postgres_password :: string
  cc_postgres_database :: string
  cc_postgres_hostname :: string
  cc_postgres_port :: "16 word"
  cc_encryption_public_key :: string
  cc_cors_allow :: "string list option"

record gateway_config =
  gc_common :: common_config
  gc_callback_url :: string
  gc_callback_default_return_to_url :: string
  gc_cors_allow :: "string list option"
  gc_session_secure :: "bool option"
  gc_cookie_same_site :: "string option"

record daemon_file_config =
  df_common :: common_config
  df_graph_url :: string
  df_encryption_private_key :: string

record broker_config =
  bc_common :: common_config
  bc_encryption_private_key :: string
  bc_token_review_audience :: string

definition default_token_review_audience :: string where
  "default_token_review_audience = ''workflows-auth-broker''"

text \<open>A file is read as JSON when its extension says so, else as YAML.\<close>

definition load_config_from_file ::
  "(string \<Rightarrow> string + string) \<Rightarrow> (string \<Rightarrow> string + 'c) \<Rightarrow> (string \<Rightarrow> string + 'c) \<Rightarrow> string \<Rightarrow>
     auth_error + 'c" where
  "load_config_from_file read_to_string json yaml path =
     rbind (map_err Failed (read_to_string path)) (\<lambda>content.
     if path_extension path = Some ''json'' then map_err Failed (json content)
     else map_err Failed (yaml content))"

section \<open>Clients and keys\<close>

text \<open>
  \<open>su_build\<close> builds an HTTP client that follows redirects or not; \<open>su_public\<close> and \<open>su_secret\<close> are
  the checked constructors of keys from bytes.
\<close>

record 'n startup_services =
  su_build :: "bool \<Rightarrow> string + unit"
  su_issuer_url :: "string \<Rightarrow> string + string"
  su_discover :: "string \<Rightarrow> 'n \<Rightarrow> (string + string) \<times> 'n"
  su_connect :: "string \<Rightarrow> 'n \<Rightarrow> (string + unit) \<times> 'n"
  su_kube :: "'n \<Rightarrow> (string + unit) \<times> 'n"
  su_migrate :: "'n \<Rightarrow> (string + unit) \<times> 'n"
  su_base64 :: "string \<Rightarrow> string + u8 list"
  su_public :: "u8 list \<Rightarrow> key option"
  su_secret :: "u8 list \<Rightarrow> key option"
  su_regex :: "string \<Rightarrow> string + (string \<Rightarrow> bool)"

record http_client =
  hc_follows_redirects :: bool

record oidc_client =
  oc_metadata :: string
  oc_client_id :: string
  oc_client_secret :: "string option"

definition database_url :: "common_config \<Rightarrow> string" where
  "database_url config =
     ''postgres://'' @ cc_postgres_user config @ '':'' @ cc_postgres_password config @ ''@'' @
     cc_postgres_hostname config @ '':'' @ show_nat (unat (cc_postgres_port config)) @ ''/'' @
     cc_postgres_database config"

definition create_db_connection ::
  "'n startup_services \<Rightarrow> common_config \<Rightarrow> (('n, 'z) auth_env_scheme, auth_error, unit) eff" where
  "create_db_connection su config =
     ebind (outside (su_connect su (database_url config))) (\<lambda>r. lift_res (map_err DbError r))"

definition create_oidc_client ::
  "'n startup_services \<Rightarrow> common_config \<Rightarrow>
     (('n, 'z) auth_env_scheme, auth_error, oidc_client \<times> http_client) eff" where
  "create_oidc_client su config =
     ebind (lift_res (map_err Failed (su_build su False))) (\<lambda>_.
     ebind (lift_res (map_err Failed (su_issuer_url su (cc_oidc_provider_url config)))) (\<lambda>issuer.
     ebind (outside (su_discover su issuer)) (\<lambda>r.
     ebind (lift_res (map_err OidcError r)) (\<lambda>provider_metadata.
     ret (\<lparr>oc_metadata = provider_metadata, oc_client_id = cc_client_id config,
            oc_client_secret =
              (if cc_client_secret config = [] then None else Some (cc_client_secret config))\<rparr>,
          \<lparr>hc_follows_redirects = False\<rparr>)))))"

definition decode_public_key :: "'n startup_services \<Rightarrow> string \<Rightarrow> auth_error + key" where
  "decode_public_key su base64_key =
     rbind (map_err Failed (su_base64 su base64_key)) (\<lambda>b.
     ok_or (Failed ''Invalid public key'') (su_public su b))"

definition decode_secret_key :: "'n startup_services \<Rightarrow> string \<Rightarrow> auth_error + key" where
  "decode_secret_key su base64_key =
     rbind (map_err Failed (su_base64 su base64_key)) (\<lambda>b.
     ok_or (Failed ''Invalid secret key'') (su_secret su b))"

text \<open>What \<^verbatim>\<open>keygen\<close> prints, and its exit code; \<open>init\<close> is whether libsodium could be set up.\<close>

definition keygen :: "bool \<Rightarrow> (u8 list \<Rightarrow> string) \<Rightarrow> u8 list \<times> u8 list \<Rightarrow> string list \<times> nat" where
  "keygen init encode pair =
     (if \<not> init then ([], 1)
      else case pair of (public_key, secret_key) \<Rightarrow>
        ([''Public Key:'', encode public_key, [], ''Private Key:'', encode secret_key], 0))"

text \<open>The gateway has a copy of the program.\<close>

definition gateway_keygen :: "bool \<Rightarrow> (u8 list \<Rightarrow> string) \<Rightarrow> u8 list \<times> u8 list \<Rightarrow> string list \<times> nat" where
  "gateway_keygen init encode pair = keygen init encode pair"

section \<open>The table\<close>

datatype column_type = TextColumn | BinaryColumn | TimestampColumn

record column =
  co_name :: string
  co_type :: column_type
  co_not_null :: bool
  co_default_now :: bool

record table_schema =
  tb_name :: string
  tb_if_not_exists :: bool
  tb_columns :: "column list"
  tb_primary_key :: "string list"

definition migration_up :: table_schema where
  "migration_up =
     \<lparr>tb_name = ''oidc_tokens'', tb_if_not_exists = True,
      tb_columns =
        [\<lparr>co_name = ''issuer'', co_type = TextColumn, co_not_null = True, co_default_now = False\<rparr>,
         \<lparr>co_name = ''subject'', co_type = TextColumn, co_not_null = True, co_default_now = False\<rparr>,
         \<lparr>co_name = ''encrypted_refresh_token'', co_type = BinaryColumn, co_not_null = True, co_default_now = False\<rparr>,
         \<lparr>co_name = ''expires_at'', co_type = TimestampColumn, co_not_null = False, co_default_now = False\<rparr>,
         \<lparr>co_name = ''created_at'', co_type = TimestampColumn, co_not_null = True, co_default_now = True\<rparr>,
         \<lparr>co_name = ''updated_at'', co_type = TimestampColumn, co_not_null = True, co_default_now = True\<rparr>],
      tb_primary_key = [''subject'']\<rparr>"

text \<open>\<^verbatim>\<open>Migrator::migrations\<close>, oldest first.\<close>

definition migrations :: "table_schema list" where
  "migrations = [migration_up]"

text \<open>The name of the table that \<^verbatim>\<open>down\<close> drops.\<close>

definition migration_down :: string where
  "migration_down = ''oidc_tokens''"

section \<open>The services\<close>

text \<open>\<^verbatim>\<open>AppState::new\<close>; a regular expression that does not compile is a panic.\<close>

definition gateway_new ::
  "'n startup_services \<Rightarrow> gateway_config \<Rightarrow>
     (('n, 'z) auth_env_scheme, auth_error, app_state \<times> oidc_client \<times> http_client) eff" where
  "gateway_new su config =
     ebind (create_oidc_client su (gc_common config)) (\<lambda>(oidc_client, http_client).
     ebind (create_db_connection su (gc_common config)) (\<lambda>_.
     ebind (lift_res (decode_public_key su (cc_encryption_public_key (gc_common config)))) (\<lambda>public_key.
     ebind (lift_res (case gc_cors_allow config of
              None \<Rightarrow> Inr None
            | Some v \<Rightarrow> rbind (map_err (\<lambda>_. Panicked ''Invalid regex in config'') (try_map (su_regex su) v))
                         (\<lambda>rs. Inr (Some rs)))) (\<lambda>cors_allow.
     ret (\<lparr>app_public_key = public_key, app_callback_url = gc_callback_url config,
            app_callback_default_return_to_url = gc_callback_default_return_to_url config,
            app_cors_allow = cors_allow,
            app_session_secure = unwrap_or True (gc_session_secure config)\<rparr>, oidc_client, http_client)))))"

text \<open>\<^verbatim>\<open>RouterState::new\<close> and \<^verbatim>\<open>with_database\<close>, whose second half is \<open>daemon_start\<close>.\<close>

definition daemon_with_database ::
  "'n startup_services \<Rightarrow> ('n, 'y) daemon_services_scheme \<Rightarrow> daemon_file_config \<Rightarrow> string \<Rightarrow>
     ('n, 'z, key \<times> oidc_client \<times> http_client) daemon_eff" where
  "daemon_with_database su sv config subject =
     ebind (create_oidc_client su (df_common config)) (\<lambda>(oidc_client, http_client).
     ebind (lift_res (decode_public_key su (cc_encryption_public_key (df_common config)))) (\<lambda>public_key.
     ebind (lift_res (decode_secret_key su (df_encryption_private_key config))) (\<lambda>private_key.
     ebind (daemon_start sv \<lparr>dc_public_key = Some public_key, dc_secret_key = Some private_key\<rparr> subject)
       (\<lambda>k. ret (k, oidc_client, http_client)))))"

definition daemon_new ::
  "'n startup_services \<Rightarrow> ('n, 'y) daemon_services_scheme \<Rightarrow> daemon_file_config \<Rightarrow> string \<Rightarrow>
     ('n, 'z, key \<times> oidc_client \<times> http_client) daemon_eff" where
  "daemon_new su sv config subject =
     ebind (create_db_connection su (df_common config)) (\<lambda>_. daemon_with_database su sv config subject)"

text \<open>
  The broker starts with empty caches; \<^verbatim>\<open>RealK8sApi\<close> keeps the audience of its token reviews. The
  cleanup task that is spawned here is \<open>cleanup_step\<close> of \<open>Broker_Locks\<close>; the lifetimes and capacities
  of the caches are the evictions of the broker's services.
\<close>

record real_k8s_api =
  rk_audience :: string

definition broker_with_k8s_and_db ::
  "'n startup_services \<Rightarrow> broker_config \<Rightarrow> real_k8s_api \<Rightarrow>
     ('n, 'z, auth_error, broker_keys \<times> real_k8s_api \<times> oidc_client \<times> http_client) broker_eff" where
  "broker_with_k8s_and_db su config k8s =
     ebind (create_oidc_client su (bc_common config)) (\<lambda>(oidc_client, http_client).
     ebind (lift_res (decode_public_key su (cc_encryption_public_key (bc_common config)))) (\<lambda>public_key.
     ebind (lift_res (decode_secret_key su (bc_encryption_private_key config))) (\<lambda>secret_key.
     (\<lambda>w. (Inr (\<lparr>bk_public = public_key, bk_secret = secret_key\<rparr>, k8s, oidc_client, http_client),
           w\<lparr>subject_cache := Map.empty, token_cache := Map.empty\<rparr>)))))"

definition broker_new ::
  "'n startup_services \<Rightarrow> broker_config \<Rightarrow>
     ('n, 'z, auth_error, broker_keys \<times> real_k8s_api \<times> oidc_client \<times> http_client) broker_eff" where
  "broker_new su config =
     ebind (create_db_connection su (bc_common config)) (\<lambda>_.
     ebind (outside (su_kube su)) (\<lambda>r.
     ebind (lift_res (map_err Failed r)) (\<lambda>_.
     broker_with_k8s_and_db su config \<lparr>rk_audience = bc_token_review_audience config\<rparr>)))"

text \<open>
  What the broker asks of the Kubernetes API: to create a token review of its status, to get a
  pod, or to get an object of a kind by its plural.
\<close>

record token_review_spec =
  rs_audiences :: "string list option"
  rs_token :: "string option"

record group_version_kind =
  gvk_group :: string
  gvk_version :: string
  gvk_kind :: string

record 'n kube_api =
  kc_create_review :: "token_review_spec \<Rightarrow> 'n \<Rightarrow> (string + token_review) \<times> 'n"
  kc_get_pod :: "string \<Rightarrow> string \<Rightarrow> 'n \<Rightarrow> (string + pod) \<times> 'n"
  kc_get_dynamic :: "group_version_kind \<Rightarrow> string \<Rightarrow> string \<Rightarrow> string \<Rightarrow> 'n \<Rightarrow>
    (string + (string \<rightharpoonup> string) option) \<times> 'n"

definition real_create_token_review ::
  "'n kube_api \<Rightarrow> real_k8s_api \<Rightarrow> string \<Rightarrow> 'n \<Rightarrow> (string + token_review) \<times> 'n" where
  "real_create_token_review client self token =
     kc_create_review client \<lparr>rs_audiences = Some [rk_audience self], rs_token = Some token\<rparr>"

definition real_get_pod :: "'n kube_api \<Rightarrow> string \<Rightarrow> string \<Rightarrow> 'n \<Rightarrow> (string + pod) \<times> 'n" where
  "real_get_pod client namespace name = kc_get_pod client namespace name"

definition real_get_workflow ::
  "'n kube_api \<Rightarrow> string \<Rightarrow> string \<Rightarrow> 'n \<Rightarrow> (string + (string \<rightharpoonup> string) option) \<times> 'n" where
  "real_get_workflow client namespace name =
     kc_get_dynamic client \<lparr>gvk_group = ''argoproj.io'', gvk_version = ''v1alpha1'', gvk_kind = ''Workflow''\<rparr>
       ''workflows'' namespace name"

text \<open>The services of the broker with the real Kubernetes API behind the trait \<^verbatim>\<open>K8sApi\<close>.\<close>

definition with_real_k8s ::
  "'n kube_api \<Rightarrow> real_k8s_api \<Rightarrow> 'n broker_services \<Rightarrow> 'n broker_services" where
  "with_real_k8s client self sv =
     sv\<lparr>create_token_review := real_create_token_review client self,
        get_pod := real_get_pod client, get_workflow_labels := real_get_workflow client\<rparr>"

section \<open>Lemmas\<close>

text \<open>The identity provider's client never follows redirects, and an empty secret is none.\<close>

lemma create_oidc_client_ok:
  "create_oidc_client su config w = (Inr (oc, hc), w') \<Longrightarrow>
     hc = \<lparr>hc_follows_redirects = False\<rparr> \<and> su_build su False = Inr () \<and>
     oc_client_id oc = cc_client_id config \<and> oc_client_secret oc \<noteq> Some [] \<and>
     (cc_client_secret config \<noteq> [] \<longrightarrow> oc_client_secret oc = Some (cc_client_secret config))"
  by (auto simp: create_oidc_client_def eff_elims map_err_eq_Inr split: if_splits)

lemma gateway_new_key:
  "gateway_new su config w = (Inr (st, oc, hc), w') \<Longrightarrow>
     decode_public_key su (cc_encryption_public_key (gc_common config)) = Inr (app_public_key st)"
  by (auto simp: gateway_new_def eff_elims)

lemma gateway_new_secure:
  "gateway_new su config w = (Inr (st, oc, hc), w') \<Longrightarrow> gc_session_secure config = None \<Longrightarrow> app_session_secure st"
  by (auto simp: gateway_new_def eff_elims)

lemma broker_new_keys:
  "broker_new su config w = (Inr (keys, k8s, oc, hc), w') \<Longrightarrow>
     decode_public_key su (cc_encryption_public_key (bc_common config)) = Inr (bk_public keys) \<and>
     decode_secret_key su (bc_encryption_private_key config) = Inr (bk_secret keys) \<and>
     rk_audience k8s = bc_token_review_audience config \<and>
     subject_cache w' = Map.empty \<and> token_cache w' = Map.empty"
  by (auto simp: broker_new_def broker_with_k8s_and_db_def eff_elims)

lemma daemon_start_key:
  "daemon_start sv config subject w = (Inr k, w') \<Longrightarrow> dc_public_key config = Some k"
  by (auto simp: daemon_start_def eff_elims ok_or_def split: option.splits)

lemma daemon_new_keys:
  "daemon_new su sv config subject w = (Inr (k, oc, hc), w') \<Longrightarrow>
     \<exists>sk w1. decode_public_key su (cc_encryption_public_key (df_common config)) = Inr k \<and>
       decode_secret_key su (df_encryption_private_key config) = Inr sk \<and>
       daemon_start sv \<lparr>dc_public_key = Some k, dc_secret_key = Some sk\<rparr> subject w1 = (Inr k, w')"
  by (auto simp: daemon_new_def daemon_with_database_def eff_elims dest: daemon_start_key)
    (metis daemon_start_key daemon_config.select_convs(1) option.inject)

text \<open>
  The keys \<^verbatim>\<open>keygen\<close> prints, put into the three configurations, are the pair it generated: the
  gateway seals with the key the daemon and the broker open with.
\<close>

lemma services_share_keys:
  assumes printed: "keygen True encode (pk, sk) = ([l1, pub, l2, l3, sec], exit_code)"
    and decode: "\<And>b. su_base64 su (encode b) = Inr b" "su_public su pk = Some pk" "su_secret su sk = Some sk"
    and config: "cc_encryption_public_key (gc_common g) = pub" "cc_encryption_public_key (bc_common b) = pub"
      "cc_encryption_public_key (df_common d) = pub" "bc_encryption_private_key b = sec"
      "df_encryption_private_key d = sec"
    and gateway: "gateway_new su g w = (Inr (st, oc, hc), w')"
    and broker: "broker_new su b v = (Inr (keys, k8s, oc2, hc2), v')"
    and daemon: "daemon_new su sv d subject u = (Inr (k, oc3, hc3), u')"
  shows "app_public_key st = pk \<and> keys = \<lparr>bk_public = pk, bk_secret = sk\<rparr> \<and> k = pk \<and>
    (\<exists>u1. daemon_start sv \<lparr>dc_public_key = Some pk, dc_secret_key = Some sk\<rparr> subject u1 = (Inr pk, u'))"
proof -
  from printed have "pub = encode pk" "sec = encode sk" by (simp_all add: keygen_def)
  with decode have pk: "decode_public_key su pub = Inr pk" and sk: "decode_secret_key su sec = Inr sk"
    by (simp_all add: decode_public_key_def decode_secret_key_def ok_or_def)
  show ?thesis
    using gateway_new_key [OF gateway] broker_new_keys [OF broker] daemon_new_keys [OF daemon] config pk sk
    by (cases keys) auto
qed

text \<open>The columns the migration leaves nullable are those a row models as an option.\<close>

lemma migration_nullable: "map co_name (filter (\<lambda>c. \<not> co_not_null c) (tb_columns migration_up)) = [''expires_at'']"
  by (simp add: migration_up_def)

end
