(* ===== verification/Ordered_Map.thy ===== *)
theory Ordered_Map
  imports Prelude
begin

text \<open>
  \<^verbatim>\<open>BTreeMap\<close> as an association list with strictly ascending keys, the interface its
  clients use (\<^verbatim>\<open>get\<close>, \<^verbatim>\<open>insert\<close>, \<^verbatim>\<open>remove\<close>, \<^verbatim>\<open>entry().or_insert\<close>, iteration in key order)
  as a locale, and the clients' lemmas on loops of insertions, proved once from the laws.
\<close>

section \<open>The interface\<close>

locale ordered_map =
  fixes emp :: "'m"
    and ins :: "'k::linorder \<Rightarrow> 'v \<Rightarrow> 'm \<Rightarrow> 'm"
    and rem :: "'k \<Rightarrow> 'm \<Rightarrow> 'm"
    and look :: "'m \<Rightarrow> 'k \<Rightarrow> 'v option"
    and ks :: "'m \<Rightarrow> 'k list"
    and good :: "'m \<Rightarrow> bool"
  assumes look_emp: "look emp k = None"
    and look_ins: "good m \<Longrightarrow> look (ins k v m) k' = (if k' = k then Some v else look m k')"
    and look_rem: "good m \<Longrightarrow> look (rem k m) k' = (if k' = k then None else look m k')"
    and set_ks: "good m \<Longrightarrow> set (ks m) = {k. look m k \<noteq> None}"
    and ks_ascending: "good m \<Longrightarrow> sorted_wrt (<) (ks m)"
    and good_emp: "good emp"
    and good_ins: "good m \<Longrightarrow> good (ins k v m)"
    and good_rem: "good m \<Longrightarrow> good (rem k m)"
begin

lemma good_ins_all: "good m \<Longrightarrow> good (fold (\<lambda>(k, v). ins k v) kvs m)"
  by (induction kvs arbitrary: m) (auto intro: good_ins)

text \<open>A loop of insertions: the last value inserted under a key stays.\<close>

lemma look_ins_all:
  "good m \<Longrightarrow> look (fold (\<lambda>(k, v). ins k v) kvs m) k =
     (case map_of (rev kvs) k of Some v \<Rightarrow> Some v | None \<Rightarrow> look m k)"
proof (induction kvs arbitrary: m)
  case (Cons kv kvs)
  obtain k' v' where kv: "kv = (k', v')" by force
  from Cons.prems have "good (ins k' v' m)" by (rule good_ins)
  from Cons.IH [OF this] Cons.prems show ?case
    by (auto simp: kv look_ins map_add_def split: option.splits)
qed simp

definition or_ins :: "'k \<Rightarrow> 'v \<Rightarrow> 'm \<Rightarrow> 'm" where
  "or_ins k v m = (if look m k = None then ins k v m else m)"

lemma good_or_ins: "good m \<Longrightarrow> good (or_ins k v m)"
  by (simp add: or_ins_def good_ins)

lemma look_or_ins:
  "good m \<Longrightarrow> look (or_ins k v m) k' =
     (if k' = k \<and> look m k = None then Some v else look m k')"
  by (simp add: or_ins_def look_ins)

lemma good_or_ins_all: "good m \<Longrightarrow> good (fold (\<lambda>(k, v). or_ins k v) kvs m)"
  by (induction kvs arbitrary: m) (auto intro: good_or_ins)

text \<open>A loop of \<^verbatim>\<open>entry().or_insert\<close>: what was there stays, then the first value wins.\<close>

lemma look_or_ins_all:
  "good m \<Longrightarrow> look (fold (\<lambda>(k, v). or_ins k v) kvs m) k =
     (case look m k of Some v \<Rightarrow> Some v | None \<Rightarrow> map_of kvs k)"
proof (induction kvs arbitrary: m)
  case (Cons kv kvs)
  obtain k' v' where kv: "kv = (k', v')" by force
  from Cons.prems have "good (or_ins k' v' m)" by (rule good_or_ins)
  from Cons.IH [OF this] Cons.prems show ?case
    by (auto simp: kv look_or_ins split: option.splits)
qed (simp split: option.splits)

lemma ks_distinct: "good m \<Longrightarrow> distinct (ks m)"
  using ks_ascending strict_sorted_iff by blast

end

section \<open>The implementation\<close>

type_synonym ('k, 'v) btmap = "('k \<times> 'v) list"

definition bt_get :: "('k, 'v) btmap \<Rightarrow> 'k \<Rightarrow> 'v option" where
  "bt_get m k = map_of m k"

fun bt_insert :: "'k::linorder \<Rightarrow> 'v \<Rightarrow> ('k, 'v) btmap \<Rightarrow> ('k, 'v) btmap" where
  "bt_insert k v [] = [(k, v)]"
| "bt_insert k v (kv # m) =
     (if k < fst kv then (k, v) # kv # m
      else if k = fst kv then (k, v) # m
      else kv # bt_insert k v m)"

definition bt_remove :: "'k \<Rightarrow> ('k, 'v) btmap \<Rightarrow> ('k, 'v) btmap" where
  "bt_remove k m = filter (\<lambda>kv. fst kv \<noteq> k) m"

definition bt_keys :: "('k, 'v) btmap \<Rightarrow> 'k list" where
  "bt_keys m = map fst m"

definition bt_or_insert :: "'k::linorder \<Rightarrow> 'v \<Rightarrow> ('k, 'v) btmap \<Rightarrow> ('k, 'v) btmap" where
  "bt_or_insert k v m = (if bt_get m k = None then bt_insert k v m else m)"

definition bt_wf :: "('k::linorder, 'v) btmap \<Rightarrow> bool" where
  "bt_wf m \<longleftrightarrow> sorted_wrt (<) (map fst m)"

lemma bt_get_Nil [simp, map_simps]: "bt_get [] k = None"
  by (simp add: bt_get_def)

lemma bt_get_Cons [simp, map_simps]:
  "bt_get ((k, v) # m) k' = (if k' = k then Some v else bt_get m k')"
  by (simp add: bt_get_def)

lemma bt_get_insert [simp, map_simps]:
  "bt_get (bt_insert k v m) k' = (if k' = k then Some v else bt_get m k')"
  by (induction m) (auto simp: bt_get_def)

lemma bt_get_remove [simp, map_simps]:
  "bt_get (bt_remove k m) k' = (if k' = k then None else bt_get m k')"
  by (induction m) (auto simp: bt_get_def bt_remove_def)

lemma set_bt_keys: "set (bt_keys m) = {k. bt_get m k \<noteq> None}"
  by (auto simp: bt_keys_def bt_get_def map_of_eq_None_iff)

lemma keys_bt_insert: "fst ` set (bt_insert k v m) = insert k (fst ` set m)"
  by (induction m) auto

lemma bt_wf_insert: "bt_wf m \<Longrightarrow> bt_wf (bt_insert k v m)"
proof (induction m)
  case (Cons kv m)
  have "fst kv < x" if "x \<in> fst ` set (bt_insert k v m)" "fst kv < k" for x
    using that Cons.prems by (auto simp: bt_wf_def keys_bt_insert)
  with Cons show ?case
    by (auto simp: bt_wf_def)
qed (simp add: bt_wf_def)

lemma bt_wf_remove: "bt_wf m \<Longrightarrow> bt_wf (bt_remove k m)"
  by (induction m) (auto simp: bt_wf_def bt_remove_def)

interpretation bt: ordered_map "[]" bt_insert bt_remove bt_get bt_keys bt_wf
  rewrites bt_or_ins_eq: "ordered_map.or_ins bt_insert bt_get = bt_or_insert"
proof -
  show om: "ordered_map [] bt_insert bt_remove (bt_get :: ('k::linorder, 'v) btmap \<Rightarrow> _) bt_keys bt_wf"
    by unfold_locales
      (auto simp: set_bt_keys bt_wf_insert bt_wf_remove, auto simp: bt_keys_def bt_wf_def)
  show "ordered_map.or_ins bt_insert bt_get = (bt_or_insert :: 'k::linorder \<Rightarrow> 'v \<Rightarrow> _)"
    by (intro ext) (simp add: ordered_map.or_ins_def [OF om] bt_or_insert_def)
qed

text \<open>An entry of the list is what a lookup finds, so iteration visits each binding once.\<close>

lemma bt_get_iff: "bt_wf m \<Longrightarrow> bt_get m k = Some v \<longleftrightarrow> (k, v) \<in> set m"
  by (simp add: bt_get_def bt_wf_def strict_sorted_iff map_of_eq_Some_iff)

text \<open>Two well-formed maps with the same lookups are the same map.\<close>

lemma bt_ext:
  assumes "bt_wf m" and "bt_wf n" and "\<And>k. bt_get m k = bt_get n k"
  shows "m = n"
proof -
  have dm: "sorted (map fst m)" "distinct (map fst m)"
    and dn: "sorted (map fst n)" "distinct (map fst n)"
    using assms(1,2) by (simp_all add: bt_wf_def strict_sorted_iff)
  have "(k, v) \<in> set m \<longleftrightarrow> (k, v) \<in> set n" for k v
    using assms by (metis bt_get_iff)
  then have "set m = set n" by auto
  moreover have "inj_on fst (set m \<union> set n)"
    using dm(2) calculation by (simp add: distinct_map)
  ultimately show ?thesis
    using dm dn by (intro map_sorted_distinct_set_unique [where f = fst]) (simp_all add: distinct_map)
qed

section \<open>In-place updates\<close>

text \<open>\<^verbatim>\<open>get_mut(k)\<close> followed by an assignment: the value under a key is replaced in place.\<close>

fun bt_set :: "'k \<Rightarrow> 'v \<Rightarrow> ('k, 'v) btmap \<Rightarrow> ('k, 'v) btmap" where
  "bt_set k v [] = []"
| "bt_set k v (kv # m) = (if fst kv = k then (k, v) # m else kv # bt_set k v m)"

lemma bt_get_set [simp, map_simps]:
  "bt_get (bt_set k v m) k' = (if k' = k then map_option (\<lambda>_. v) (bt_get m k) else bt_get m k')"
  by (induction m) (auto simp: bt_get_def)

lemma keys_bt_set [simp]: "map fst (bt_set k v m) = map fst m"
  by (induction m) auto

lemma bt_set_split:
  "bt_get m k = Some w \<Longrightarrow> \<exists>a b. m = a @ (k, w) # b \<and> bt_set k v m = a @ (k, v) # b"
proof (induction m)
  case (Cons kv m)
  show ?case
  proof (cases "fst kv = k")
    case True
    with Cons.prems show ?thesis
      by (cases kv) (intro exI [of _ "[]"] exI [of _ m], auto simp: bt_get_def)
  next
    case False
    with Cons.prems have "bt_get m k = Some w" by (cases kv) (auto simp: bt_get_def)
    then obtain a b where "m = a @ (k, w) # b \<and> bt_set k v m = a @ (k, v) # b"
      using Cons.IH by blast
    with False show ?thesis by (metis append_Cons bt_set.simps(2))
  qed
qed simp

lemma bt_get_map [simp, map_simps]: "bt_get (map (\<lambda>(k, v). (k, f k v)) m) k = map_option (f k) (bt_get m k)"
  by (induction m) (auto simp: bt_get_def)

end
