(* ===== verification/Json.thy ===== *)
theory Json
  imports Rust_Strings Ordered_Map
begin

text \<open>
  \<^verbatim>\<open>serde_json::Value\<close> as the graph proxy uses it, and the meaning of JSON pointers and of the
  references of a JSON Schema, against which the rewriting of references is specified.
\<close>

section \<open>Values\<close>

text \<open>
  \<^verbatim>\<open>serde_json::Value\<close>. A number is kept as the text it prints as; an object is a
  \<^verbatim>\<open>BTreeMap\<close> (the crate is built without \<^verbatim>\<open>preserve_order\<close>).
\<close>

datatype json =
    JNull
  | JBool bool
  | JNumber string
  | JString string
  | JArray "json list"
  | JObject "(string, json) btmap"

text \<open>\<^verbatim>\<open>Value::get(key)\<close> and \<^verbatim>\<open>Value::as_str\<close>.\<close>

definition json_get :: "json \<Rightarrow> string \<Rightarrow> json option" where
  "json_get v k = (case v of JObject m \<Rightarrow> bt_get m k | _ \<Rightarrow> None)"

definition as_str :: "json \<Rightarrow> string option" where
  "as_str v = (case v of JString s \<Rightarrow> Some s | _ \<Rightarrow> None)"

lemma as_str_iff: "as_str v = Some s \<longleftrightarrow> v = JString s"
  by (cases v) (auto simp: as_str_def)

text \<open>\<^verbatim>\<open>Number::as_u64\<close>.\<close>

definition as_u64 :: "json \<Rightarrow> nat option" where
  "as_u64 v =
     (case v of
        JNumber d \<Rightarrow>
          (let n = foldl (\<lambda>a c. 10 * a + (code c - 48)) 0 d in
           if d \<noteq> [] \<and> list_all is_ascii_digit d \<and> n < 2 ^ 64 then Some n else None)
      | _ \<Rightarrow> None)"

lemma json_get_iff: "json_get v k = Some w \<longleftrightarrow> (\<exists>m. v = JObject m \<and> bt_get m k = Some w)"
  by (cases v) (auto simp: json_get_def)

lemma unwrap_null_string: "unwrap_or JNull x = JString s \<longleftrightarrow> x = Some (JString s)"
  by (cases x) auto

lemmas json_iffs = as_str_iff json_get_iff unwrap_null_string

fun jsize :: "json \<Rightarrow> nat" where
  "jsize (JArray items) = Suc (sum_list (map jsize items))"
| "jsize (JObject m) = Suc (sum_list (map (\<lambda>(k, v). jsize v) m))"
| "jsize _ = 1"

lemma jsize_pos [simp]: "0 < jsize v"
  by (cases v) simp_all

lemma jsize_item: "v \<in> set items \<Longrightarrow> jsize v < jsize (JArray items)"
  using member_le_sum_list [of "jsize v" "map jsize items"] by simp

lemma jsize_entry: "(k, v) \<in> set m \<Longrightarrow> jsize v < jsize (JObject m)"
  using member_le_sum_list [of "jsize v" "map (\<lambda>(k, v). jsize v) m"] by force

section \<open>Pointers\<close>

text \<open>
  Reading a JSON pointer (RFC 6901): what a local reference of a JSON Schema means, the
  specification the rewriting of references is held against.
\<close>

fun unescape_token :: "string \<Rightarrow> string" where
  "unescape_token (c # d # cs) =
     (if c = CHR ''~'' \<and> d = CHR ''1'' then CHR ''/'' # unescape_token cs
      else if c = CHR ''~'' \<and> d = CHR ''0'' then CHR ''~'' # unescape_token cs
      else c # unescape_token (d # cs))"
| "unescape_token cs = cs"

lemma unescape_token_plain: "CHR ''~'' \<notin> set t \<Longrightarrow> unescape_token t = t"
  by (induction t rule: unescape_token.induct) auto

definition array_index :: "string \<Rightarrow> nat option" where
  "array_index t =
     (if t \<noteq> [] \<and> list_all is_ascii_digit t \<and> (hd t \<noteq> CHR ''0'' \<or> t = ''0'')
      then Some (foldl (\<lambda>a c. 10 * a + (code c - 48)) 0 t) else None)"

definition child :: "json \<Rightarrow> string \<Rightarrow> json option" where
  "child v t =
     (case v of
        JObject m \<Rightarrow> bt_get m t
      | JArray items \<Rightarrow>
          (case array_index t of
             Some i \<Rightarrow> (if i < length items then Some (items ! i) else None)
           | None \<Rightarrow> None)
      | _ \<Rightarrow> None)"

fun pointer_get :: "json \<Rightarrow> string list \<Rightarrow> json option" where
  "pointer_get v [] = Some v"
| "pointer_get v (t # ts) = (case child v t of Some w \<Rightarrow> pointer_get w ts | None \<Rightarrow> None)"

text \<open>A pointer in a URI fragment is percent-encoded.\<close>

definition hex_value :: "char \<Rightarrow> nat option" where
  "hex_value c =
     (if is_ascii_digit c then Some (code c - 48)
      else if 65 \<le> code c \<and> code c \<le> 70 then Some (code c - 55)
      else if 97 \<le> code c \<and> code c \<le> 102 then Some (code c - 87)
      else None)"

fun percent_decode :: "string \<Rightarrow> string" where
  "percent_decode (c # a # b # cs) =
     (case (if c = CHR ''%'' then hex_value a else None, hex_value b) of
        (Some x, Some y) \<Rightarrow> char_of (16 * x + y) # percent_decode cs
      | _ \<Rightarrow> c # percent_decode (a # b # cs))"
| "percent_decode cs = cs"

lemma percent_decode_Cons: "c \<noteq> CHR ''%'' \<Longrightarrow> percent_decode (c # s) = c # percent_decode s"
proof (cases s)
  case (Cons a t)
  assume "c \<noteq> CHR ''%''"
  with Cons show ?thesis by (cases t) simp_all
qed simp

lemma percent_decode_plain: "CHR ''%'' \<notin> set a \<Longrightarrow> percent_decode (a @ s) = a @ percent_decode s"
  by (induction a) (auto simp: percent_decode_Cons)

definition resolve_ref :: "json \<Rightarrow> string \<Rightarrow> json option" where
  "resolve_ref root reference =
     (case strip_prefix ''#'' reference of
        None \<Rightarrow> None
      | Some fragment \<Rightarrow>
          (case percent_decode fragment of
             [] \<Rightarrow> Some root
           | c # p \<Rightarrow>
               (if c = CHR ''/'' then pointer_get root (map unescape_token (split_char CHR ''/'' p)) else None)))"

text \<open>The references of a value, outermost first.\<close>

definition own_ref :: "(string, json) btmap \<Rightarrow> string list" where
  "own_ref m = (case bt_get m ''$ref'' of Some (JString r) \<Rightarrow> [r] | _ \<Rightarrow> [])"

fun refs_of :: "json \<Rightarrow> string list" where
  "refs_of (JObject m) = own_ref m @ concat (map (\<lambda>(k, v). refs_of v) m)"
| "refs_of (JArray items) = concat (map refs_of items)"
| "refs_of _ = []"

end
