(* ===== verification/Argo_Types.thy ===== *)
theory Argo_Types
  imports Json
begin

text \<open>
  The types of \<^verbatim>\<open>argo-workflows-openapi\<close>, generated at build time from the Argo server's
  schema: of each type the fields the graph proxy reads or writes. \<open>api_result\<close> is the
  hand-written part of the crate (\<^verbatim>\<open>argo-workflows-openapi/src/lib.rs\<close>). A \<^verbatim>\<open>HashMap\<close> that is
  only looked up in is a partial function; one that is iterated over is the list of its
  entries in the order the iteration has.
\<close>

type_synonym string_map = "string \<Rightarrow> string option"

text \<open>Parameters, templates and the specification of a workflow.\<close>

record parameter =
  p_name :: string
  p_description :: "string option"
  p_value :: "string option"
  p_default :: "string option"
  p_enum :: "string list"
  p_value_from :: "json option"

record template =
  t_name :: "string option"
  t_inputs :: "parameter list option"

record workflow_spec =
  ws_arguments :: "parameter list option"
  ws_entrypoint :: "string option"
  ws_templates :: "template list"
  ws_template_ref :: "string option option"

record object_meta =
  om_name :: "string option"
  om_generate_name :: "string option"
  om_uid :: "string option"
  om_labels :: string_map
  om_annotations :: string_map

text \<open>The nodes of a workflow and their artifacts.\<close>

record s3_artifact =
  s3_key :: "string option"

record artifact =
  a_name :: string
  a_s3 :: "s3_artifact option"

record node_status =
  n_id :: string
  n_display_name :: "string option"
  n_phase :: "string option"
  n_children :: "string list"
  n_outputs :: "artifact list option"
  n_type :: string
  n_started_at :: "int option"
  n_finished_at :: "int option"
  n_message :: "string option"

record workflow_status =
  wf_phase :: "string option"
  wf_message :: "string option"
  wf_started_at :: "int option"
  wf_finished_at :: "int option"
  wf_nodes :: "(string \<times> node_status) list"

record workflow_manifest =
  wm_kind :: "string option"
  wm_metadata :: object_meta
  wm_spec :: workflow_spec
  wm_status :: "workflow_status option"

record cluster_template =
  ct_metadata :: object_meta
  ct_spec :: workflow_spec

text \<open>A page of items and the token the server continues it with.\<close>

record 'a item_list =
  il_items :: "'a list"
  il_continue :: "string option"

section \<open>Results of the API\<close>

record gateway_error =
  ge_message :: "string option"

datatype 'a api_result = ApiOk 'a | ApiErr gateway_error

definition into_result :: "'a api_result \<Rightarrow> gateway_error + 'a" where
  "into_result r = (case r of ApiOk ok \<Rightarrow> Inr ok | ApiErr err \<Rightarrow> Inl err)"

definition show_gateway_error :: "gateway_error \<Rightarrow> string" where
  "show_gateway_error e = unwrap_or [] (ge_message e)"

lemma into_result_simps [simp, res_simps]:
  "into_result (ApiOk a) = Inr a" "into_result (ApiErr e) = Inl e"
  by (simp_all add: into_result_def)

end
