(* ===== verification/Visits.thy ===== *)
theory Visits
  imports Rust_Strings
begin

text \<open>
  Visits, the namespaces of the platform: \<^verbatim>\<open>Visit\<close> and \<^verbatim>\<open>VisitInput\<close> of
  \<^verbatim>\<open>graph-proxy/src/graphql/mod.rs\<close>, their \<^verbatim>\<open>Display\<close> and the \<^verbatim>\<open>FromStr\<close> that matches
  \<^verbatim>\<open>^([A-Za-z]+)(\d+)-(\d+)$\<close>, and the copy of them in \<^verbatim>\<open>workflows-cli/src/visit.rs\<close>.
\<close>

section \<open>Data\<close>

record visit =
  v_proposal_code :: string
  v_proposal_number :: u32
  v_number :: u32

record visit_input =
  proposal_code :: string
  proposal_number :: u32
  number :: u32

definition visit_to_string :: "visit \<Rightarrow> string" where
  "visit_to_string v =
     v_proposal_code v @ show_u32 (v_proposal_number v) @ ''-'' @ show_u32 (v_number v)"

definition visit_of_input :: "visit_input \<Rightarrow> visit" where
  "visit_of_input v =
     \<lparr>v_proposal_code = proposal_code v, v_proposal_number = proposal_number v,
      v_number = number v\<rparr>"

definition visit_input_to_string :: "visit_input \<Rightarrow> string" where
  "visit_input_to_string v =
     proposal_code v @ show_u32 (proposal_number v) @ ''-'' @ show_u32 (number v)"

section \<open>The regular expression\<close>

text \<open>
  The three capture groups of the expression. Its classes are disjoint, so the greedy
  match is the only one; \<open>visit_captures_iff\<close> states that against the declarative reading.
\<close>

definition visit_captures :: "string \<Rightarrow> (string \<times> string \<times> string) option" where
  "visit_captures s =
     (let a = takeWhile is_ascii_letter s; s1 = dropWhile is_ascii_letter s;
          b = takeWhile is_ascii_digit s1; s2 = dropWhile is_ascii_digit s1
      in case s2 of
           [] \<Rightarrow> None
         | c # d \<Rightarrow>
             (if a \<noteq> [] \<and> b \<noteq> [] \<and> c = CHR ''-'' \<and> d \<noteq> [] \<and> list_all is_ascii_digit d
              then Some (a, b, d) else None))"

definition visit_regex :: "string \<Rightarrow> string \<Rightarrow> string \<Rightarrow> string \<Rightarrow> bool" where
  "visit_regex s a b d \<longleftrightarrow>
     s = a @ b @ ''-'' @ d \<and> a \<noteq> [] \<and> b \<noteq> [] \<and> d \<noteq> [] \<and>
     list_all is_ascii_letter a \<and> list_all is_ascii_digit b \<and> list_all is_ascii_digit d"

lemma dash_class [simp]: "\<not> is_ascii_digit CHR ''-''" "\<not> is_ascii_letter CHR ''-''"
  by (simp_all add: is_ascii_digit_def is_ascii_letter_def code_def)

lemma takeWhile_span:
  "list_all P a \<Longrightarrow> (r = [] \<or> \<not> P (hd r)) \<Longrightarrow> takeWhile P (a @ r) = a \<and> dropWhile P (a @ r) = r"
  by (induction a) (auto simp: list_all_iff, (cases r; simp)+)

lemma visit_captures_complete: "visit_regex s a b d \<Longrightarrow> visit_captures s = Some (a, b, d)"
proof -
  assume re: "visit_regex s a b d"
  let ?r = "b @ CHR ''-'' # d"
  have a: "takeWhile is_ascii_letter s = a \<and> dropWhile is_ascii_letter s = ?r"
  proof -
    have "\<not> is_ascii_letter (hd ?r)"
      using re by (auto simp: visit_regex_def list_all_iff hd_append dest: digit_not_letter)
    with re takeWhile_span [of is_ascii_letter a ?r] show ?thesis
      by (auto simp: visit_regex_def)
  qed
  have b: "takeWhile is_ascii_digit ?r = b \<and> dropWhile is_ascii_digit ?r = CHR ''-'' # d"
    using re takeWhile_span [of is_ascii_digit b "CHR ''-'' # d"] by (auto simp: visit_regex_def)
  from a b re show ?thesis by (simp add: visit_captures_def visit_regex_def)
qed

lemma visit_captures_sound: "visit_captures s = Some (a, b, d) \<Longrightarrow> visit_regex s a b d"
proof -
  assume c: "visit_captures s = Some (a, b, d)"
  let ?s1 = "dropWhile is_ascii_letter s"
  from c have ab: "a = takeWhile is_ascii_letter s" "b = takeWhile is_ascii_digit ?s1"
    and d: "dropWhile is_ascii_digit ?s1 = CHR ''-'' # d"
    and ne: "a \<noteq> []" "b \<noteq> []" "d \<noteq> []" "list_all is_ascii_digit d"
    by (auto simp: visit_captures_def Let_def split: list.splits if_splits)
  have "s = a @ ?s1" "?s1 = b @ CHR ''-'' # d"
    using d ab by (metis takeWhile_dropWhile_id)+
  then have "s = a @ b @ ''-'' @ d" by simp
  moreover have "list_all is_ascii_letter a" "list_all is_ascii_digit b"
    using ab by (auto simp: list_all_iff dest: set_takeWhileD)
  ultimately show ?thesis using ne by (simp add: visit_regex_def)
qed

lemma visit_captures_iff: "visit_captures s = Some (a, b, d) \<longleftrightarrow> visit_regex s a b d"
  using visit_captures_complete visit_captures_sound by blast

section \<open>Parsing\<close>

datatype visit_error =
    InvalidVisitFormat
  | InvalidProposalNumber int_error
  | InvalidVisitNumber int_error

definition visit_input_from_str :: "string \<Rightarrow> visit_error + visit_input" where
  "visit_input_from_str string =
     (case visit_captures string of
        None \<Rightarrow> Inl InvalidVisitFormat
      | Some (c1, c2, c3) \<Rightarrow>
          rbind (map_err InvalidProposalNumber (parse_u32 c2)) (\<lambda>n.
          rbind (map_err InvalidVisitNumber (parse_u32 c3)) (\<lambda>k.
          Inr \<lparr>proposal_code = c1, proposal_number = n, number = k\<rparr>)))"

text \<open>The command line tool's copy (\<^verbatim>\<open>workflows-cli/src/visit.rs\<close>).\<close>

definition cli_visit_to_string :: "visit_input \<Rightarrow> string" where
  "cli_visit_to_string v =
     proposal_code v @ show_u32 (proposal_number v) @ ''-'' @ show_u32 (number v)"

definition cli_visit_from_str :: "string \<Rightarrow> visit_error + visit_input" where
  "cli_visit_from_str string =
     (case visit_captures string of
        None \<Rightarrow> Inl InvalidVisitFormat
      | Some (c1, c2, c3) \<Rightarrow>
          rbind (map_err InvalidProposalNumber (parse_u32 c2)) (\<lambda>n.
          rbind (map_err InvalidVisitNumber (parse_u32 c3)) (\<lambda>k.
          Inr \<lparr>proposal_code = c1, proposal_number = n, number = k\<rparr>)))"

section \<open>Lemmas\<close>

definition visit_code_ok :: "string \<Rightarrow> bool" where
  "visit_code_ok s \<longleftrightarrow> s \<noteq> [] \<and> list_all is_ascii_letter s"

lemma visit_to_string_of_input [simp]:
  "visit_to_string (visit_of_input v) = visit_input_to_string v"
  by (simp add: visit_to_string_def visit_of_input_def visit_input_to_string_def)

lemma visit_captures_display:
  assumes "visit_code_ok c"
  shows "visit_captures (c @ show_u32 n @ CHR ''-'' # show_u32 k) = Some (c, show_u32 n, show_u32 k)"
  by (rule visit_captures_complete)
    (use assms show_u32_digits in \<open>auto simp: visit_regex_def visit_code_ok_def list_all_iff\<close>)

lemma visit_roundtrip:
  "visit_code_ok (proposal_code v) \<Longrightarrow> visit_input_from_str (visit_input_to_string v) = Inr v"
  by (simp add: visit_input_from_str_def visit_input_to_string_def visit_captures_display)

lemma visit_from_str_code_ok: "visit_input_from_str s = Inr v \<Longrightarrow> visit_code_ok (proposal_code v)"
  by (auto simp: visit_input_from_str_def rbind_eq_Inr visit_captures_iff visit_regex_def
      visit_code_ok_def split: option.splits)

lemma visit_display_no_char:
  assumes "visit_code_ok (proposal_code v)"
    and "\<not> is_ascii_letter d" "\<not> is_ascii_digit d" "d \<noteq> CHR ''-''"
  shows "d \<notin> set (visit_input_to_string v)"
  using assms show_u32_digits
  by (auto simp: visit_input_to_string_def visit_code_ok_def list_all_iff)

text \<open>
  Printing and parsing visits agree: a visit whose proposal code is a non-empty run of
  ASCII letters is read back from its text as itself, and whatever the parser accepts is
  such a visit, whose canonical text is read back to it again.
\<close>

theorem visit_display_parse:
  assumes "visit_code_ok (proposal_code v)"
  shows "visit_input_from_str (visit_input_to_string v) = Inr v
    \<and> cli_visit_from_str (cli_visit_to_string v) = Inr v
    \<and> (\<forall>s w. visit_input_from_str s = Inr w \<longrightarrow>
          visit_input_from_str (visit_input_to_string w) = Inr w)"
  using assms visit_roundtrip visit_from_str_code_ok
  by (auto simp: cli_visit_from_str_def cli_visit_to_string_def visit_captures_display)

theorem visit_display_parse_witness:
  "visit_input_from_str ''mg36964-1'' =
     Inr \<lparr>proposal_code = ''mg'', proposal_number = 36964, number = 1\<rparr>"
proof -
  let ?v = "\<lparr>proposal_code = ''mg'', proposal_number = 36964, number = 1\<rparr> :: visit_input"
  have ok: "visit_code_ok (proposal_code ?v)"
    by (simp add: visit_code_ok_def is_ascii_letter_def code_def)
  have "visit_input_to_string ?v = ''mg36964-1''"
    by (simp add: visit_input_to_string_def show_u32_def show_nat.simps)
  with visit_display_parse [OF ok] show ?thesis by simp
qed

end
