(* ===== verification/Graph_Env.thy ===== *)
theory Graph_Env
  imports Argo_Types Visits
begin

text \<open>
  What the resolvers of the graph proxy share: the URLs they build, the requests they send to
  the Argo server, the caller's validated token, and the effects of a resolver. The Argo
  server, the clock and the decoders of \<^verbatim>\<open>serde\<close> are a record of services on a state \<open>'n\<close>;
  every request sent is logged, so that a lemma can speak of all of them.
\<close>

section \<open>URLs\<close>

text \<open>
  A URL is the configured server URL and what the resolvers add to it. \<^verbatim>\<open>extend\<close> on path
  segments skips the segments \<^verbatim>\<open>.\<close> and \<^verbatim>\<open>..\<close> and escapes the others, so a segment stays one.
\<close>

record url =
  u_base :: string
  u_segments :: "string list"
  u_query :: "(string \<times> string) list"

definition extend_segments :: "string list \<Rightarrow> url \<Rightarrow> url" where
  "extend_segments segments u =
     u\<lparr>u_segments := u_segments u @ filter (\<lambda>s. s \<noteq> ''.'' \<and> s \<noteq> ''..'') segments\<rparr>"

definition append_pair :: "string \<Rightarrow> string \<Rightarrow> url \<Rightarrow> url" where
  "append_pair k v u = u\<lparr>u_query := u_query u @ [(k, v)]\<rparr>"

lemma extend_segments_simps [simp]:
  "u_base (extend_segments ss u) = u_base u"
  "u_segments (extend_segments ss u) = u_segments u @ filter (\<lambda>s. s \<noteq> ''.'' \<and> s \<noteq> ''..'') ss"
  "u_query (extend_segments ss u) = u_query u"
  by (simp_all add: extend_segments_def)

lemma append_pair_simps [simp]:
  "u_base (append_pair k v u) = u_base u" "u_segments (append_pair k v u) = u_segments u"
  "u_query (append_pair k v u) = u_query u @ [(k, v)]"
  by (simp_all add: append_pair_def)

section \<open>Tokens\<close>

text \<open>\<^verbatim>\<open>ValidatedAuthToken\<close> (\<^verbatim>\<open>validate_token.rs\<close>), with the bearer token as its text.\<close>

datatype validated_token =
    TokenValid string
  | TokenInvalid
  | TokenMissing
  | TokenFailed string

definition as_token :: "validated_token \<Rightarrow> string option" where
  "as_token t = (case t of TokenValid authorization \<Rightarrow> Some authorization | _ \<Rightarrow> None)"

section \<open>Requests\<close>

record submit_request =
  sr_namespace :: "string option"
  sr_resource_kind :: "string option"
  sr_resource_name :: "string option"
  sr_parameters :: "string list"

record create_request =
  cr_namespace :: "string option"
  cr_workflow :: "workflow_manifest option"

datatype request_body = NoBody | SubmitBody submit_request | CreateBody create_request

record argo_request =
  rq_method :: string
  rq_url :: url
  rq_bearer :: "string option"
  rq_headers :: "(string \<times> string) list"
  rq_body :: request_body

record argo_reply =
  rp_status :: nat
  rp_body :: string

record 'n argo_services =
  as_send :: "argo_request \<Rightarrow> 'n \<Rightarrow> (string + argo_reply) \<times> 'n"
  as_workflow :: "string \<Rightarrow> string + workflow_manifest api_result"
  as_workflow_list :: "string \<Rightarrow> string + workflow_manifest item_list api_result"
  as_template :: "string \<Rightarrow> string + cluster_template api_result"
  as_template_list :: "string \<Rightarrow> string + cluster_template item_list api_result"

record 'n graph_env =
  ge_net :: 'n
  ge_requests :: "argo_request list"

record graph_ctx =
  cx_argo_url :: url
  cx_auth :: "validated_token option"

datatype graph_error =
    RequestFailed string
  | DecodeFailed string
  | ApiError gateway_error
  | NotAuthenticated string
  | InvalidCursor
  | InvalidWorkflowId
  | BadVisit visit_error
  | BadManifest string
  | BadParameter string
  | NoAuthToken
  | Panicked string

section \<open>Effects of a resolver\<close>

definition send_request ::
  "'n argo_services \<Rightarrow> argo_request \<Rightarrow> ('n graph_env, graph_error, argo_reply) eff" where
  "send_request sv rq env =
     (case as_send sv rq (ge_net env) of
        (r, n) \<Rightarrow> (map_err RequestFailed r, env\<lparr>ge_net := n, ge_requests := ge_requests env @ [rq]\<rparr>))"

text \<open>\<^verbatim>\<open>.send().await?.json::<APIResult<T>>().await?\<close>.\<close>

definition fetch ::
  "'n argo_services \<Rightarrow> (string \<Rightarrow> string + 'a) \<Rightarrow> argo_request \<Rightarrow> ('n graph_env, graph_error, 'a) eff" where
  "fetch sv decode rq =
     ebind (send_request sv rq) (\<lambda>reply. lift_res (map_err DecodeFailed (decode (rp_body reply))))"

definition fetch_ok ::
  "'n argo_services \<Rightarrow> (string \<Rightarrow> string + 'a api_result) \<Rightarrow> argo_request \<Rightarrow>
     ('n graph_env, graph_error, 'a) eff" where
  "fetch_ok sv decode rq =
     ebind (fetch sv decode rq) (\<lambda>r. lift_res (map_err ApiError (into_result r)))"

definition get_request :: "url \<Rightarrow> string option \<Rightarrow> argo_request" where
  "get_request u token =
     \<lparr>rq_method = ''GET'', rq_url = u, rq_bearer = token, rq_headers = [], rq_body = NoBody\<rparr>"

definition post_request :: "url \<Rightarrow> string option \<Rightarrow> request_body \<Rightarrow> argo_request" where
  "post_request u token body =
     \<lparr>rq_method = ''POST'', rq_url = u, rq_bearer = token, rq_headers = [], rq_body = body\<rparr>"

text \<open>\<^verbatim>\<open>ctx.data_unchecked::<ValidatedAuthToken>()\<close> panics when the context has none.\<close>

definition ctx_token :: "graph_ctx \<Rightarrow> ('s, graph_error, string option) eff" where
  "ctx_token ctx =
     (case cx_auth ctx of
        Some auth \<Rightarrow> ret (as_token auth)
      | None \<Rightarrow> throw (Panicked ''data does not exist''))"

text \<open>An effect sends only requests with a property, whether it fails or not.\<close>

abbreviation sends :: "(argo_request \<Rightarrow> bool) \<Rightarrow> (('n, 'z) graph_env_scheme, 'e, 'a) eff \<Rightarrow> bool" where
  "sends P m \<equiv> emits ge_requests P m"

named_theorems sends_intros \<open>what a resolver sends\<close>

lemmas sends_ret = emits_ret [where log = ge_requests]

lemmas sends_throw = emits_throw [where log = ge_requests]

lemmas sends_if = emits_if [where log = ge_requests]

lemmas sends_lift_res = emits_lift_res [where log = ge_requests]

lemmas sends_ebind = emits_ebind [where log = ge_requests]

lemmas sends_prod = emits_prod [where log = ge_requests]

lemmas sends_weaken = emits_weaken [where log = ge_requests]

lemmas sends_basic [sends_intros] =
  sends_ret sends_throw sends_lift_res sends_ebind sends_if emits_option [where log = ge_requests]
  emits_sum [where log = ge_requests] sends_prod

lemma sends_request [sends_intros]: "P rq \<Longrightarrow> sends P (send_request sv rq)"
  by (auto simp: emits_def send_request_def split: prod.split)

lemma sends_fetch [sends_intros]: "P rq \<Longrightarrow> sends P (fetch sv decode rq)"
  unfolding fetch_def by (intro sends_intros)

lemma sends_fetch_ok [sends_intros]: "P rq \<Longrightarrow> sends P (fetch_ok sv decode rq)"
  unfolding fetch_ok_def by (intro sends_intros)

text \<open>The token of the context, for the effects that go on with it.\<close>

lemma sends_with_token:
  assumes "\<And>auth. cx_auth ctx = Some auth \<Longrightarrow> sends P (g (as_token auth))"
  shows "sends P (ebind (ctx_token ctx) g)"
proof (cases "cx_auth ctx")
  case None
  then show ?thesis by (simp add: ctx_token_def emits_def ebind_def)
next
  case (Some auth)
  then have "ebind (ctx_token ctx) g = g (as_token auth)"
    by (intro ext) (simp add: ctx_token_def ebind_def)
  with assms Some show ?thesis by simp
qed

text \<open>A request to a path of the Argo server under the given segments, with the given token.\<close>

definition addressed :: "graph_ctx \<Rightarrow> string list \<Rightarrow> argo_request \<Rightarrow> bool" where
  "addressed ctx path rq \<longleftrightarrow>
     (\<exists>auth rest. cx_auth ctx = Some auth \<and> rq_bearer rq = as_token auth \<and>
        u_base (rq_url rq) = u_base (cx_argo_url ctx) \<and>
        u_segments (rq_url rq) = u_segments (cx_argo_url ctx) @ path @ rest)"

lemma request_simps [simp]:
  "rq_url (get_request u t) = u" "rq_bearer (get_request u t) = t"
  "rq_url (post_request u t b) = u" "rq_bearer (post_request u t b) = t"
  "rq_body (post_request u t b) = b" "rq_body (get_request u t) = NoBody"
  by (simp_all add: get_request_def post_request_def)

end
