(* ===== verification/Token_Validation.thy ===== *)
theory Token_Validation
  imports Graph_Env
begin

text \<open>
  Authentication of the graph proxy: \<^verbatim>\<open>validate_token.rs\<close> and the guard of every resolver,
  \<^verbatim>\<open>graphql/auth_guard.rs\<close>. The OIDC issuer and the crates \<^verbatim>\<open>jsonwebtoken\<close> and
  \<^verbatim>\<open>openidconnect\<close> are the record \<open>oidc_services\<close>.
\<close>

section \<open>The validator\<close>

datatype validation_method = Introspection | Jwt

record jwk =
  jwk_kid :: "string option"
  jwk_content :: string

record jwt_validation =
  jv_algorithm :: string
  jv_issuer :: string
  jv_audience :: "string list"
  jv_leeway :: nat

record token_validator =
  tv_client_id :: string
  tv_client_secret :: "string option"
  tv_introspection_url :: string
  tv_keys :: "jwk list"
  tv_validation :: jwt_validation

record provider_metadata =
  pm_issuer :: string
  pm_jwks_uri :: string
  pm_introspection_endpoint :: "string option"

record ('n, 'key) oidc_services =
  os_issuer_url :: "string \<Rightarrow> string + string"
  os_discover :: "string \<Rightarrow> 'n \<Rightarrow> (string + provider_metadata) \<times> 'n"
  os_fetch_jwks :: "string \<Rightarrow> 'n \<Rightarrow> (string + jwk list) \<times> 'n"
  os_introspection_url :: "string \<Rightarrow> string + string"
  os_introspect :: "token_validator \<Rightarrow> string \<Rightarrow> 'n \<Rightarrow> (string + bool) \<times> 'n"
  os_decode_header :: "string \<Rightarrow> string + string option"
  os_from_jwk :: "jwk \<Rightarrow> string + 'key"
  os_decode :: "string \<Rightarrow> 'key \<Rightarrow> jwt_validation \<Rightarrow> string + json"

definition accepted_audiences :: "string list \<Rightarrow> string list" where
  "accepted_audiences audiences = filter (\<lambda>s. s \<noteq> []) (map trim audiences)"

definition introspection_endpoint :: "string \<Rightarrow> provider_metadata \<Rightarrow> string" where
  "introspection_endpoint oidc_issuer_url metadata =
     (case pm_introspection_endpoint metadata of
        Some endpoint \<Rightarrow> endpoint
      | None \<Rightarrow> oidc_issuer_url @ ''/protocol/openid-connect/token/introspect'')"

definition token_validator_new ::
  "('n, 'key) oidc_services \<Rightarrow> string \<Rightarrow> string \<Rightarrow> string option \<Rightarrow> string list \<Rightarrow>
     ('n, string, token_validator) eff" where
  "token_validator_new sv oidc_issuer_url client_id client_secret audiences =
     ebind (lift_res (os_issuer_url sv oidc_issuer_url)) (\<lambda>issuer_url.
     ebind (os_discover sv issuer_url) (\<lambda>metadata.
     ebind (os_fetch_jwks sv (pm_jwks_uri metadata)) (\<lambda>keys.
     ebind (lift_res (os_introspection_url sv (introspection_endpoint oidc_issuer_url metadata)))
       (\<lambda>introspection_url.
     ret \<lparr>tv_client_id = client_id, tv_client_secret = client_secret,
          tv_introspection_url = introspection_url, tv_keys = keys,
          tv_validation =
            \<lparr>jv_algorithm = ''RS256'', jv_issuer = pm_issuer metadata,
             jv_audience = accepted_audiences audiences, jv_leeway = 60\<rparr>\<rparr>))))"

section \<open>Validating a token\<close>

definition validate_token_with_introspection ::
  "('n, 'key) oidc_services \<Rightarrow> token_validator \<Rightarrow> string \<Rightarrow> 'n \<Rightarrow> validated_token \<times> 'n" where
  "validate_token_with_introspection sv self token n =
     (case os_introspect sv self token n of
        (Inr active, n') \<Rightarrow> (if active then TokenValid token else TokenInvalid, n')
      | (Inl err, n') \<Rightarrow> (TokenFailed err, n'))"

definition validate_token_with_jwt ::
  "('n, 'key) oidc_services \<Rightarrow> token_validator \<Rightarrow> string \<Rightarrow> validated_token" where
  "validate_token_with_jwt sv self jwt =
     (case os_decode_header sv jwt of
        Inl _ \<Rightarrow> TokenInvalid
      | Inr None \<Rightarrow> TokenInvalid
      | Inr (Some key_id) \<Rightarrow>
          (case find (\<lambda>k. jwk_kid k = Some key_id) (tv_keys self) of
             None \<Rightarrow> TokenInvalid
           | Some k \<Rightarrow>
               (case os_from_jwk sv k of
                  Inl err \<Rightarrow> TokenFailed (''Unsupported JWK: '' @ err)
                | Inr decoding_key \<Rightarrow>
                    (case os_decode sv jwt decoding_key (tv_validation self) of
                       Inr _ \<Rightarrow> TokenValid jwt
                     | Inl _ \<Rightarrow> TokenInvalid))))"

definition validate_token ::
  "('n, 'key) oidc_services \<Rightarrow> token_validator \<Rightarrow> string option \<Rightarrow> validation_method \<Rightarrow> 'n \<Rightarrow>
     validated_token \<times> 'n" where
  "validate_token sv self authorization_header method n =
     (case authorization_header of
        Some token \<Rightarrow>
          (case method of
             Introspection \<Rightarrow> validate_token_with_introspection sv self token n
           | Jwt \<Rightarrow> (validate_token_with_jwt sv self token, n))
      | None \<Rightarrow> (TokenMissing, n))"

section \<open>The guard\<close>

definition auth_guard :: "graph_ctx \<Rightarrow> graph_error + unit" where
  "auth_guard ctx =
     (case cx_auth ctx of
        None \<Rightarrow> Inl (NotAuthenticated ''Authentication context missing'')
      | Some auth \<Rightarrow>
          (case auth of
             TokenValid _ \<Rightarrow> Inr ()
           | TokenInvalid \<Rightarrow> Inl (NotAuthenticated ''Authentication error: Invalid token'')
           | TokenMissing \<Rightarrow> Inl (NotAuthenticated ''Authentication error: Missing Bearer token'')
           | TokenFailed reason \<Rightarrow> Inl (NotAuthenticated (''Authentication failed: '' @ reason))))"

definition guarded :: "graph_ctx \<Rightarrow> ('s, graph_error, 'a) eff \<Rightarrow> ('s, graph_error, 'a) eff" where
  "guarded ctx m = ebind (lift_res (auth_guard ctx)) (\<lambda>_. m)"

section \<open>Lemmas\<close>

lemma auth_guard_ok: "auth_guard ctx = Inr u \<longleftrightarrow> (\<exists>t. cx_auth ctx = Some (TokenValid t))"
  by (auto simp: auth_guard_def split: option.splits validated_token.splits)

lemma guarded_ok: "guarded ctx m s = (Inr a, s') \<Longrightarrow> (\<exists>t. cx_auth ctx = Some (TokenValid t)) \<and> m s = (Inr a, s')"
  by (auto simp: guarded_def eff_elims auth_guard_ok)

text \<open>What a guarded resolver sends, it sends with a valid token of the context.\<close>

lemma sends_guarded:
  assumes "\<And>t. cx_auth ctx = Some (TokenValid t) \<Longrightarrow> sends P m"
  shows "sends P (guarded ctx m)"
proof (cases "auth_guard ctx")
  case (Inl e)
  then show ?thesis by (simp add: guarded_def emits_def ebind_def)
next
  case (Inr u)
  then have "guarded ctx m = m" by (intro ext) (simp add: guarded_def ebind_def)
  with assms Inr show ?thesis by (auto simp: auth_guard_ok)
qed

text \<open>
  A token is verified by the key the issuer publishes under the key id of its header, against
  the issuer, audience and algorithm the validator was set up with.
\<close>

definition verified :: "('n, 'key) oidc_services \<Rightarrow> token_validator \<Rightarrow> string \<Rightarrow> bool" where
  "verified sv v token \<longleftrightarrow>
     (\<exists>kid k key claims. os_decode_header sv token = Inr (Some kid) \<and>
        find (\<lambda>k. jwk_kid k = Some kid) (tv_keys v) = Some k \<and>
        os_from_jwk sv k = Inr key \<and> os_decode sv token key (tv_validation v) = Inr claims)"

lemma validate_jwt_iff: "validate_token_with_jwt sv v t = TokenValid t' \<longleftrightarrow> t' = t \<and> verified sv v t"
  by (auto simp: validate_token_with_jwt_def verified_def split: sum.splits option.splits)

text \<open>
  C14. A resolver runs only for a caller who presented a token that verifies: whatever the
  request carries, the guard lets it pass exactly when its bearer token is verified, and the
  token the resolvers use afterwards is that one and no other.
\<close>

theorem guard_admits_verified:
  "(auth_guard (ctx\<lparr>cx_auth := Some (fst (validate_token sv v header Jwt n))\<rparr>) = Inr () \<longleftrightarrow>
      (\<exists>t. header = Some t \<and> verified sv v t)) \<and>
   as_token (fst (validate_token sv v header Jwt n)) =
      (case header of Some t \<Rightarrow> (if verified sv v t then Some t else None) | None \<Rightarrow> None)"
proof (cases header)
  case (Some t)
  then show ?thesis
    using validate_jwt_iff [of sv v t]
    by (cases "validate_token_with_jwt sv v t") (auto simp: validate_token_def as_token_def auth_guard_ok)
qed (simp add: validate_token_def as_token_def auth_guard_def)

text \<open>A validator accepts RS256 only, for the discovered issuer and non-blank audiences.\<close>

lemma token_validator_new_checks:
  assumes "token_validator_new sv uri cid secret audiences n = (Inr v, n')"
  shows "jv_algorithm (tv_validation v) = ''RS256'' \<and> jv_leeway (tv_validation v) = 60 \<and>
    [] \<notin> set (jv_audience (tv_validation v)) \<and>
    (\<exists>m. fst (os_discover sv (projr (os_issuer_url sv uri)) n) = Inr m \<and>
       jv_issuer (tv_validation v) = pm_issuer m)"
  using assms by (auto simp: token_validator_new_def eff_elims accepted_audiences_def)

end
