(* ===== verification/Filters.thy ===== *)
theory Filters
  imports Graph_Env
begin

text \<open>
  The filters of the graph proxy (\<^verbatim>\<open>graph-proxy/src/graphql/filters.rs\<close>): the label selectors
  it writes for workflows and templates, and what the documentation of Kubernetes makes of them.
\<close>

section \<open>Science groups\<close>

datatype science_group =
    Mx | Examples | MagneticMaterials | CondensedMatter | Imaging
  | BioCryoImaging | Surfaces | Crystallography | Spectroscopy

fun science_group_key :: "science_group \<Rightarrow> string" where
  "science_group_key Mx = ''mx''"
| "science_group_key Crystallography = ''crystallography''"
| "science_group_key MagneticMaterials = ''magnetic-materials''"
| "science_group_key Examples = ''examples''"
| "science_group_key BioCryoImaging = ''bio-cryo-imaging''"
| "science_group_key CondensedMatter = ''condensed-matter''"
| "science_group_key Spectroscopy = ''spectroscopy''"
| "science_group_key Imaging = ''imaging''"
| "science_group_key Surfaces = ''surfaces''"

definition science_group_label :: "science_group \<Rightarrow> string" where
  "science_group_label g = ''workflows.diamond.ac.uk/science-group-'' @ science_group_key g"

text \<open>
  The groups go through a \<^verbatim>\<open>HashSet\<close>; \<open>hash_iter\<close> is its iteration, which lists each
  element once in an order of its own.
\<close>

definition science_group_labels ::
  "(science_group list \<Rightarrow> science_group list) \<Rightarrow> science_group list \<Rightarrow> string list" where
  "science_group_labels hash_iter groups =
     map (\<lambda>g. science_group_label g @ ''=true'') (hash_iter groups)"

definition option_labels :: "('a \<Rightarrow> string list) \<Rightarrow> 'a option \<Rightarrow> string list" where
  "option_labels generate x = (case x of Some f \<Rightarrow> generate f | None \<Rightarrow> [])"

definition templates_label_selection ::
  "(science_group list \<Rightarrow> science_group list) \<Rightarrow> science_group list option \<Rightarrow> string" where
  "templates_label_selection hash_iter science_group =
     join '','' (option_labels (science_group_labels hash_iter) science_group)"

definition templates_generate_filters ::
  "(science_group list \<Rightarrow> science_group list) \<Rightarrow> science_group list option \<Rightarrow> url \<Rightarrow> url" where
  "templates_generate_filters hash_iter science_group u =
     append_pair ''listOptions.labelSelector'' (templates_label_selection hash_iter science_group) u"

section \<open>Workflow filters\<close>

datatype selector_operator = Eq | Ne | In | NotIn | Exists | DoesNotExist

record label_selector =
  ls_key :: string
  ls_operator :: selector_operator
  ls_values :: "string list option"

record status_filter =
  pending :: bool
  running :: bool
  succeeded :: bool
  failed :: bool
  error :: bool

record workflow_filter =
  workflow_status_filter :: "status_filter option"
  creator :: "string option"
  template_name :: "string option"
  label_selectors :: "label_selector list option"

definition is_enabled :: "status_filter \<Rightarrow> bool" where
  "is_enabled f \<longleftrightarrow> pending f \<or> running f \<or> succeeded f \<or> failed f \<or> error f"

definition to_phases :: "status_filter \<Rightarrow> string list" where
  "to_phases f =
     (if pending f then [''Pending''] else []) @ (if running f then [''Running''] else []) @
     (if succeeded f then [''Succeeded''] else []) @ (if failed f then [''Failed''] else []) @
     (if error f then [''Error''] else [])"

definition PHASE_LABEL :: string where "PHASE_LABEL = ''workflows.argoproj.io/phase''"
definition CREATOR_NAME_LABEL :: string where
  "CREATOR_NAME_LABEL = ''workflows.argoproj.io/creator-preferred-username''"
definition TEMPLATE_LABEL :: string where
  "TEMPLATE_LABEL = ''workflows.argoproj.io/cluster-workflow-template''"

definition status_labels :: "status_filter \<Rightarrow> string list" where
  "status_labels f =
     (if is_enabled f then [PHASE_LABEL @ '' in ('' @ join '', '' (to_phases f) @ '')''] else [])"

definition creator_labels :: "string \<Rightarrow> string list" where
  "creator_labels c = [CREATOR_NAME_LABEL @ ''='' @ c]"

definition template_labels :: "string \<Rightarrow> string list" where
  "template_labels t = [TEMPLATE_LABEL @ ''='' @ t]"

text \<open>A missing operand panics: \<^verbatim>\<open>expect\<close> on the values, or the index 0 of an empty list.\<close>

datatype selector_panic = ExpectedValues string | IndexOutOfBounds

definition first_value :: "string \<Rightarrow> string list option \<Rightarrow> selector_panic + string" where
  "first_value msg vs =
     (case vs of
        None \<Rightarrow> Inl (ExpectedValues msg)
      | Some [] \<Rightarrow> Inl IndexOutOfBounds
      | Some (v # _) \<Rightarrow> Inr v)"

definition to_label_selector :: "label_selector \<Rightarrow> selector_panic + string" where
  "to_label_selector s =
     (case ls_operator s of
        Eq \<Rightarrow> rbind (first_value ''EQ requires value'' (ls_values s))
                (\<lambda>v. Inr (ls_key s @ ''='' @ v))
      | Ne \<Rightarrow> rbind (first_value ''NE requires value'' (ls_values s))
                (\<lambda>v. Inr (ls_key s @ ''!='' @ v))
      | In \<Rightarrow> rbind (ok_or (ExpectedValues ''IN requires values'') (ls_values s))
                (\<lambda>vs. Inr (ls_key s @ '' in ('' @ join '', '' vs @ '')''))
      | NotIn \<Rightarrow> rbind (ok_or (ExpectedValues ''NOT_IN requires values'') (ls_values s))
                (\<lambda>vs. Inr (ls_key s @ '' notin ('' @ join '', '' vs @ '')''))
      | Exists \<Rightarrow> Inr (ls_key s)
      | DoesNotExist \<Rightarrow> Inr (''!'' @ ls_key s))"

definition create_label_selection :: "workflow_filter \<Rightarrow> selector_panic + string" where
  "create_label_selection f =
     rbind (try_map to_label_selector (unwrap_or [] (label_selectors f))) (\<lambda>ls.
       Inr (join '','' (option_labels status_labels (workflow_status_filter f) @
              option_labels creator_labels (creator f) @
              option_labels template_labels (template_name f) @ ls)))"

definition generate_filters :: "workflow_filter \<Rightarrow> url \<Rightarrow> selector_panic + url" where
  "generate_filters f u =
     rbind (create_label_selection f) (\<lambda>labels. Inr (append_pair ''listOptions.labelSelector'' labels u))"

section \<open>The language of label selectors\<close>

text \<open>
  What a label selector means, as the Kubernetes documentation ("Labels and Selectors") has it: a
  requirement on the labels of an object, the syntax of keys and values, and the six texts of a
  requirement. Who reads the texts, the Argo server or Kubernetes, is a parameter.
\<close>

datatype requirement =
    KeyIn string "string list"
  | KeyNotIn string "string list"
  | HasKey string
  | LacksKey string

fun req_holds :: "requirement \<Rightarrow> string_map \<Rightarrow> bool" where
  "req_holds (KeyIn k vs) labels = (case labels k of Some v \<Rightarrow> v \<in> set vs | None \<Rightarrow> False)"
| "req_holds (KeyNotIn k vs) labels = (case labels k of Some v \<Rightarrow> v \<notin> set vs | None \<Rightarrow> True)"
| "req_holds (HasKey k) labels = (labels k \<noteq> None)"
| "req_holds (LacksKey k) labels = (labels k = None)"

abbreviation all_hold :: "requirement list \<Rightarrow> string_map \<Rightarrow> bool" where
  "all_hold qs labels \<equiv> list_all (\<lambda>q. req_holds q labels) qs"

text \<open>
  A value, and the name of a key, has at most 63 characters, letters and digits with dashes, underscores
  and dots between them; a key may have a prefix of DNS labels. A value may also be empty, but
  not in the texts below.
\<close>

definition alnum :: "char \<Rightarrow> bool" where
  "alnum c \<longleftrightarrow> is_ascii_letter c \<or> is_ascii_digit c"

definition label_name :: "string \<Rightarrow> bool" where
  "label_name s \<longleftrightarrow> s \<noteq> [] \<and> length s \<le> 63 \<and> alnum (hd s) \<and> alnum (last s) \<and>
     list_all (\<lambda>c. alnum c \<or> c \<in> set ''-_.'') s"

definition dns_label :: "string \<Rightarrow> bool" where
  "dns_label s \<longleftrightarrow> s \<noteq> [] \<and> length s \<le> 63 \<and> hd s \<noteq> CHR ''-'' \<and> last s \<noteq> CHR ''-'' \<and>
     list_all (\<lambda>c. is_ascii_digit c \<or> (97 \<le> code c \<and> code c \<le> 122) \<or> c = CHR ''-'') s"

definition label_prefix :: "string \<Rightarrow> bool" where
  "label_prefix s \<longleftrightarrow> length s \<le> 253 \<and> list_all dns_label (split_char CHR ''.'' s)"

definition label_key :: "string \<Rightarrow> bool" where
  "label_key k \<longleftrightarrow>
     (case split_char CHR ''/'' k of
        [n] \<Rightarrow> label_name n
      | [p, n] \<Rightarrow> label_prefix p \<and> label_name n
      | _ \<Rightarrow> False)"

inductive documented_text :: "string \<Rightarrow> requirement \<Rightarrow> bool" where
  text_eq: "label_key k \<Longrightarrow> label_name v \<Longrightarrow> documented_text (k @ ''='' @ v) (KeyIn k [v])"
| text_ne: "label_key k \<Longrightarrow> label_name v \<Longrightarrow> documented_text (k @ ''!='' @ v) (KeyNotIn k [v])"
| text_in: "label_key k \<Longrightarrow> vs \<noteq> [] \<Longrightarrow> list_all label_name vs \<Longrightarrow>
    documented_text (k @ '' in ('' @ join '', '' vs @ '')'') (KeyIn k vs)"
| text_notin: "label_key k \<Longrightarrow> vs \<noteq> [] \<Longrightarrow> list_all label_name vs \<Longrightarrow>
    documented_text (k @ '' notin ('' @ join '', '' vs @ '')'') (KeyNotIn k vs)"
| text_key: "label_key k \<Longrightarrow> documented_text k (HasKey k)"
| text_no_key: "label_key k \<Longrightarrow> documented_text (''!'' @ k) (LacksKey k)"

text \<open>
  A reader makes of a selector the condition on labels it stands for, or refuses it. It follows the
  documentation when documented texts with commas between them are read as all of their requirements;
  what it does with any other text is left open.
\<close>

definition documented_selectors :: "(string \<Rightarrow> (string_map \<Rightarrow> bool) option) \<Rightarrow> bool" where
  "documented_selectors reads \<longleftrightarrow>
     (\<forall>ts qs. list_all2 documented_text ts qs \<longrightarrow> reads (join '','' ts) = Some (all_hold qs))"

section \<open>The texts mean the filters\<close>

text \<open>Label texts mean a condition on labels when they are texts of requirements that amount to it.\<close>

definition labels_mean :: "string list \<Rightarrow> (string_map \<Rightarrow> bool) \<Rightarrow> bool" where
  "labels_mean ts P \<longleftrightarrow> (\<exists>qs. list_all2 documented_text ts qs \<and> all_hold qs = P)"

lemma labels_meanI:
  "list_all2 documented_text ts qs \<Longrightarrow> (\<And>labels. all_hold qs labels = P labels) \<Longrightarrow> labels_mean ts P"
  by (auto simp: labels_mean_def)

lemma labels_mean_one:
  "documented_text t q \<Longrightarrow> (\<And>labels. req_holds q labels = P labels) \<Longrightarrow> labels_mean [t] P"
  by (rule labels_meanI [of _ "[q]"]) simp_all

lemma labels_mean_Nil: "labels_mean [] (\<lambda>labels. True)"
  by (rule labels_meanI [of _ "[]"]) simp_all

lemma labels_mean_append:
  assumes "labels_mean ts P" "labels_mean us Q"
  shows "labels_mean (ts @ us) (\<lambda>labels. P labels \<and> Q labels)"
proof -
  from assms obtain qs rs where "list_all2 documented_text ts qs" "list_all2 documented_text us rs"
    "all_hold qs = P" "all_hold rs = Q"
    by (auto simp: labels_mean_def)
  then show ?thesis by (intro labels_meanI [of _ "qs @ rs"] list_all2_appendI) auto
qed

lemma labels_mean_read:
  "labels_mean ts P \<Longrightarrow> documented_selectors reads \<Longrightarrow> reads (join '','' ts) = Some P"
  by (auto simp: labels_mean_def documented_selectors_def)

text \<open>
  The trait \<^verbatim>\<open>GraphFilter\<close>: what generates labels promises that they mean what the filter
  accepts, for the filters whose names are keys and values of labels. An optional filter keeps the
  promise, accepting everything when there is none.
\<close>

locale graph_filter =
  fixes generate_labels :: "'f \<Rightarrow> string list"
    and writable :: "'f \<Rightarrow> bool"
    and accepts :: "'f \<Rightarrow> string_map \<Rightarrow> bool"
  assumes generated_mean: "writable x \<Longrightarrow> labels_mean (generate_labels x) (accepts x)"
begin

lemma option_mean:
  assumes "\<And>f. x = Some f \<Longrightarrow> writable f"
  shows "labels_mean (option_labels generate_labels x)
    (\<lambda>labels. case x of Some f \<Rightarrow> accepts f labels | None \<Rightarrow> True)"
  using assms generated_mean by (cases x) (simp_all add: option_labels_def labels_mean_Nil)

lemma selector_read:
  "writable x \<Longrightarrow> documented_selectors reads \<Longrightarrow>
     reads (join '','' (generate_labels x)) = Some (accepts x)"
  by (rule labels_mean_read) (rule generated_mean)

end

section \<open>What a filter accepts\<close>

definition selector_accepts :: "label_selector \<Rightarrow> string_map \<Rightarrow> bool" where
  "selector_accepts s labels =
     (let vs = unwrap_or [] (ls_values s) in
      case ls_operator s of
        Eq \<Rightarrow> labels (ls_key s) = Some (hd vs)
      | Ne \<Rightarrow> labels (ls_key s) \<noteq> Some (hd vs)
      | In \<Rightarrow> labels (ls_key s) \<in> Some ` set vs
      | NotIn \<Rightarrow> labels (ls_key s) \<notin> Some ` set vs
      | Exists \<Rightarrow> labels (ls_key s) \<noteq> None
      | DoesNotExist \<Rightarrow> labels (ls_key s) = None)"

definition phase_wanted :: "status_filter \<Rightarrow> string \<Rightarrow> bool" where
  "phase_wanted f p \<longleftrightarrow>
     (p = ''Pending'' \<and> pending f) \<or> (p = ''Running'' \<and> running f) \<or>
     (p = ''Succeeded'' \<and> succeeded f) \<or> (p = ''Failed'' \<and> failed f) \<or> (p = ''Error'' \<and> error f)"

definition filter_accepts :: "workflow_filter \<Rightarrow> string_map \<Rightarrow> bool" where
  "filter_accepts f labels \<longleftrightarrow>
     (case workflow_status_filter f of
        Some sf \<Rightarrow> is_enabled sf \<longrightarrow> (case labels PHASE_LABEL of Some p \<Rightarrow> phase_wanted sf p | None \<Rightarrow> False)
      | None \<Rightarrow> True) \<and>
     (case creator f of Some c \<Rightarrow> labels CREATOR_NAME_LABEL = Some c | None \<Rightarrow> True) \<and>
     (case template_name f of Some t \<Rightarrow> labels TEMPLATE_LABEL = Some t | None \<Rightarrow> True) \<and>
     list_all (\<lambda>s. selector_accepts s labels) (unwrap_or [] (label_selectors f))"

definition lacks_operand :: "label_selector \<Rightarrow> bool" where
  "lacks_operand s =
     (case ls_operator s of
        Eq \<Rightarrow> unwrap_or [] (ls_values s) = [] | Ne \<Rightarrow> unwrap_or [] (ls_values s) = []
      | In \<Rightarrow> ls_values s = None | NotIn \<Rightarrow> ls_values s = None
      | Exists \<Rightarrow> False | DoesNotExist \<Rightarrow> False)"

definition selector_valid :: "label_selector \<Rightarrow> bool" where
  "selector_valid s \<longleftrightarrow> label_key (ls_key s) \<and>
     (ls_operator s \<in> {Exists, DoesNotExist} \<or>
      (\<exists>vs. ls_values s = Some vs \<and> vs \<noteq> [] \<and> list_all label_name vs))"

definition filter_valid :: "workflow_filter \<Rightarrow> bool" where
  "filter_valid f \<longleftrightarrow>
     (case creator f of Some c \<Rightarrow> label_name c | None \<Rightarrow> True) \<and>
     (case template_name f of Some t \<Rightarrow> label_name t | None \<Rightarrow> True) \<and>
     list_all selector_valid (unwrap_or [] (label_selectors f))"

fun requirement_of :: "label_selector \<Rightarrow> requirement" where
  "requirement_of s =
     (let vs = unwrap_or [] (ls_values s) in
      case ls_operator s of
        Eq \<Rightarrow> KeyIn (ls_key s) [hd vs] | Ne \<Rightarrow> KeyNotIn (ls_key s) [hd vs]
      | In \<Rightarrow> KeyIn (ls_key s) vs | NotIn \<Rightarrow> KeyNotIn (ls_key s) vs
      | Exists \<Rightarrow> HasKey (ls_key s) | DoesNotExist \<Rightarrow> LacksKey (ls_key s))"

lemma requirement_of_holds: "req_holds (requirement_of s) labels = selector_accepts s labels"
  by (cases "ls_operator s"; cases "labels (ls_key s)")
    (auto simp: selector_accepts_def Let_def split: option.splits)

lemma to_label_selector_documented:
  assumes "selector_valid s"
  shows "\<exists>t. to_label_selector s = Inr t \<and> documented_text t (requirement_of s)"
proof -
  note texts = documented_text.intros [where k = "ls_key s"]
  show ?thesis
    using assms texts(1,2) [of "hd (unwrap_or [] (ls_values s))"] texts(3,4) [of "unwrap_or [] (ls_values s)"]
      texts(5,6)
    by (cases "ls_operator s"; cases "unwrap_or [] (ls_values s)")
      (auto simp: selector_valid_def to_label_selector_def first_value_def Let_def)
qed

lemma try_map_selectors:
  "list_all selector_valid ss \<Longrightarrow>
     \<exists>ts. try_map to_label_selector ss = Inr ts \<and> list_all2 documented_text ts (map requirement_of ss)"
proof (induction ss)
  case (Cons s ss)
  then show ?case using to_label_selector_documented [of s] by auto
qed simp

lemma requirements_of_hold:
  "list_all (\<lambda>q. req_holds q labels) (map requirement_of ss) = list_all (\<lambda>s. selector_accepts s labels) ss"
  by (simp add: list.pred_map comp_def requirement_of_holds del: requirement_of.simps)

lemma phases_wanted: "set (to_phases f) = {p. phase_wanted f p}"
  by (auto simp: to_phases_def phase_wanted_def)

lemmas label_syntax = label_key_def label_prefix_def dns_label_def label_name_def alnum_def
  is_ascii_letter_def is_ascii_digit_def code_def

lemma label_keys_valid: "label_key PHASE_LABEL" "label_key CREATOR_NAME_LABEL" "label_key TEMPLATE_LABEL"
  by (simp_all add: PHASE_LABEL_def CREATOR_NAME_LABEL_def TEMPLATE_LABEL_def label_syntax)

lemma phases_valid: "list_all label_name (to_phases f)"
  by (simp add: to_phases_def label_syntax)

definition status_accepts :: "status_filter \<Rightarrow> string_map \<Rightarrow> bool" where
  "status_accepts sf labels \<longleftrightarrow>
     (is_enabled sf \<longrightarrow> (case labels PHASE_LABEL of Some p \<Rightarrow> phase_wanted sf p | None \<Rightarrow> False))"

lemma status_labels_mean: "labels_mean (status_labels f) (status_accepts f)"
proof (cases "is_enabled f")
  case True
  then have "to_phases f \<noteq> []" by (auto simp: to_phases_def is_enabled_def)
  then have "documented_text (PHASE_LABEL @ '' in ('' @ join '', '' (to_phases f) @ '')'')
      (KeyIn PHASE_LABEL (to_phases f))"
    by (intro text_in label_keys_valid phases_valid)
  from labels_mean_one [OF this] True show ?thesis
    by (simp add: status_labels_def status_accepts_def phases_wanted split: option.split)
next
  case False
  then show ?thesis by (intro labels_meanI [of _ "[]"]) (simp_all add: status_labels_def status_accepts_def)
qed

lemma equal_label_mean:
  "label_key k \<Longrightarrow> label_name v \<Longrightarrow> labels_mean [k @ ''='' @ v] (\<lambda>labels. labels k = Some v)"
  by (rule labels_mean_one [OF text_eq]) (simp_all split: option.split)

interpretation status: graph_filter status_labels "\<lambda>_. True" status_accepts
  by unfold_locales (rule status_labels_mean)

interpretation creators: graph_filter creator_labels label_name "\<lambda>c labels. labels CREATOR_NAME_LABEL = Some c"
  by unfold_locales (simp add: creator_labels_def equal_label_mean label_keys_valid del: append_Cons append_Nil)

interpretation templates: graph_filter template_labels label_name "\<lambda>t labels. labels TEMPLATE_LABEL = Some t"
  by unfold_locales (simp add: template_labels_def equal_label_mean label_keys_valid del: append_Cons append_Nil)

interpretation selectors: graph_filter "\<lambda>ss. projr (try_map to_label_selector ss)"
  "list_all selector_valid" "\<lambda>ss labels. list_all (\<lambda>s. selector_accepts s labels) ss"
proof unfold_locales
  fix ss
  assume "list_all selector_valid ss"
  then obtain ts where "try_map to_label_selector ss = Inr ts"
    "list_all2 documented_text ts (map requirement_of ss)"
    using try_map_selectors by blast
  then show "labels_mean (projr (try_map to_label_selector ss))
      (\<lambda>labels. list_all (\<lambda>s. selector_accepts s labels) ss)"
    by (intro labels_meanI [of _ "map requirement_of ss"]) (simp_all only: sum.sel requirements_of_hold)
qed

text \<open>
  C13. Read as the documentation of Kubernetes has it, the selector the proxy sends for a workflow
  filter accepts exactly the workflows the filter describes. This is for filters whose keys are
  keys of labels and whose values are values of labels, none of them empty, and whose operators that
  take values have some; the reader is any one that follows the documentation on such texts.
\<close>

theorem workflow_selection_meaning:
  assumes "documented_selectors reads" and "filter_valid f"
  shows "\<exists>selector. create_label_selection f = Inr selector \<and> reads selector = Some (filter_accepts f)"
proof -
  let ?ss = "unwrap_or [] (label_selectors f)"
  have ss: "list_all selector_valid ?ss" using assms(2) by (simp add: filter_valid_def)
  then obtain ts where ts: "try_map to_label_selector ?ss = Inr ts" using try_map_selectors by blast
  have "labels_mean (option_labels status_labels (workflow_status_filter f) @
      option_labels creator_labels (creator f) @ option_labels template_labels (template_name f) @ ts)
      (filter_accepts f)"
    unfolding filter_accepts_def [abs_def] status_accepts_def [symmetric]
    using assms(2) selectors.generated_mean [OF ss] ts
    by (intro labels_mean_append status.option_mean creators.option_mean templates.option_mean)
      (auto simp: filter_valid_def)
  from labels_mean_read [OF this assms(1)] ts show ?thesis by (simp add: create_label_selection_def)
qed

text \<open>
  C39. A filter makes the server panic exactly when one of its label selectors has an operator
  without the values it needs; nothing else in a filter can fail.
\<close>

theorem selection_panics_iff:
  "(\<exists>p. create_label_selection f = Inl p) \<longleftrightarrow>
     (\<exists>s \<in> set (unwrap_or [] (label_selectors f)). lacks_operand s)"
proof -
  have one: "(\<exists>p. to_label_selector s = Inl p) = lacks_operand s" for s
    by (cases "ls_operator s"; cases "ls_values s"; cases "unwrap_or [] (ls_values s)")
      (auto simp: to_label_selector_def lacks_operand_def first_value_def)
  have "(\<exists>p. try_map to_label_selector ss = Inl p) = (\<exists>s \<in> set ss. lacks_operand s)" for ss
  proof (induction ss)
    case (Cons s ss)
    then show ?case
      using one [of s] by (cases "to_label_selector s"; cases "try_map to_label_selector ss") auto
  qed simp
  from this [of "unwrap_or [] (label_selectors f)"] show ?thesis
    by (cases "try_map to_label_selector (unwrap_or [] (label_selectors f))")
      (auto simp: create_label_selection_def)
qed

section \<open>A reader of selectors\<close>

text \<open>
  A reader that follows the documentation, so that the hypothesis of the theorems above holds of
  something: a lexer and a parser of texts of the six forms, which refuses keys and values that are not
  those of labels. It stands for no code of the repository.
\<close>

datatype token = TId string | TComma | TOpen | TClose | TBang | TNe | TEq | TEqEq | TOther

definition special :: "char \<Rightarrow> bool" where
  "special c \<longleftrightarrow> c \<in> set '',()!=<>''"

definition blank :: "char \<Rightarrow> bool" where
  "blank c \<longleftrightarrow> code c \<in> {9, 10, 13, 32}"

definition id_char :: "char \<Rightarrow> bool" where
  "id_char c \<longleftrightarrow> \<not> special c \<and> \<not> blank c"

function lex :: "string \<Rightarrow> token list" where
  "lex [] = []"
| "lex (c # cs) =
     (if blank c then lex cs
      else if c = CHR '','' then TComma # lex cs
      else if c = CHR ''('' then TOpen # lex cs
      else if c = CHR '')'' then TClose # lex cs
      else if c = CHR ''!'' then
        (if cs \<noteq> [] \<and> hd cs = CHR ''='' then TNe # lex (tl cs) else TBang # lex cs)
      else if c = CHR ''='' then
        (if cs \<noteq> [] \<and> hd cs = CHR ''='' then TEqEq # lex (tl cs) else TEq # lex cs)
      else if special c then TOther # lex cs
      else TId (takeWhile id_char (c # cs)) # lex (dropWhile id_char cs))"
  by pat_completeness auto
termination
  by (relation "measure length") (auto simp: less_Suc_eq_le length_dropWhile_le)

declare lex.simps(2) [simp del]

fun parse_values :: "token list \<Rightarrow> (string list \<times> token list) option" where
  "parse_values (TId v # t # ts) =
     (if t = TClose then Some ([v], ts)
      else if t = TComma then map_option (\<lambda>(vs, r). (v # vs, r)) (parse_values ts)
      else None)"
| "parse_values _ = None"

definition parse_set :: "(string list \<Rightarrow> requirement) \<Rightarrow> token list \<Rightarrow> (requirement \<times> token list) option" where
  "parse_set mk ts =
     (if ts \<noteq> [] \<and> hd ts = TOpen then map_option (\<lambda>(vs, r). (mk vs, r)) (parse_values (tl ts)) else None)"

definition parse_exact :: "(string list \<Rightarrow> requirement) \<Rightarrow> token list \<Rightarrow> (requirement \<times> token list) option" where
  "parse_exact mk ts = (case ts of TId v # r \<Rightarrow> Some (mk [v], r) | _ \<Rightarrow> None)"

definition parse_requirement :: "token list \<Rightarrow> (requirement \<times> token list) option" where
  "parse_requirement ts =
     (case ts of
        TBang # r \<Rightarrow> (case r of TId k # r' \<Rightarrow> Some (LacksKey k, r') | _ \<Rightarrow> None)
      | TId k # r \<Rightarrow>
          (case r of
             TId op # r' \<Rightarrow>
               (if op = ''in'' then parse_set (KeyIn k) r'
                else if op = ''notin'' then parse_set (KeyNotIn k) r' else None)
           | TEq # r' \<Rightarrow> parse_exact (KeyIn k) r'
           | TEqEq # r' \<Rightarrow> parse_exact (KeyIn k) r'
           | TNe # r' \<Rightarrow> parse_exact (KeyNotIn k) r'
           | _ \<Rightarrow> Some (HasKey k, r))
      | _ \<Rightarrow> None)"

lemma parse_values_length: "parse_values ts = Some (vs, r) \<Longrightarrow> length r < length ts"
  by (induction ts arbitrary: vs r rule: parse_values.induct) (auto split: if_splits)

lemma parse_set_length: "parse_set mk ts = Some (q, r) \<Longrightarrow> length r < length ts"
  by (cases ts) (auto simp: parse_set_def split: if_splits dest: parse_values_length)

lemma parse_exact_length: "parse_exact mk ts = Some (q, r) \<Longrightarrow> length r < length ts"
  by (auto simp: parse_exact_def split: list.splits token.splits)

lemma parse_requirement_length: "parse_requirement ts = Some (q, r) \<Longrightarrow> length r < length ts"
  by (auto simp: parse_requirement_def split: list.splits token.splits if_splits
      dest!: parse_set_length parse_exact_length)

function parse_requirements :: "token list \<Rightarrow> requirement list option" where
  "parse_requirements ts =
     (case parse_requirement ts of
        None \<Rightarrow> None
      | Some (q, r) \<Rightarrow>
          (if r = [] then Some [q]
           else if hd r = TComma then map_option ((#) q) (parse_requirements (tl r))
           else None))"
  by pat_completeness auto
termination
  by (relation "measure length") (auto dest: parse_requirement_length)

declare parse_requirements.simps [simp del]

definition parse_selector :: "string \<Rightarrow> requirement list option" where
  "parse_selector s = (if lex s = [] then Some [] else parse_requirements (lex s))"

definition valid_requirement :: "requirement \<Rightarrow> bool" where
  "valid_requirement q =
     (case q of
        KeyIn k vs \<Rightarrow> label_key k \<and> list_all (\<lambda>v. v = [] \<or> label_name v) vs
      | KeyNotIn k vs \<Rightarrow> label_key k \<and> list_all (\<lambda>v. v = [] \<or> label_name v) vs
      | HasKey k \<Rightarrow> label_key k
      | LacksKey k \<Rightarrow> label_key k)"

definition read_selector :: "string \<Rightarrow> (string_map \<Rightarrow> bool) option" where
  "read_selector s =
     (case parse_selector s of
        Some qs \<Rightarrow> if list_all valid_requirement qs then Some (all_hold qs) else None
      | None \<Rightarrow> None)"

text \<open>A name that needs no escaping: letters, digits and the like, no separators.\<close>

definition plain :: "string \<Rightarrow> bool" where
  "plain s \<longleftrightarrow> s \<noteq> [] \<and> list_all id_char s"

definition ends_id :: "string \<Rightarrow> bool" where
  "ends_id s \<longleftrightarrow> s = [] \<or> \<not> id_char (hd s)"

lemma lex_id: "plain w \<Longrightarrow> ends_id r \<Longrightarrow> lex (w @ r) = TId w # lex r"
proof (cases w)
  case (Cons c cs)
  assume p: "plain w" and e: "ends_id r"
  have c: "\<not> blank c" "\<not> special c" and cs: "list_all id_char cs"
    using p Cons by (auto simp: plain_def id_char_def)
  have tw: "takeWhile id_char (cs @ r) = cs \<and> dropWhile id_char (cs @ r) = r"
    using e cs by (intro takeWhile_span) (auto simp: ends_id_def)
  from c have "c \<notin> set '',()!=<>''" by (simp add: special_def)
  with c tw Cons show ?thesis by (simp add: id_char_def lex.simps(2))
qed (simp add: plain_def)

lemma comma_class [simp]:
  "\<not> blank CHR '',''" "special CHR '',''" "\<not> id_char CHR '',''"
  by (simp_all add: blank_def code_def special_def id_char_def)

lemma span_append_sep:
  "\<not> P d \<Longrightarrow> takeWhile P (a @ d # b) = takeWhile P a \<and> dropWhile P (a @ d # b) = dropWhile P a @ d # b"
  by (induction a) auto

lemma lex_sep: "lex (CHR '','' # b) = TComma # lex b"
  by (simp add: lex.simps(2))

lemma lex_comma: "lex (a @ CHR '','' # b) = lex a @ TComma # lex b"
proof (induction a rule: length_induct)
  case (1 a)
  show ?case
  proof (cases a)
    case (Cons c cs)
    have IH: "lex (a' @ CHR '','' # b) = lex a' @ TComma # lex b" if "length a' \<le> length cs" for a'
      using 1 Cons that by simp
    have "lex (dropWhile id_char cs @ CHR '','' # b) = lex (dropWhile id_char cs) @ TComma # lex b"
      by (rule IH) (simp add: length_dropWhile_le)
    with IH [of cs] IH [of "tl cs"] show ?thesis
      unfolding Cons append_Cons lex.simps(2) [of c cs] lex.simps(2) [of c "cs @ CHR '','' # b"]
      by (cases cs) (auto simp: span_append_sep lex_sep)
  qed (simp add: lex_sep)
qed

lemma lex_punct [simp]:
  "lex (CHR '' '' # s) = lex s" "lex (CHR ''('' # s) = TOpen # lex s"
  "lex (CHR '')'' # s) = TClose # lex s"
  "s = [] \<or> hd s \<noteq> CHR ''='' \<Longrightarrow> lex (CHR ''='' # s) = TEq # lex s"
  "s = [] \<or> hd s \<noteq> CHR ''='' \<Longrightarrow> lex (CHR ''!'' # s) = TBang # lex s"
  "lex (CHR ''!'' # CHR ''='' # s) = TNe # lex s"
  by (auto simp: lex.simps(2) blank_def code_def)

lemma ends_id_punct [simp]:
  "ends_id (CHR '' '' # s)" "ends_id (CHR ''('' # s)" "ends_id (CHR '')'' # s)"
  "ends_id (CHR ''='' # s)" "ends_id (CHR ''!'' # s)" "ends_id (CHR '','' # s)" "ends_id []"
  by (simp_all add: ends_id_def id_char_def special_def blank_def code_def)

lemma plain_hd: "plain s \<Longrightarrow> s \<noteq> [] \<and> hd s \<noteq> CHR ''=''"
  by (cases s) (auto simp: plain_def id_char_def special_def)

lemma lex_plain: "plain w \<Longrightarrow> lex w = [TId w]"
  using lex_id [of w "[]"] by simp

fun value_tokens :: "string list \<Rightarrow> token list" where
  "value_tokens [] = [TClose]"
| "value_tokens [v] = [TId v, TClose]"
| "value_tokens (v # w # vs) = TId v # TComma # value_tokens (w # vs)"

lemma lex_values:
  "list_all plain vs \<Longrightarrow> lex (join '', '' vs @ '')'') = value_tokens vs"
  by (induction vs rule: value_tokens.induct) (simp_all add: lex_id lex_sep)

lemma parse_value_tokens:
  "vs \<noteq> [] \<Longrightarrow> parse_values (value_tokens vs @ r) = Some (vs, r)"
  by (induction vs rule: value_tokens.induct) simp_all

text \<open>A text that the parser reads as one requirement, whatever follows it.\<close>

definition reads_as :: "string \<Rightarrow> requirement \<Rightarrow> bool" where
  "reads_as t q \<longleftrightarrow> lex t \<noteq> [] \<and>
     (\<forall>r. (r = [] \<or> hd r = TComma) \<longrightarrow> parse_requirement (lex t @ r) = Some (q, r))"

lemma plain_keywords [simp]: "plain ''in''" "plain ''notin''"
  by (simp_all add: plain_def id_char_def special_def blank_def code_def)

lemma lex_set:
  assumes "plain k" and "plain op" and "list_all plain vs"
  shows "lex (k @ CHR '' '' # op @ CHR '' '' # CHR ''('' # join '', '' vs @ '')'')
    = TId k # TId op # TOpen # value_tokens vs"
  using assms by (simp add: lex_id lex_values)

lemma reads_as_set:
  assumes "plain k" and "vs \<noteq> []" and "list_all plain vs"
  shows "reads_as (k @ '' in ('' @ join '', '' vs @ '')'') (KeyIn k vs)"
    and "reads_as (k @ '' notin ('' @ join '', '' vs @ '')'') (KeyNotIn k vs)"
  using assms lex_set [of k "''in''" vs] lex_set [of k "''notin''" vs]
  by (auto simp: reads_as_def parse_requirement_def parse_set_def parse_value_tokens)

lemma reads_as_exact:
  assumes "plain k" and "plain v"
  shows "reads_as (k @ ''='' @ v) (KeyIn k [v])"
    and "reads_as (k @ ''!='' @ v) (KeyNotIn k [v])"
  using assms plain_hd [OF assms(2)]
  by (auto simp: reads_as_def lex_id lex_plain parse_requirement_def parse_exact_def)

lemma reads_as_key:
  assumes "plain k"
  shows "reads_as k (HasKey k)" and "reads_as (''!'' @ k) (LacksKey k)"
  using assms plain_hd [OF assms]
  by (auto simp: reads_as_def lex_plain parse_requirement_def split: list.splits token.splits)

lemma parse_requirements_join:
  "list_all2 reads_as ts qs \<Longrightarrow> ts \<noteq> [] \<Longrightarrow>
     lex (join '','' ts) \<noteq> [] \<and> parse_requirements (lex (join '','' ts)) = Some qs"
proof (induction ts qs rule: list_all2_induct)
  case (Cons t ts q qs)
  show ?case
  proof (cases ts)
    case Nil
    have "parse_requirement (lex t @ []) = Some (q, [])" "lex t \<noteq> []"
      using Cons(1) unfolding reads_as_def by blast+
    with Nil Cons(2) show ?thesis by (simp add: parse_requirements.simps)
  next
    case (Cons t' ts')
    let ?r = "lex (join '','' ts)"
    have r: "lex (join '','' (t # ts)) = lex t @ TComma # ?r"
      using Cons lex_comma [of t "join '','' ts"] by simp
    have "parse_requirement (lex t @ TComma # ?r) = Some (q, TComma # ?r)"
      using \<open>reads_as t q\<close> by (simp add: reads_as_def)
    with r Cons \<open>ts \<noteq> [] \<Longrightarrow> ?r \<noteq> [] \<and> parse_requirements ?r = Some qs\<close> show ?thesis
      by (subst parse_requirements.simps) simp
  qed
qed simp

lemma parse_selector_join:
  "list_all2 reads_as ts qs \<Longrightarrow> parse_selector (join '','' ts) = Some qs"
  using parse_requirements_join [of ts qs] by (cases ts) (auto simp: parse_selector_def)

text \<open>Keys and values of labels are plain.\<close>

lemma set_split_char: "set s \<subseteq> insert d (\<Union> (set ` set (split_char d s)))"
proof (induction s)
  case (Cons c s)
  then show ?case by (cases "split_char d s") auto
qed simp

lemma label_name_plain: "label_name v \<Longrightarrow> plain v"
  by (auto simp: label_name_def plain_def list_all_iff alnum_def is_ascii_letter_def is_ascii_digit_def
      id_char_def special_def blank_def code_def)

lemma dns_label_chars: "dns_label p \<Longrightarrow> c \<in> set p \<Longrightarrow> id_char c"
  by (auto simp: dns_label_def list_all_iff is_ascii_digit_def id_char_def special_def blank_def code_def)

lemma label_prefix_chars:
  assumes "label_prefix p" and "c \<in> set p"
  shows "id_char c"
proof -
  have "id_char CHR ''.''" by (simp add: id_char_def special_def blank_def code_def)
  moreover have "c = CHR ''.'' \<or> (\<exists>q \<in> set (split_char CHR ''.'' p). dns_label q \<and> c \<in> set q)"
    using assms set_split_char [of p "CHR ''.''"] by (auto simp: label_prefix_def list_all_iff)
  ultimately show ?thesis using dns_label_chars by blast
qed

lemma label_key_plain:
  assumes "label_key k"
  shows "plain k"
proof -
  from assms obtain n where n: "label_name n" "n \<in> set (split_char CHR ''/'' k)"
    "\<And>q. q \<in> set (split_char CHR ''/'' k) \<Longrightarrow> q = n \<or> label_prefix q"
    by (auto simp: label_key_def split: list.splits)
  have "id_char CHR ''/''" by (simp add: id_char_def special_def blank_def code_def)
  with n label_name_plain label_prefix_chars have "id_char c" if "c \<in> set k" for c
    using that set_split_char [of k "CHR ''/''"] unfolding plain_def list_all_iff by blast
  moreover have "k \<noteq> []" using n(1,2) by (auto simp: label_name_def)
  ultimately show ?thesis by (simp add: plain_def list_all_iff)
qed

lemma documented_reads_as: "documented_text t q \<Longrightarrow> reads_as t q \<and> valid_requirement q"
proof (induction rule: documented_text.induct)
  case (text_in k vs)
  then have "list_all plain vs" by (auto simp: list_all_iff label_name_plain)
  with text_in show ?case
    using reads_as_set(1) label_key_plain by (simp add: valid_requirement_def list_all_iff)
next
  case (text_notin k vs)
  then have "list_all plain vs" by (auto simp: list_all_iff label_name_plain)
  with text_notin show ?case
    using reads_as_set(2) label_key_plain by (simp add: valid_requirement_def list_all_iff)
qed (use reads_as_exact reads_as_key label_key_plain label_name_plain in
     \<open>simp_all add: valid_requirement_def\<close>)

lemma documented_all:
  "list_all2 documented_text ts qs \<Longrightarrow> list_all2 reads_as ts qs \<and> list_all valid_requirement qs"
  by (induction rule: list_all2_induct) (simp_all add: documented_reads_as)

lemma read_selector_documented: "documented_selectors read_selector"
  unfolding documented_selectors_def
proof (intro allI impI)
  fix ts qs
  assume "list_all2 documented_text ts qs"
  then have "parse_selector (join '','' ts) = Some qs" "list_all valid_requirement qs"
    using documented_all parse_selector_join by blast+
  then show "read_selector (join '','' ts) = Some (all_hold qs)" by (simp add: read_selector_def)
qed

section \<open>Examples\<close>

definition demo_filter :: workflow_filter where
  "demo_filter =
     \<lparr>workflow_status_filter =
        Some \<lparr>pending = False, running = True, succeeded = False, failed = True, error = False\<rparr>,
      creator = Some ''abc'', template_name = None,
      label_selectors = Some [\<lparr>ls_key = ''beamline'', ls_operator = NotIn, ls_values = Some [''i03'', ''i14'']\<rparr>]\<rparr>"

theorem workflow_selection_meaning_witness:
  "\<exists>selector accepted. create_label_selection demo_filter = Inr selector \<and>
    read_selector selector = Some accepted \<and>
    accepted [PHASE_LABEL \<mapsto> ''Failed'', CREATOR_NAME_LABEL \<mapsto> ''abc''] \<and>
    \<not> accepted [PHASE_LABEL \<mapsto> ''Failed'', CREATOR_NAME_LABEL \<mapsto> ''abc'', ''beamline'' \<mapsto> ''i14'']"
proof -
  have "filter_valid demo_filter"
    by (simp add: demo_filter_def filter_valid_def selector_valid_def label_syntax)
  from workflow_selection_meaning [OF read_selector_documented this] show ?thesis
    by (auto simp: demo_filter_def filter_accepts_def phase_wanted_def PHASE_LABEL_def
        CREATOR_NAME_LABEL_def selector_accepts_def is_enabled_def)
qed

text \<open>The selector of a template filter asks for every one of the groups, in whatever order.\<close>

lemma science_labels_valid: "label_key (science_group_label g)" "label_name ''true''"
  by (cases g; simp add: science_group_label_def label_syntax)+

interpretation groups: graph_filter "science_group_labels hash_iter"
  "\<lambda>gs. set (hash_iter gs) = set gs"
  "\<lambda>gs labels. \<forall>g \<in> set gs. labels (science_group_label g) = Some ''true''" for hash_iter
proof unfold_locales
  fix gs
  assume groups: "set (hash_iter gs) = set gs"
  have "documented_text (science_group_label g @ ''='' @ ''true'') (KeyIn (science_group_label g) [''true''])" for g
    by (rule text_eq) (rule science_labels_valid)+
  then show "labels_mean (science_group_labels hash_iter gs)
      (\<lambda>labels. \<forall>g \<in> set gs. labels (science_group_label g) = Some ''true'')"
    using groups
    by (intro labels_meanI [of _ "map (\<lambda>g. KeyIn (science_group_label g) [''true'']) (hash_iter gs)"])
      (auto simp: science_group_labels_def list_all2_map1 list_all2_map2 list_all2_same list_all_iff
        split: option.splits)
qed

lemma templates_selection_meaning:
  "documented_selectors reads \<Longrightarrow> set (hash_iter gs) = set gs \<Longrightarrow>
     reads (templates_label_selection hash_iter (Some gs)) =
       Some (\<lambda>labels. \<forall>g \<in> set gs. labels (science_group_label g) = Some ''true'')"
  unfolding templates_label_selection_def option_labels_def by (simp add: groups.selector_read)

section \<open>Names that are not escaped\<close>

text \<open>
  A creator or a template is put into the selector as it is. One that holds a comma becomes more
  requirements, so workflows of that creator are not found and others are tested for labels the
  filter does not speak of.
\<close>

lemma creator_with_comma_meaning:
  assumes "documented_selectors reads"
  shows "reads (join '','' (creator_labels ''bob,x=y'')) =
    Some (\<lambda>labels. labels CREATOR_NAME_LABEL = Some ''bob'' \<and> labels ''x'' = Some ''y'')"
proof -
  have "labels_mean ([CREATOR_NAME_LABEL @ ''='' @ ''bob''] @ [''x'' @ ''='' @ ''y''])
      (\<lambda>labels. labels CREATOR_NAME_LABEL = Some ''bob'' \<and> labels ''x'' = Some ''y'')"
    by (intro labels_mean_append equal_label_mean label_keys_valid) (simp_all add: label_syntax)
  from labels_mean_read [OF this assms] show ?thesis
    by (simp add: creator_labels_def CREATOR_NAME_LABEL_def)
qed

end
