(* ===== verification/Graph_Workflows.thy ===== *)
theory Graph_Workflows
  imports Token_Validation Filters
begin

text \<open>
  Workflows in the graph proxy: \<^verbatim>\<open>graph-proxy/src/graphql/workflows.rs\<close> and the node query of
  \<^verbatim>\<open>graphql/mod.rs\<close>. Times are seconds; presigning by S3, the table of MIME types, base64 of
  cursors and parsing JSON are parameters of the definitions that use them. A Rust panic
  (\<^verbatim>\<open>expect\<close>, \<^verbatim>\<open>unwrap\<close>) is the error \<open>Panicked\<close>.
\<close>

section \<open>Workflows\<close>

datatype workflow_parsing_error =
    UnrecognisedPhase
  | MissingStartTime
  | MissingEndTime
  | UnrecognisedTaskPhase
  | UnrecognisedTaskDisplayName
  | MissingWorkflowStatus
  | UnrecognisedArtifactStore
  | MissingArtifactKey
  | InvalidArtifactFilename
  | MissingS3Client
  | MissingS3Bucket
  | InvalidPresignedS3Url
  | MissingAuthToken

record metadata =
  md_name :: string
  md_visit :: visit
  md_uid :: string

record workflow =
  wk_manifest :: workflow_manifest
  wk_metadata :: metadata

definition expect :: "string \<Rightarrow> 'a option \<Rightarrow> graph_error + 'a" where
  "expect msg x = ok_or (Panicked msg) x"

definition workflow_new :: "workflow_manifest \<Rightarrow> visit \<Rightarrow> graph_error + workflow" where
  "workflow_new manifest v =
     rbind (expect ''Workflow missing name'' (om_name (wm_metadata manifest))) (\<lambda>name.
     rbind (expect ''Workflow missing uid'' (om_uid (wm_metadata manifest))) (\<lambda>uid.
     Inr \<lparr>wk_manifest = manifest, wk_metadata = \<lparr>md_name = name, md_visit = v, md_uid = uid\<rparr>\<rparr>))"

definition workflow_id :: "workflow \<Rightarrow> string" where
  "workflow_id w =
     visit_to_string (md_visit (wk_metadata w)) @ '':'' @ md_name (wk_metadata w) @ '':'' @
     md_uid (wk_metadata w)"

text \<open>The top-level parameters: JSON where the text is JSON, else the text itself.\<close>

definition parameter_value :: "(string \<Rightarrow> 'err + json) \<Rightarrow> string option \<Rightarrow> json" where
  "parameter_value from_str v =
     (case v of
        Some s \<Rightarrow> (case from_str s of Inr j \<Rightarrow> j | Inl _ \<Rightarrow> JString s)
      | None \<Rightarrow> JNull)"

definition workflow_parameters ::
  "(string \<Rightarrow> 'err + json) \<Rightarrow> workflow \<Rightarrow> (string \<Rightarrow> json option) option" where
  "workflow_parameters from_str w =
     map_option (\<lambda>ps. fold (\<lambda>p m. m(p_name p \<mapsto> parameter_value from_str (p_value p))) ps Map.empty)
       (ws_arguments (wm_spec (wk_manifest w)))"

definition workflow_template_ref :: "workflow \<Rightarrow> string option" where
  "workflow_template_ref w =
     (case ws_template_ref (wm_spec (wk_manifest w)) of Some name \<Rightarrow> name | None \<Rightarrow> None)"

text \<open>Who created a workflow, from its labels.\<close>

definition creator_from_labels :: "string_map \<Rightarrow> string" where
  "creator_from_labels labels =
     (case labels ''workflows.argoproj.io/creator-preferred-username'' of
        Some c \<Rightarrow> c
      | None \<Rightarrow> unwrap_or [] (labels ''workflows.argoproj.io/creator''))"

definition workflow_creator :: "workflow \<Rightarrow> string" where
  "workflow_creator w = creator_from_labels (om_labels (wm_metadata (wk_manifest w)))"

section \<open>Status\<close>

datatype workflow_state =
    Pending workflow_status
  | Running workflow_status metadata
  | Succeeded workflow_status metadata
  | Failed workflow_status metadata
  | Errored workflow_status metadata

definition workflow_state_new ::
  "workflow_manifest \<Rightarrow> metadata \<Rightarrow> workflow_parsing_error + workflow_state option" where
  "workflow_state_new manifest md =
     (case wm_status manifest of
        Some status \<Rightarrow>
          (case wf_phase status of
             Some phase \<Rightarrow>
               (if phase = ''Pending'' then Inr (Some (Pending status))
                else if phase = ''Running'' then Inr (Some (Running status md))
                else if phase = ''Succeeded'' then Inr (Some (Succeeded status md))
                else if phase = ''Failed'' then Inr (Some (Failed status md))
                else if phase = ''Error'' then Inr (Some (Errored status md))
                else Inl UnrecognisedPhase)
           | None \<Rightarrow> Inr None)
      | None \<Rightarrow> Inl MissingWorkflowStatus)"

definition start_time :: "workflow_status \<Rightarrow> workflow_parsing_error + int" where
  "start_time status = ok_or MissingStartTime (wf_started_at status)"

definition end_time :: "workflow_status \<Rightarrow> workflow_parsing_error + int" where
  "end_time status = ok_or MissingEndTime (wf_finished_at status)"

section \<open>Artifacts\<close>

definition artifact_key :: "artifact \<Rightarrow> workflow_parsing_error + string" where
  "artifact_key manifest =
     rbind (ok_or UnrecognisedArtifactStore (a_s3 manifest))
       (\<lambda>s3. ok_or MissingArtifactKey (s3_key s3))"

definition artifact_filename :: "artifact \<Rightarrow> workflow_parsing_error + string" where
  "artifact_filename manifest =
     rbind (artifact_key manifest) (\<lambda>key. Inr (unwrap_or [] (path_file_name key)))"

text \<open>\<open>presigned\<close> signs a GET of a bucket and key for 3600 seconds.\<close>

definition artifact_url ::
  "(string \<Rightarrow> string \<Rightarrow> nat \<Rightarrow> string + string) option \<Rightarrow> string option \<Rightarrow> (string \<Rightarrow> string + url) \<Rightarrow>
     artifact \<Rightarrow> workflow_parsing_error + url" where
  "artifact_url s3_client s3_bucket parse_url manifest =
     rbind (ok_or MissingS3Client s3_client) (\<lambda>presigned.
     rbind (ok_or MissingS3Bucket s3_bucket) (\<lambda>bucket.
     rbind (artifact_key manifest) (\<lambda>key.
     rbind (map_err (\<lambda>_. InvalidPresignedS3Url) (presigned bucket key 3600)) (\<lambda>uri.
     map_err (\<lambda>_. InvalidPresignedS3Url) (parse_url uri)))))"

definition artifact_mime_type ::
  "(string \<Rightarrow> string option) \<Rightarrow> artifact \<Rightarrow> workflow_parsing_error + string" where
  "artifact_mime_type guess manifest =
     rbind (artifact_filename manifest)
       (\<lambda>filename. Inr (unwrap_or ''application/octet-stream'' (guess filename)))"

section \<open>Tasks\<close>

datatype task_status =
    TaskPending | TaskRunning | TaskSucceeded | TaskSkipped | TaskFailed | TaskError | TaskOmitted

definition task_status_from :: "string \<Rightarrow> workflow_parsing_error + task_status" where
  "task_status_from status =
     (if status = ''Pending'' then Inr TaskPending
      else if status = ''Running'' then Inr TaskRunning
      else if status = ''Succeeded'' then Inr TaskSucceeded
      else if status = ''Skipped'' then Inr TaskSkipped
      else if status = ''Failed'' then Inr TaskFailed
      else if status = ''Error'' then Inr TaskError
      else if status = ''Omitted'' then Inr TaskOmitted
      else Inl UnrecognisedTaskPhase)"

record task =
  tk_node :: node_status
  tk_depends :: "string list"

definition task_name :: "task \<Rightarrow> workflow_parsing_error + string" where
  "task_name t = ok_or UnrecognisedTaskDisplayName (n_display_name (tk_node t))"

definition task_phase :: "task \<Rightarrow> workflow_parsing_error + task_status" where
  "task_phase t = rbind (ok_or UnrecognisedTaskPhase (n_phase (tk_node t))) task_status_from"

definition task_dependencies :: "task \<Rightarrow> string list" where
  "task_dependencies t = n_children (tk_node t)"

definition task_artifacts :: "task \<Rightarrow> artifact list" where
  "task_artifacts t = unwrap_or [] (n_outputs (tk_node t))"

type_synonym task_map = "(string \<times> node_status) list"

definition push_parent :: "string \<Rightarrow> string \<Rightarrow> (string \<Rightarrow> string list option) \<Rightarrow> (string \<Rightarrow> string list option)" where
  "push_parent node c m = m(c \<mapsto> unwrap_or [] (m c) @ [node])"

definition generate_relationship_map :: "task_map \<Rightarrow> string \<Rightarrow> string list option" where
  "generate_relationship_map nodes =
     fold (\<lambda>(node_name, node_status). fold (push_parent node_name) (n_children node_status))
       nodes Map.empty"

fun tasks_loop :: "(string \<Rightarrow> string list option) \<Rightarrow> task_map \<Rightarrow> task list" where
  "tasks_loop relationship_map [] = []"
| "tasks_loop relationship_map ((node_name, node_status) # nodes) =
     \<lparr>tk_node = node_status, tk_depends = unwrap_or [] (relationship_map node_name)\<rparr>
     # tasks_loop (relationship_map(node_name := None)) nodes"

definition into_tasks :: "task_map \<Rightarrow> task list" where
  "into_tasks self = tasks_loop (generate_relationship_map self) self"

definition fetch_missing_task_info ::
  "'n argo_services \<Rightarrow> url \<Rightarrow> string option \<Rightarrow> workflow_status \<Rightarrow> metadata \<Rightarrow>
     ('n graph_env, graph_error, task_map) eff" where
  "fetch_missing_task_info sv u token manifest md =
     (if wf_nodes manifest = [] then
        let u' = extend_segments [''api'', ''v1'', ''workflows'', visit_to_string (md_visit md), md_name md] u in
        ebind (fetch_ok sv (as_workflow sv) (get_request u' token)) (\<lambda>workflow.
        ebind (lift_res (expect ''called unwrap on None'' (wm_status workflow))) (\<lambda>status.
        ret (wf_nodes status)))
      else ret (wf_nodes manifest))"

definition workflow_tasks ::
  "'n argo_services \<Rightarrow> graph_ctx \<Rightarrow> workflow_status \<Rightarrow> metadata \<Rightarrow>
     ('n graph_env, graph_error, task list) eff" where
  "workflow_tasks sv ctx manifest md =
     ebind (ctx_token ctx) (\<lambda>token.
     ebind (fetch_missing_task_info sv (cx_argo_url ctx) token manifest md) (\<lambda>nodes.
     ret (into_tasks nodes)))"

section \<open>Queries\<close>

definition get_workflow_from_argo_api ::
  "'n argo_services \<Rightarrow> graph_ctx \<Rightarrow> visit_input \<Rightarrow> string \<Rightarrow> string option \<Rightarrow>
     ('n graph_env, graph_error, workflow option) eff" where
  "get_workflow_from_argo_api sv ctx v name uid =
     ebind (ctx_token ctx) (\<lambda>auth_token.
     let u = extend_segments [''api'', ''v1'', ''workflows'', visit_input_to_string v, name] (cx_argo_url ctx);
         u' = (case uid of Some i \<Rightarrow> append_pair ''uid'' i u | None \<Rightarrow> u) in
     ebind (send_request sv (get_request u' auth_token)) (\<lambda>response.
     if rp_status response = 404 then ret None
     else ebind (lift_res (map_err DecodeFailed (as_workflow sv (rp_body response)))) (\<lambda>r.
          ebind (lift_res (map_err ApiError (into_result r))) (\<lambda>workflow.
          ebind (lift_res (workflow_new workflow (visit_of_input v))) (\<lambda>w.
          ret (Some w))))))"

definition workflow_query ::
  "'n argo_services \<Rightarrow> graph_ctx \<Rightarrow> visit_input \<Rightarrow> string \<Rightarrow>
     ('n graph_env, graph_error, workflow option) eff" where
  "workflow_query sv ctx v name = guarded ctx (get_workflow_from_argo_api sv ctx v name None)"

definition workflow_by_id ::
  "'n argo_services \<Rightarrow> graph_ctx \<Rightarrow> string \<Rightarrow> ('n graph_env, graph_error, workflow option) eff" where
  "workflow_by_id sv ctx id_str =
     (let parts = split_char CHR '':'' id_str in
      if length parts \<noteq> 3 then throw InvalidWorkflowId
      else ebind (lift_res (map_err BadVisit (visit_input_from_str (parts ! 0)))) (\<lambda>v.
           get_workflow_from_argo_api sv ctx v (parts ! 1) (Some (parts ! 2))))"

definition workflow_by_id_query ::
  "'n argo_services \<Rightarrow> graph_ctx \<Rightarrow> string \<Rightarrow> ('n graph_env, graph_error, workflow option) eff" where
  "workflow_by_id_query sv ctx id_str = guarded ctx (workflow_by_id sv ctx id_str)"

text \<open>The node query answers null for every error; a panic is not an error value.\<close>

definition node_value :: "graph_error + workflow option \<Rightarrow> graph_error + workflow option" where
  "node_value r =
     (case r of
        Inr (Some w) \<Rightarrow> Inr (Some w)
      | Inl (Panicked m) \<Rightarrow> Inl (Panicked m)
      | _ \<Rightarrow> Inr None)"

definition node_query ::
  "'n argo_services \<Rightarrow> graph_ctx \<Rightarrow> string \<Rightarrow> ('n graph_env, graph_error, workflow option) eff" where
  "node_query sv ctx i =
     guarded ctx (\<lambda>env. case workflow_by_id sv ctx i env of (r, env') \<Rightarrow> (node_value r, env'))"

section \<open>Pages\<close>

type_synonym usize = "64 word"

record 'a connection =
  has_previous_page :: bool
  has_next_page :: bool
  edges :: "(usize \<times> 'a) list"

text \<open>The arguments' validator: \<^verbatim>\<open>#[graphql(validator(minimum = 1, maximum = ...))]\<close>.\<close>

definition validate_limit :: "nat \<Rightarrow> u32 option \<Rightarrow> graph_error + unit" where
  "validate_limit maximum limit =
     (case limit of
        None \<Rightarrow> Inr ()
      | Some l \<Rightarrow> (if 1 \<le> unat l \<and> unat l \<le> maximum then Inr () else Inl (BadParameter ''limit'')))"

definition show_usize :: "usize \<Rightarrow> string" where
  "show_usize w = show_nat (unat w)"

definition decode_page ::
  "(string \<Rightarrow> string + usize) \<Rightarrow> string option \<Rightarrow> url \<Rightarrow> graph_error + url \<times> usize" where
  "decode_page decode_cursor cursor u =
     (case cursor of
        Some c \<Rightarrow> rbind (map_err (\<lambda>_. InvalidCursor) (decode_cursor c))
                   (\<lambda>i. Inr (append_pair ''listOptions.continue'' (show_usize i) u, i))
      | None \<Rightarrow> Inr (u, 0))"

text \<open>The edges of a page: cursors count on from the cursor of the page, in \<^verbatim>\<open>usize\<close>.\<close>

definition page_connection :: "usize \<Rightarrow> string option \<Rightarrow> 'a list \<Rightarrow> 'a connection" where
  "page_connection cursor_index continue_token items =
     \<lparr>has_previous_page = (0 < cursor_index), has_next_page = (continue_token \<noteq> None),
      edges = map (\<lambda>(idx, x). (cursor_index + of_nat idx + 1, x)) (enumerate 0 items)\<rparr>"

definition empty_connection :: "'a connection" where
  "empty_connection = \<lparr>has_previous_page = False, has_next_page = False, edges = []\<rparr>"

text \<open>A page of the server: an API error other than \<^verbatim>\<open>Unauthorized\<close> is an empty page.\<close>

definition page_of ::
  "usize \<Rightarrow> ('a \<Rightarrow> graph_error + 'b) \<Rightarrow> 'a item_list api_result \<Rightarrow> graph_error + 'b connection" where
  "page_of cursor_index convert api_result =
     (case into_result api_result of
        Inl err \<Rightarrow>
          (if ge_message err = Some ''Unauthorized'' then Inl (ApiError err) else Inr empty_connection)
      | Inr res \<Rightarrow>
          rbind (try_map convert (il_items res))
            (\<lambda>items. Inr (page_connection cursor_index (il_continue res) items)))"

definition workflows_query ::
  "'n argo_services \<Rightarrow> (string \<Rightarrow> string + usize) \<Rightarrow> graph_ctx \<Rightarrow> visit_input \<Rightarrow> string option \<Rightarrow>
     u32 option \<Rightarrow> workflow_filter option \<Rightarrow> ('n graph_env, graph_error, workflow connection) eff" where
  "workflows_query sv decode_cursor ctx v cursor limit flt =
     ebind (lift_res (validate_limit 30 limit)) (\<lambda>_.
     guarded ctx (
       ebind (ctx_token ctx) (\<lambda>auth_token.
       let u = extend_segments [''api'', ''v1'', ''workflows'', visit_input_to_string v] (cx_argo_url ctx) in
       ebind (lift_res (case flt of
                Some f \<Rightarrow> map_err (\<lambda>_. Panicked ''label selector'') (generate_filters f u)
              | None \<Rightarrow> Inr u)) (\<lambda>u.
       ebind (lift_res (decode_page decode_cursor cursor
                (append_pair ''listOptions.limit'' (show_u32 (unwrap_or 10 limit)) u))) (\<lambda>(u, cursor_index).
       ebind (fetch sv (as_workflow_list sv) (get_request u auth_token)) (\<lambda>api_result.
       lift_res (page_of cursor_index (\<lambda>w. workflow_new w (visit_of_input v)) api_result)))))))"

section \<open>Identifiers\<close>

lemma workflow_new_ok:
  "workflow_new m v = Inr w \<longleftrightarrow>
     (\<exists>name uid. om_name (wm_metadata m) = Some name \<and> om_uid (wm_metadata m) = Some uid \<and>
        w = \<lparr>wk_manifest = m, wk_metadata = \<lparr>md_name = name, md_visit = v, md_uid = uid\<rparr>\<rparr>)"
  by (auto simp: workflow_new_def expect_def rbind_eq_Inr)

lemma colon_class [simp]: "\<not> is_ascii_digit CHR '':''" "\<not> is_ascii_letter CHR '':''"
  by (simp_all add: is_ascii_digit_def is_ascii_letter_def code_def)

lemma split_workflow_id:
  assumes "visit_code_ok (proposal_code v)" and "CHR '':'' \<notin> set name" and "CHR '':'' \<notin> set uid"
  shows "split_char CHR '':'' (visit_input_to_string v @ '':'' @ name @ '':'' @ uid)
    = [visit_input_to_string v, name, uid]"
proof -
  have "CHR '':'' \<notin> set (visit_input_to_string v)"
    using assms(1) by (rule visit_display_no_char) simp_all
  with assms(2,3) show ?thesis
    by (simp add: split_char_cons split_char_none)
qed

text \<open>
  C27. The identifier of a workflow finds it again: resolving the id the proxy gave out is
  exactly the request for the same visit, name and uid, when the visit is one the parser
  accepts and name and uid hold no colon, as Kubernetes guarantees.
\<close>

theorem workflow_id_roundtrip:
  assumes "workflow_new manifest (visit_of_input v) = Inr w"
    and "visit_code_ok (proposal_code v)"
    and "CHR '':'' \<notin> set (md_name (wk_metadata w))" and "CHR '':'' \<notin> set (md_uid (wk_metadata w))"
  shows "workflow_by_id sv ctx (workflow_id w) =
    get_workflow_from_argo_api sv ctx v (md_name (wk_metadata w)) (Some (md_uid (wk_metadata w)))"
proof -
  have "md_visit (wk_metadata w) = visit_of_input v"
    using assms(1) by (auto simp: workflow_new_ok)
  with split_workflow_id [OF assms(2-4)] visit_roundtrip [OF assms(2)] show ?thesis
    by (intro ext) (simp add: workflow_by_id_def workflow_id_def ebind_def)
qed

section \<open>What the queries send\<close>

lemma visit_segment [simp]:
  "visit_input_to_string v \<noteq> ''.''" "visit_input_to_string v \<noteq> ''..''"
  "visit_to_string u \<noteq> ''.''" "visit_to_string u \<noteq> ''..''"
proof -
  have "CHR ''-'' \<in> set (visit_input_to_string v)" "CHR ''-'' \<in> set (visit_to_string u)"
    by (simp_all add: visit_input_to_string_def visit_to_string_def)
  moreover have "CHR ''-'' \<notin> set ''.''" "CHR ''-'' \<notin> set ''..''" by simp_all
  ultimately show "visit_input_to_string v \<noteq> ''.''" "visit_input_to_string v \<noteq> ''..''"
    "visit_to_string u \<noteq> ''.''" "visit_to_string u \<noteq> ''..''" by metis+
qed

definition workflow_path :: "visit_input \<Rightarrow> string list" where
  "workflow_path v = [''api'', ''v1'', ''workflows'', visit_input_to_string v]"

lemma sends_get_workflow:
  "sends (addressed ctx (workflow_path v)) (get_workflow_from_argo_api sv ctx v name uid)"
  unfolding get_workflow_from_argo_api_def Let_def
  by (intro sends_with_token sends_intros)
    (auto simp: addressed_def workflow_path_def split: option.split)

text \<open>A request made for the caller: with the caller's valid token, below a path.\<close>

definition for_caller :: "graph_ctx \<Rightarrow> string list \<Rightarrow> argo_request \<Rightarrow> bool" where
  "for_caller ctx path rq \<longleftrightarrow>
     (\<exists>t rest. cx_auth ctx = Some (TokenValid t) \<and> rq_bearer rq = Some t \<and>
        u_base (rq_url rq) = u_base (cx_argo_url ctx) \<and>
        u_segments (rq_url rq) = u_segments (cx_argo_url ctx) @ path @ rest)"

lemma sends_for_caller:
  assumes "sends (addressed ctx path) m"
  shows "sends (for_caller ctx path) (guarded ctx m)"
  by (rule sends_guarded, rule sends_weaken [OF assms])
    (auto simp: addressed_def for_caller_def as_token_def)

lemma sends_lift_bind:
  "(\<And>a. r = Inr a \<Longrightarrow> sends P (g a)) \<Longrightarrow> sends P (ebind (lift_res r) g)"
  by (cases r) (auto simp: emits_def ebind_def)

lemma sends_workflow_by_id:
  "sends (\<lambda>rq. \<exists>v. visit_code_ok (proposal_code v) \<and> addressed ctx (workflow_path v) rq)
     (workflow_by_id sv ctx i)"
  unfolding workflow_by_id_def Let_def
  by (intro sends_if sends_throw sends_lift_bind sends_weaken [OF sends_get_workflow])
    (metis map_err_eq_Inr visit_from_str_code_ok)

lemma generate_filters_url:
  "generate_filters f u = Inr u' \<Longrightarrow> u_base u' = u_base u \<and> u_segments u' = u_segments u"
  by (auto simp: generate_filters_def rbind_eq_Inr)

lemma decode_page_url:
  "decode_page dec cursor u = Inr (u', i) \<Longrightarrow> u_base u' = u_base u \<and> u_segments u' = u_segments u"
  by (auto simp: decode_page_def rbind_eq_Inr split: option.splits)

lemma sends_workflows_query:
  "sends (for_caller ctx (workflow_path v)) (workflows_query sv dec ctx v cursor limit flt)"
proof -
  have "sends (addressed ctx (workflow_path v))
      (ebind (ctx_token ctx) (\<lambda>auth_token.
       let u = extend_segments [''api'', ''v1'', ''workflows'', visit_input_to_string v] (cx_argo_url ctx) in
       ebind (lift_res (case flt of
                Some f \<Rightarrow> map_err (\<lambda>_. Panicked ''label selector'') (generate_filters f u)
              | None \<Rightarrow> Inr u)) (\<lambda>u.
       ebind (lift_res (decode_page dec cursor
                (append_pair ''listOptions.limit'' (show_u32 (unwrap_or 10 limit)) u))) (\<lambda>(u, cursor_index).
       ebind (fetch sv (as_workflow_list sv) (get_request u auth_token)) (\<lambda>api_result.
       lift_res (page_of cursor_index (\<lambda>w. workflow_new w (visit_of_input v)) api_result))))))"
    unfolding Let_def
    apply (intro sends_with_token sends_lift_bind)
    apply (clarsimp split: prod.split)
    apply (intro sends_intros)
    apply (auto simp: addressed_def workflow_path_def dest!: generate_filters_url decode_page_url split: option.splits)
    done
  from sends_for_caller [OF this] show ?thesis
    unfolding workflows_query_def by (intro sends_intros)
qed

lemma sends_workflow_tasks:
  "sends (addressed ctx [''api'', ''v1'', ''workflows'', visit_to_string (md_visit md)])
     (workflow_tasks sv ctx manifest md)"
  unfolding workflow_tasks_def fetch_missing_task_info_def Let_def
  by (intro sends_with_token sends_intros) (auto simp: addressed_def)

lemma sends_map_result: "sends P m \<Longrightarrow> sends P (\<lambda>env. case m env of (r, env') \<Rightarrow> (f r, env'))"
  by (auto simp: emits_def split_beta)

lemma sends_workflow_query: "sends (for_caller ctx (workflow_path v)) (workflow_query sv ctx v name)"
  unfolding workflow_query_def by (rule sends_for_caller) (rule sends_get_workflow)

lemma sends_by_id_queries:
  "sends (\<lambda>rq. \<exists>w. visit_code_ok (proposal_code w) \<and> for_caller ctx (workflow_path w) rq)
     (workflow_by_id_query sv ctx i)"
  "sends (\<lambda>rq. \<exists>w. visit_code_ok (proposal_code w) \<and> for_caller ctx (workflow_path w) rq)
     (node_query sv ctx i)"
proof -
  have ctx: "addressed ctx path rq \<Longrightarrow> cx_auth ctx = Some (TokenValid t) \<Longrightarrow> for_caller ctx path rq"
    for path rq t by (auto simp: addressed_def for_caller_def as_token_def)
  let ?P = "\<lambda>rq. \<exists>w. visit_code_ok (proposal_code w) \<and> for_caller ctx (workflow_path w) rq"
  have by_id: "sends ?P (workflow_by_id sv ctx i)" if "cx_auth ctx = Some (TokenValid t)" for t
    by (rule sends_weaken [OF sends_workflow_by_id]) (use ctx that in blast)
  show "sends ?P (workflow_by_id_query sv ctx i)"
    unfolding workflow_by_id_query_def by (rule sends_guarded) (rule by_id)
  show "sends ?P (node_query sv ctx i)"
    unfolding node_query_def by (intro sends_guarded sends_map_result) (rule by_id)
qed

text \<open>
  Every request the workflow queries send is a request of the caller: it carries the
  caller's validated token and goes below the namespace of one visit, the one of the arguments
  or, for an identifier, one whose name the visit parser accepts. Without a valid token
  nothing is sent.
\<close>

theorem workflow_queries_for_caller:
  "sends (for_caller ctx (workflow_path v)) (workflow_query sv ctx v name)
   \<and> sends (for_caller ctx (workflow_path v)) (workflows_query sv dec ctx v cursor limit flt)
   \<and> sends (\<lambda>rq. \<exists>w. visit_code_ok (proposal_code w) \<and> for_caller ctx (workflow_path w) rq)
       (workflow_by_id_query sv ctx i)
   \<and> sends (\<lambda>rq. \<exists>w. visit_code_ok (proposal_code w) \<and> for_caller ctx (workflow_path w) rq)
       (node_query sv ctx i)"
  by (intro conjI sends_workflow_query sends_workflows_query sends_by_id_queries)

section \<open>Pages\<close>

lemma page_cursors:
  assumes "unat i + length items < 2 ^ 64"
  shows "map (\<lambda>e. unat (fst e)) (edges (page_connection i ct items)) = [unat i + 1 ..< unat i + 1 + length items]"
proof (rule nth_equalityI)
  fix k assume "k < length (map (\<lambda>e. unat (fst e)) (edges (page_connection i ct items)))"
  then have k: "k < length items" by (simp add: page_connection_def)
  have "unat (i + of_nat k + 1) = unat i + k + 1"
  proof -
    have "i + of_nat k + 1 = (of_nat (unat i + k + 1) :: usize)" by (simp add: algebra_simps)
    moreover have "unat (of_nat (unat i + k + 1) :: usize) = unat i + k + 1"
      using assms k by (subst unsigned_of_nat, subst take_bit_nat_eq_self) simp_all
    ultimately show ?thesis by (simp only:)
  qed
  with k show "map (\<lambda>e. unat (fst e)) (edges (page_connection i ct items)) ! k
      = [unat i + 1 ..< unat i + 1 + length items] ! k"
    by (simp add: page_connection_def nth_enumerate_eq del: upt_Suc)
qed (simp add: page_connection_def del: upt_Suc)

text \<open>
  C29. The cursors of a page count on from the cursor it was asked with, one per item and in
  the order of the items, as long as the count fits in 64 bits; a page asked with the largest
  cursor wraps around and starts again at 0.
\<close>

theorem page_cursors_count_on:
  assumes "page_of i convert (ApiOk page) = Inr conn" and "unat i + length (il_items page) < 2 ^ 64"
  shows "map (\<lambda>e. unat (fst e)) (edges conn) = [unat i + 1 ..< unat i + 1 + length (il_items page)]
    \<and> list_all2 (\<lambda>x e. convert x = Inr (snd e)) (il_items page) (edges conn)
    \<and> (has_previous_page conn \<longleftrightarrow> i \<noteq> 0) \<and> (has_next_page conn \<longleftrightarrow> il_continue page \<noteq> None)
    \<and> fst (hd (edges (page_connection (- 1 :: usize) ct [x]))) = 0"
proof -
  obtain items where items: "try_map convert (il_items page) = Inr items"
    and conn: "conn = page_connection i (il_continue page) items"
    using assms(1) by (auto simp: page_of_def rbind_eq_Inr)
  from items have l2: "list_all2 (\<lambda>x y. convert x = Inr y) (il_items page) items"
    by (simp add: try_map_Inr)
  then have len: "length items = length (il_items page)" by (simp add: list_all2_lengthD)
  have "map snd (edges conn) = items"
    by (simp add: conn page_connection_def comp_def split_beta)
  with l2 have "list_all2 (\<lambda>x y. convert x = Inr y) (il_items page) (map snd (edges conn))"
    by simp
  then have "list_all2 (\<lambda>x e. convert x = Inr (snd e)) (il_items page) (edges conn)"
    by (simp only: list_all2_map2)
  moreover have "map (\<lambda>e. unat (fst e)) (edges conn) = [unat i + 1 ..< unat i + 1 + length (il_items page)]"
    using page_cursors [of i items "il_continue page"] assms(2) len by (simp only: conn)
  moreover have "has_previous_page conn \<longleftrightarrow> i \<noteq> 0" "has_next_page conn \<longleftrightarrow> il_continue page \<noteq> None"
    by (simp_all add: conn page_connection_def word_gt_0)
  moreover have "fst (hd (edges (page_connection (- 1 :: usize) ct [x]))) = 0"
    by (simp add: page_connection_def)
  ultimately show ?thesis by blast
qed

section \<open>Tasks\<close>

text \<open>The parents of a node: every node that lists it among its children, once per listing.\<close>

definition parents :: "task_map \<Rightarrow> string \<Rightarrow> string list" where
  "parents nodes k = concat (map (\<lambda>(p, s). map (\<lambda>_. p) (filter (\<lambda>c. c = k) (n_children s))) nodes)"

lemma push_parents:
  "unwrap_or [] (fold (push_parent p) cs m k) = unwrap_or [] (m k) @ map (\<lambda>_. p) (filter (\<lambda>c. c = k) cs)"
  by (induction cs arbitrary: m) (auto simp: push_parent_def)

lemma relationship_map_parents: "unwrap_or [] (generate_relationship_map nodes k) = parents nodes k"
proof -
  have "unwrap_or [] (fold (\<lambda>(p, s). fold (push_parent p) (n_children s)) nodes m k)
      = unwrap_or [] (m k) @ parents nodes k" for m
    by (induction nodes arbitrary: m) (auto simp: parents_def push_parents)
  then show ?thesis by (simp add: generate_relationship_map_def)
qed

lemma tasks_loop_map:
  "distinct (map fst nodes) \<Longrightarrow>
     tasks_loop rm nodes = map (\<lambda>(k, s). \<lparr>tk_node = s, tk_depends = unwrap_or [] (rm k)\<rparr>) nodes"
proof (induction nodes arbitrary: rm)
  case (Cons n nodes)
  obtain k s where n: "n = (k, s)" by force
  have "map (\<lambda>(k', s). \<lparr>tk_node = s, tk_depends = unwrap_or [] ((rm(k := None)) k')\<rparr>) nodes
      = map (\<lambda>(k', s). \<lparr>tk_node = s, tk_depends = unwrap_or [] (rm k')\<rparr>) nodes"
    using Cons.prems n by (intro map_cong) force+
  with Cons n show ?case by simp
qed simp

text \<open>
  C28. The tasks of a workflow are its nodes, each once, with the nodes that list it as a child
  as what it depends on; so one task depends on another exactly when that other has it among
  its dependencies.
\<close>

theorem tasks_of_nodes:
  assumes "distinct (map fst nodes)"
  shows "into_tasks nodes = map (\<lambda>(k, s). \<lparr>tk_node = s, tk_depends = parents nodes k\<rparr>) nodes
    \<and> (p \<in> set (parents nodes k) \<longleftrightarrow>
        (\<exists>s. (p, s) \<in> set nodes \<and> k \<in> set (task_dependencies \<lparr>tk_node = s, tk_depends = d\<rparr>)))"
  using assms
  by (auto simp: into_tasks_def tasks_loop_map relationship_map_parents parents_def task_dependencies_def)

section \<open>Status\<close>

fun state_text :: "workflow_state \<Rightarrow> string" where
  "state_text (Pending s) = ''Pending''"
| "state_text (Running s m) = ''Running''"
| "state_text (Succeeded s m) = ''Succeeded''"
| "state_text (Failed s m) = ''Failed''"
| "state_text (Errored s m) = ''Error''"

lemma workflow_state_iff:
  "workflow_state_new manifest md = Inr (Some st) \<longleftrightarrow>
     (\<exists>s. wm_status manifest = Some s \<and> wf_phase s = Some (state_text st) \<and>
        st \<in> {Pending s, Running s md, Succeeded s md, Failed s md, Errored s md})"
proof (cases "wm_status manifest")
  case (Some s)
  then show ?thesis
    by (cases "wf_phase s"; cases st; simp add: workflow_state_new_def; blast)
qed (simp add: workflow_state_new_def)

section \<open>Artifacts\<close>

lemma split_char_last:
  "d \<notin> set b \<Longrightarrow> split_char d (a @ d # b) = split_char d a @ [b]"
proof (induction a)
  case (Cons c a)
  then show ?case by (cases "split_char d a") auto
qed (simp add: split_char_none)

text \<open>The file name of an artifact is what follows the last slash of its key.\<close>

lemma file_name_last:
  assumes "CHR ''/'' \<notin> set n" and "n \<noteq> []" and "n \<noteq> ''.''" and "n \<noteq> ''..''"
  shows "path_file_name (dir @ ''/'' @ n) = Some n"
  using assms by (simp add: path_file_name_def path_components_def split_char_last Let_def)

section \<open>Examples\<close>

definition demo_visit :: visit_input where
  "demo_visit = \<lparr>proposal_code = ''mg'', proposal_number = 36964, number = 1\<rparr>"

definition demo_meta :: object_meta where
  "demo_meta = \<lparr>om_name = Some ''numpy-7k2'', om_generate_name = None, om_uid = Some ''8b1c'',
     om_labels = Map.empty, om_annotations = Map.empty\<rparr>"

definition demo_manifest :: workflow_manifest where
  "demo_manifest =
     \<lparr>wm_kind = None, wm_metadata = demo_meta,
      wm_spec = \<lparr>ws_arguments = None, ws_entrypoint = None, ws_templates = [], ws_template_ref = None\<rparr>,
      wm_status = None\<rparr>"

definition demo_node :: "string \<Rightarrow> string list \<Rightarrow> node_status" where
  "demo_node i cs =
     \<lparr>n_id = i, n_display_name = None, n_phase = Some ''Succeeded'', n_children = cs, n_outputs = None,
      n_type = ''Pod'', n_started_at = None, n_finished_at = None, n_message = None\<rparr>"

theorem workflow_id_roundtrip_witness:
  "\<exists>w. workflow_new demo_manifest (visit_of_input demo_visit) = Inr w \<and>
    (\<forall>(sv :: unit argo_services) ctx. workflow_by_id sv ctx (workflow_id w)
      = get_workflow_from_argo_api sv ctx demo_visit ''numpy-7k2'' (Some ''8b1c''))"
proof -
  let ?w = "\<lparr>wk_manifest = demo_manifest,
    wk_metadata = \<lparr>md_name = ''numpy-7k2'', md_visit = visit_of_input demo_visit, md_uid = ''8b1c''\<rparr>\<rparr>"
  have w: "workflow_new demo_manifest (visit_of_input demo_visit) = Inr ?w"
    by (simp add: workflow_new_ok demo_manifest_def demo_meta_def)
  have "visit_code_ok (proposal_code demo_visit)"
    by (simp add: demo_visit_def visit_code_ok_def is_ascii_letter_def code_def)
  from workflow_id_roundtrip [OF w this] w show ?thesis by auto
qed

theorem page_cursors_count_on_witness:
  "map (\<lambda>e. unat (fst e)) (edges (page_connection 10 (Some ''12'') [''a'', ''b''])) = [11, 12]"
proof -
  have "page_of 10 Inr (ApiOk \<lparr>il_items = [''a'', ''b''], il_continue = Some ''12''\<rparr>)
      = Inr (page_connection 10 (Some ''12'') [''a'', ''b''])"
    by (simp add: page_of_def)
  from conjunct1 [OF page_cursors_count_on [OF this]] show ?thesis by (simp add: upt_rec)
qed

theorem tasks_of_nodes_witness:
  "into_tasks [(''a'', demo_node ''a'' [''b'']), (''b'', demo_node ''b'' [])]
    = [\<lparr>tk_node = demo_node ''a'' [''b''], tk_depends = []\<rparr>,
       \<lparr>tk_node = demo_node ''b'' [], tk_depends = [''a'']\<rparr>]"
  using tasks_of_nodes [of "[(''a'', demo_node ''a'' [''b'']), (''b'', demo_node ''b'' [])]"]
  by (simp add: parents_def demo_node_def)

end
