(* ===== verification/Graph_Triggers.thy ===== *)
theory Graph_Triggers
  imports Graph_Workflows
begin

text \<open>
  Triggers, the custom resources that start workflows automatically:
  \<^verbatim>\<open>graph-proxy/src/graphql/triggers.rs\<close> and \<^verbatim>\<open>get_auth_token\<close> of \<^verbatim>\<open>subscription.rs\<close>. The
  Kubernetes API with its clients, decoding a token's claims and base64 of cursors are the record
  \<open>trigger_services\<close>; the \<^verbatim>\<open>KubernetesApiUrl\<close> of the context is an argument of the resolvers.
\<close>

section \<open>Data\<close>

record trigger =
  tr_name :: "string option"
  tr_generate_name :: "string option"
  tr_labels :: "string_map option"
  tr_template_ref :: "string option"

record trigger_gql =
  tg_name :: "string option"
  tg_template_ref :: "string option"
  tg_beamline :: "string option"

definition trigger_gql_of :: "trigger \<Rightarrow> trigger_gql" where
  "trigger_gql_of t =
     \<lparr>tg_name = tr_name t, tg_template_ref = tr_template_ref t,
      tg_beamline =
        (case tr_labels t of None \<Rightarrow> None | Some l \<Rightarrow> l ''workflows.diamond.ac.uk/beamline'')\<rparr>"

datatype trigger_error =
    TokenDecodeError
  | MissingPosixUid
  | MissingToken
  | ConfigInferError
  | ClientCreationError
  | ForbiddenAccess
  | TriggerCursor
  | TriggerKube string
  | TriggerGraph graph_error

text \<open>The configuration of a client: the URL of the cluster and all the rest.\<close>

record 'k kube_config =
  kc_cluster_url :: string
  kc_rest :: 'k

record ('n, 'k, 'c) trigger_services =
  ks_infer_config :: "'n \<Rightarrow> (string + 'k kube_config) \<times> 'n"
  ks_make_client :: "'k kube_config \<Rightarrow> 'n \<Rightarrow> (string + 'c) \<times> 'n"
  ks_claims :: "string \<Rightarrow> string + json"
  ks_decode_cursor :: "string \<Rightarrow> string + string"
  ks_get :: "'c \<Rightarrow> string \<Rightarrow> string \<Rightarrow> 'n \<Rightarrow> (string + trigger) \<times> 'n"
  ks_list :: "'c \<Rightarrow> string \<Rightarrow> u32 \<Rightarrow> string option \<Rightarrow> 'n \<Rightarrow> (string + trigger item_list) \<times> 'n"
  ks_create :: "'c \<Rightarrow> string \<Rightarrow> trigger \<Rightarrow> 'n \<Rightarrow> (string + trigger) \<times> 'n"

definition POSIX_LABEL :: string where "POSIX_LABEL = ''workflows.diamond.ac.uk/posixuid''"

section \<open>Who is asking\<close>

definition get_auth_token :: "graph_ctx \<Rightarrow> graph_error + string" where
  "get_auth_token ctx =
     (case cx_auth ctx of
        None \<Rightarrow> Inl (Panicked ''data does not exist'')
      | Some auth \<Rightarrow> ok_or NoAuthToken (as_token auth))"

definition setup_client ::
  "('n, 'k, 'c) trigger_services \<Rightarrow> string \<Rightarrow> ('n, trigger_error, 'c) eff" where
  "setup_client sv kubernetes_api_url =
     ebind (emap_err (\<lambda>_. ConfigInferError) (ks_infer_config sv)) (\<lambda>config.
     emap_err (\<lambda>_. ClientCreationError)
       (ks_make_client sv (config\<lparr>kc_cluster_url := kubernetes_api_url\<rparr>)))"

text \<open>A panic goes through; the error of a missing token is mapped.\<close>

definition token_error :: "graph_error \<Rightarrow> trigger_error" where
  "token_error e = (case e of Panicked m \<Rightarrow> TriggerGraph (Panicked m) | _ \<Rightarrow> MissingToken)"

definition get_posix_from_ctx :: "('n, 'k, 'c) trigger_services \<Rightarrow> graph_ctx \<Rightarrow> trigger_error + string" where
  "get_posix_from_ctx sv ctx =
     rbind (map_err token_error (get_auth_token ctx)) (\<lambda>auth_token.
     rbind (map_err (\<lambda>_. TokenDecodeError) (ks_claims sv auth_token)) (\<lambda>claims.
     ok_or MissingPosixUid (as_str (unwrap_or JNull (json_get claims ''posix_uid'')))))"

definition guarded_trigger :: "graph_ctx \<Rightarrow> ('n, trigger_error, 'a) eff \<Rightarrow> ('n, trigger_error, 'a) eff" where
  "guarded_trigger ctx m = ebind (lift_res (map_err TriggerGraph (auth_guard ctx))) (\<lambda>_. m)"

section \<open>Queries and mutations\<close>

definition owned_by :: "string \<Rightarrow> trigger \<Rightarrow> bool" where
  "owned_by posix_uid t =
     (case tr_labels t of None \<Rightarrow> False | Some f \<Rightarrow> f POSIX_LABEL = Some posix_uid)"

definition trigger_query ::
  "('n, 'k, 'c) trigger_services \<Rightarrow> string \<Rightarrow> graph_ctx \<Rightarrow> string \<Rightarrow> string option \<Rightarrow>
     ('n, trigger_error, trigger_gql option) eff" where
  "trigger_query sv api_url ctx name v =
     guarded_trigger ctx (
       ebind (setup_client sv api_url) (\<lambda>client.
       ebind (lift_res (get_posix_from_ctx sv ctx)) (\<lambda>posix_uid.
       ebind (emap_err TriggerKube (ks_get sv client (unwrap_or ''events'' v) name)) (\<lambda>t.
       if owned_by posix_uid t then ret (Some (trigger_gql_of t)) else throw ForbiddenAccess))))"

definition posix_selector :: "string \<Rightarrow> string" where
  "posix_selector posix_uid = ''workflows.diamond.ac.uk/posixuid='' @ posix_uid"

record trigger_page =
  tp_previous :: bool
  tp_next :: bool
  tp_edges :: "(string \<times> trigger_gql) list"

definition triggers_query ::
  "('n, 'k, 'c) trigger_services \<Rightarrow> string \<Rightarrow> graph_ctx \<Rightarrow> string option \<Rightarrow> u32 option \<Rightarrow>
     ('n, trigger_error, trigger_page) eff" where
  "triggers_query sv api_url ctx cursor limit =
     guarded_trigger ctx (
       ebind (setup_client sv api_url) (\<lambda>client.
       ebind (lift_res (get_posix_from_ctx sv ctx)) (\<lambda>posix_uid.
       ebind (lift_res (case cursor of
                None \<Rightarrow> Inr None
              | Some c \<Rightarrow> rbind (map_err (\<lambda>_. TriggerCursor) (ks_decode_cursor sv c)) (\<lambda>t. Inr (Some t))))
         (\<lambda>continue_token.
       ebind (emap_err TriggerKube
                (ks_list sv client (posix_selector posix_uid) (unwrap_or 10 limit) continue_token)) (\<lambda>response.
       ret \<lparr>tp_previous = (continue_token \<noteq> None), tp_next = (il_continue response \<noteq> None),
            tp_edges = map (\<lambda>t. (unwrap_or [] (il_continue response), trigger_gql_of t))
              (il_items response)\<rparr>)))))"

definition new_trigger :: "string \<Rightarrow> string \<Rightarrow> string option \<Rightarrow> trigger" where
  "new_trigger posix_uid template_ref name =
     \<lparr>tr_name = name, tr_generate_name = Some (template_ref @ ''-''),
      tr_labels = Some [POSIX_LABEL \<mapsto> posix_uid], tr_template_ref = Some template_ref\<rparr>"

definition create_trigger ::
  "('n, 'k, 'c) trigger_services \<Rightarrow> string \<Rightarrow> graph_ctx \<Rightarrow> string \<Rightarrow> string option \<Rightarrow> visit_input option \<Rightarrow>
     ('n, trigger_error, trigger_gql option) eff" where
  "create_trigger sv api_url ctx template_ref name v =
     guarded_trigger ctx (
       ebind (setup_client sv api_url) (\<lambda>client.
       ebind (lift_res (get_posix_from_ctx sv ctx)) (\<lambda>posix_uid.
       let namespace = (case v of None \<Rightarrow> ''events'' | Some u \<Rightarrow> visit_input_to_string u) in
       ebind (emap_err TriggerKube
                (ks_create sv client namespace (new_trigger posix_uid template_ref name))) (\<lambda>creation.
       ret (Some (trigger_gql_of creation))))))"

section \<open>Lemmas\<close>

lemma guarded_trigger_ok:
  "guarded_trigger ctx m n = (Inr a, n') \<longleftrightarrow>
     (\<exists>t. cx_auth ctx = Some (TokenValid t)) \<and> m n = (Inr a, n')"
  by (auto simp: guarded_trigger_def eff_elims auth_guard_ok)

lemma new_trigger_owned: "owned_by u' (new_trigger u template_ref name) \<longleftrightarrow> u' = u"
  by (auto simp: owned_by_def new_trigger_def)

definition posix_claim :: "('n, 'k, 'c) trigger_services \<Rightarrow> string \<Rightarrow> string \<Rightarrow> bool" where
  "posix_claim sv token u \<longleftrightarrow>
     (\<exists>m. ks_claims sv token = Inr (JObject m) \<and> bt_get m ''posix_uid'' = Some (JString u))"

lemma get_posix_ok:
  "cx_auth ctx = Some (TokenValid t) \<Longrightarrow> get_posix_from_ctx sv ctx = Inr u \<longleftrightarrow> posix_claim sv t u"
  by (auto simp: get_posix_from_ctx_def get_auth_token_def as_token_def rbind_eq_Inr posix_claim_def
      json_iffs)

text \<open>Whose request it is, and on which client it runs: one for the configured cluster.\<close>

definition caller_uid :: "('n, 'k, 'c) trigger_services \<Rightarrow> graph_ctx \<Rightarrow> string \<Rightarrow> bool" where
  "caller_uid sv ctx u \<longleftrightarrow> (\<exists>token. cx_auth ctx = Some (TokenValid token) \<and> posix_claim sv token u)"

definition client_of :: "('n, 'k, 'c) trigger_services \<Rightarrow> string \<Rightarrow> 'c \<Rightarrow> bool" where
  "client_of sv api_url client \<longleftrightarrow>
     (\<exists>config n n'. kc_cluster_url config = api_url \<and> ks_make_client sv config n = (Inr client, n'))"

lemma setup_client_ok:
  assumes "setup_client sv api_url n = (Inr client, n')"
  shows "client_of sv api_url client"
proof -
  obtain config n1 where "ks_make_client sv (config\<lparr>kc_cluster_url := api_url\<rparr>) n1 = (Inr client, n')"
    using assms by (auto simp: setup_client_def ebind_def emap_err_def map_err_eq_Inr split: prod.splits sum.splits)
  then show ?thesis
    unfolding client_of_def by (intro exI [of _ "config\<lparr>kc_cluster_url := api_url\<rparr>"] exI conjI) simp_all
qed

lemma trigger_query_ok:
  assumes "trigger_query sv api_url ctx name v n = (Inr g, n')"
  shows "\<exists>client u t n1. client_of sv api_url client \<and> caller_uid sv ctx u \<and>
    ks_get sv client (unwrap_or ''events'' v) name n1 = (Inr t, n') \<and> owned_by u t \<and> g = Some (trigger_gql_of t)"
  using assms setup_client_ok
  by (fastforce simp: trigger_query_def guarded_trigger_ok eff_elims get_posix_ok caller_uid_def split: if_splits)

lemma triggers_query_ok:
  assumes "triggers_query sv api_url ctx cursor limit n = (Inr page, n')"
  shows "\<exists>client u continue response n1. client_of sv api_url client \<and> caller_uid sv ctx u \<and>
    ks_list sv client (posix_selector u) (unwrap_or 10 limit) continue n1 = (Inr response, n') \<and>
    map snd (tp_edges page) = map trigger_gql_of (il_items response)"
proof -
  obtain client u continue response n1 n2 where made: "setup_client sv api_url n = (Inr client, n2)"
    and run: "caller_uid sv ctx u"
      "ks_list sv client (posix_selector u) (unwrap_or 10 limit) continue n1 = (Inr response, n')"
      "page = \<lparr>tp_previous = (continue \<noteq> None), tp_next = (il_continue response \<noteq> None),
         tp_edges = map (\<lambda>t. (unwrap_or [] (il_continue response), trigger_gql_of t)) (il_items response)\<rparr>"
    using assms
    by (fastforce simp: triggers_query_def guarded_trigger_ok eff_elims get_posix_ok caller_uid_def)
  have "map snd (tp_edges page) = map trigger_gql_of (il_items response)" by (simp add: run(3))
  with setup_client_ok [OF made] run(1,2) show ?thesis by (intro exI conjI)
qed

lemma create_trigger_ok:
  assumes "create_trigger sv api_url ctx template_ref name v n = (Inr g, n')"
  shows "\<exists>client u created n1. client_of sv api_url client \<and> caller_uid sv ctx u \<and>
    ks_create sv client (case v of None \<Rightarrow> ''events'' | Some w \<Rightarrow> visit_input_to_string w)
      (new_trigger u template_ref name) n1 = (Inr created, n') \<and> g = Some (trigger_gql_of created)"
  using assms setup_client_ok
  by (fastforce simp: create_trigger_def guarded_trigger_ok eff_elims get_posix_ok Let_def caller_uid_def)

text \<open>
  The cluster lists only triggers the selector asks for, as a reader that follows the documentation of
  selectors reads it.
\<close>

definition lists_selected ::
  "('n, 'k, 'c) trigger_services \<Rightarrow> (string \<Rightarrow> (string_map \<Rightarrow> bool) option) \<Rightarrow> bool" where
  "lists_selected sv reads \<longleftrightarrow> documented_selectors reads \<and>
     (\<forall>client selector limit continue n page n'.
        ks_list sv client selector limit continue n = (Inr page, n') \<longrightarrow>
        (\<forall>t \<in> set (il_items page). \<exists>accepted. reads selector = Some accepted \<and>
           accepted (unwrap_or Map.empty (tr_labels t))))"

lemma selector_owned:
  assumes "documented_selectors reads" and "label_name u"
  shows "reads (posix_selector u) = Some (\<lambda>labels. labels POSIX_LABEL = Some u)"
proof -
  have "label_key POSIX_LABEL" by (simp add: POSIX_LABEL_def label_syntax)
  from labels_mean_read [OF equal_label_mean [OF this assms(2)] assms(1)] show ?thesis
    by (simp add: posix_selector_def POSIX_LABEL_def)
qed

lemma listed_owned:
  assumes "lists_selected sv reads" and "label_name u"
    and "ks_list sv client (posix_selector u) limit continue n = (Inr response, n')"
  shows "list_all (owned_by u) (il_items response)"
  using assms selector_owned [OF _ assms(2), of reads]
  by (fastforce simp: lists_selected_def list_all_iff owned_by_def unwrap_or_def split: option.splits)

text \<open>
  C20. A caller sees and makes only triggers of the caller's own, and only on the configured cluster.
  The caller has a valid token, whose claim \<^verbatim>\<open>posix_uid\<close> is \<open>u\<close>. A trigger asked for by name is
  shown when its label is \<open>u\<close>. A page is what the cluster lists for the selector of \<open>u\<close>, so all
  of it is labelled \<open>u\<close>, given that \<open>u\<close> can be the value of a label and the cluster
  follows selectors as they are documented. A trigger that is made carries the label \<open>u\<close>, which makes
  it the caller's and nobody else's.
\<close>

theorem triggers_owned:
  assumes "lists_selected sv reads"
  shows "(trigger_query sv api_url ctx name v n = (Inr g, n') \<longrightarrow>
      (\<exists>client u t n1. client_of sv api_url client \<and> caller_uid sv ctx u \<and>
        ks_get sv client (unwrap_or ''events'' v) name n1 = (Inr t, n') \<and> owned_by u t \<and>
        g = Some (trigger_gql_of t))) \<and>
    (triggers_query sv api_url ctx cursor limit n = (Inr page, n') \<longrightarrow>
      (\<exists>client u continue response n1. client_of sv api_url client \<and> caller_uid sv ctx u \<and>
        ks_list sv client (posix_selector u) (unwrap_or 10 limit) continue n1 = (Inr response, n') \<and>
        map snd (tp_edges page) = map trigger_gql_of (il_items response) \<and>
        (label_name u \<longrightarrow> list_all (owned_by u) (il_items response)))) \<and>
    (create_trigger sv api_url ctx template_ref nm visit n = (Inr g', n') \<longrightarrow>
      (\<exists>client u created n1. client_of sv api_url client \<and> caller_uid sv ctx u \<and>
        ks_create sv client (case visit of None \<Rightarrow> ''events'' | Some w \<Rightarrow> visit_input_to_string w)
          (new_trigger u template_ref nm) n1 = (Inr created, n') \<and> g' = Some (trigger_gql_of created) \<and>
        (\<forall>u'. owned_by u' (new_trigger u template_ref nm) \<longleftrightarrow> u' = u)))"
proof (intro conjI impI)
  assume "trigger_query sv api_url ctx name v n = (Inr g, n')"
  then show "\<exists>client u t n1. client_of sv api_url client \<and> caller_uid sv ctx u \<and>
      ks_get sv client (unwrap_or ''events'' v) name n1 = (Inr t, n') \<and> owned_by u t \<and>
      g = Some (trigger_gql_of t)" by (rule trigger_query_ok)
next
  assume "triggers_query sv api_url ctx cursor limit n = (Inr page, n')"
  from triggers_query_ok [OF this] listed_owned [OF assms]
  show "\<exists>client u continue response n1. client_of sv api_url client \<and> caller_uid sv ctx u \<and>
      ks_list sv client (posix_selector u) (unwrap_or 10 limit) continue n1 = (Inr response, n') \<and>
      map snd (tp_edges page) = map trigger_gql_of (il_items response) \<and>
      (label_name u \<longrightarrow> list_all (owned_by u) (il_items response))" by meson
next
  assume "create_trigger sv api_url ctx template_ref nm visit n = (Inr g', n')"
  from create_trigger_ok [OF this]
  show "\<exists>client u created n1. client_of sv api_url client \<and> caller_uid sv ctx u \<and>
      ks_create sv client (case visit of None \<Rightarrow> ''events'' | Some w \<Rightarrow> visit_input_to_string w)
        (new_trigger u template_ref nm) n1 = (Inr created, n') \<and> g' = Some (trigger_gql_of created) \<and>
      (\<forall>u'. owned_by u' (new_trigger u template_ref nm) \<longleftrightarrow> u' = u)" by (simp add: new_trigger_owned)
qed

section \<open>Examples\<close>

text \<open>A cluster with three triggers, which follows selectors; its clients are their configurations.\<close>

definition demo_triggers :: "trigger list" where
  "demo_triggers = [new_trigger ''1234'' ''numpy'' (Some ''t''), new_trigger ''77'' ''numpy'' None,
     \<lparr>tr_name = Some ''u'', tr_generate_name = None, tr_labels = None, tr_template_ref = None\<rparr>]"

definition demo_trigger_services :: "(unit, unit, unit kube_config) trigger_services" where
  "demo_trigger_services =
     \<lparr>ks_infer_config = (\<lambda>n. (Inr \<lparr>kc_cluster_url = ''https://inferred'', kc_rest = ()\<rparr>, n)),
      ks_make_client = (\<lambda>config n. (Inr config, n)),
      ks_claims = (\<lambda>_. Inr (JObject [(''posix_uid'', JString ''1234'')])),
      ks_decode_cursor = (\<lambda>c. Inr c),
      ks_get = (\<lambda>client ns name n. (Inr (hd demo_triggers), n)),
      ks_list = (\<lambda>client selector limit continue n.
        (Inr \<lparr>il_items = filter (\<lambda>t. case read_selector selector of
            Some accepted \<Rightarrow> accepted (unwrap_or Map.empty (tr_labels t)) | None \<Rightarrow> False) demo_triggers,
          il_continue = None\<rparr>, n)),
      ks_create = (\<lambda>client ns t n. (Inr t, n))\<rparr>"

lemma demo_lists_selected: "lists_selected demo_trigger_services read_selector"
  by (auto simp: lists_selected_def read_selector_documented demo_trigger_services_def split: option.splits)

theorem triggers_owned_witness:
  "\<exists>page response. fst (triggers_query demo_trigger_services ''https://api''
       \<lparr>cx_argo_url = \<lparr>u_base = [], u_segments = [], u_query = []\<rparr>, cx_auth = Some (TokenValid ''jwt'')\<rparr>
       None None ()) = Inr page \<and>
     fst (ks_list demo_trigger_services \<lparr>kc_cluster_url = ''https://api'', kc_rest = ()\<rparr>
       (posix_selector ''1234'') 10 None ()) = Inr response \<and>
     map snd (tp_edges page) = map trigger_gql_of (il_items response) \<and>
     list_all (owned_by ''1234'') (il_items response)"
proof -
  let ?ctx = "\<lparr>cx_argo_url = \<lparr>u_base = [], u_segments = [], u_query = []\<rparr>, cx_auth = Some (TokenValid ''jwt'')\<rparr>"
  obtain page where run: "triggers_query demo_trigger_services ''https://api'' ?ctx None None () = (Inr page, ())"
    by (simp add: triggers_query_def guarded_trigger_def setup_client_def ebind_def auth_guard_def
        emap_err_def get_posix_from_ctx_def get_auth_token_def as_token_def demo_trigger_services_def
        json_get_def as_str_def)
  have "u = ''1234''" if "caller_uid demo_trigger_services ?ctx u" for u
    using that by (simp add: caller_uid_def posix_claim_def demo_trigger_services_def)
  moreover have "label_name ''1234''" by (simp add: label_syntax)
  ultimately show ?thesis
    using triggers_owned [OF demo_lists_selected, THEN conjunct2, THEN conjunct1, THEN mp, OF run] run
    by (fastforce simp: demo_trigger_services_def)
qed

end
