(* ===== verification/Graph_Subscription.thy ===== *)
theory Graph_Subscription
  imports Graph_Triggers
begin

text \<open>
  Subscriptions of the graph proxy: \<^verbatim>\<open>graph-proxy/src/graphql/subscription.rs\<close>. A stream is the
  list of what it yields. Lossy decoding of UTF-8 and the decoders of \<^verbatim>\<open>serde\<close> are parameters;
  opening a response stream is a service on the state \<open>'n\<close>.
\<close>

section \<open>Data\<close>

record log_entry =
  le_content :: string
  le_pod_name :: string

text \<open>\<^verbatim>\<open>LogResponse\<close> is its optional result; \<^verbatim>\<open>WatchEvent\<close> the optional result and error.\<close>

record log_content =
  lc_content :: string
  lc_pod_name :: string

record watch_event =
  we_result :: "workflow_manifest option option"
  we_error :: "string option"

record 'c stream_reply =
  st_status :: nat
  st_chunks :: "(string + 'c) list"

record ('n, 'b) stream_services =
  ss_open :: "argo_request \<Rightarrow> 'n \<Rightarrow> (string + 'b stream_reply) \<times> 'n"
  ss_events :: "'b stream_reply \<Rightarrow> (string + string) list"
  ss_lossy :: "'b \<Rightarrow> string"
  ss_log :: "string \<Rightarrow> string + log_content option"
  ss_watch :: "string \<Rightarrow> string + watch_event"

definition open_stream ::
  "('n, 'b) stream_services \<Rightarrow> argo_request \<Rightarrow> ('n graph_env, graph_error, 'b stream_reply) eff" where
  "open_stream sv rq env =
     (case ss_open sv rq (ge_net env) of
        (r, n) \<Rightarrow> (map_err RequestFailed r, env\<lparr>ge_net := n, ge_requests := ge_requests env @ [rq]\<rparr>))"

definition status_success :: "nat \<Rightarrow> bool" where
  "status_success s \<longleftrightarrow> 200 \<le> s \<and> s < 300"

section \<open>Logs\<close>

definition log_line ::
  "(string \<Rightarrow> string + log_content option) \<Rightarrow> string \<Rightarrow> string \<Rightarrow> string + log_entry" where
  "log_line from_str task_id line =
     (case from_str line of
        Inr (Some result) \<Rightarrow> Inr \<lparr>le_content = lc_content result, le_pod_name = lc_pod_name result\<rparr>
      | Inr None \<Rightarrow> Inl ''Missing result in log response''
      | Inl _ \<Rightarrow> Inr \<lparr>le_content = trim line, le_pod_name = task_id\<rparr>)"

definition log_text ::
  "(string \<Rightarrow> string + log_content option) \<Rightarrow> string \<Rightarrow> string \<Rightarrow> (string + log_entry) list" where
  "log_text from_str task_id text = map (log_line from_str task_id) (lines text)"

definition log_chunk ::
  "('n, 'b) stream_services \<Rightarrow> nat \<Rightarrow> string \<Rightarrow> string + 'b \<Rightarrow> (string + log_entry) list" where
  "log_chunk sv status task_id chunk_result =
     (case chunk_result of
        Inr chunk \<Rightarrow>
          (if status_success status then log_text (ss_log sv) task_id (ss_lossy sv chunk)
           else [Inl ''Failed to read log chunk''])
      | Inl _ \<Rightarrow> [Inl ''Failed to read log chunk''])"

definition log_stream ::
  "('n, 'b) stream_services \<Rightarrow> string \<Rightarrow> 'b stream_reply \<Rightarrow> (string + log_entry) list" where
  "log_stream sv task_id response =
     concat (map (log_chunk sv (st_status response) task_id) (st_chunks response))"

definition stream_request :: "url \<Rightarrow> string \<Rightarrow> string \<Rightarrow> argo_request" where
  "stream_request u auth_token accept =
     \<lparr>rq_method = ''GET'', rq_url = u, rq_bearer = Some auth_token,
      rq_headers = [(''Accept'', accept)], rq_body = NoBody\<rparr>"

definition logs ::
  "('n, 'b) stream_services \<Rightarrow> graph_ctx \<Rightarrow> visit_input \<Rightarrow> string \<Rightarrow> string \<Rightarrow>
     ('n graph_env, graph_error, (string + log_entry) list) eff" where
  "logs sv ctx v workflow_name task_id =
     guarded ctx (
       ebind (lift_res (get_auth_token ctx)) (\<lambda>auth_token.
       let u = append_pair ''logOptions.follow'' ''true''
                 (append_pair ''logOptions.container'' ''main''
                   (append_pair ''podName'' task_id
                     (extend_segments
                       [''api'', ''v1'', ''workflows'', visit_input_to_string v, workflow_name, ''log'']
                       (cx_argo_url ctx)))) in
       ebind (open_stream sv (stream_request u auth_token ''text/plain'')) (\<lambda>response.
       ret (log_stream sv task_id response))))"

section \<open>Workflow events\<close>

definition watch_item ::
  "('n, 'b) stream_services \<Rightarrow> visit_input \<Rightarrow> string + string \<Rightarrow> graph_error + (string + workflow)" where
  "watch_item sv v event_result =
     (case event_result of
        Inl _ \<Rightarrow> Inr (Inl ''Failed to read event from stream'')
      | Inr data \<Rightarrow>
          (case ss_watch sv data of
             Inl e \<Rightarrow> Inr (Inl e)
           | Inr event \<Rightarrow>
               (case (we_result event, we_error event) of
                  (Some result, None) \<Rightarrow>
                    (case result of
                       Some manifest \<Rightarrow>
                         rbind (workflow_new manifest (visit_of_input v)) (\<lambda>w. Inr (Inr w))
                     | None \<Rightarrow> Inr (Inl ''No workflow object returned''))
                | (None, Some err) \<Rightarrow> Inr (Inl err)
                | (None, None) \<Rightarrow> Inr (Inl ''Missing result and error in event'')
                | (Some _, Some _) \<Rightarrow> Inr (Inl ''Conflicting result and error in event''))))"

text \<open>An item that panics (\<open>Inl\<close>) is one the task driving the stream does not survive.\<close>

definition workflow_subscription ::
  "('n, 'b) stream_services \<Rightarrow> graph_ctx \<Rightarrow> visit_input \<Rightarrow> string \<Rightarrow>
     ('n graph_env, graph_error, (graph_error + (string + workflow)) list) eff" where
  "workflow_subscription sv ctx v name =
     guarded ctx (
       ebind (lift_res (get_auth_token ctx)) (\<lambda>auth_token.
       let u = append_pair ''listOptions.fieldSelector''
                 (''metadata.name='' @ name @ '',metadata.namespace='' @ visit_input_to_string v)
                 (extend_segments [''api'', ''v1'', ''workflow-events'', visit_input_to_string v]
                   (cx_argo_url ctx)) in
       ebind (open_stream sv (stream_request u auth_token ''text/event-stream'')) (\<lambda>response.
       ret (map (watch_item sv v) (ss_events sv response)))))"

section \<open>Lemmas\<close>

lemma sends_open_stream [sends_intros]: "P rq \<Longrightarrow> sends P (open_stream sv rq)"
  by (auto simp: emits_def open_stream_def split: prod.split)

lemma stream_request_simps [simp]:
  "rq_url (stream_request u t a) = u" "rq_bearer (stream_request u t a) = Some t"
  by (simp_all add: stream_request_def)

lemma get_auth_token_addressed: "get_auth_token ctx = Inr t \<longleftrightarrow> (\<exists>a. cx_auth ctx = Some a \<and> as_token a = Some t)"
  by (auto simp: get_auth_token_def split: option.splits)

lemma subscriptions_for_caller:
  "sends (for_caller ctx (workflow_path v)) (logs sv ctx v name task_id)"
  "sends (for_caller ctx [''api'', ''v1'', ''workflow-events'', visit_input_to_string v])
     (workflow_subscription sv ctx v name)"
proof -
  show "sends (for_caller ctx (workflow_path v)) (logs sv ctx v name task_id)"
    unfolding logs_def Let_def
    by (intro sends_for_caller sends_lift_bind sends_ebind sends_open_stream sends_ret)
      (auto simp: addressed_def workflow_path_def get_auth_token_addressed)
  show "sends (for_caller ctx [''api'', ''v1'', ''workflow-events'', visit_input_to_string v])
      (workflow_subscription sv ctx v name)"
    unfolding workflow_subscription_def Let_def
    by (intro sends_for_caller sends_lift_bind sends_ebind sends_open_stream sends_ret)
      (auto simp: addressed_def get_auth_token_addressed)
qed

lemma log_text_append:
  "log_text p tid (a @ newline # b) = log_text p tid (a @ [newline]) @ log_text p tid b"
  by (simp add: log_text_def lines_append [of a b])

lemma log_text_concat:
  "\<forall>t \<in> set ts. t \<noteq> [] \<and> last t = newline \<Longrightarrow>
     log_text p tid (concat ts @ r) = concat (map (log_text p tid) ts) @ log_text p tid r"
proof (induction ts)
  case (Cons t ts)
  then have "t = butlast t @ [newline]" by (metis append_butlast_last_id list.set_intros(1))
  then have "log_text p tid (t @ concat ts @ r) = log_text p tid t @ log_text p tid (concat ts @ r)"
    using log_text_append [of p tid "butlast t" "concat ts @ r"] by (metis append.assoc append_Cons append_Nil)
  with Cons show ?case by simp
qed simp

text \<open>
  C32. The entries of a log do not depend on how its text is cut into chunks as long as the cuts
  are at line ends: then they are the entries of the whole text, one per line. A cut inside a
  line turns the one entry of that line into two.
\<close>

theorem log_chunks_at_line_ends:
  assumes "status_success status"
    and "st_chunks response = map Inr chunks" and "st_status response = status"
    and "\<forall>c \<in> set chunks. ss_lossy sv c \<noteq> [] \<and> last (ss_lossy sv c) = newline"
  shows "log_stream sv tid response = log_text (ss_log sv) tid (concat (map (ss_lossy sv) chunks))
    \<and> log_text (\<lambda>_. Inl e) tid ''ab'' \<noteq> log_text (\<lambda>_. Inl e) tid ''a'' @ log_text (\<lambda>_. Inl e) tid ''b''"
proof -
  have "log_stream sv tid response = concat (map (\<lambda>c. log_text (ss_log sv) tid (ss_lossy sv c)) chunks)"
    using assms(1-3) by (simp add: log_stream_def log_chunk_def comp_def)
  also have "\<dots> = log_text (ss_log sv) tid (concat (map (ss_lossy sv) chunks) @ [])"
    using assms(4) log_text_concat [of "map (ss_lossy sv) chunks" "ss_log sv" tid "[]"]
    by (auto simp: comp_def log_text_def)
  finally have "log_stream sv tid response = log_text (ss_log sv) tid (concat (map (ss_lossy sv) chunks))"
    by simp
  moreover have "log_text (\<lambda>_. Inl e) tid ''ab'' \<noteq> log_text (\<lambda>_. Inl e) tid ''a'' @ log_text (\<lambda>_. Inl e) tid ''b''"
    by (simp add: log_text_def lines_def newline_def)
  ultimately show ?thesis by blast
qed

text \<open>
  Every event of a workflow subscription becomes exactly one item, in order: the workflow
  of the event, in the subscribed visit, when it has a result with an object and no error, and
  an error text otherwise; the event stream is asked for with the caller's token.
\<close>

theorem watch_items:
  assumes "workflow_subscription sv ctx v name env = (Inr items, env')"
  shows "\<exists>t response. cx_auth ctx = Some (TokenValid t) \<and>
      length items = length (ss_events sv response) \<and>
      (\<forall>k < length items. \<forall>w. items ! k = Inr (Inr w) \<longrightarrow>
         (\<exists>data event manifest. ss_events sv response ! k = Inr data \<and> ss_watch sv data = Inr event \<and>
            we_result event = Some (Some manifest) \<and> we_error event = None \<and>
            wk_manifest w = manifest \<and> md_visit (wk_metadata w) = visit_of_input v))"
proof -
  obtain t response where "cx_auth ctx = Some (TokenValid t)"
    and items: "items = map (watch_item sv v) (ss_events sv response)"
    using assms by (auto simp: workflow_subscription_def Let_def eff_elims guarded_def auth_guard_ok)
  moreover have "\<exists>data event manifest. ev = Inr data \<and> ss_watch sv data = Inr event \<and>
      we_result event = Some (Some manifest) \<and> we_error event = None \<and>
      wk_manifest w = manifest \<and> md_visit (wk_metadata w) = visit_of_input v"
    if "watch_item sv v ev = Inr (Inr w)" for ev w
    using that
    by (auto simp: watch_item_def rbind_eq_Inr workflow_new_ok split: sum.splits option.splits)
  ultimately show ?thesis by (intro exI [of _ t] exI [of _ response]) simp
qed


section \<open>Examples\<close>

definition demo_streams :: "(unit, string) stream_services" where
  "demo_streams =
     \<lparr>ss_open = (\<lambda>rq n. (Inr \<lparr>st_status = 200, st_chunks = [Inr ''x'']\<rparr>, n)),
      ss_events = (\<lambda>r. [Inr ''event'', Inl ''broken'']), ss_lossy = (\<lambda>c. c),
      ss_log = (\<lambda>_. Inl ''plain''),
      ss_watch = (\<lambda>_. Inr \<lparr>we_result = Some (Some demo_manifest), we_error = None\<rparr>)\<rparr>"

definition demo_stream_ctx :: graph_ctx where
  "demo_stream_ctx =
     \<lparr>cx_argo_url = \<lparr>u_base = ''https://argo'', u_segments = [], u_query = []\<rparr>,
      cx_auth = Some (TokenValid ''jwt'')\<rparr>"

theorem log_chunks_at_line_ends_witness:
  "log_stream demo_streams ''pod''
     \<lparr>st_status = 200, st_chunks = [Inr (''ab'' @ [newline]), Inr (''c'' @ [newline])]\<rparr>
   = log_text (\<lambda>_. Inl ''plain'') ''pod'' (''ab'' @ [newline] @ ''c'' @ [newline])"
  using log_chunks_at_line_ends [of 200
      "\<lparr>st_status = 200, st_chunks = [Inr (''ab'' @ [newline]), Inr (''c'' @ [newline])]\<rparr>"
      "[''ab'' @ [newline], ''c'' @ [newline]]" demo_streams "''pod''"]
  by (simp add: status_success_def demo_streams_def)

theorem watch_items_witness:
  "\<exists>items env'. workflow_subscription demo_streams demo_stream_ctx demo_visit ''w''
      \<lparr>ge_net = (), ge_requests = []\<rparr> = (Inr items, env') \<and> length items = 2
      \<and> (\<exists>w. items ! 0 = Inr (Inr w) \<and> md_visit (wk_metadata w) = visit_of_input demo_visit)"
proof -
  let ?env = "\<lparr>ge_net = (), ge_requests = []\<rparr>"
  obtain items env' where run:
      "workflow_subscription demo_streams demo_stream_ctx demo_visit ''w'' ?env = (Inr items, env')"
    and items: "length items = 2" "\<exists>w. items ! 0 = Inr (Inr w)"
    by (simp add: workflow_subscription_def guarded_def auth_guard_def demo_stream_ctx_def ebind_def
        get_auth_token_def as_token_def Let_def open_stream_def demo_streams_def watch_item_def
        workflow_new_def expect_def demo_manifest_def demo_meta_def)
  from watch_items [OF run] items have
    "\<exists>w. items ! 0 = Inr (Inr w) \<and> md_visit (wk_metadata w) = visit_of_input demo_visit"
    by fastforce
  with run items(1) show ?thesis by blast
qed

end
