(* ===== verification/Parameter_Schema.thy ===== *)
theory Parameter_Schema
  imports Argo_Types
begin

text \<open>
  The JSON Schema of the arguments of a workflow template:
  \<^verbatim>\<open>graph-proxy/src/graphql/parameter_schema.rs\<close>. Parsing an annotation
  (\<^verbatim>\<open>serde_json::from_str\<close>) is the parameter \<open>from_str\<close>.
\<close>

section \<open>Rewriting references\<close>

definition ref_path :: "string \<Rightarrow> string \<Rightarrow> string" where
  "ref_path pre reference =
     (case strip_prefix ''#/'' reference of
        Some reference_key \<Rightarrow> ''#/properties/'' @ pre @ ''/'' @ reference_key
      | None \<Rightarrow> reference)"

definition rewrite_ref :: "string \<Rightarrow> (string, json) btmap \<Rightarrow> (string, json) btmap" where
  "rewrite_ref pre schema =
     (case bt_get schema ''$ref'' of
        Some (JString reference) \<Rightarrow> bt_set ''$ref'' (JString (ref_path pre reference)) schema
      | _ \<Rightarrow> schema)"

lemma rewrite_ref_entry:
  "(k, v) \<in> set (rewrite_ref pre m) \<Longrightarrow> \<exists>w. (k, w) \<in> set m \<and> (v = w \<or> (\<exists>s. v = JString s))"
proof (cases "\<exists>r. bt_get m ''$ref'' = Some (JString r)")
  case True
  then obtain r where r: "bt_get m ''$ref'' = Some (JString r)" by blast
  assume "(k, v) \<in> set (rewrite_ref pre m)"
  with bt_set_split [OF r, of "JString (ref_path pre r)"] r
  obtain a b where "m = a @ (''$ref'', JString r) # b"
    and "(k, v) \<in> set (a @ (''$ref'', JString (ref_path pre r)) # b)"
    by (auto simp: rewrite_ref_def)
  then show ?thesis by (auto; blast)
next
  case False
  assume "(k, v) \<in> set (rewrite_ref pre m)"
  with False show ?thesis by (auto simp: rewrite_ref_def split: option.splits json.splits)
qed

lemma jsize_rewrite_ref: "(k, v) \<in> set (rewrite_ref pre m) \<Longrightarrow> jsize v < jsize (JObject m)"
proof -
  assume "(k, v) \<in> set (rewrite_ref pre m)"
  then obtain w where w: "(k, w) \<in> set m" "v = w \<or> (\<exists>s. v = JString s)"
    using rewrite_ref_entry by blast
  have "jsize w < jsize (JObject m)" by (rule jsize_entry) (rule w(1))
  moreover have "jsize v \<le> jsize w"
    using w(2) jsize_pos [of w] by (auto simp del: jsize_pos simp: Suc_le_eq)
  ultimately show ?thesis by linarith
qed

function update_refs :: "string \<Rightarrow> json \<Rightarrow> json" where
  "update_refs pre (JObject schema) =
     JObject (map (\<lambda>(k, v). (k, update_refs pre v)) (rewrite_ref pre schema))"
| "update_refs pre (JArray items) = JArray (map (update_refs pre) items)"
| "update_refs pre JNull = JNull"
| "update_refs pre (JBool b) = JBool b"
| "update_refs pre (JNumber n) = JNumber n"
| "update_refs pre (JString s) = JString s"
  by pat_completeness auto
termination
proof (relation "measure (\<lambda>(_, v). jsize v)", goal_cases)
  case (2 pre schema kv k v)
  then show ?case using jsize_rewrite_ref [of k v pre schema] by simp
next
  case (3 pre items v)
  then show ?case using jsize_item [of v items] by simp
qed simp

lemma bt_get_rewrite_ref:
  "bt_get (rewrite_ref pre m) k =
     (if k = ''$ref'' then map_option (\<lambda>v. case v of JString r \<Rightarrow> JString (ref_path pre r) | _ \<Rightarrow> v) (bt_get m k)
      else bt_get m k)"
  by (auto simp: rewrite_ref_def split: option.splits json.splits)

lemma child_update_refs:
  "child v t = Some w \<Longrightarrow> as_str w = None \<Longrightarrow>
     child (update_refs pre v) t = Some (update_refs pre w)"
  by (cases v)
    (auto simp: child_def as_str_def bt_get_rewrite_ref split: option.splits if_splits json.splits)

lemma child_update_text:
  "child v t = Some (JString r) \<Longrightarrow> \<exists>r'. child (update_refs pre v) t = Some (JString r')"
  by (cases v) (auto simp: child_def bt_get_rewrite_ref split: option.splits if_splits)

lemma child_update_none: "child (update_refs pre v) t = None \<longleftrightarrow> child v t = None"
  by (cases v) (auto simp: child_def bt_get_rewrite_ref split: option.splits if_splits)

lemma as_str_text: "as_str v \<noteq> None \<longleftrightarrow> (\<exists>r. v = JString r)"
  by (cases v) (simp_all add: as_str_def)

text \<open>A pointer into a schema reads the rewritten value in the rewritten schema, or leads nowhere in both.\<close>

lemma pointer_get_update_refs:
  "pointer_get v ts = Some w \<Longrightarrow> as_str w = None \<Longrightarrow>
     pointer_get (update_refs pre v) ts = Some (update_refs pre w)"
proof (induction ts arbitrary: v)
  case (Cons t ts)
  then obtain u where u: "child v t = Some u" "pointer_get u ts = Some w"
    by (auto split: option.splits)
  have "as_str u = None"
    using u(2) Cons.prems(2) by (cases ts; cases u) (auto simp: as_str_def child_def)
  with u Cons show ?case by (simp add: child_update_refs)
qed simp

lemma pointer_get_update_none: "pointer_get (update_refs pre v) ts = None \<longleftrightarrow> pointer_get v ts = None"
proof (induction ts arbitrary: v)
  case (Cons t ts)
  show ?case
  proof (cases "child v t")
    case None
    then show ?thesis using child_update_none [of pre v t] by simp
  next
    case (Some u)
    show ?thesis
    proof (cases "as_str u = None")
      case True
      from Cons child_update_refs [OF Some True] Some show ?thesis by simp
    next
      case False
      then obtain r where "u = JString r" using as_str_text by blast
      moreover from child_update_text [of v t r] Some calculation
      obtain r' where "child (update_refs pre v) t = Some (JString r')" by blast
      ultimately show ?thesis using Some by (cases ts) (simp_all add: child_def)
    qed
  qed
qed simp

lemma own_ref_update:
  "own_ref (map (\<lambda>(k, v). (k, update_refs pre v)) (rewrite_ref pre m)) = map (ref_path pre) (own_ref m)"
  by (auto simp: own_ref_def bt_get_rewrite_ref split: option.splits json.splits)

lemma refs_rewrite_ref:
  "concat (map (\<lambda>(k, v). refs_of (update_refs pre v)) (rewrite_ref pre m))
     = concat (map (\<lambda>(k, v). refs_of (update_refs pre v)) m)"
proof (cases "\<exists>r. bt_get m ''$ref'' = Some (JString r)")
  case True
  then obtain r where r: "bt_get m ''$ref'' = Some (JString r)" by blast
  from bt_set_split [OF r, of "JString (ref_path pre r)"] r show ?thesis
    by (auto simp: rewrite_ref_def)
next
  case False
  then show ?thesis by (auto simp: rewrite_ref_def split: option.splits json.splits)
qed

lemma refs_of_update_refs: "refs_of (update_refs pre v) = map (ref_path pre) (refs_of v)"
proof (induction v rule: jsize.induct)
  case (1 items)
  then show ?case by (auto simp: map_concat intro!: arg_cong [where f = concat])
next
  case (2 m)
  have "refs_of (update_refs pre (JObject m)) =
      map (ref_path pre) (own_ref m) @ concat (map (\<lambda>(k, v). refs_of (update_refs pre v)) m)"
  proof -
    have "refs_of (update_refs pre (JObject m)) = map (ref_path pre) (own_ref m)
        @ concat (map (\<lambda>(k, v). refs_of (update_refs pre v)) (rewrite_ref pre m))"
      by (simp add: own_ref_update [unfolded case_prod_unfold] comp_def case_prod_unfold)
    then show ?thesis by (simp only: refs_rewrite_ref)
  qed
  also have "concat (map (\<lambda>(k, v). refs_of (update_refs pre v)) m)
      = concat (map (\<lambda>(k, v). map (ref_path pre) (refs_of v)) m)"
    using 2 by (intro arg_cong [where f = concat] map_cong) (auto simp: split_beta)
  finally show ?case by (simp add: map_concat comp_def case_prod_unfold)
qed simp_all

section \<open>The schema of a parameter\<close>

datatype 'err schema_error =
    MissingAnnotation string
  | UnparsableSchema string 'err

definition annotation_key :: "string \<Rightarrow> string" where
  "annotation_key name = ''workflows.diamond.ac.uk/parameter-schema.'' @ name"

definition get_annotation_schema ::
  "(string \<Rightarrow> 'err + json) \<Rightarrow> string \<Rightarrow> string_map \<Rightarrow> 'err schema_error + json" where
  "get_annotation_schema from_str name annotations =
     rbind (ok_or (MissingAnnotation (annotation_key name)) (annotations (annotation_key name)))
       (\<lambda>schema. map_err (UnparsableSchema (annotation_key name)) (from_str schema))"

definition insert_some :: "string \<Rightarrow> string option \<Rightarrow> (string, json) btmap \<Rightarrow> (string, json) btmap" where
  "insert_some k x contents = (case x of Some s \<Rightarrow> bt_insert k (JString s) contents | None \<Rightarrow> contents)"

definition option_or :: "'a option \<Rightarrow> 'a option \<Rightarrow> 'a option" where
  "option_or x y = (case x of Some a \<Rightarrow> Some a | None \<Rightarrow> y)"

definition infer_string_schema :: "string option \<Rightarrow> string option \<Rightarrow> string option \<Rightarrow> json" where
  "infer_string_schema description val dflt =
     JObject (insert_some ''default'' (option_or val dflt)
       (insert_some ''description'' description
         (bt_insert ''type'' (JString ''string'') [])))"

definition infer_enum_schema ::
  "string option \<Rightarrow> string list \<Rightarrow> string option \<Rightarrow> string option \<Rightarrow> json" where
  "infer_enum_schema description options val dflt =
     JObject (insert_some ''default'' (option_or val dflt)
       (insert_some ''description'' description
         (bt_insert ''enum'' (JArray (map JString options))
           (bt_insert ''type'' (JString ''string'') []))))"

type_synonym argument_schema = "(string, json) btmap"

definition parameter_schema ::
  "(string \<Rightarrow> 'err + json) \<Rightarrow> parameter \<Rightarrow> string_map \<Rightarrow> 'err schema_error + json" where
  "parameter_schema from_str parameter annotations =
     (case get_annotation_schema from_str (p_name parameter) annotations of
        Inr schema \<Rightarrow> Inr schema
      | Inl (MissingAnnotation _) \<Rightarrow>
          (case p_enum parameter of
             [] \<Rightarrow> Inr (infer_string_schema (p_description parameter) (p_value parameter) (p_default parameter))
           | options \<Rightarrow> Inr (infer_enum_schema (p_description parameter) options (p_value parameter)
                               (p_default parameter)))
      | Inl err \<Rightarrow> Inl err)"

definition add_parameter ::
  "(string \<Rightarrow> 'err + json) \<Rightarrow> parameter \<Rightarrow> string_map \<Rightarrow> argument_schema \<Rightarrow>
     'err schema_error + argument_schema" where
  "add_parameter from_str parameter annotations self =
     rbind (parameter_schema from_str parameter annotations)
       (\<lambda>schema. Inr (bt_insert (p_name parameter) schema self))"

section \<open>The schema of a template\<close>

text \<open>The loop over parameters, which skips those with a \<^verbatim>\<open>valueFrom\<close>.\<close>

fun add_parameters ::
  "(string \<Rightarrow> 'err + json) \<Rightarrow> string_map \<Rightarrow> parameter list \<Rightarrow> argument_schema \<Rightarrow>
     'err schema_error + argument_schema" where
  "add_parameters from_str annotations [] self = Inr self"
| "add_parameters from_str annotations (p # ps) self =
     rbind (if p_value_from p = None then add_parameter from_str p annotations self else Inr self)
       (add_parameters from_str annotations ps)"

definition entrypoint_inputs :: "workflow_spec \<Rightarrow> parameter list" where
  "entrypoint_inputs spec =
     (case ws_entrypoint spec of
        None \<Rightarrow> []
      | Some entrypoint \<Rightarrow>
          (case find (\<lambda>t. t_name t = Some entrypoint) (ws_templates spec) of
             None \<Rightarrow> []
           | Some t \<Rightarrow> unwrap_or [] (t_inputs t)))"

definition argument_schema_new ::
  "(string \<Rightarrow> 'err + json) \<Rightarrow> workflow_spec \<Rightarrow> string_map \<Rightarrow> 'err schema_error + argument_schema" where
  "argument_schema_new from_str spec annotations =
     rbind (add_parameters from_str annotations (unwrap_or [] (ws_arguments spec)) [])
       (add_parameters from_str annotations (entrypoint_inputs spec))"

text \<open>
  \<^verbatim>\<open>Schema::from(ArgumentSchema)\<close>: the keys of the \<^verbatim>\<open>json!\<close> object in the order of the map.
\<close>

definition schema_from :: "argument_schema \<Rightarrow> json" where
  "schema_from v =
     JObject [(''properties'', JObject (map (\<lambda>(name, schema). (name, update_refs name schema)) v)),
              (''required'', JArray (map JString (bt_keys v))),
              (''type'', JString ''object'')]"

section \<open>Lemmas\<close>

text \<open>The parameters that become arguments, in the order the two loops visit them.\<close>

definition considered :: "workflow_spec \<Rightarrow> parameter list" where
  "considered spec =
     filter (\<lambda>p. p_value_from p = None) (unwrap_or [] (ws_arguments spec) @ entrypoint_inputs spec)"

definition named_schema ::
  "(string \<Rightarrow> 'err + json) \<Rightarrow> string_map \<Rightarrow> parameter \<Rightarrow> 'err schema_error + string \<times> json" where
  "named_schema from_str annotations p =
     rbind (parameter_schema from_str p annotations) (\<lambda>s. Inr (p_name p, s))"

lemma add_parameters_collect:
  "add_parameters from_str ann ps self =
     rbind (try_map (named_schema from_str ann) (filter (\<lambda>p. p_value_from p = None) ps))
       (\<lambda>kvs. Inr (fold (\<lambda>(k, v). bt_insert k v) kvs self))"
  by (induction ps arbitrary: self)
    (auto simp: add_parameter_def named_schema_def rbind_def split: sum.splits)

lemma argument_schema_collect:
  "argument_schema_new from_str spec ann =
     rbind (try_map (named_schema from_str ann) (considered spec))
       (\<lambda>kvs. Inr (fold (\<lambda>(k, v). bt_insert k v) kvs []))"
  by (auto simp: argument_schema_new_def add_parameters_collect considered_def try_map_append
      rbind_def split: sum.splits)

lemma named_schema_iff:
  "named_schema from_str ann p = Inr kv \<longleftrightarrow>
     fst kv = p_name p \<and> parameter_schema from_str p ann = Inr (snd kv)"
  "named_schema from_str ann p = Inl e \<longleftrightarrow> parameter_schema from_str p ann = Inl e"
  by (cases "parameter_schema from_str p ann"; cases kv; auto simp: named_schema_def)+

section \<open>The schema against a reference\<close>

text \<open>
  What is wanted of a parameter: what its annotation says, where there is one, and else a text,
  with the options, the description and the default the parameter has, its value before its default.
\<close>

definition wanted_schema ::
  "(string \<Rightarrow> 'err + json) \<Rightarrow> string_map \<Rightarrow> parameter \<Rightarrow> 'err schema_error + json" where
  "wanted_schema from_str annotations p =
     (case annotations (annotation_key (p_name p)) of
        Some text \<Rightarrow>
          (case from_str text of
             Inr schema \<Rightarrow> Inr schema
           | Inl err \<Rightarrow> Inl (UnparsableSchema (annotation_key (p_name p)) err))
      | None \<Rightarrow>
          Inr (JObject (
            (case (p_value p, p_default p) of
               (Some v, _) \<Rightarrow> [(''default'', JString v)]
             | (None, Some d) \<Rightarrow> [(''default'', JString d)]
             | (None, None) \<Rightarrow> []) @
            (case p_description p of Some d \<Rightarrow> [(''description'', JString d)] | None \<Rightarrow> []) @
            (if p_enum p = [] then [] else [(''enum'', JArray (map JString (p_enum p)))]) @
            [(''type'', JString ''string'')])))"

lemma parameter_schema_wanted: "parameter_schema from_str p annotations = wanted_schema from_str annotations p"
  by (cases "p_enum p"; cases "p_description p"; cases "p_value p"; cases "p_default p")
    (auto simp: parameter_schema_def wanted_schema_def get_annotation_schema_def infer_string_schema_def
      infer_enum_schema_def insert_some_def option_or_def map_err_def rbind_def ok_or_def
      split: option.splits sum.splits)

text \<open>
  What is wanted of a list of parameters: the error of the first of them that has one; otherwise for
  every name, in order, the schema of the last parameter of that name.
\<close>

definition last_named :: "parameter list \<Rightarrow> string \<Rightarrow> parameter option" where
  "last_named ps name = find (\<lambda>p. p_name p = name) (rev ps)"

definition wanted_arguments ::
  "(string \<Rightarrow> 'err + json) \<Rightarrow> string_map \<Rightarrow> parameter list \<Rightarrow> 'err schema_error + argument_schema" where
  "wanted_arguments from_str annotations ps =
     (case find (\<lambda>p. isl (wanted_schema from_str annotations p)) ps of
        Some p \<Rightarrow> Inl (projl (wanted_schema from_str annotations p))
      | None \<Rightarrow>
          Inr (map (\<lambda>name. (name, projr (wanted_schema from_str annotations (the (last_named ps name)))))
                 (sorted_list_of_set (p_name ` set ps))))"

lemma named_schemas_run:
  "try_map (named_schema from_str ann) ps =
     (case find (\<lambda>p. isl (wanted_schema from_str ann p)) ps of
        Some p \<Rightarrow> Inl (projl (wanted_schema from_str ann p))
      | None \<Rightarrow> Inr (map (\<lambda>p. (p_name p, projr (wanted_schema from_str ann p))) ps))"
proof (induction ps)
  case (Cons p ps)
  then show ?case
    by (cases "wanted_schema from_str ann p")
      (simp_all add: named_schema_def parameter_schema_wanted rbind_def split: option.splits)
qed simp

lemma last_named_lookup:
  "map_of (rev (map (\<lambda>p. (p_name p, f p)) ps)) name = map_option f (last_named ps name)"
proof -
  have "map_of (map (\<lambda>p. (p_name p, f p)) qs) name = map_option f (find (\<lambda>p. p_name p = name) qs)" for qs
    by (induction qs) auto
  from this [of "rev ps"] show ?thesis by (simp add: last_named_def rev_map)
qed

lemma last_named_None: "last_named ps name = None \<longleftrightarrow> name \<notin> p_name ` set ps"
  by (auto simp: last_named_def find_None_iff)

lemma bt_get_tabulate:
  "finite A \<Longrightarrow> bt_get (map (\<lambda>k. (k, f k)) (sorted_list_of_set A)) k = (if k \<in> A then Some (f k) else None)"
  by (simp add: bt_get_def map_of_map_restrict)

lemma bt_wf_tabulate: "bt_wf (map (\<lambda>k. (k, f k)) (sorted_list_of_set A))"
  by (simp add: bt_wf_def comp_def)

lemma inserted_last:
  "fold (\<lambda>(k, v). bt_insert k v) (map (\<lambda>p. (p_name p, f p)) ps) [] =
     map (\<lambda>name. (name, f (the (last_named ps name)))) (sorted_list_of_set (p_name ` set ps))"
proof (rule bt_ext)
  show "bt_wf (fold (\<lambda>(k, v). bt_insert k v) (map (\<lambda>p. (p_name p, f p)) ps) [])"
    by (intro bt.good_ins_all bt.good_emp)
  fix k
  have "bt_get (fold (\<lambda>(k, v). bt_insert k v) (map (\<lambda>p. (p_name p, f p)) ps) []) k = map_option f (last_named ps k)"
    by (simp only: bt.look_ins_all [OF bt.good_emp] last_named_lookup bt_get_Nil) (simp split: option.split)
  then show "bt_get (fold (\<lambda>(k, v). bt_insert k v) (map (\<lambda>p. (p_name p, f p)) ps) []) k =
      bt_get (map (\<lambda>name. (name, f (the (last_named ps name)))) (sorted_list_of_set (p_name ` set ps))) k"
    using last_named_None [of ps k] by (cases "last_named ps k") (auto simp: bt_get_tabulate)
qed (rule bt_wf_tabulate)

text \<open>
  C19. The argument schema of a template is the one wanted of its parameters, errors included. The
  parameters are those of the workflow specification and then the inputs of its entrypoint
  template, without the ones taken from elsewhere. The schema is built exactly when none of them has
  an annotation that does not parse, otherwise the error is that of the first which has; it maps every
  name to the schema of the last parameter of that name, so an entrypoint input overrides a workflow
  argument.
\<close>

theorem argument_schema_of_parameters:
  "argument_schema_new from_str spec annotations = wanted_arguments from_str annotations (considered spec)"
  by (simp add: argument_schema_collect named_schemas_run wanted_arguments_def inserted_last
      split: option.split)

section \<open>Where references lead\<close>

lemma child_properties: "child (schema_from v) ''properties'' =
    Some (JObject (map (\<lambda>(name, schema). (name, update_refs name schema)) v))"
  by (simp add: schema_from_def child_def)

text \<open>A name that a pointer holds as it is: no slash, and none of the characters that start an escape.\<close>

definition pointer_name :: "string \<Rightarrow> bool" where
  "pointer_name name \<longleftrightarrow> list_all (\<lambda>c. c \<notin> set ''/~%'') name"

lemma resolve_properties:
  assumes "pointer_name name"
  shows "resolve_ref (schema_from v) (''#/properties/'' @ name @ ''/'' @ p) =
    (case bt_get v name of
       None \<Rightarrow> None
     | Some s \<Rightarrow> pointer_get (update_refs name s) (map unescape_token (split_char CHR ''/'' (percent_decode p))))"
proof -
  have name: "CHR ''/'' \<notin> set name" "CHR ''~'' \<notin> set name" "CHR ''%'' \<notin> set name"
    using assms by (auto simp: pointer_name_def list_all_iff)
  let ?q = "percent_decode p"
  have "percent_decode (''/properties/'' @ name @ ''/'' @ p) = ''/properties/'' @ name @ ''/'' @ ?q"
    using percent_decode_plain [of "''/properties/'' @ name @ ''/''" p] name(3) by simp
  moreover have "split_char CHR ''/'' (''properties/'' @ name @ ''/'' @ ?q)
      = ''properties'' # name # split_char CHR ''/'' ?q"
    using split_char_cons [of "CHR ''/''" "''properties''" "name @ ''/'' @ ?q"]
      split_char_cons [OF name(1), of ?q] by simp
  ultimately show ?thesis
    using name(2)
    by (simp add: resolve_ref_def child_properties unescape_token_plain)
      (simp add: child_def split: option.splits)
qed

lemma resolve_slash:
  "resolve_ref v (''#/'' @ p) = pointer_get v (map unescape_token (split_char CHR ''/'' (percent_decode p)))"
  using percent_decode_plain [of "''/''" p] by (simp add: resolve_ref_def)


definition demo_schema :: json where
  "demo_schema =
     JObject [(''$defs'', JObject [(''n'', JObject [(''type'', JString ''string'')])]),
              (''$ref'', JString ''#/$defs/n'')]"

lemma demo_refs:
  "refs_of demo_schema = [''#/$defs/n'']"
  "update_refs name (JObject [(''type'', JString ''string'')]) = JObject [(''type'', JString ''string'')]"
  by (simp_all add: demo_schema_def own_ref_def rewrite_ref_def)


end
