(* ===== verification/Graph_Templates.thy ===== *)
theory Graph_Templates
  imports Graph_Workflows Parameter_Schema
begin

text \<open>
  Workflow templates in the graph proxy: \<^verbatim>\<open>graph-proxy/src/graphql/workflow_templates.rs\<close> and
  \<^verbatim>\<open>graphql/ui_schema.rs\<close>. Parsing and printing of JSON and YAML (\<^verbatim>\<open>serde\<close>), the cluster's
  record of Argo CD applications and the iteration order of a hash map are parameters.
\<close>

section \<open>UI schemas\<close>

datatype ui_schema =
    Control string "string option" "json option" "json option"
  | HorizontalLayout "ui_schema list" "json option" "json option"
  | VerticalLayout "ui_schema list" "json option" "json option"
  | Group string "ui_schema list" "json option" "json option"
  | Categorization "ui_category list" "json option" "json option"
  | Category ui_category
and ui_category = UiSchemaCategory string "ui_schema list" "json option"

datatype 'err ui_schema_error = UnparsableUiSchema 'err

definition ui_schema_new ::
  "(string \<Rightarrow> 'err + ui_schema) \<Rightarrow> string_map \<Rightarrow> 'err ui_schema_error + ui_schema option" where
  "ui_schema_new from_str annotations =
     (case annotations ''workflows.diamond.ac.uk/ui-schema'' of
        None \<Rightarrow> Inr None
      | Some annotation \<Rightarrow>
          map_err UnparsableUiSchema (rbind (from_str annotation) (\<lambda>s. Inr (Some s))))"

section \<open>Templates\<close>

datatype 'err template_error =
    MissingInstanceLabel
  | ParameterSchemaError "'err schema_error"
  | UiSchemaError "'err ui_schema_error"
  | MalformParameterSchema 'err

definition INSTANCE_LABEL :: string where "INSTANCE_LABEL = ''argocd.argoproj.io/instance''"

definition template_name_of :: "cluster_template \<Rightarrow> graph_error + string" where
  "template_name_of t = expect ''called unwrap on None'' (om_name (ct_metadata t))"

definition template_maintainer :: "cluster_template \<Rightarrow> 'err template_error + string" where
  "template_maintainer t = ok_or MissingInstanceLabel (om_labels (ct_metadata t) INSTANCE_LABEL)"

definition template_title :: "cluster_template \<Rightarrow> string option" where
  "template_title t = om_annotations (ct_metadata t) ''workflows.argoproj.io/title''"

definition template_description :: "cluster_template \<Rightarrow> string option" where
  "template_description t = om_annotations (ct_metadata t) ''workflows.argoproj.io/description''"

definition template_repository :: "cluster_template \<Rightarrow> string option" where
  "template_repository t = om_annotations (ct_metadata t) ''workflows.diamond.ac.uk/repository''"

definition template_arguments ::
  "(string \<Rightarrow> 'err + json) \<Rightarrow> cluster_template \<Rightarrow> 'err template_error + json" where
  "template_arguments from_str t =
     (case om_annotations (ct_metadata t) ''workflows.diamond.ac.uk/parameter-schema'' of
        Some schema \<Rightarrow> map_err MalformParameterSchema (from_str schema)
      | None \<Rightarrow>
          rbind (map_err ParameterSchemaError
                  (argument_schema_new from_str (ct_spec t) (om_annotations (ct_metadata t))))
            (\<lambda>s. Inr (schema_from s)))"

definition template_ui_schema ::
  "(string \<Rightarrow> 'err + ui_schema) \<Rightarrow> cluster_template \<Rightarrow> 'err template_error + ui_schema option" where
  "template_ui_schema from_str t =
     map_err UiSchemaError (ui_schema_new from_str (om_annotations (ct_metadata t)))"

text \<open>Where a template comes from: the source of the Argo CD application that deploys it.\<close>

record template_source =
  repository_url :: string
  source_path :: string
  target_revision :: string

text \<open>\<^verbatim>\<open>serde_json::from_value\<close> on the struct: an object with its renamed fields, or an array.\<close>

definition template_source_from_value :: "json \<Rightarrow> template_source option" where
  "template_source_from_value data =
     (let mk = (\<lambda>a b c.
        case (a, b, c) of
          (Some (JString u), Some (JString p), Some (JString r)) \<Rightarrow>
            Some \<lparr>repository_url = u, source_path = p, target_revision = r\<rparr>
        | _ \<Rightarrow> None) in
      case data of
        JObject m \<Rightarrow> mk (bt_get m ''repoURL'') (bt_get m ''path'') (bt_get m ''targetRevision'')
      | JArray [a, b, c] \<Rightarrow> mk (Some a) (Some b) (Some c)
      | _ \<Rightarrow> None)"

text \<open>\<open>client\<close> infers the cluster client, \<open>application\<close> gets the data of an application by name.\<close>

definition template_source_of ::
  "('n \<Rightarrow> (string + 'c) \<times> 'n) \<Rightarrow> ('c \<Rightarrow> string \<Rightarrow> 'n \<Rightarrow> (string + json) \<times> 'n) \<Rightarrow> cluster_template \<Rightarrow>
     ('n, graph_error + 'err template_error, template_source option) eff" where
  "template_source_of client application t =
     (case om_labels (ct_metadata t) INSTANCE_LABEL of
        None \<Rightarrow> throw (Inr MissingInstanceLabel)
      | Some instance_name \<Rightarrow>
          ebind (emap_err (\<lambda>e. Inl (Panicked e)) client) (\<lambda>c. \<lambda>n.
          case application c instance_name n of
            (Inl _, n') \<Rightarrow> (Inr None, n')
          | (Inr obj, n') \<Rightarrow>
              (Inr (template_source_from_value
                 (unwrap_or JNull (case json_get obj ''spec'' of
                    Some s \<Rightarrow> json_get s ''source'' | None \<Rightarrow> None))), n')))"

section \<open>Queries\<close>

definition workflow_template_query ::
  "'n argo_services \<Rightarrow> graph_ctx \<Rightarrow> string \<Rightarrow> ('n graph_env, graph_error, cluster_template) eff" where
  "workflow_template_query sv ctx name =
     guarded ctx (
       ebind (ctx_token ctx) (\<lambda>auth_token.
       fetch_ok sv (as_template sv)
         (get_request
           (extend_segments [''api'', ''v1'', ''cluster-workflow-templates'', name] (cx_argo_url ctx))
           auth_token)))"

definition workflow_templates_query ::
  "'n argo_services \<Rightarrow> (string \<Rightarrow> string + usize) \<Rightarrow> (science_group list \<Rightarrow> science_group list) \<Rightarrow>
     graph_ctx \<Rightarrow> string option \<Rightarrow> u32 option \<Rightarrow> science_group list option option \<Rightarrow>
     ('n graph_env, graph_error, cluster_template connection) eff" where
  "workflow_templates_query sv decode_cursor hash_iter ctx cursor limit flt =
     ebind (lift_res (validate_limit 100 limit)) (\<lambda>_.
     guarded ctx (
       ebind (ctx_token ctx) (\<lambda>auth_token.
       let u = append_pair ''listOptions.limit'' (show_u32 (unwrap_or 100 limit))
                 (extend_segments [''api'', ''v1'', ''cluster-workflow-templates''] (cx_argo_url ctx));
           u = (case flt of
                  Some science_group \<Rightarrow> templates_generate_filters hash_iter science_group u
                | None \<Rightarrow> u) in
       ebind (lift_res (decode_page decode_cursor cursor u)) (\<lambda>(u, cursor_index).
       ebind (fetch sv (as_template_list sv) (get_request u auth_token)) (\<lambda>api_result.
       lift_res (page_of cursor_index Inr api_result))))))"

section \<open>Submissions\<close>

text \<open>A parameter in the form the Argo server expects; \<open>to_string\<close> prints arrays and objects.\<close>

definition to_argo_parameter ::
  "(json \<Rightarrow> string + string) \<Rightarrow> string \<Rightarrow> json \<Rightarrow> string + string option" where
  "to_argo_parameter to_string name v =
     rbind
       (case v of
          JNull \<Rightarrow> Inr None
        | JBool b \<Rightarrow> Inr (Some (if b then ''true'' else ''false''))
        | JNumber digits \<Rightarrow> Inr (Some digits)
        | JString s \<Rightarrow> Inr (Some s)
        | JArray _ \<Rightarrow> rbind (to_string v) (\<lambda>s. Inr (Some s))
        | JObject _ \<Rightarrow> rbind (to_string v) (\<lambda>s. Inr (Some s)))
       (\<lambda>p. Inr (map_option (\<lambda>parameter. name @ ''='' @ parameter) p))"

definition argo_parameters ::
  "(json \<Rightarrow> string + string) \<Rightarrow> (string \<times> json) list \<Rightarrow> string + string list" where
  "argo_parameters to_string parameters =
     rbind (try_map (\<lambda>(name, v). to_argo_parameter to_string name v) parameters)
       (\<lambda>ps. Inr (concat (map (\<lambda>p. case p of Some x \<Rightarrow> [x] | None \<Rightarrow> []) ps)))"

definition submit_workflow_template ::
  "'n argo_services \<Rightarrow> (json \<Rightarrow> string + string) \<Rightarrow> graph_ctx \<Rightarrow> string \<Rightarrow> visit_input \<Rightarrow>
     (string \<times> json) list \<Rightarrow> ('n graph_env, graph_error, workflow) eff" where
  "submit_workflow_template sv to_string ctx name v parameters =
     guarded ctx (
       ebind (ctx_token ctx) (\<lambda>auth_token.
       let namespace = visit_input_to_string v;
           u = extend_segments [''api'', ''v1'', ''workflows'', namespace, ''submit''] (cx_argo_url ctx) in
       ebind (lift_res (map_err BadParameter (argo_parameters to_string parameters))) (\<lambda>ps.
       ebind (fetch_ok sv (as_workflow sv)
         (post_request u auth_token (SubmitBody
           \<lparr>sr_namespace = Some namespace, sr_resource_kind = Some ''ClusterWorkflowTemplate'',
            sr_resource_name = Some name, sr_parameters = ps\<rparr>))) (\<lambda>workflow.
       lift_res (workflow_new workflow (visit_of_input v))))))"

definition coerce_manifest :: "workflow_manifest \<Rightarrow> workflow_manifest" where
  "coerce_manifest workflow =
     (let workflow = workflow\<lparr>wm_kind := Some ''Workflow''\<rparr> in
      case om_name (wm_metadata workflow) of
        Some name \<Rightarrow>
          workflow\<lparr>wm_metadata := (wm_metadata workflow)
            \<lparr>om_name := None, om_generate_name := Some (name @ ''-'')\<rparr>\<rparr>
      | None \<Rightarrow> workflow)"

definition submit_workflow ::
  "'n argo_services \<Rightarrow> (string \<Rightarrow> string + workflow_manifest) \<Rightarrow> graph_ctx \<Rightarrow> visit_input \<Rightarrow> string \<Rightarrow>
     ('n graph_env, graph_error, workflow) eff" where
  "submit_workflow sv from_yaml ctx v manifest =
     guarded ctx (
       ebind (ctx_token ctx) (\<lambda>auth_token.
       ebind (lift_res (map_err BadManifest (from_yaml manifest))) (\<lambda>parsed.
       let workflow = coerce_manifest parsed;
           namespace = visit_input_to_string v;
           u = extend_segments [''api'', ''v1'', ''workflows'', namespace] (cx_argo_url ctx) in
       ebind (fetch_ok sv (as_workflow sv)
         (post_request u auth_token (CreateBody
           \<lparr>cr_namespace = Some namespace, cr_workflow = Some workflow\<rparr>))) (\<lambda>workflow.
       lift_res (workflow_new workflow (visit_of_input v))))))"

section \<open>What the queries send\<close>

lemma sends_templates:
  "sends (for_caller ctx [''api'', ''v1'', ''cluster-workflow-templates'']) (workflow_template_query sv ctx name)"
  "sends (for_caller ctx [''api'', ''v1'', ''cluster-workflow-templates''])
     (workflow_templates_query sv dec hash_iter ctx cursor limit flt)"
proof -
  show "sends (for_caller ctx [''api'', ''v1'', ''cluster-workflow-templates''])
      (workflow_template_query sv ctx name)"
    unfolding workflow_template_query_def
    by (intro sends_for_caller sends_with_token sends_intros) (auto simp: addressed_def)
  show "sends (for_caller ctx [''api'', ''v1'', ''cluster-workflow-templates''])
      (workflow_templates_query sv dec hash_iter ctx cursor limit flt)"
    unfolding workflow_templates_query_def Let_def
    by (intro sends_ebind sends_lift_res sends_for_caller sends_with_token sends_lift_bind sends_prod
        sends_fetch)
      (auto simp: addressed_def templates_generate_filters_def dest!: decode_page_url
        split: option.splits)
qed

lemma sends_submissions:
  "sends (for_caller ctx (workflow_path v)) (submit_workflow_template sv to_string ctx name v parameters)"
  "sends (for_caller ctx (workflow_path v)) (submit_workflow sv from_yaml ctx v manifest)"
  unfolding submit_workflow_template_def submit_workflow_def Let_def
  by (intro sends_for_caller sends_with_token sends_intros; simp add: addressed_def workflow_path_def)+

section \<open>Submissions\<close>

lemma coerce_manifest_simps [simp]:
  "wm_kind (coerce_manifest m) = Some ''Workflow''"
  "om_name (wm_metadata (coerce_manifest m)) = None"
  "om_generate_name (wm_metadata (coerce_manifest m)) =
     (case om_name (wm_metadata m) of Some n \<Rightarrow> Some (n @ ''-'') | None \<Rightarrow> om_generate_name (wm_metadata m))"
  "wm_spec (coerce_manifest m) = wm_spec m" "wm_status (coerce_manifest m) = wm_status m"
  by (auto simp: coerce_manifest_def Let_def split: option.split)

lemma coerce_manifest_idem: "coerce_manifest (coerce_manifest m) = coerce_manifest m"
  by (auto simp: coerce_manifest_def Let_def split: option.splits)

lemma fetch_ok_log:
  "fetch_ok sv decode rq env = (r, env') \<Longrightarrow> ge_requests env' = ge_requests env @ [rq]"
  by (auto simp: fetch_ok_def fetch_def send_request_def ebind_def split: prod.splits sum.splits)

lemma guarded_token_ok:
  "guarded ctx (ebind (ctx_token ctx) g) env = (Inr a, env') \<longleftrightarrow>
     (\<exists>t. cx_auth ctx = Some (TokenValid t) \<and> g (Some t) env = (Inr a, env'))"
  by (auto simp: guarded_def eff_elims auth_guard_ok ctx_token_def as_token_def split: option.splits)

text \<open>
  C16. Submitting a manifest sends exactly one request, a creation in the visit's namespace with
  the caller's token, of the parsed manifest turned into a one-off workflow: its kind is
  Workflow and it has no fixed name, a name given becoming the prefix of a generated one, so
  that submitting it again does not collide.
\<close>

theorem submit_workflow_request:
  assumes "submit_workflow sv from_yaml ctx v manifest env = (Inr w, env')"
  shows "\<exists>t parsed. cx_auth ctx = Some (TokenValid t) \<and> from_yaml manifest = Inr parsed \<and>
    ge_requests env' = ge_requests env @
      [post_request (extend_segments (workflow_path v) (cx_argo_url ctx)) (Some t)
        (CreateBody \<lparr>cr_namespace = Some (visit_input_to_string v),
                     cr_workflow = Some (coerce_manifest parsed)\<rparr>)] \<and>
    wm_kind (coerce_manifest parsed) = Some ''Workflow'' \<and>
    om_name (wm_metadata (coerce_manifest parsed)) = None \<and>
    om_generate_name (wm_metadata (coerce_manifest parsed)) =
      (case om_name (wm_metadata parsed) of
         Some n \<Rightarrow> Some (n @ ''-'') | None \<Rightarrow> om_generate_name (wm_metadata parsed)) \<and>
    md_visit (wk_metadata w) = visit_of_input v"
  using assms
  by (auto simp: submit_workflow_def guarded_token_ok Let_def workflow_path_def workflow_new_ok
      eff_elims map_err_eq_Inr dest!: fetch_ok_log)

text \<open>The text of a parameter value.\<close>

definition argo_text :: "(json \<Rightarrow> string + string) \<Rightarrow> json \<Rightarrow> string" where
  "argo_text to_string v =
     (case v of
        JBool b \<Rightarrow> (if b then ''true'' else ''false'')
      | JNumber d \<Rightarrow> d
      | JString s \<Rightarrow> s
      | _ \<Rightarrow> projr (to_string v))"

lemma argo_parameters_ok:
  "argo_parameters to_string ps = Inr out \<Longrightarrow>
     out = map (\<lambda>(name, v). name @ ''='' @ argo_text to_string v) (filter (\<lambda>(name, v). v \<noteq> JNull) ps)"
proof (induction ps arbitrary: out)
  case (Cons p ps)
  obtain name v where p: "p = (name, v)" by force
  from Cons.prems p obtain x xs where x: "to_argo_parameter to_string name v = Inr x"
    and xs: "try_map (\<lambda>(name, v). to_argo_parameter to_string name v) ps = Inr xs"
    and out: "out = (case x of Some y \<Rightarrow> [y] | None \<Rightarrow> [])
        @ concat (map (\<lambda>p. case p of Some y \<Rightarrow> [y] | None \<Rightarrow> []) xs)"
    by (auto simp: argo_parameters_def rbind_eq_Inr)
  have "argo_parameters to_string ps =
      Inr (concat (map (\<lambda>p. case p of Some y \<Rightarrow> [y] | None \<Rightarrow> []) xs))"
    by (simp add: argo_parameters_def xs)
  from Cons.IH [OF this] x out p show ?case
    by (cases v) (auto simp: to_argo_parameter_def argo_text_def rbind_eq_Inr)
qed (simp add: argo_parameters_def)

text \<open>
  C17. Submitting a template sends exactly one request, to the submit endpoint of the visit's
  namespace with the caller's token, naming the template and giving every parameter that is not
  null as \<open>name=value\<close>, strings and scalars as their text.
\<close>

theorem submit_template_request:
  assumes "submit_workflow_template sv to_string ctx name v parameters env = (Inr w, env')"
  shows "\<exists>t. cx_auth ctx = Some (TokenValid t) \<and>
    ge_requests env' = ge_requests env @
      [post_request (extend_segments (workflow_path v @ [''submit'']) (cx_argo_url ctx)) (Some t)
        (SubmitBody \<lparr>sr_namespace = Some (visit_input_to_string v),
                     sr_resource_kind = Some ''ClusterWorkflowTemplate'', sr_resource_name = Some name,
                     sr_parameters = map (\<lambda>(n, x). n @ ''='' @ argo_text to_string x)
                       (filter (\<lambda>(n, x). x \<noteq> JNull) parameters)\<rparr>)] \<and>
    md_visit (wk_metadata w) = visit_of_input v"
  using assms
  by (auto simp: submit_workflow_template_def guarded_token_ok Let_def workflow_path_def
      workflow_new_ok eff_elims map_err_eq_Inr dest!: fetch_ok_log argo_parameters_ok)

section \<open>Examples\<close>

text \<open>A server that answers every request with the same workflow.\<close>

definition demo_services :: "unit argo_services" where
  "demo_services =
     \<lparr>as_send = (\<lambda>rq n. (Inr \<lparr>rp_status = 200, rp_body = []\<rparr>, n)),
      as_workflow = (\<lambda>_. Inr (ApiOk demo_manifest)),
      as_workflow_list = (\<lambda>_. Inr (ApiOk \<lparr>il_items = [demo_manifest], il_continue = None\<rparr>)),
      as_template = (\<lambda>_. Inl ''no template''),
      as_template_list = (\<lambda>_. Inl ''no template'')\<rparr>"

definition demo_graph_ctx :: graph_ctx where
  "demo_graph_ctx =
     \<lparr>cx_argo_url = \<lparr>u_base = ''https://argo'', u_segments = [], u_query = []\<rparr>,
      cx_auth = Some (TokenValid ''jwt'')\<rparr>"

definition demo_graph_env :: "unit graph_env" where
  "demo_graph_env = \<lparr>ge_net = (), ge_requests = []\<rparr>"

lemma demo_fetch_ok:
  "fetch_ok demo_services (as_workflow demo_services) rq env =
     (Inr demo_manifest, env\<lparr>ge_requests := ge_requests env @ [rq]\<rparr>)"
  by (simp add: fetch_ok_def fetch_def send_request_def ebind_def demo_services_def)

lemma demo_guarded: "guarded demo_graph_ctx (ebind (ctx_token demo_graph_ctx) g) = g (Some ''jwt'')"
  by (intro ext) (simp add: guarded_def ebind_def auth_guard_def ctx_token_def demo_graph_ctx_def as_token_def)

lemma demo_workflow_new:
  "workflow_new demo_manifest u =
     Inr \<lparr>wk_manifest = demo_manifest,
          wk_metadata = \<lparr>md_name = ''numpy-7k2'', md_visit = u, md_uid = ''8b1c''\<rparr>\<rparr>"
  by (simp add: workflow_new_ok demo_manifest_def demo_meta_def)

theorem submit_workflow_request_witness:
  "\<exists>w env'. submit_workflow demo_services (\<lambda>_. Inr demo_manifest) demo_graph_ctx demo_visit ''y'' demo_graph_env
      = (Inr w, env') \<and> map rq_method (ge_requests env') = [''POST'']
      \<and> om_generate_name (wm_metadata (coerce_manifest demo_manifest)) = Some ''numpy-7k2-''"
proof -
  obtain w env' where run: "submit_workflow demo_services (\<lambda>_. Inr demo_manifest) demo_graph_ctx
      demo_visit ''y'' demo_graph_env = (Inr w, env')"
    by (simp add: submit_workflow_def demo_guarded ebind_def Let_def demo_fetch_ok demo_workflow_new)
  from submit_workflow_request [OF run] run show ?thesis
    by (auto simp: demo_graph_env_def post_request_def demo_manifest_def demo_meta_def)
qed

theorem submit_template_request_witness:
  "\<exists>w env'. submit_workflow_template demo_services (\<lambda>_. Inl ''no'') demo_graph_ctx ''numpy'' demo_visit
      [(''size'', JNumber ''10''), (''seed'', JNull)] demo_graph_env = (Inr w, env')
      \<and> map rq_body (ge_requests env') =
        [SubmitBody \<lparr>sr_namespace = Some (visit_input_to_string demo_visit),
           sr_resource_kind = Some ''ClusterWorkflowTemplate'', sr_resource_name = Some ''numpy'',
           sr_parameters = [''size=10'']\<rparr>]"
proof -
  obtain w env' where run: "submit_workflow_template demo_services (\<lambda>_. Inl ''no'') demo_graph_ctx
      ''numpy'' demo_visit [(''size'', JNumber ''10''), (''seed'', JNull)] demo_graph_env = (Inr w, env')"
    by (simp add: submit_workflow_template_def demo_guarded ebind_def Let_def demo_fetch_ok
        demo_workflow_new argo_parameters_def to_argo_parameter_def)
  from submit_template_request [OF run] run show ?thesis
    by (auto simp: demo_graph_env_def argo_text_def)
qed

end
