(* ===== verification/Graph_Server.thy ===== *)
theory Graph_Server
  imports Graph_Subscription Graph_Templates
begin

text \<open>
  The server side of the graph proxy: the HTTP handler of \<^verbatim>\<open>graphql/mod.rs\<close> with its metrics, the
  websocket service of \<^verbatim>\<open>graphql/subscription_integration.rs\<close> and the router's helpers of
  \<^verbatim>\<open>main.rs\<close>. Parsing and executing GraphQL (\<^verbatim>\<open>async-graphql\<close>), the websocket upgrade and
  the clock are services.
\<close>

section \<open>The HTTP handler\<close>

datatype operation_type = QueryOp | MutationOp | SubscriptionOp

datatype document_operations =
    SingleOperation operation_type
  | MultipleOperations "(string \<times> operation_type) list"

record gql_response =
  gr_errors :: "string list"
  gr_analyzer :: "json option"

text \<open>What the handler records; durations are in nanoseconds of the monotonic clock.\<close>

datatype metric_event =
    TotalRequests string
  | QueryDepth nat
  | QueryComplexity nat
  | TotalErrors
  | RequestDuration nat string string

record 'n server_env =
  se_net :: 'n
  se_metrics :: "metric_event list"

record 'n gql_services =
  gs_parse :: "string \<Rightarrow> string + document_operations"
  gs_execute :: "string \<Rightarrow> validated_token \<Rightarrow> 'n \<Rightarrow> gql_response \<times> 'n"
  gs_now :: "'n \<Rightarrow> nat \<times> 'n"

definition record_metric :: "metric_event \<Rightarrow> 'n server_env \<Rightarrow> 'n server_env" where
  "record_metric e env = env\<lparr>se_metrics := se_metrics env @ [e]\<rparr>"

definition on_net :: "('n \<Rightarrow> 'a \<times> 'n) \<Rightarrow> 'n server_env \<Rightarrow> 'a \<times> 'n server_env" where
  "on_net f env = (case f (se_net env) of (a, n) \<Rightarrow> (a, env\<lparr>se_net := n\<rparr>))"

definition operations_of :: "document_operations \<Rightarrow> operation_type list" where
  "operations_of ops =
     (case ops of SingleOperation op \<Rightarrow> [op] | MultipleOperations m \<Rightarrow> map snd m)"

fun count_operations :: "operation_type list \<Rightarrow> bool \<times> 'n server_env \<Rightarrow> bool \<times> 'n server_env" where
  "count_operations [] (has_mutation, env) = (has_mutation, env)"
| "count_operations (op # ops) (has_mutation, env) =
     count_operations ops
       (case op of
          QueryOp \<Rightarrow> (has_mutation, record_metric (TotalRequests ''query'') env)
        | MutationOp \<Rightarrow> (True, record_metric (TotalRequests ''mutation'') env)
        | SubscriptionOp \<Rightarrow> (has_mutation, env))"

definition count_request ::
  "'n gql_services \<Rightarrow> string \<Rightarrow> 'n server_env \<Rightarrow> string \<times> 'n server_env" where
  "count_request gs query env =
     (case gs_parse gs query of
        Inr ops \<Rightarrow>
          (case count_operations (operations_of ops) (False, env) of
             (has_mutation, env') \<Rightarrow> (if has_mutation then ''mutation'' else ''query'', env'))
      | Inl _ \<Rightarrow> (''unparseable'', record_metric (TotalRequests ''unparseable'') env))"

definition analyzer_number :: "(string, json) btmap \<Rightarrow> string \<Rightarrow> nat option" where
  "analyzer_number analyzer k = (case bt_get analyzer k of Some v \<Rightarrow> as_u64 v | None \<Rightarrow> None)"

definition record_some :: "(nat \<Rightarrow> metric_event) \<Rightarrow> nat option \<Rightarrow> 'n server_env \<Rightarrow> 'n server_env" where
  "record_some e x env = (case x of Some k \<Rightarrow> record_metric (e k) env | None \<Rightarrow> env)"

definition record_analyzer :: "json option \<Rightarrow> 'n server_env \<Rightarrow> 'n server_env" where
  "record_analyzer analyzer env =
     (case analyzer of
        Some (JObject m) \<Rightarrow>
          record_some QueryComplexity (analyzer_number m ''complexity'')
            (record_some QueryDepth (analyzer_number m ''depth'') env)
      | _ \<Rightarrow> env)"

definition graphql_handler ::
  "'n gql_services \<Rightarrow> ('n, 'key) oidc_services \<Rightarrow> token_validator \<Rightarrow> string option \<Rightarrow> string \<Rightarrow>
     'n server_env \<Rightarrow> gql_response \<times> 'n server_env" where
  "graphql_handler gs os validator auth_token_header query env =
     (let (start, env) = on_net (gs_now gs) env;
          (request_type, env) = count_request gs query env;
          (auth_token, env) = on_net (validate_token os validator auth_token_header Jwt) env;
          (response, env) = on_net (gs_execute gs query auth_token) env;
          env = record_analyzer (gr_analyzer response) env;
          (end_time, env) = on_net (gs_now gs) env;
          status = (if gr_errors response = [] then ''ok'' else ''error'');
          env = (if status = ''error'' then record_metric TotalErrors env else env);
          env = record_metric (RequestDuration (end_time - start) request_type status) env
      in (response\<lparr>gr_analyzer := None\<rparr>, env))"

section \<open>The websocket service\<close>

text \<open>
  \<open>protocol_of\<close> is \<^verbatim>\<open>WebSocketProtocols::from_str\<close>; the argument is the header's value when it
  is text.
\<close>

fun find_map :: "('a \<Rightarrow> 'b option) \<Rightarrow> 'a list \<Rightarrow> 'b option" where
  "find_map f [] = None"
| "find_map f (x # xs) = (case f x of Some y \<Rightarrow> Some y | None \<Rightarrow> find_map f xs)"

definition graphql_protocol :: "(string \<Rightarrow> 'p option) \<Rightarrow> string option \<Rightarrow> nat + 'p" where
  "graphql_protocol protocol_of header =
     ok_or 400 (case header of
        None \<Rightarrow> None
      | Some protocols \<Rightarrow> find_map (\<lambda>p. protocol_of (trim p)) (split_char CHR '','' protocols))"

text \<open>
  The token a client gives when it opens the connection: in the first frame, else in the header
  of the upgrade request. \<open>bearer\<close> is \<^verbatim>\<open>Authorization::bearer\<close>, which rejects some texts.
\<close>

definition conn_init_token :: "(string \<Rightarrow> string option) \<Rightarrow> json \<Rightarrow> string option" where
  "conn_init_token bearer v =
     (case json_get v ''Authorization'' of
        None \<Rightarrow> None
      | Some a \<Rightarrow>
          (case as_str a of
             None \<Rightarrow> None
           | Some token \<Rightarrow>
               (case strip_prefix ''Bearer '' token of None \<Rightarrow> None | Some it \<Rightarrow> bearer it)))"

definition on_connection_init ::
  "('n, 'key) oidc_services \<Rightarrow> token_validator \<Rightarrow> (string \<Rightarrow> string option) \<Rightarrow> string option \<Rightarrow> json \<Rightarrow>
     ('n, string, validated_token) eff" where
  "on_connection_init os validator bearer http_auth_header v =
     (case (case conn_init_token bearer v of Some t \<Rightarrow> Some t | None \<Rightarrow> http_auth_header) of
        Some header \<Rightarrow> (\<lambda>n. case validate_token os validator (Some header) Jwt n of (t, n') \<Rightarrow> (Inr t, n'))
      | None \<Rightarrow> throw ''No auth token was provided'')"

text \<open>
  The service: the protocol, then the upgrade (\<open>upgrade\<close> fails with its own status), then the
  request is counted and the connection accepted (101), with the protocol of the handshake, which the upgrade
  negotiates from all the library has and the header, and then its own protocol and fallback token.
\<close>

record 'p ws_library =
  wl_protocol_of :: "string \<Rightarrow> 'p option"
  wl_all_protocols :: "string list"
  wl_negotiate :: "string list \<Rightarrow> string option \<Rightarrow> string option"

definition subscription_call ::
  "'p ws_library \<Rightarrow> nat + unit \<Rightarrow> string option \<Rightarrow> string option \<Rightarrow> 'n server_env \<Rightarrow>
     (nat + string option \<times> 'p \<times> string option) \<times> 'n server_env" where
  "subscription_call wl upgrade protocol_header http_auth_header env =
     (case graphql_protocol (wl_protocol_of wl) protocol_header of
        Inl err \<Rightarrow> (Inl err, env)
      | Inr protocol \<Rightarrow>
          (case upgrade of
             Inl err \<Rightarrow> (Inl err, env)
           | Inr _ \<Rightarrow>
               (Inr (wl_negotiate wl (wl_all_protocols wl) protocol_header, protocol, http_auth_header),
                record_metric (TotalRequests ''subscription'') env)))"

datatype ws_message = WsText string | WsBinary string | WsPing string | WsPong string | WsClose

datatype ws_output = WsOutText string | WsOutClose nat string

datatype ws_frame = FrameText string | FrameClose nat string

text \<open>What the GraphQL engine reads: the data frames before the first broken one.\<close>

definition serve_input :: "('e + ws_message) list \<Rightarrow> string list" where
  "serve_input stream =
     concat (map (\<lambda>m. case m of Inr (WsText s) \<Rightarrow> [s] | Inr (WsBinary s) \<Rightarrow> [s] | _ \<Rightarrow> [])
       (takeWhile (\<lambda>res. case res of Inr _ \<Rightarrow> True | Inl _ \<Rightarrow> False) stream))"

definition frame_of :: "ws_output \<Rightarrow> ws_frame" where
  "frame_of m = (case m of WsOutText t \<Rightarrow> FrameText t | WsOutClose c s \<Rightarrow> FrameClose c s)"

text \<open>Sending stops at the first item the client does not take.\<close>

fun serve_output :: "(ws_frame \<Rightarrow> 's \<Rightarrow> bool \<times> 's) \<Rightarrow> ws_output list \<Rightarrow> 's \<Rightarrow> 's" where
  "serve_output send [] s = s"
| "serve_output send (m # ms) s =
     (case send (frame_of m) s of (ok, s') \<Rightarrow> if ok then serve_output send ms s' else s')"

section \<open>The router\<close>

definition append_to_path :: "string \<Rightarrow> string \<Rightarrow> string" where
  "append_to_path base extension =
     (let clean_base = trim_matches CHR ''/'' base;
          clean_extension = trim_matches CHR ''/'' extension in
      if clean_base = [] then ''/'' @ clean_extension
      else ''/'' @ clean_base @ ''/'' @ clean_extension)"

text \<open>Which origins may call: those some configured expression matches; \<open>None\<close> is the default.\<close>

definition cors_allowed :: "(string \<Rightarrow> bool) list \<Rightarrow> string option \<Rightarrow> bool" where
  "cors_allowed cors_allow origin =
     (case origin of Some o' \<Rightarrow> list_ex (\<lambda>is_match. is_match o') cors_allow | None \<Rightarrow> False)"

section \<open>Lemmas\<close>

definition request_counts :: "string + document_operations \<Rightarrow> metric_event list" where
  "request_counts parsed =
     (case parsed of
        Inl _ \<Rightarrow> [TotalRequests ''unparseable'']
      | Inr ops \<Rightarrow> concat (map (\<lambda>op. case op of
            QueryOp \<Rightarrow> [TotalRequests ''query''] | MutationOp \<Rightarrow> [TotalRequests ''mutation'']
          | SubscriptionOp \<Rightarrow> []) (operations_of ops)))"

definition request_type_of :: "string + document_operations \<Rightarrow> string" where
  "request_type_of parsed =
     (case parsed of
        Inl _ \<Rightarrow> ''unparseable''
      | Inr ops \<Rightarrow> (if MutationOp \<in> set (operations_of ops) then ''mutation'' else ''query''))"

lemma record_metric_simps [simp]:
  "se_metrics (record_metric e env) = se_metrics env @ [e]" "se_net (record_metric e env) = se_net env"
  by (simp_all add: record_metric_def)

lemma on_net_metrics: "on_net f env = (a, env') \<Longrightarrow> se_metrics env' = se_metrics env"
  by (auto simp: on_net_def split: prod.splits)

lemma count_operations_result:
  "count_operations ops (m, env) = (m', env') \<Longrightarrow>
     m' = (m \<or> MutationOp \<in> set ops) \<and>
     se_metrics env' = se_metrics env @ concat (map (\<lambda>op. case op of
         QueryOp \<Rightarrow> [TotalRequests ''query''] | MutationOp \<Rightarrow> [TotalRequests ''mutation'']
       | SubscriptionOp \<Rightarrow> []) ops)"
proof (induction ops arbitrary: m env)
  case (Cons op ops)
  then show ?case by (cases op) fastforce+
qed simp

lemma count_request_result:
  "count_request gs query env = (ty, env') \<Longrightarrow>
     ty = request_type_of (gs_parse gs query) \<and>
     se_metrics env' = se_metrics env @ request_counts (gs_parse gs query)"
  by (auto simp: count_request_def request_type_of_def request_counts_def
      split: sum.splits prod.splits if_splits dest!: count_operations_result)

lemma record_analyzer_result:
  "\<exists>es. se_metrics (record_analyzer a env) = se_metrics env @ es \<and> length es \<le> 2 \<and>
     set es \<subseteq> range QueryDepth \<union> range QueryComplexity"
  by (cases a; cases "the a")
    (auto simp: record_analyzer_def record_some_def split: option.split)

text \<open>
  The handler's metrics are those of the request: one count for every query and mutation of
  the document, or one for a text that does not parse, then at most its depth and complexity,
  an error count exactly when the response has errors, and one duration whose labels agree
  with that.
\<close>

theorem handler_metrics:
  assumes "graphql_handler gs os validator header query env = (response, env')"
  shows "\<exists>d es. se_metrics env' = se_metrics env @ request_counts (gs_parse gs query) @ es @
      (if gr_errors response = [] then [] else [TotalErrors]) @
      [RequestDuration d (request_type_of (gs_parse gs query))
        (if gr_errors response = [] then ''ok'' else ''error'')] \<and>
    length es \<le> 2 \<and> set es \<subseteq> range QueryDepth \<union> range QueryComplexity"
proof -
  obtain t0 e0 where h0: "on_net (gs_now gs) env = (t0, e0)" by force
  obtain ty e1 where h1: "count_request gs query e0 = (ty, e1)" by force
  obtain tok e2 where h2: "on_net (validate_token os validator header Jwt) e1 = (tok, e2)" by force
  obtain rs e3 where h3: "on_net (gs_execute gs query tok) e2 = (rs, e3)" by force
  obtain t1 e4 where h4: "on_net (gs_now gs) (record_analyzer (gr_analyzer rs) e3) = (t1, e4)" by force
  obtain es where es: "se_metrics (record_analyzer (gr_analyzer rs) e3) = se_metrics e3 @ es"
    "length es \<le> 2" "set es \<subseteq> range QueryDepth \<union> range QueryComplexity"
    using record_analyzer_result by blast
  from count_request_result [OF h1] on_net_metrics [OF h0] on_net_metrics [OF h2]
    on_net_metrics [OF h3] on_net_metrics [OF h4] es(1)
  have m: "se_metrics e4 = se_metrics env @ request_counts (gs_parse gs query) @ es"
    and ty: "ty = request_type_of (gs_parse gs query)" by simp_all
  show ?thesis
    using assms m ty es(2,3)
    by (auto simp: graphql_handler_def h0 h1 h2 h3 h4 Let_def intro!: exI [of _ es])
qed

lemma find_map_Some: "find_map f xs = Some y \<Longrightarrow> \<exists>x \<in> set xs. f x = Some y"
  by (induction f xs rule: find_map.induct) (auto split: option.splits)

text \<open>
  A websocket is opened with a token only: the first frame's if it gives one, else the
  upgrade request's. What the connection's resolvers see is the outcome of verifying that
  token, so a guarded resolver runs over a websocket exactly when it verifies.
\<close>

theorem websocket_token_verified:
  "(case fst (on_connection_init os validator bearer http_auth_header v n) of
      Inl _ \<Rightarrow> conn_init_token bearer v = None \<and> http_auth_header = None
    | Inr auth \<Rightarrow>
        \<exists>t. (conn_init_token bearer v = Some t \<or> conn_init_token bearer v = None \<and> http_auth_header = Some t) \<and>
          as_token auth = (if verified os validator t then Some t else None) \<and>
          (auth_guard (ctx\<lparr>cx_auth := Some auth\<rparr>) = Inr () \<longleftrightarrow> verified os validator t))"
proof -
  define given where "given = (case conn_init_token bearer v of Some t \<Rightarrow> Some t | None \<Rightarrow> http_auth_header)"
  show ?thesis
  proof (cases given)
    case None
    then show ?thesis
      by (simp add: on_connection_init_def given_def split: option.splits)
  next
    case (Some t)
    then have run: "fst (on_connection_init os validator bearer http_auth_header v n)
        = Inr (fst (validate_token os validator (Some t) Jwt n))"
      by (auto simp: on_connection_init_def given_def split: option.splits prod.split)
    from Some have "conn_init_token bearer v = Some t
        \<or> conn_init_token bearer v = None \<and> http_auth_header = Some t"
      by (auto simp: given_def split: option.splits)
    then show ?thesis
      using validate_jwt_iff [of os validator t]
      unfolding run
      by (cases "validate_token_with_jwt os validator t")
        (auto simp: validate_token_def as_token_def auth_guard_ok)
  qed
qed

text \<open>The path of the websocket: one leading slash, none doubled at the seam.\<close>

lemma trim_matches_ends:
  "trim_matches c s = [] \<or> hd (trim_matches c s) \<noteq> c \<and> last (trim_matches c s) \<noteq> c"
proof -
  let ?d = "dropWhile (\<lambda>x. x = c) s"
  have t: "trim_matches c s = rev (dropWhile (\<lambda>x. x = c) (rev ?d))" by (simp add: trim_matches_def)
  show ?thesis
  proof (cases "trim_matches c s = []")
    case False
    then have ne: "dropWhile (\<lambda>x. x = c) (rev ?d) \<noteq> []" by (simp only: t rev_is_Nil_conv not_False_eq_True)
    then have ne': "?d \<noteq> []" by (metis dropWhile.simps(1) rev.simps(1))
    from hd_dropWhile [OF ne] hd_dropWhile [OF ne']
    have "last (trim_matches c s) \<noteq> c" "hd ?d \<noteq> c"
      unfolding t last_rev by simp_all
    moreover have "hd (trim_matches c s) = hd ?d"
    proof -
      obtain p where "?d = trim_matches c s @ p"
        unfolding t by (metis rev_append rev_rev_ident takeWhile_dropWhile_id)
      with False show ?thesis by (metis hd_append)
    qed
    ultimately show ?thesis by simp
  qed simp
qed

lemma append_to_path_shape:
  "hd (append_to_path base extension) = CHR ''/'' \<and>
   (trim_matches CHR ''/'' base \<noteq> [] \<longrightarrow>
      append_to_path base extension =
        ''/'' @ trim_matches CHR ''/'' base @ ''/'' @ trim_matches CHR ''/'' extension \<and>
      last (trim_matches CHR ''/'' base) \<noteq> CHR ''/'')"
  using trim_matches_ends [of "CHR ''/''" base] by (auto simp: append_to_path_def Let_def)


definition demo_gql :: "nat gql_services" where
  "demo_gql =
     \<lparr>gs_parse = (\<lambda>_. Inr (SingleOperation MutationOp)),
      gs_execute = (\<lambda>q t n. (\<lparr>gr_errors = [''denied''], gr_analyzer = Some (JObject [(''depth'', JNumber ''2'')])\<rparr>, n)),
      gs_now = (\<lambda>n. (n, n + 5))\<rparr>"

definition demo_oidc :: "(nat, unit) oidc_services" where
  "demo_oidc =
     \<lparr>os_issuer_url = Inr, os_discover = (\<lambda>_ n. (Inl ''off'', n)), os_fetch_jwks = (\<lambda>_ n. (Inl ''off'', n)),
      os_introspection_url = Inr, os_introspect = (\<lambda>_ _ n. (Inl ''off'', n)),
      os_decode_header = (\<lambda>_. Inr None), os_from_jwk = (\<lambda>_. Inr ()), os_decode = (\<lambda>_ _ _. Inl ''bad'')\<rparr>"

theorem handler_metrics_witness:
  "\<exists>response env' d es. graphql_handler demo_gql demo_oidc validator (Some ''jwt'') ''mutation''
      \<lparr>se_net = 1, se_metrics = []\<rparr> = (response, env') \<and>
    se_metrics env' = [TotalRequests ''mutation''] @ es @
      [TotalErrors, RequestDuration d ''mutation'' ''error'']"
proof -
  let ?env = "\<lparr>se_net = 1, se_metrics = []\<rparr>"
  obtain response env' where run:
    "graphql_handler demo_gql demo_oidc validator (Some ''jwt'') ''mutation'' ?env = (response, env')"
    by force
  have "gr_errors response = [''denied'']"
    using run by (auto simp: graphql_handler_def demo_gql_def on_net_def Let_def split: prod.splits)
  with handler_metrics [OF run] run show ?thesis
    by (auto simp: demo_gql_def request_counts_def request_type_of_def operations_of_def)
qed

end
