(* ===== verification/Graph_Websocket.thy ===== *)
theory Graph_Websocket
  imports Graph_Server
begin

text \<open>
  Websocket connections of the graph proxy: the builder and the service of
  \<^verbatim>\<open>graph-proxy/src/graphql/subscription_integration.rs\<close>. The GraphQL engine
  (\<^verbatim>\<open>async_graphql::http::WebSocket\<close>) is a function from what it is given to the items it
  yields; the upgrade is a service.
\<close>

section \<open>Connections\<close>

record ('sink, 'stream, 'ex, 'data, 'init, 'ping, 'p) graphql_websocket =
  gw_sink :: 'sink
  gw_stream :: 'stream
  gw_executor :: 'ex
  gw_data :: 'data
  gw_on_connection_init :: 'init
  gw_on_ping :: 'ping
  gw_protocol :: 'p
  gw_keepalive_timeout :: "nat option"

text \<open>The defaults of the library: the empty data and its two callbacks.\<close>

record ('data, 'init, 'ping) ws_defaults =
  default_data :: 'data
  default_on_connection_init :: 'init
  default_on_ping :: 'ping

definition new_with_pair ::
  "('data, 'init, 'ping) ws_defaults \<Rightarrow> 'sink \<Rightarrow> 'stream \<Rightarrow> 'ex \<Rightarrow> 'p \<Rightarrow>
     ('sink, 'stream, 'ex, 'data, 'init, 'ping, 'p) graphql_websocket" where
  "new_with_pair df sink stream executor protocol =
     \<lparr>gw_sink = sink, gw_stream = stream, gw_executor = executor, gw_data = default_data df,
      gw_on_connection_init = default_on_connection_init df, gw_on_ping = default_on_ping df,
      gw_protocol = protocol, gw_keepalive_timeout = None\<rparr>"

definition websocket_new ::
  "('data, 'init, 'ping) ws_defaults \<Rightarrow> ('s \<Rightarrow> 'sink \<times> 'stream) \<Rightarrow> 's \<Rightarrow> 'ex \<Rightarrow> 'p \<Rightarrow>
     ('sink, 'stream, 'ex, 'data, 'init, 'ping, 'p) graphql_websocket" where
  "websocket_new df split stream executor protocol =
     (case split stream of (sink, stream) \<Rightarrow> new_with_pair df sink stream executor protocol)"

definition with_data ::
  "'data \<Rightarrow> ('sink, 'stream, 'ex, 'data, 'init, 'ping, 'p) graphql_websocket \<Rightarrow>
     ('sink, 'stream, 'ex, 'data, 'init, 'ping, 'p) graphql_websocket" where
  "with_data d self = self\<lparr>gw_data := d\<rparr>"

text \<open>The callbacks have types of their own, so setting one makes a new connection.\<close>

definition set_on_connection_init ::
  "'init2 \<Rightarrow> ('sink, 'stream, 'ex, 'data, 'init, 'ping, 'p) graphql_websocket \<Rightarrow>
     ('sink, 'stream, 'ex, 'data, 'init2, 'ping, 'p) graphql_websocket" where
  "set_on_connection_init callback self =
     \<lparr>gw_sink = gw_sink self, gw_stream = gw_stream self, gw_executor = gw_executor self,
      gw_data = gw_data self, gw_on_connection_init = callback, gw_on_ping = gw_on_ping self,
      gw_protocol = gw_protocol self, gw_keepalive_timeout = gw_keepalive_timeout self\<rparr>"

definition set_on_ping ::
  "'ping2 \<Rightarrow> ('sink, 'stream, 'ex, 'data, 'init, 'ping, 'p) graphql_websocket \<Rightarrow>
     ('sink, 'stream, 'ex, 'data, 'init, 'ping2, 'p) graphql_websocket" where
  "set_on_ping callback self =
     \<lparr>gw_sink = gw_sink self, gw_stream = gw_stream self, gw_executor = gw_executor self,
      gw_data = gw_data self, gw_on_connection_init = gw_on_connection_init self, gw_on_ping = callback,
      gw_protocol = gw_protocol self, gw_keepalive_timeout = gw_keepalive_timeout self\<rparr>"

definition set_keepalive_timeout ::
  "nat option \<Rightarrow> ('sink, 'stream, 'ex, 'data, 'init, 'ping, 'p) graphql_websocket \<Rightarrow>
     ('sink, 'stream, 'ex, 'data, 'init, 'ping, 'p) graphql_websocket" where
  "set_keepalive_timeout timeout self = self\<lparr>gw_keepalive_timeout := timeout\<rparr>"

text \<open>
  Serving: the engine reads the data frames and yields items, which are sent until the client
  takes no more. The sink sends on a state \<open>'s\<close>.
\<close>

type_synonym ('ex, 'data, 'init, 'ping, 'p) ws_engine =
  "'ex \<Rightarrow> string list \<Rightarrow> 'p \<Rightarrow> 'data \<Rightarrow> 'init \<Rightarrow> 'ping \<Rightarrow> nat option \<Rightarrow> ws_output list"

definition serve ::
  "('ex, 'data, 'init, 'ping, 'p) ws_engine \<Rightarrow>
     (ws_frame \<Rightarrow> 's \<Rightarrow> bool \<times> 's, ('e + ws_message) list, 'ex, 'data, 'init, 'ping, 'p) graphql_websocket \<Rightarrow>
     's \<Rightarrow> 's" where
  "serve engine self =
     serve_output (gw_sink self)
       (engine (gw_executor self) (serve_input (gw_stream self)) (gw_protocol self) (gw_data self)
         (gw_on_connection_init self) (gw_on_ping self) (gw_keepalive_timeout self))"

section \<open>The service\<close>

record ('ex, 'n, 'key) subscription_service =
  gs_executor :: 'ex
  gs_oidc :: "('n, 'key) oidc_services"
  gs_validator :: token_validator

definition subscription_new ::
  "'ex \<Rightarrow> ('n, 'key) oidc_services \<Rightarrow> token_validator \<Rightarrow> ('ex, 'n, 'key) subscription_service" where
  "subscription_new executor os validator =
     \<lparr>gs_executor = executor, gs_oidc = os, gs_validator = validator\<rparr>"

text \<open>The connection an accepted upgrade serves on \<open>stream\<close>.\<close>

definition upgraded_websocket ::
  "('data, 'init, 'ping) ws_defaults \<Rightarrow> ('s \<Rightarrow> 'sink \<times> 'stream) \<Rightarrow> (string \<Rightarrow> string option) \<Rightarrow>
     ('ex, 'n, 'key) subscription_service \<Rightarrow> 'p \<Rightarrow> string option \<Rightarrow> 's \<Rightarrow>
     ('sink, 'stream, 'ex, 'data, json \<Rightarrow> ('n, string, validated_token) eff, 'ping, 'p)
       graphql_websocket" where
  "upgraded_websocket df split bearer self protocol http_auth_header stream =
     set_on_connection_init (on_connection_init (gs_oidc self) (gs_validator self) bearer http_auth_header)
       (websocket_new df split stream (gs_executor self) protocol)"

text \<open>An accepted upgrade: the protocol the handshake answers with, and the connection.\<close>

definition subscription_upgrade ::
  "('data, 'init, 'ping) ws_defaults \<Rightarrow> ('s \<Rightarrow> 'sink \<times> 'stream) \<Rightarrow> (string \<Rightarrow> string option) \<Rightarrow>
     ('ex, 'n, 'key) subscription_service \<Rightarrow> 'p ws_library \<Rightarrow> nat + unit \<Rightarrow>
     string option \<Rightarrow> string option \<Rightarrow> 's \<Rightarrow> 'n server_env \<Rightarrow>
     (nat + string option \<times> ('sink, 'stream, 'ex, 'data, json \<Rightarrow> ('n, string, validated_token) eff, 'ping, 'p)
       graphql_websocket) \<times> 'n server_env" where
  "subscription_upgrade df split bearer self wl upgrade protocol_header http_auth_header stream env =
     (case subscription_call wl upgrade protocol_header http_auth_header env of
        (Inl err, env') \<Rightarrow> (Inl err, env')
      | (Inr (switched, protocol, auth), env') \<Rightarrow>
          (Inr (switched, upgraded_websocket df split bearer self protocol auth stream), env'))"

section \<open>Lemmas\<close>

text \<open>Each builder sets its field and keeps the others.\<close>

lemma builder_simps [simp]:
  "gw_data (with_data d ws) = d" "gw_on_ping (set_on_ping pg ws) = pg"
  "gw_on_connection_init (set_on_connection_init cb ws) = cb"
  "gw_keepalive_timeout (set_keepalive_timeout t ws) = t"
  by (simp_all add: with_data_def set_on_ping_def set_on_connection_init_def set_keepalive_timeout_def)

lemma builders_commute:
  "with_data d (set_on_connection_init cb ws) = set_on_connection_init cb (with_data d ws)"
  "set_on_ping pg (set_on_connection_init cb ws) = set_on_connection_init cb (set_on_ping pg ws)"
  "set_on_ping pg (with_data d ws) = with_data d (set_on_ping pg ws)"
  "set_keepalive_timeout t (set_on_ping pg ws) = set_on_ping pg (set_keepalive_timeout t ws)"
  by (simp_all add: with_data_def set_on_ping_def set_on_connection_init_def set_keepalive_timeout_def)

lemma upgraded_websocket_simps [simp]:
  "gw_stream (upgraded_websocket df split bearer self protocol auth stream) = snd (split stream)"
  "gw_sink (upgraded_websocket df split bearer self protocol auth stream) = fst (split stream)"
  "gw_protocol (upgraded_websocket df split bearer self protocol auth stream) = protocol"
  "gw_data (upgraded_websocket df split bearer self protocol auth stream) = default_data df"
  "gw_on_ping (upgraded_websocket df split bearer self protocol auth stream) = default_on_ping df"
  "gw_executor (upgraded_websocket df split bearer self protocol auth stream) = gs_executor self"
  "gw_keepalive_timeout (upgraded_websocket df split bearer self protocol auth stream) = None"
  "gw_on_connection_init (upgraded_websocket df split bearer self protocol auth stream) =
     on_connection_init (gs_oidc self) (gs_validator self) bearer auth"
  by (simp_all add: upgraded_websocket_def websocket_new_def new_with_pair_def set_on_connection_init_def
      split: prod.split)

lemma subscription_call_ok:
  "subscription_call wl upgrade protocol_header auth env = (Inr (switched, protocol, auth'), env') \<longleftrightarrow>
     upgrade = Inr () \<and> auth' = auth \<and> env' = record_metric (TotalRequests ''subscription'') env \<and>
     switched = wl_negotiate wl (wl_all_protocols wl) protocol_header \<and>
     graphql_protocol (wl_protocol_of wl) protocol_header = Inr protocol"
  by (auto simp: subscription_call_def split: sum.splits)

text \<open>The first of the texts a header lists that is a known protocol.\<close>

definition first_known :: "(string \<Rightarrow> 'p option) \<Rightarrow> string \<Rightarrow> 'p \<Rightarrow> bool" where
  "first_known protocol_of h protocol \<longleftrightarrow>
     (\<exists>before p after. map trim (split_char CHR '','' h) = before @ p # after \<and>
        protocol_of p = Some protocol \<and> (\<forall>q \<in> set before. protocol_of q = None))"

lemma find_map_first:
  "find_map f xs = Some y \<Longrightarrow>
     \<exists>before x after. xs = before @ x # after \<and> f x = Some y \<and> (\<forall>z \<in> set before. f z = None)"
proof (induction xs)
  case (Cons x xs)
  show ?case
  proof (cases "f x")
    case None
    with Cons obtain before x' after where "xs = before @ x' # after" "f x' = Some y" "\<forall>z \<in> set before. f z = None"
      by auto
    with None show ?thesis by (intro exI [of _ "x # before"] exI [of _ x'] exI [of _ after]) simp
  next
    case (Some w)
    with Cons.prems show ?thesis by (intro exI [of _ "[]"] exI [of _ x] exI [of _ xs]) simp
  qed
qed simp

lemma find_map_map: "find_map (\<lambda>x. f (g x)) xs = find_map f (map g xs)"
  by (induction xs) (auto split: option.split)

lemma graphql_protocol_ok:
  "graphql_protocol protocol_of protocol_header = Inr protocol \<Longrightarrow>
     \<exists>h. protocol_header = Some h \<and> first_known protocol_of h protocol"
  by (auto simp: graphql_protocol_def find_map_map first_known_def split: option.splits dest!: find_map_first)

text \<open>What the resolvers of a connection see of the token that opened it.\<close>

definition opened_with ::
  "('n, 'key) oidc_services \<Rightarrow> token_validator \<Rightarrow> (string \<Rightarrow> string option) \<Rightarrow> string option \<Rightarrow> json \<Rightarrow>
     string + validated_token \<Rightarrow> bool" where
  "opened_with os validator bearer http_auth_header v r =
     (case r of
        Inl _ \<Rightarrow> conn_init_token bearer v = None \<and> http_auth_header = None
      | Inr auth \<Rightarrow>
          \<exists>t. (conn_init_token bearer v = Some t \<or> conn_init_token bearer v = None \<and> http_auth_header = Some t) \<and>
            as_token auth = (if verified os validator t then Some t else None) \<and>
            (\<forall>ctx. auth_guard (ctx\<lparr>cx_auth := Some auth\<rparr>) = Inr () \<longleftrightarrow> verified os validator t))"

lemma on_connection_init_opened:
  "opened_with os validator bearer auth v (fst (on_connection_init os validator bearer auth v n))"
  using websocket_token_verified [where os = os and validator = validator and bearer = bearer
      and http_auth_header = auth and v = v and n = n]
  unfolding opened_with_def by (fastforce simp: auth_guard_ok split: sum.splits)

text \<open>
  C33. A websocket the service accepts speaks the first protocol of the request's header that is
  known, while the handshake answers with what the upgrade negotiates from all the protocols of the library; it
  counts as one subscription, and is served on the data frames before the first broken
  one, with the library's defaults but for the token: it opens with a token only, the first frame's
  if it gives one, else the upgrade request's, and its resolvers see the outcome of verifying it,
  so a guarded resolver runs over it exactly when it verifies.
\<close>

theorem websocket_service_verified:
  assumes "subscription_upgrade df split bearer (subscription_new ex os validator) wl upgrade
    protocol_header http_auth_header stream env = (Inr (switched, ws), env')"
  shows "se_metrics env' = se_metrics env @ [TotalRequests ''subscription''] \<and>
    (\<exists>h. protocol_header = Some h \<and> first_known (wl_protocol_of wl) h (gw_protocol ws)) \<and>
    switched = wl_negotiate wl (wl_all_protocols wl) protocol_header \<and>
    serve engine ws = serve_output (fst (split stream))
      (engine ex (serve_input (snd (split stream))) (gw_protocol ws) (default_data df)
        (gw_on_connection_init ws) (default_on_ping df) None) \<and>
    (\<forall>v n. opened_with os validator bearer http_auth_header v (fst (gw_on_connection_init ws v n)))"
proof -
  obtain protocol where call: "subscription_call wl upgrade protocol_header http_auth_header env
      = (Inr (switched, protocol, http_auth_header), env')"
    and ws: "ws = upgraded_websocket df split bearer (subscription_new ex os validator) protocol
      http_auth_header stream"
    using assms by (auto simp: subscription_upgrade_def subscription_call_ok split: prod.splits sum.splits)
  then have "graphql_protocol (wl_protocol_of wl) protocol_header = Inr (gw_protocol ws)"
    by (simp add: subscription_call_ok)
  then have "\<exists>h. protocol_header = Some h \<and> first_known (wl_protocol_of wl) h (gw_protocol ws)"
    by (rule graphql_protocol_ok)
  moreover have "se_metrics env' = se_metrics env @ [TotalRequests ''subscription'']"
    "switched = wl_negotiate wl (wl_all_protocols wl) protocol_header"
    using call by (simp_all add: subscription_call_ok)
  moreover have "serve engine ws = serve_output (fst (split stream))
      (engine ex (serve_input (snd (split stream))) (gw_protocol ws) (default_data df)
        (gw_on_connection_init ws) (default_on_ping df) None)"
    by (simp add: serve_def ws subscription_new_def)
  moreover have "opened_with os validator bearer http_auth_header v (fst (gw_on_connection_init ws v n))" for v n
    by (simp add: ws subscription_new_def on_connection_init_opened)
  ultimately show ?thesis by blast
qed

text \<open>
  The protocol of the handshake is the first of the library's list that the client offers; so for a client that
  offers both the other way round, the handshake names one protocol and the connection speaks the other.
\<close>

definition negotiates_by_preference :: "'p ws_library \<Rightarrow> bool" where
  "negotiates_by_preference wl \<longleftrightarrow>
     (\<forall>all h. wl_negotiate wl all (Some h) = find (\<lambda>p. p \<in> set (map trim (split_char CHR '','' h))) all)"

lemma handshake_mismatch:
  assumes "subscription_upgrade df split bearer self wl upgrade
      (Some ''graphql-ws, graphql-transport-ws'') auth stream env = (Inr (switched, ws), env')"
    and "negotiates_by_preference wl" and "wl_all_protocols wl = [''graphql-transport-ws'', ''graphql-ws'']"
    and "wl_protocol_of wl ''graphql-ws'' = Some p"
  shows "switched = Some ''graphql-transport-ws'' \<and> gw_protocol ws = p"
proof -
  have texts: "map trim (split_char CHR '','' ''graphql-ws, graphql-transport-ws'') =
      [''graphql-ws'', ''graphql-transport-ws'']"
    by code_simp
  obtain protocol where run: "ws = upgraded_websocket df split bearer self protocol auth stream"
    "switched = wl_negotiate wl (wl_all_protocols wl) (Some ''graphql-ws, graphql-transport-ws'')"
    "graphql_protocol (wl_protocol_of wl) (Some ''graphql-ws, graphql-transport-ws'') = Inr protocol"
    using assms(1) by (auto simp: subscription_upgrade_def subscription_call_ok split: prod.splits sum.splits)
  have "switched = Some ''graphql-transport-ws''"
    using run(2) assms(2,3) texts unfolding negotiates_by_preference_def by simp
  moreover have "protocol = p"
    using run(3) assms(4) texts unfolding graphql_protocol_def find_map_map by simp
  ultimately show ?thesis using run(1) by simp
qed

text \<open>A request without a known protocol, or one that does not upgrade, is not counted and not served.\<close>

lemma subscription_refused:
  "subscription_upgrade df split bearer self wl upgrade protocol_header auth stream env = (Inl status, env') \<longleftrightarrow>
     env' = env \<and> (graphql_protocol (wl_protocol_of wl) protocol_header = Inl status \<or>
       (\<exists>p. graphql_protocol (wl_protocol_of wl) protocol_header = Inr p) \<and> upgrade = Inl status)"
  by (auto simp: subscription_upgrade_def subscription_call_def split: sum.splits prod.splits)

definition demo_defaults :: "(unit, unit, unit) ws_defaults" where
  "demo_defaults = \<lparr>default_data = (), default_on_connection_init = (), default_on_ping = ()\<rparr>"

definition demo_validator :: token_validator where
  "demo_validator =
     \<lparr>tv_client_id = ''graph'', tv_client_secret = None, tv_introspection_url = ''https://id/introspect'',
      tv_keys = [], tv_validation = \<lparr>jv_algorithm = ''RS256'', jv_issuer = ''https://id'',
        jv_audience = [''graph''], jv_leeway = 60\<rparr>\<rparr>"

definition demo_split ::
  "(string + ws_message) list \<Rightarrow>
     (ws_frame \<Rightarrow> ws_frame list \<Rightarrow> bool \<times> ws_frame list) \<times> (string + ws_message) list" where
  "demo_split stream = (\<lambda>f sent. (True, sent @ [f]), stream)"

definition demo_ws_library :: "string ws_library" where
  "demo_ws_library =
     \<lparr>wl_protocol_of = (\<lambda>p. if p = ''graphql-ws'' then Some p else None),
      wl_all_protocols = [''graphql-transport-ws'', ''graphql-ws''],
      wl_negotiate = (\<lambda>all header. case header of
         None \<Rightarrow> None
       | Some h \<Rightarrow> find (\<lambda>p. p \<in> set (map trim (split_char CHR '','' h))) all)\<rparr>"

theorem websocket_service_verified_witness:
  "\<exists>switched ws env'. subscription_upgrade demo_defaults demo_split Some
      (subscription_new () demo_oidc demo_validator) demo_ws_library (Inr ()) (Some ''soap, graphql-ws'') (Some ''jwt'')
      [Inr (WsText ''{}'')] \<lparr>se_net = 1, se_metrics = []\<rparr> = (Inr (switched, ws), env') \<and>
    se_metrics env' = [TotalRequests ''subscription''] \<and> gw_protocol ws = ''graphql-ws''"
proof -
  let ?call = "subscription_upgrade demo_defaults demo_split Some (subscription_new () demo_oidc demo_validator)
      demo_ws_library (Inr ()) (Some ''soap, graphql-ws'') (Some ''jwt'')
      [Inr (WsText ''{}'')] \<lparr>se_net = 1, se_metrics = []\<rparr>"
  have "graphql_protocol (wl_protocol_of demo_ws_library) (Some ''soap, graphql-ws'') = Inr ''graphql-ws''"
    by code_simp
  then obtain switched ws env' where run: "?call = (Inr (switched, ws), env')"
    by (simp add: subscription_upgrade_def subscription_call_def)
  from websocket_service_verified [OF run] run show ?thesis
    by (fastforce simp: first_known_def demo_ws_library_def split: if_splits)
qed

end
