(* ===== verification/Routers.thy ===== *)
theory Routers
  imports Auth_Startup Graph_Websocket
begin

text \<open>
  The routers the four services build and what they do before they serve: \<^verbatim>\<open>main.rs\<close> of the
  gateway, the daemon, the broker and the graph proxy. The library that builds and runs routers
  (\<^verbatim>\<open>axum\<close>, with \<^verbatim>\<open>axum_reverse_proxy\<close>) is a record of its operations; what its documentation says of
  the order of routes and layers is the predicate \<open>axum_laws\<close>.
\<close>

section \<open>The router library\<close>

datatype http_method = Get | Post | Options

text \<open>A route answers methods with handlers and may have layers of its own.\<close>

record ('h, 'l) method_router =
  mr_handlers :: "(http_method \<times> 'h) list"
  mr_layers :: "'l list"

definition on_methods :: "(http_method \<times> 'h) list \<Rightarrow> ('h, 'l) method_router" where
  "on_methods hs = \<lparr>mr_handlers = hs, mr_layers = []\<rparr>"

definition mr_layer :: "'l \<Rightarrow> ('h, 'l) method_router \<Rightarrow> ('h, 'l) method_router" where
  "mr_layer l mr = mr\<lparr>mr_layers := l # mr_layers mr\<rparr>"

text \<open>
  \<open>ax_serves\<close> is what answers a path: the layers around it, outermost first, and the route, or the
  fallback if no route has the path (\<open>None\<close> if there is none either).
\<close>

datatype ('h, 'l) endpoint = Route "('h, 'l) method_router" | Fallback 'h

record ('r, 'h, 'l) axum =
  ax_new :: 'r
  ax_route :: "string \<Rightarrow> ('h, 'l) method_router \<Rightarrow> 'r \<Rightarrow> 'r"
  ax_fallback :: "'h \<Rightarrow> 'r \<Rightarrow> 'r"
  ax_layer :: "'l \<Rightarrow> 'r \<Rightarrow> 'r"
  ax_serves :: "'r \<Rightarrow> string \<Rightarrow> 'l list \<times> ('h, 'l) endpoint option"

text \<open>
  What \<^verbatim>\<open>axum\<close> documents, for paths without captures and wildcards, which match themselves only, and for
  routers in which the path is not routed yet: adding a route twice merges or panics. A layer is around what
  the router has so far, its fallback included, and not around what is added later.
\<close>

definition literal_path :: "string \<Rightarrow> bool" where
  "literal_path p \<longleftrightarrow> p \<noteq> [] \<and> hd p = CHR ''/'' \<and> (\<forall>c \<in> set p. c \<notin> set ''{}*:'')"

fun is_route :: "('h, 'l) endpoint option \<Rightarrow> bool" where
  "is_route (Some (Route mr)) = True"
| "is_route (Some (Fallback h)) = False"
| "is_route None = False"

definition axum_laws :: "('r, 'h, 'l) axum \<Rightarrow> bool" where
  "axum_laws ax \<longleftrightarrow>
     (\<forall>p. ax_serves ax (ax_new ax) p = ([], None)) \<and>
     (\<forall>p mr r q. literal_path p \<longrightarrow> \<not> is_route (snd (ax_serves ax r p)) \<longrightarrow>
        ax_serves ax (ax_route ax p mr r) q =
          (if q = p then ([], Some (Route mr)) else ax_serves ax r q)) \<and>
     (\<forall>h p. ax_serves ax (ax_fallback ax h (ax_new ax)) p = ([], Some (Fallback h))) \<and>
     (\<forall>l r p. ax_serves ax (ax_layer ax l r) p =
        (case ax_serves ax r p of (ls, e) \<Rightarrow> (l # ls, e)))"

lemma serves_new: "axum_laws ax \<Longrightarrow> ax_serves ax (ax_new ax) p = ([], None)"
  and serves_route: "axum_laws ax \<Longrightarrow> literal_path p \<Longrightarrow> \<not> is_route (snd (ax_serves ax r p)) \<Longrightarrow>
    ax_serves ax (ax_route ax p mr r) q = (if q = p then ([], Some (Route mr)) else ax_serves ax r q)"
  and serves_fallback: "axum_laws ax \<Longrightarrow> ax_serves ax (ax_fallback ax h (ax_new ax)) p = ([], Some (Fallback h))"
  and serves_layer: "axum_laws ax \<Longrightarrow> ax_serves ax (ax_layer ax l r) p =
    (case ax_serves ax r p of (ls, e) \<Rightarrow> (l # ls, e))"
  by (auto simp: axum_laws_def)

lemmas serves_simps = serves_new serves_route serves_fallback serves_layer

text \<open>A CORS layer; \<open>None\<close> for the headers is any header.\<close>

record cors_layer =
  cl_methods :: "http_method list"
  cl_headers :: "string list option"
  cl_origin :: "string option \<Rightarrow> bool"
  cl_credentials :: bool

section \<open>The gateway\<close>

datatype gateway_handler =
    LoginHandler | CallbackHandler | LogoutHandler | UserinfoHandler | HealthcheckHandler | StatusHandler
  | ReverseProxy string string

datatype gateway_layer =
    InjectToken
  | SessionLayer same_site bool nat
  | Cors cors_layer

definition gateway_cors :: "app_state \<Rightarrow> cors_layer" where
  "gateway_cors state =
     \<lparr>cl_methods = [Get, Post, Options], cl_headers = Some [''accept'', ''content-type'', ''authorization''],
      cl_origin = cors_origin_ok (app_cors_allow state), cl_credentials = True\<rparr>"

definition status_cors :: cors_layer where
  "status_cors =
     \<lparr>cl_methods = [Get, Options], cl_headers = Some [''authorization'', ''content-type''],
      cl_origin = (\<lambda>_. True), cl_credentials = False\<rparr>"

definition create_router ::
  "('r, gateway_handler, gateway_layer) axum \<Rightarrow> app_state \<Rightarrow> string \<Rightarrow> same_site \<Rightarrow> 'r" where
  "create_router ax state graph_url same_site =
     ax_route ax ''/auth/status'' (mr_layer (Cors status_cors) (on_methods [(Get, StatusHandler)]))
       (ax_layer ax (Cors (gateway_cors state))
         (ax_layer ax (SessionLayer same_site (app_session_secure state) 600)
           (ax_route ax ''/healthcheck'' (on_methods [(Get, HealthcheckHandler)])
             (ax_route ax ''/auth/me'' (on_methods [(Get, UserinfoHandler)])
               (ax_route ax ''/auth/logout'' (on_methods [(Post, LogoutHandler)])
                 (ax_route ax ''/auth/callback'' (on_methods [(Get, CallbackHandler)])
                   (ax_route ax ''/auth/login'' (on_methods [(Get, LoginHandler)])
                     (ax_layer ax InjectToken
                       (ax_fallback ax (ReverseProxy ''/api'' graph_url) (ax_new ax))))))))))"

text \<open>
  \<^verbatim>\<open>main\<close> of the gateway up to serving: the port and the router, once the state is made and the
  database migrated. Installing the TLS provider may panic.
\<close>

definition gateway_main ::
  "('r, gateway_handler, gateway_layer) axum \<Rightarrow> 'n startup_services \<Rightarrow> bool \<Rightarrow> string \<Rightarrow>
     auth_error + gateway_config \<Rightarrow>
     (('n, 'z) auth_env_scheme, auth_error, 16 word \<times> 'r \<times> app_state) eff" where
  "gateway_main ax su install_tls graph_url loaded =
     ebind (lift_res loaded) (\<lambda>config.
     let port = cc_port (gc_common config);
         same_site = cookie_same_site (gc_cookie_same_site config) in
     ebind (gateway_new su config) (\<lambda>(appstate, _).
     ebind (outside (su_migrate su)) (\<lambda>r.
     ebind (lift_res (map_err DbError r)) (\<lambda>_.
     if install_tls then ret (port, create_router ax appstate graph_url same_site, appstate)
     else throw (auth_error.Panicked ''Failed to install rust TLS cryptography'')))))"

definition gateway_routes :: "(string \<times> http_method \<times> gateway_handler) list" where
  "gateway_routes =
     [(''/auth/login'', Get, LoginHandler), (''/auth/callback'', Get, CallbackHandler),
      (''/auth/logout'', Post, LogoutHandler), (''/auth/me'', Get, UserinfoHandler),
      (''/healthcheck'', Get, HealthcheckHandler)]"

text \<open>
  C37. Which requests the gateway puts a token into, and which pages of other origins it answers. The status
  endpoint is open to every origin, for \<^verbatim>\<open>GET\<close>, with a bearer token in the header but without credentials,
  and sees no session. The other endpoints have around them the session and cross-origin rules that allow
  credentials to the configured origins only (to none when none is configured), and no token injection.
  Every other path is proxied to the graph proxy, inside the same layers, after the token injection.
\<close>

theorem gateway_layers:
  assumes "axum_laws ax"
  shows "ax_serves ax (create_router ax state graph_url site) path =
    (let configured = (\<lambda>origin. \<exists>allowed sender is_match. app_cors_allow state = Some allowed \<and>
           origin = Some sender \<and> is_match \<in> set allowed \<and> is_match sender);
         outer =
           [Cors \<lparr>cl_methods = [Get, Post, Options],
                  cl_headers = Some [''accept'', ''content-type'', ''authorization''],
                  cl_origin = configured, cl_credentials = True\<rparr>,
            SessionLayer site (app_session_secure state) 600] in
     if path = ''/auth/status'' then
       ([], Some (Route \<lparr>mr_handlers = [(Get, StatusHandler)],
          mr_layers = [Cors \<lparr>cl_methods = [Get, Options], cl_headers = Some [''authorization'', ''content-type''],
                             cl_origin = (\<lambda>_. True), cl_credentials = False\<rparr>]\<rparr>))
     else
       case map_of gateway_routes path of
         Some (m, h) \<Rightarrow> (outer, Some (Route (on_methods [(m, h)])))
       | None \<Rightarrow> (outer @ [InjectToken], Some (Fallback (ReverseProxy ''/api'' graph_url))))"
proof -
  have "cors_origin_ok (app_cors_allow state) =
      (\<lambda>origin. \<exists>allowed sender is_match. app_cors_allow state = Some allowed \<and>
        origin = Some sender \<and> is_match \<in> set allowed \<and> is_match sender)"
    by (auto simp: cors_origin_ok_def fun_eq_iff list_ex_iff split: option.splits)
  then show ?thesis
    by (simp add: create_router_def gateway_routes_def on_methods_def mr_layer_def Let_def
        gateway_cors_def status_cors_def literal_path_def serves_simps [OF assms])
qed

section \<open>The daemon, the broker and the graph proxy\<close>

datatype daemon_handler = DaemonProxy string string | DaemonHealthcheck

datatype daemon_layer = DaemonInjectToken | DaemonCors cors_layer

definition setup_daemon_router ::
  "('r, daemon_handler, daemon_layer) axum \<Rightarrow> daemon_file_config \<Rightarrow> (string \<Rightarrow> bool) list option \<Rightarrow> 'r" where
  "setup_daemon_router ax config cors_allow =
     ax_route ax ''/healthz'' (on_methods [(Get, DaemonHealthcheck)])
       (ax_layer ax (DaemonCors
          \<lparr>cl_methods = [Get, Post], cl_headers = None, cl_origin = cors_origin_ok cors_allow,
           cl_credentials = False\<rparr>)
         (ax_layer ax DaemonInjectToken
           (ax_fallback ax (DaemonProxy ''/'' (df_graph_url config)) (ax_new ax))))"

text \<open>An error with a context in front of its debug output; a panic stays one.\<close>

definition in_context :: "(auth_error \<Rightarrow> string) \<Rightarrow> string \<Rightarrow> auth_error \<Rightarrow> auth_error" where
  "in_context show_debug context e =
     (case e of auth_error.Panicked m \<Rightarrow> auth_error.Panicked m | _ \<Rightarrow> auth_error.Failed (context @ '': '' @ show_debug e))"

text \<open>
  \<^verbatim>\<open>main\<close> of the daemon up to serving; \<open>from_file\<close> loads a configuration and \<open>resolved\<close> is the
  outcome of resolving the subject. Whatever its configuration says, no origin is allowed.
\<close>

definition daemon_main ::
  "('r, daemon_handler, daemon_layer) axum \<Rightarrow> 'n startup_services \<Rightarrow> ('n, 'y) daemon_services_scheme \<Rightarrow>
     (auth_error \<Rightarrow> string) \<Rightarrow> (string \<Rightarrow> auth_error + daemon_file_config) \<Rightarrow> string \<Rightarrow> auth_error + string \<Rightarrow>
     ('n, 'z, 16 word \<times> 'r) daemon_eff" where
  "daemon_main ax su sv show_debug from_file path resolved =
     ebind (lift_res (map_err (in_context show_debug (''failed to read config '' @ path))
              (from_file path))) (\<lambda>config.
     ebind (lift_res resolved) (\<lambda>subject.
     ebind (emap_err (in_context show_debug ''failed to initialise router state'')
              (daemon_new su sv config subject)) (\<lambda>_.
     ret (cc_port (df_common config), setup_daemon_router ax config None))))"

datatype broker_handler = BrokerHealthCheck | AuthorizeRequest

definition broker_router :: "('r, broker_handler, unit) axum \<Rightarrow> 'r" where
  "broker_router ax =
     ax_route ax ''/healthz'' (on_methods [(Get, BrokerHealthCheck)])
       (ax_fallback ax AuthorizeRequest (ax_new ax))"

definition broker_main ::
  "('r, broker_handler, unit) axum \<Rightarrow> 'n startup_services \<Rightarrow> (auth_error \<Rightarrow> string) \<Rightarrow>
     (string \<Rightarrow> auth_error + broker_config) \<Rightarrow> string \<Rightarrow>
     ('n, 'z, auth_error, 16 word \<times> 'r \<times> broker_keys \<times> real_k8s_api) broker_eff" where
  "broker_main ax su show_debug from_file path =
     ebind (lift_res (map_err (in_context show_debug (''failed to read config '' @ path))
              (from_file path))) (\<lambda>config.
     ebind (emap_err (in_context show_debug ''failed to initialise broker state'')
              (broker_new su config)) (\<lambda>(keys, k8s, _).
     ret (cc_port (bc_common config), broker_router ax, keys, k8s)))"

datatype graph_handler =
    Graphiql string string
  | GraphqlHandler
  | SubscriptionService

definition setup_graph_router ::
  "('r, graph_handler, cors_layer) axum \<Rightarrow> string \<Rightarrow> (string \<Rightarrow> bool) list option \<Rightarrow> 'r" where
  "setup_graph_router ax prefix_path cors_allow =
     (let socket_path = append_to_path prefix_path ''/ws'' in
      ax_layer ax
        \<lparr>cl_methods = [Get, Post], cl_headers = None,
         cl_origin = (case cors_allow of Some res \<Rightarrow> cors_allowed res | None \<Rightarrow> (\<lambda>_. False)),
         cl_credentials = False\<rparr>
        (ax_route ax socket_path (on_methods [(Get, SubscriptionService)])
          (ax_route ax prefix_path
             (on_methods [(Get, Graphiql prefix_path socket_path), (Post, GraphqlHandler)]) (ax_new ax))))"

lemma daemon_layers:
  "axum_laws ax \<Longrightarrow> ax_serves ax (setup_daemon_router ax config cors_allow) path =
     (if path = ''/healthz'' then ([], Some (Route (on_methods [(Get, DaemonHealthcheck)])))
      else ([DaemonCors \<lparr>cl_methods = [Get, Post], cl_headers = None, cl_origin = cors_origin_ok cors_allow,
               cl_credentials = False\<rparr>, DaemonInjectToken],
            Some (Fallback (DaemonProxy ''/'' (df_graph_url config)))))"
  by (simp add: setup_daemon_router_def serves_simps literal_path_def)

lemma broker_layers:
  "axum_laws ax \<Longrightarrow> ax_serves ax (broker_router ax) path =
     ([], Some (if path = ''/healthz'' then Route (on_methods [(Get, BrokerHealthCheck)])
                else Fallback AuthorizeRequest))"
  by (simp add: broker_router_def serves_simps literal_path_def)

text \<open>The page that a browser is served opens its subscriptions where the service is routed.\<close>

lemma graph_layers:
  assumes "axum_laws ax" and "append_to_path prefix_path ''/ws'' \<noteq> prefix_path"
    and "literal_path prefix_path" and "literal_path (append_to_path prefix_path ''/ws'')"
  shows "snd (ax_serves ax (setup_graph_router ax prefix_path cors_allow) prefix_path) =
      Some (Route (on_methods [(Get, Graphiql prefix_path (append_to_path prefix_path ''/ws'')), (Post, GraphqlHandler)]))"
    and "snd (ax_serves ax (setup_graph_router ax prefix_path cors_allow) (append_to_path prefix_path ''/ws'')) =
      Some (Route (on_methods [(Get, SubscriptionService)]))"
    and "path \<notin> {prefix_path, append_to_path prefix_path ''/ws''} \<Longrightarrow>
      snd (ax_serves ax (setup_graph_router ax prefix_path cors_allow) path) = None"
  using assms by (auto simp: setup_graph_router_def serves_simps Let_def split: prod.splits)

section \<open>A router\<close>

text \<open>The laws hold of lists: the routes with the layers around each, and those around the fallback.\<close>

record ('h, 'l) list_router =
  lr_routes :: "(string \<times> ('l list \<times> ('h, 'l) endpoint option)) list"
  lr_rest :: "'l list \<times> ('h, 'l) endpoint option"

definition list_axum :: "(('h, 'l) list_router, 'h, 'l) axum" where
  "list_axum =
     \<lparr>ax_new = \<lparr>lr_routes = [], lr_rest = ([], None)\<rparr>,
      ax_route = (\<lambda>p mr r. r\<lparr>lr_routes := (p, [], Some (Route mr)) # lr_routes r\<rparr>),
      ax_fallback = (\<lambda>h r. r\<lparr>lr_rest := ([], Some (Fallback h))\<rparr>),
      ax_layer = (\<lambda>l r. \<lparr>lr_routes = map (\<lambda>(p, ls, e). (p, l # ls, e)) (lr_routes r),
                       lr_rest = (l # fst (lr_rest r), snd (lr_rest r))\<rparr>),
      ax_serves = (\<lambda>r p. case map_of (lr_routes r) p of Some a \<Rightarrow> a | None \<Rightarrow> lr_rest r)\<rparr>"

lemma map_of_layer:
  "map_of (map (\<lambda>(p, ls, e). (p, l # ls, e)) rs) p = map_option (\<lambda>(ls, e). (l # ls, e)) (map_of rs p)"
  by (induction rs) auto

lemma list_axum_laws: "axum_laws list_axum"
  by (auto simp: axum_laws_def list_axum_def map_of_layer split: option.splits prod.splits)

theorem gateway_layers_witness:
  "(case fst (ax_serves list_axum (create_router list_axum demo_app ''http://graph'' Strict) ''/auth/me'') of
      [Cors c, SessionLayer site secure age] \<Rightarrow>
        cl_credentials c \<and> cl_origin c (Some ''https://ok'') \<and> \<not> cl_origin c (Some ''https://evil'')
    | _ \<Rightarrow> False)
   \<and> snd (ax_serves list_axum (create_router list_axum demo_app ''http://graph'' Strict) ''/api'')
     = Some (Fallback (ReverseProxy ''/api'' ''http://graph''))"
  by (simp add: gateway_layers [OF list_axum_laws] gateway_routes_def demo_app_def Let_def)

end
