(* ===== verification/Instruments.thy ===== *)
theory Instruments
  imports Ordered_Map
begin

text \<open>
  The instruments of \<^verbatim>\<open>sessionspaces/src/instruments.rs\<close> with their names (\<^verbatim>\<open>Display\<close>,
  \<^verbatim>\<open>EnumString\<close>, \<^verbatim>\<open>EnumIter\<close>, the derived order), and the LDAP groups of
  \<^verbatim>\<open>permissionables/instrument_subjects.rs\<close> with the instruments each of them opens.
\<close>

section \<open>Instruments\<close>

datatype (plugins only: size) instrument =
    B01 | B01_1 | B07 | B07_1 | B16 | B18 | B21 | B22 | B23 | B24 | B24_1 | E01 | E02 |
    E03 | I02_1 | I02_2 | I03 | I04 | I04_1 | I05 | I05_1 | I06 | I06_1 | I06_2 | I07 |
    I08 | I08_1 | I09 | I09_1 | I09_2 | I10 | I10_1 | I11 | I11_1 | I12 | I13 | I13_1 |
    I14 | I15 | I15_1 | I16 | I18 | I19 | I19_1 | I19_2 | I20 | I20_1 | I21 | I22 | I23 |
    I24 | K11 | LABXCHEM | M01 | M02 | M03 | M04 | M05 | M06 | M07 | M08 | M10 | M11 |
    M12 | M13 | M14 | P02 | P29 | P32 | P33 | P38 | P45 | P51 | P99 | S01 | S02 | S03 |
    S04 | T01

text \<open>\<^verbatim>\<open>Instrument::iter()\<close>: the variants in declaration order.\<close>

definition instrument_iter :: "instrument list" where
  "instrument_iter = [
     B01, B01_1, B07, B07_1, B16, B18, B21, B22, B23, B24, B24_1, E01, E02, E03, I02_1,
     I02_2, I03, I04, I04_1, I05, I05_1, I06, I06_1, I06_2, I07, I08, I08_1, I09, I09_1,
     I09_2, I10, I10_1, I11, I11_1, I12, I13, I13_1, I14, I15, I15_1, I16, I18, I19, I19_1,
     I19_2, I20, I20_1, I21, I22, I23, I24, K11, LABXCHEM, M01, M02, M03, M04, M05, M06,
     M07, M08, M10, M11, M12, M13, M14, P02, P29, P32, P33, P38, P45, P51, P99, S01, S02,
     S03, S04, T01]"

primrec instrument_to_string :: "instrument \<Rightarrow> string" where
  "instrument_to_string B01 = ''b01''"
| "instrument_to_string B01_1 = ''b01-1''"
| "instrument_to_string B07 = ''b07''"
| "instrument_to_string B07_1 = ''b07-1''"
| "instrument_to_string B16 = ''b16''"
| "instrument_to_string B18 = ''b18''"
| "instrument_to_string B21 = ''b21''"
| "instrument_to_string B22 = ''b22''"
| "instrument_to_string B23 = ''b23''"
| "instrument_to_string B24 = ''b24''"
| "instrument_to_string B24_1 = ''b24-1''"
| "instrument_to_string E01 = ''e01''"
| "instrument_to_string E02 = ''e02''"
| "instrument_to_string E03 = ''e03''"
| "instrument_to_string I02_1 = ''i02-1''"
| "instrument_to_string I02_2 = ''i02-2''"
| "instrument_to_string I03 = ''i03''"
| "instrument_to_string I04 = ''i04''"
| "instrument_to_string I04_1 = ''i04-1''"
| "instrument_to_string I05 = ''i05''"
| "instrument_to_string I05_1 = ''i05-1''"
| "instrument_to_string I06 = ''i06''"
| "instrument_to_string I06_1 = ''i06-1''"
| "instrument_to_string I06_2 = ''i06-2''"
| "instrument_to_string I07 = ''i07''"
| "instrument_to_string I08 = ''i08''"
| "instrument_to_string I08_1 = ''i08-1''"
| "instrument_to_string I09 = ''i09''"
| "instrument_to_string I09_1 = ''i09-1''"
| "instrument_to_string I09_2 = ''i09-2''"
| "instrument_to_string I10 = ''i10''"
| "instrument_to_string I10_1 = ''i10-1''"
| "instrument_to_string I11 = ''i11''"
| "instrument_to_string I11_1 = ''i11-1''"
| "instrument_to_string I12 = ''i12''"
| "instrument_to_string I13 = ''i13''"
| "instrument_to_string I13_1 = ''i13-1''"
| "instrument_to_string I14 = ''i14''"
| "instrument_to_string I15 = ''i15''"
| "instrument_to_string I15_1 = ''i15-1''"
| "instrument_to_string I16 = ''i16''"
| "instrument_to_string I18 = ''i18''"
| "instrument_to_string I19 = ''i19''"
| "instrument_to_string I19_1 = ''i19-1''"
| "instrument_to_string I19_2 = ''i19-2''"
| "instrument_to_string I20 = ''i20''"
| "instrument_to_string I20_1 = ''i20-1''"
| "instrument_to_string I21 = ''i21''"
| "instrument_to_string I22 = ''i22''"
| "instrument_to_string I23 = ''i23''"
| "instrument_to_string I24 = ''i24''"
| "instrument_to_string K11 = ''k11''"
| "instrument_to_string LABXCHEM = ''labxchem''"
| "instrument_to_string M01 = ''m01''"
| "instrument_to_string M02 = ''m02''"
| "instrument_to_string M03 = ''m03''"
| "instrument_to_string M04 = ''m04''"
| "instrument_to_string M05 = ''m05''"
| "instrument_to_string M06 = ''m06''"
| "instrument_to_string M07 = ''m07''"
| "instrument_to_string M08 = ''m08''"
| "instrument_to_string M10 = ''m10''"
| "instrument_to_string M11 = ''m11''"
| "instrument_to_string M12 = ''m12''"
| "instrument_to_string M13 = ''m13''"
| "instrument_to_string M14 = ''m14''"
| "instrument_to_string P02 = ''p02''"
| "instrument_to_string P29 = ''p29''"
| "instrument_to_string P32 = ''p32''"
| "instrument_to_string P33 = ''p33''"
| "instrument_to_string P38 = ''p38''"
| "instrument_to_string P45 = ''p45''"
| "instrument_to_string P51 = ''p51''"
| "instrument_to_string P99 = ''p99''"
| "instrument_to_string S01 = ''s01''"
| "instrument_to_string S02 = ''s02''"
| "instrument_to_string S03 = ''s03''"
| "instrument_to_string S04 = ''s04''"
| "instrument_to_string T01 = ''t01''"

text \<open>\<^verbatim>\<open>Instrument::from_str\<close>: the variant whose name is the text, if any.\<close>

definition instrument_from_str :: "string \<Rightarrow> instrument option" where
  "instrument_from_str s = map_of (map (\<lambda>i. (instrument_to_string i, i)) instrument_iter) s"

definition instrument_rank :: "instrument \<Rightarrow> nat" where
  "instrument_rank i = length (takeWhile (\<lambda>j. j \<noteq> i) instrument_iter)"

lemma set_instrument_iter: "set instrument_iter = UNIV"
proof -
  have "i \<in> set instrument_iter" for i
    by (cases i) (simp_all add: instrument_iter_def)
  then show ?thesis by auto
qed

lemma distinct_instrument_names: "distinct (map instrument_to_string instrument_iter)"
  by (simp add: instrument_iter_def)

lemma instrument_iter_nth_rank: "instrument_iter ! instrument_rank i = i"
proof -
  have "i \<in> set instrument_iter" by (simp add: set_instrument_iter)
  then have "instrument_rank i < length instrument_iter"
    unfolding instrument_rank_def
    by (metis (mono_tags, lifting) length_takeWhile_le nat_less_le takeWhile_eq_all_conv
        takeWhile_eq_take take_all_iff order_refl)
  then show ?thesis
    using nth_length_takeWhile [of "\<lambda>j. j \<noteq> i" instrument_iter] by (simp add: instrument_rank_def)
qed

lemma instrument_rank_inj: "instrument_rank i = instrument_rank j \<longleftrightarrow> i = j"
  by (metis instrument_iter_nth_rank)

text \<open>The derived order is the declaration order.\<close>

instantiation instrument :: linorder
begin

definition less_eq_instrument :: "instrument \<Rightarrow> instrument \<Rightarrow> bool" where
  "less_eq_instrument i j \<longleftrightarrow> instrument_rank i \<le> instrument_rank j"

definition less_instrument :: "instrument \<Rightarrow> instrument \<Rightarrow> bool" where
  "less_instrument i j \<longleftrightarrow> instrument_rank i < instrument_rank j"

instance
  by standard (auto simp: less_eq_instrument_def less_instrument_def instrument_rank_inj)

end

lemma map_of_key_list:
  "distinct (map f xs) \<Longrightarrow> map_of (map (\<lambda>x. (f x, x)) xs) k = Some x \<longleftrightarrow> x \<in> set xs \<and> f x = k"
  by (auto simp: map_of_eq_Some_iff distinct_map o_def)

lemma instrument_from_str_iff: "instrument_from_str s = Some i \<longleftrightarrow> instrument_to_string i = s"
  by (simp add: instrument_from_str_def map_of_key_list distinct_instrument_names
      set_instrument_iter)

section \<open>Instrument groups\<close>

datatype (plugins only: size) instrument_group =
    Dasc | B01Staff | B01_1Staff | B07Staff | B16Staff | B18Staff | B21Staff | B22Staff |
    B23Staff | B24Staff | E01Staff | E02Staff | E03Staff | I02_1Staff | I02_2Staff |
    I03Staff | I04Staff | I04_1Staff | I05Staff | I06Staff | I07Staff | I08Staff |
    I09Staff | I10Staff | I11Staff | I12Staff | I13Staff | I14Staff | I15Staff |
    I15_1Detector | I16Staff | I18Staff | I19Staff | I20Staff | I21Staff | I22Staff |
    I23Staff | I24Staff | K11Staff | LabxchemStaff | M01Staff | M02Staff | M03Staff |
    M04Staff | M05Staff | M06Staff | M07Staff | M08Staff | M10Staff | M11Staff | M12Staff |
    M13Staff | M14Staff | P02Staff | P29Staff | P32Staff | P33Staff | P38Staff | P45Staff |
    P51Staff | P99Staff | S01Staff | S02Staff | S03Staff | S04Staff

text \<open>\<^verbatim>\<open>InstrumentGroup::from_str\<close> (\<^verbatim>\<open>EnumString\<close>).\<close>

definition instrument_group_table :: "(string \<times> instrument_group) list" where
  "instrument_group_table = [
     (''dls_dasc'', Dasc), (''b01_staff'', B01Staff), (''b01-1_staff'', B01_1Staff),
     (''b07_staff'', B07Staff), (''b16_staff'', B16Staff), (''b18_staff'', B18Staff),
     (''b21_staff'', B21Staff), (''b22_staff'', B22Staff), (''b23_staff'', B23Staff),
     (''b24_staff'', B24Staff), (''e01_staff'', E01Staff), (''e02_staff'', E02Staff),
     (''e03_staff'', E03Staff), (''i02-1_staff'', I02_1Staff),
     (''i02-2_staff'', I02_2Staff), (''i03_staff'', I03Staff), (''i04_staff'', I04Staff),
     (''i04-1_staff'', I04_1Staff), (''i05_staff'', I05Staff), (''i06_staff'', I06Staff),
     (''i07_staff'', I07Staff), (''i08_staff'', I08Staff), (''i09_staff'', I09Staff),
     (''i10_staff'', I10Staff), (''i11_staff'', I11Staff), (''i12_staff'', I12Staff),
     (''i13_staff'', I13Staff), (''i14_staff'', I14Staff), (''i15_staff'', I15Staff),
     (''i15-1detector'', I15_1Detector), (''i16_staff'', I16Staff),
     (''i18_staff'', I18Staff), (''i19_staff'', I19Staff), (''i20_staff'', I20Staff),
     (''i21_staff'', I21Staff), (''i22_staff'', I22Staff), (''i23_staff'', I23Staff),
     (''i24_staff'', I24Staff), (''k11_staff'', K11Staff),
     (''labxchem_staff'', LabxchemStaff), (''m01_staff'', M01Staff),
     (''m02_staff'', M02Staff), (''m03_staff'', M03Staff), (''m04_staff'', M04Staff),
     (''m05_staff'', M05Staff), (''m06_staff'', M06Staff), (''m07_staff'', M07Staff),
     (''m08_staff'', M08Staff), (''m10_staff'', M10Staff), (''m11_staff'', M11Staff),
     (''m12_staff'', M12Staff), (''m13_staff'', M13Staff), (''m14_staff'', M14Staff),
     (''p02_staff'', P02Staff), (''p29_staff'', P29Staff), (''p32_staff'', P32Staff),
     (''p33_staff'', P33Staff), (''p38_staff'', P38Staff), (''p45_staff'', P45Staff),
     (''p51_staff'', P51Staff), (''p99_staff'', P99Staff), (''s01_staff'', S01Staff),
     (''s02_staff'', S02Staff), (''s03_staff'', S03Staff), (''s04_staff'', S04Staff)]"

definition instrument_group_from_str :: "string \<Rightarrow> instrument_group option" where
  "instrument_group_from_str s = map_of instrument_group_table s"

text \<open>\<^verbatim>\<open>InstrumentGroup::allowed_instruments\<close>.\<close>

primrec allowed_instruments :: "instrument_group \<Rightarrow> instrument set" where
  "allowed_instruments Dasc = set instrument_iter"
| "allowed_instruments B01Staff = {B01}"
| "allowed_instruments B01_1Staff = {B01_1}"
| "allowed_instruments B07Staff = {B07, B07_1}"
| "allowed_instruments B16Staff = {B16}"
| "allowed_instruments B18Staff = {B18}"
| "allowed_instruments B21Staff = {B21}"
| "allowed_instruments B22Staff = {B22}"
| "allowed_instruments B23Staff = {B23}"
| "allowed_instruments B24Staff = {B24, B24_1}"
| "allowed_instruments E01Staff = {E01}"
| "allowed_instruments E02Staff = {E02}"
| "allowed_instruments E03Staff = {E03}"
| "allowed_instruments I02_1Staff = {I02_1}"
| "allowed_instruments I02_2Staff = {I02_2}"
| "allowed_instruments I03Staff = {I03}"
| "allowed_instruments I04Staff = {I04}"
| "allowed_instruments I04_1Staff = {I04_1}"
| "allowed_instruments I05Staff = {I05, I05_1}"
| "allowed_instruments I06Staff = {I06, I06_1, I06_2}"
| "allowed_instruments I07Staff = {I07}"
| "allowed_instruments I08Staff = {I08, I08_1}"
| "allowed_instruments I09Staff = {I09, I09_1, I09_2}"
| "allowed_instruments I10Staff = {I10, I10_1}"
| "allowed_instruments I11Staff = {I11, I11_1}"
| "allowed_instruments I12Staff = {I12}"
| "allowed_instruments I13Staff = {I13, I13_1}"
| "allowed_instruments I14Staff = {I14}"
| "allowed_instruments I15Staff = {I15, I15_1}"
| "allowed_instruments I15_1Detector = {I15_1}"
| "allowed_instruments I16Staff = {I16}"
| "allowed_instruments I18Staff = {I18}"
| "allowed_instruments I19Staff = {I19, I19_1, I19_2}"
| "allowed_instruments I20Staff = {I20, I20_1}"
| "allowed_instruments I21Staff = {I21}"
| "allowed_instruments I22Staff = {I22}"
| "allowed_instruments I23Staff = {I23}"
| "allowed_instruments I24Staff = {I24}"
| "allowed_instruments K11Staff = {K11}"
| "allowed_instruments LabxchemStaff = {LABXCHEM}"
| "allowed_instruments M01Staff = {M01}"
| "allowed_instruments M02Staff = {M02}"
| "allowed_instruments M03Staff = {M03}"
| "allowed_instruments M04Staff = {M04}"
| "allowed_instruments M05Staff = {M05}"
| "allowed_instruments M06Staff = {M06}"
| "allowed_instruments M07Staff = {M07}"
| "allowed_instruments M08Staff = {M08}"
| "allowed_instruments M10Staff = {M10}"
| "allowed_instruments M11Staff = {M11}"
| "allowed_instruments M12Staff = {M12}"
| "allowed_instruments M13Staff = {M13}"
| "allowed_instruments M14Staff = {M14}"
| "allowed_instruments P02Staff = {P02}"
| "allowed_instruments P29Staff = {P29}"
| "allowed_instruments P32Staff = {P32}"
| "allowed_instruments P33Staff = {P33}"
| "allowed_instruments P38Staff = {P38}"
| "allowed_instruments P45Staff = {P45}"
| "allowed_instruments P51Staff = {P51}"
| "allowed_instruments P99Staff = {P99}"
| "allowed_instruments S01Staff = {S01}"
| "allowed_instruments S02Staff = {S02}"
| "allowed_instruments S03Staff = {S03}"
| "allowed_instruments S04Staff = {S04}"

section \<open>Lemmas\<close>

lemma distinct_group_names: "distinct (map fst instrument_group_table)"
  by (simp add: instrument_group_table_def)

lemma group_table_total: "\<exists>n. (n, g) \<in> set instrument_group_table"
  by (cases g) (simp_all add: instrument_group_table_def)

lemma T01_only_dasc: "g \<noteq> Dasc \<Longrightarrow> T01 \<notin> allowed_instruments g"
  by (cases g) simp_all

lemma staff_group_table:
  "list_all (\<lambda>i. i = T01 \<or>
       list_ex (\<lambda>(n, g). g \<noteq> Dasc \<and> i \<in> allowed_instruments g) instrument_group_table)
     instrument_iter"
  by (simp add: instrument_iter_def instrument_group_table_def)

lemma staff_group_exists:
  assumes "i \<noteq> T01"
  shows "\<exists>n g. instrument_group_from_str n = Some g \<and> g \<noteq> Dasc \<and> i \<in> allowed_instruments g"
proof -
  from assms staff_group_table obtain n g
    where "(n, g) \<in> set instrument_group_table" "g \<noteq> Dasc" "i \<in> allowed_instruments g"
    by (auto simp: list_all_iff list_ex_iff set_instrument_iter)
  then show ?thesis
    by (auto simp: instrument_group_from_str_def distinct_group_names map_of_eq_Some_iff)
qed

text \<open>
  The names of the instruments and of the groups are sound and complete: an instrument
  is read back from its printed name and from no other text; the group \<^verbatim>\<open>dls_dasc\<close> opens
  every instrument, every instrument but \<^verbatim>\<open>t01\<close> is opened by some staff group that can be
  named in the directory, and \<^verbatim>\<open>t01\<close> by no group but \<^verbatim>\<open>dls_dasc\<close>.
\<close>

theorem instrument_names_and_groups:
  "(instrument_from_str s = Some i \<longleftrightarrow> s = instrument_to_string i)
   \<and> instrument_group_from_str ''dls_dasc'' = Some Dasc \<and> i \<in> allowed_instruments Dasc
   \<and> ((\<exists>n g. instrument_group_from_str n = Some g \<and> g \<noteq> Dasc \<and> i \<in> allowed_instruments g)
      \<longleftrightarrow> i \<noteq> T01)"
proof -
  have "instrument_group_from_str ''dls_dasc'' = Some Dasc"
    by (simp add: instrument_group_from_str_def instrument_group_table_def)
  moreover have "\<not> (\<exists>n g. instrument_group_from_str n = Some g \<and> g \<noteq> Dasc \<and> T01 \<in> allowed_instruments g)"
    using T01_only_dasc by blast
  ultimately show ?thesis
    using staff_group_exists by (auto simp: instrument_from_str_iff set_instrument_iter)
qed

end
