(* ===== verification/Permissionables.thy ===== *)
theory Permissionables
  imports Rust_Strings Instruments
begin

text \<open>
  The permission tables of \<^verbatim>\<open>sessionspaces/src/permissionables\<close>: rows of the ISPyB database
  and entries of the LDAP directory are folded into ordered maps, which \<^verbatim>\<open>Sessions::new\<close>
  joins into one session per namespace; statically configured sessions are merged in.
  The rows and entries a query returns, or its error, are arguments.
\<close>

section \<open>Basic information of a session\<close>

text \<open>\<^verbatim>\<open>PrimitiveDateTime\<close>: a calendar date and a time of day.\<close>

record datetime =
  dt_year :: int
  dt_month :: nat
  dt_day :: nat
  dt_hour :: nat
  dt_minute :: nat
  dt_second :: nat
  dt_nanosecond :: nat

record basic_info =
  bi_id :: u32
  bi_proposal_id :: u32
  bi_proposal_code :: string
  bi_proposal_number :: u32
  bi_visit :: u32
  bi_instrument :: instrument
  bi_start_date :: datetime
  bi_end_date :: datetime

record basic_info_row =
  row_id :: u32
  row_proposal_id :: u32
  row_proposal_code :: "string option"
  row_proposal_number :: "string option"
  row_visit :: "u32 option"
  row_instrument :: "string option"
  row_start_date :: "datetime option"
  row_end_date :: "datetime option"

datatype row_error =
    CodeEmpty | CodeNonAlphanumeric | CodeNull
  | VisitZero | VisitNull
  | NumberNull | NumberUnparsable int_error
  | BeamlineNull | BeamlineUnknown
  | StartDateNull | EndDateNull

definition row_code :: "string option \<Rightarrow> row_error + string" where
  "row_code c =
     (case c of
        Some [] \<Rightarrow> Inl CodeEmpty
      | Some (x # xs) \<Rightarrow> (if \<not> is_alphanumeric x then Inl CodeNonAlphanumeric else Inr (x # xs))
      | None \<Rightarrow> Inl CodeNull)"

definition row_visit_number :: "u32 option \<Rightarrow> row_error + u32" where
  "row_visit_number v =
     (case v of Some n \<Rightarrow> (if n = 0 then Inl VisitZero else Inr n) | None \<Rightarrow> Inl VisitNull)"

definition basic_info_try_from :: "basic_info_row \<Rightarrow> row_error + basic_info" where
  "basic_info_try_from r =
     rbind (row_code (row_proposal_code r)) (\<lambda>code.
     rbind (row_visit_number (row_visit r)) (\<lambda>visit.
     rbind (ok_or NumberNull (row_proposal_number r)) (\<lambda>number.
     rbind (map_err NumberUnparsable (parse_u32 number)) (\<lambda>number.
     rbind (ok_or BeamlineNull (row_instrument r)) (\<lambda>beamline.
     rbind (ok_or BeamlineUnknown (instrument_from_str beamline)) (\<lambda>instrument.
     rbind (ok_or StartDateNull (row_start_date r)) (\<lambda>start.
     rbind (ok_or EndDateNull (row_end_date r)) (\<lambda>end_date.
     Inr \<lparr>bi_id = row_id r, bi_proposal_id = row_proposal_id r, bi_proposal_code = code,
          bi_proposal_number = number, bi_visit = visit, bi_instrument = instrument,
          bi_start_date = start, bi_end_date = end_date\<rparr>))))))))"

text \<open>\<^verbatim>\<open>BasicInfo::fetch\<close>: rows that do not convert are dropped.\<close>

definition basic_info_fetch :: "'e + basic_info_row list \<Rightarrow> 'e + basic_info list" where
  "basic_info_fetch rows =
     rbind rows (\<lambda>rs. Inr (List.map_filter (\<lambda>r. res_ok (basic_info_try_from r)) rs))"

section \<open>Subjects\<close>

text \<open>A row of the two person tables: the login, which may be NULL, and the key.\<close>

type_synonym subject_row = "string option \<times> u32"

type_synonym subjects = "(u32, string set) btmap"

definition add_subject :: "subject_row \<Rightarrow> subjects \<Rightarrow> subjects" where
  "add_subject r m =
     (case r of (Some s, k) \<Rightarrow> bt_insert k (insert s (unwrap_or {} (bt_get m k))) m
      | (None, _) \<Rightarrow> m)"

definition direct_subjects_fetch :: "'e + subject_row list \<Rightarrow> 'e + subjects" where
  "direct_subjects_fetch rows = rbind rows (\<lambda>rs. Inr (fold add_subject rs []))"

definition proposal_subjects_fetch :: "'e + subject_row list \<Rightarrow> 'e + subjects" where
  "proposal_subjects_fetch rows = rbind rows (\<lambda>rs. Inr (fold add_subject rs []))"

text \<open>\<^verbatim>\<open>SearchEntry::attrs\<close>: the values of each attribute of a directory entry.\<close>

type_synonym ldap_attrs = "string \<Rightarrow> string list option"

datatype group_error = CnAbsent | CnNotSingular | GroupUnknown

definition extract_instrument ::
  "ldap_attrs \<Rightarrow> (group_error + instrument set) \<times> ldap_attrs" where
  "extract_instrument attrs =
     (case attrs ''cn'' of
        None \<Rightarrow> (Inl CnAbsent, attrs)
      | Some [cn] \<Rightarrow>
          (case instrument_group_from_str cn of
             None \<Rightarrow> (Inl GroupUnknown, attrs(''cn'' := None))
           | Some g \<Rightarrow> (Inr (allowed_instruments g), attrs(''cn'' := None)))
      | Some _ \<Rightarrow> (Inl CnNotSingular, attrs(''cn'' := None)))"

type_synonym instrument_subjects = "(instrument, string set) btmap"

definition extend_instrument ::
  "string list \<Rightarrow> instrument \<Rightarrow> instrument_subjects \<Rightarrow> instrument_subjects" where
  "extend_instrument subjects i m =
     bt_insert i (unwrap_or {} (bt_get m i) \<union> set subjects) m"

definition add_instrument_entry ::
  "ldap_attrs \<Rightarrow> instrument_subjects \<Rightarrow> instrument_subjects" where
  "add_instrument_entry entry m =
     (case extract_instrument entry of
        (Inl _, _) \<Rightarrow> m
      | (Inr instruments, attrs) \<Rightarrow>
          (case attrs ''memberUid'' of
             None \<Rightarrow> m
           | Some subjects \<Rightarrow>
               fold (extend_instrument subjects)
                 (filter (\<lambda>i. i \<in> instruments) instrument_iter) m))"

definition instrument_subjects_fetch ::
  "'e + ldap_attrs list \<Rightarrow> 'e + instrument_subjects" where
  "instrument_subjects_fetch entries =
     rbind entries (\<lambda>es. Inr (fold add_instrument_entry es []))"

section \<open>Posix attributes\<close>

record posix_attributes =
  gid :: u32

type_synonym session_posix_attributes = "(string, posix_attributes) btmap"

definition replace_char :: "char \<Rightarrow> char \<Rightarrow> string \<Rightarrow> string" where
  "replace_char a b s = map (\<lambda>c. if c = a then b else c) s"

definition add_posix_entry ::
  "ldap_attrs \<Rightarrow> session_posix_attributes \<Rightarrow> session_posix_attributes" where
  "add_posix_entry entry m =
     (case entry ''gidNumber'' of
        Some [g] \<Rightarrow>
          (case parse_u32 g of
             Inl _ \<Rightarrow> m
           | Inr n \<Rightarrow>
               (case (entry(''gidNumber'' := None)) ''cn'' of
                  Some [session_name] \<Rightarrow>
                    bt_insert (replace_char (CHR ''_'') (CHR ''-'') session_name) \<lparr>gid = n\<rparr> m
                | _ \<Rightarrow> m))
      | _ \<Rightarrow> m)"

definition posix_attributes_fetch ::
  "'e + ldap_attrs list \<Rightarrow> 'e + session_posix_attributes" where
  "posix_attributes_fetch entries = rbind entries (\<lambda>es. Inr (fold add_posix_entry es []))"

text \<open>
  What a directory entry says of a person: the entry has one common name, the name of a
  group that opens the instrument, and lists the person as a member.
\<close>

definition entry_grants :: "ldap_attrs \<Rightarrow> instrument \<Rightarrow> string \<Rightarrow> bool" where
  "entry_grants e i s \<longleftrightarrow>
     (\<exists>cn g uids. e ''cn'' = Some [cn] \<and> instrument_group_from_str cn = Some g
        \<and> i \<in> allowed_instruments g \<and> e ''memberUid'' = Some uids \<and> s \<in> set uids)"

section \<open>Lemmas\<close>

lemma row_code_Inr: "row_code c = Inr s \<longleftrightarrow> c = Some s \<and> s \<noteq> [] \<and> is_alphanumeric (hd s)"
  by (auto simp: row_code_def split: option.splits list.splits)

lemma row_visit_Inr: "row_visit_number v = Inr n \<longleftrightarrow> v = Some n \<and> n \<noteq> 0"
  by (auto simp: row_visit_number_def split: option.splits)

text \<open>
  A row of ISPyB becomes a session exactly when its proposal code is present, not empty
  and starts with an alphanumeric character, its visit number is present and not zero, its
  proposal number parses as an unsigned 32-bit number, its beamline is the name of a known
  instrument and both dates are present; the session then carries exactly those values.
\<close>

theorem basic_info_try_from_iff:
  "basic_info_try_from r = Inr b \<longleftrightarrow>
     row_proposal_code r = Some (bi_proposal_code b)
     \<and> bi_proposal_code b \<noteq> [] \<and> is_alphanumeric (hd (bi_proposal_code b))
     \<and> row_visit r = Some (bi_visit b) \<and> bi_visit b \<noteq> 0
     \<and> (\<exists>t. row_proposal_number r = Some t \<and> parse_u32 t = Inr (bi_proposal_number b))
     \<and> row_instrument r = Some (instrument_to_string (bi_instrument b))
     \<and> row_start_date r = Some (bi_start_date b) \<and> row_end_date r = Some (bi_end_date b)
     \<and> bi_id b = row_id r \<and> bi_proposal_id b = row_proposal_id r"
  by (cases b) (auto simp: basic_info_try_from_def rbind_eq_Inr row_code_Inr row_visit_Inr
      instrument_from_str_iff)

lemma add_subject_get:
  "s \<in> unwrap_or {} (bt_get (add_subject r m) k) \<longleftrightarrow>
     s \<in> unwrap_or {} (bt_get m k) \<or> r = (Some s, k)"
  by (auto simp: add_subject_def split: prod.splits option.splits)

lemma fold_add_subject_get:
  "s \<in> unwrap_or {} (bt_get (fold add_subject rs m) k) \<longleftrightarrow>
     s \<in> unwrap_or {} (bt_get m k) \<or> (Some s, k) \<in> set rs"
  by (induction rs arbitrary: m) (auto simp: add_subject_get)

lemma extend_instrument_get:
  "unwrap_or {} (bt_get (extend_instrument ss i m) j) =
     unwrap_or {} (bt_get m j) \<union> (if j = i then set ss else {})"
  by (auto simp: extend_instrument_def)

lemma fold_extend_instrument_get:
  "unwrap_or {} (bt_get (fold (extend_instrument ss) is m) j) =
     unwrap_or {} (bt_get m j) \<union> (if j \<in> set is then set ss else {})"
  by (induction "is" arbitrary: m) (auto simp: extend_instrument_get)

lemma extract_instrument_Inr:
  "extract_instrument e = (Inr is, a) \<longleftrightarrow>
     (\<exists>cn g. e ''cn'' = Some [cn] \<and> instrument_group_from_str cn = Some g
        \<and> is = allowed_instruments g \<and> a = e(''cn'' := None))"
  by (auto simp: extract_instrument_def split: option.splits list.splits)

lemma add_instrument_entry_get:
  "s \<in> unwrap_or {} (bt_get (add_instrument_entry e m) i) \<longleftrightarrow>
     s \<in> unwrap_or {} (bt_get m i) \<or> entry_grants e i s"
proof (cases "extract_instrument e")
  case (Pair r a)
  then show ?thesis
    by (cases r)
      (auto simp: add_instrument_entry_def entry_grants_def extract_instrument_Inr
        fold_extend_instrument_get set_instrument_iter extract_instrument_def
        split: option.splits list.splits)
qed

lemma fold_add_instrument_entry_get:
  "s \<in> unwrap_or {} (bt_get (fold add_instrument_entry es m) i) \<longleftrightarrow>
     s \<in> unwrap_or {} (bt_get m i) \<or> (\<exists>e \<in> set es. entry_grants e i s)"
  by (induction es arbitrary: m) (auto simp: add_instrument_entry_get)

end
