(* ===== verification/Sessions.thy ===== *)
theory Sessions
  imports Permissionables Visits
begin

text \<open>
  \<^verbatim>\<open>Session\<close> and \<^verbatim>\<open>Sessions\<close> of \<^verbatim>\<open>sessionspaces/src/permissionables/mod.rs\<close> and the
  statically configured sessions of \<^verbatim>\<open>static_sessions.rs\<close>: how the permission tables are
  joined into one session per namespace, and what the joined sessions contain.
\<close>

section \<open>Sessions\<close>

record session =
  s_proposal_code :: string
  s_proposal_number :: u32
  s_visit :: u32
  s_instrument :: instrument
  s_members :: "string set"
  s_gid :: "u32 option"
  s_start_date :: datetime
  s_end_date :: datetime
  s_data_directory :: "string option"

type_synonym sessions = "(string, session) btmap"

definition show_int :: "int \<Rightarrow> string" where
  "show_int i = (if i < 0 then CHR ''-'' # show_nat (nat (- i)) else show_nat (nat i))"

text \<open>The namespace of a session: \<^verbatim>\<open>format!("{}{}-{}", code, number, visit)\<close>.\<close>

definition session_name :: "string \<Rightarrow> u32 \<Rightarrow> u32 \<Rightarrow> string" where
  "session_name c n v = c @ show_u32 n @ ''-'' @ show_u32 v"

text \<open>\<^verbatim>\<open>Display for Session\<close>; the date printer of the time library is an argument.\<close>

definition session_to_string :: "(datetime \<Rightarrow> string) \<Rightarrow> session \<Rightarrow> string" where
  "session_to_string show_dt s =
     ''{ session: '' @ s_proposal_code s @ show_u32 (s_proposal_number s) @ ''-'' @
     show_u32 (s_visit s) @ '', instrument: '' @ instrument_to_string (s_instrument s) @
     '', members: '' @ show_nat (card (s_members s)) @ '', gid: '' @
     (case s_gid s of Some g \<Rightarrow> show_u32 g | None \<Rightarrow> ''None'') @
     '', start: '' @ show_dt (s_start_date s) @ '', end: '' @ show_dt (s_end_date s) @ '' }''"

text \<open>\<^verbatim>\<open>PathBuf::push\<close> and \<^verbatim>\<open>PathBuf::from_iter\<close>: an absolute component replaces the path.\<close>

definition path_push :: "string \<Rightarrow> string \<Rightarrow> string" where
  "path_push p c =
     (if c \<noteq> [] \<and> hd c = CHR ''/'' then c
      else if p = [] \<or> last p = CHR ''/'' then p @ c
      else p @ ''/'' @ c)"

definition path_from_iter :: "string list \<Rightarrow> string" where
  "path_from_iter cs = foldl path_push [] cs"

definition directory_instruments :: "instrument list" where
  "directory_instruments = [
     B01_1, B07, B07_1, B16, B18, B21, B22, B23, B24, B24_1, E01, E02, E03, I03, I04,
     I04_1, I05, I05_1, I06, I06_1, I06_2, I07, I08, I08_1, I09, I09_1, I09_2, I10, I10_1,
     I11, I11_1, I12, I13, I13_1, I14, I15, I15_1, I16, I18, I19, I19_1, I19_2, I20, I20_1,
     I21, I22, I23, I24, K11, M01, M02, M03, M04, M05, M06, M07, M08, M10, M11, M12, M13,
     M14, P02, P29, P32, P33, P38, P45, P99, S01, S02, S03, S04]"

definition session_directory :: "session \<Rightarrow> string option" where
  "session_directory s =
     (if s_instrument s \<in> set directory_instruments
      then Some (path_from_iter
             [''/dls'', instrument_to_string (s_instrument s), ''data'',
              show_int (dt_year (s_start_date s)),
              s_proposal_code s @ show_u32 (s_proposal_number s) @ ''-'' @ show_u32 (s_visit s)])
      else None)"

section \<open>Joining the tables\<close>

text \<open>
  \<^verbatim>\<open>Sessions::new\<close>: a loop over the basic information that takes the direct subjects and the
  posix attributes out of their maps as it goes.
\<close>

fun sessions_loop ::
  "basic_info list \<Rightarrow> subjects \<Rightarrow> subjects \<Rightarrow> instrument_subjects \<Rightarrow>
   session_posix_attributes \<Rightarrow> sessions \<Rightarrow> sessions" where
  "sessions_loop [] direct proposal instr posix sessions = sessions"
| "sessions_loop (b # bs) direct proposal instr posix sessions =
     (let name = bi_proposal_code b @ show_u32 (bi_proposal_number b) @ ''-'' @
                 show_u32 (bi_visit b);
          members = unwrap_or {} (bt_get direct (bi_id b)) \<union>
                    unwrap_or {} (bt_get proposal (bi_proposal_id b)) \<union>
                    unwrap_or {} (bt_get instr (bi_instrument b));
          session = \<lparr>s_proposal_code = bi_proposal_code b,
                     s_proposal_number = bi_proposal_number b, s_visit = bi_visit b,
                     s_instrument = bi_instrument b, s_members = members,
                     s_gid = map_option gid (bt_get posix name),
                     s_start_date = bi_start_date b, s_end_date = bi_end_date b,
                     s_data_directory = None\<rparr>
      in sessions_loop bs (bt_remove (bi_id b) direct) proposal instr
           (bt_remove name posix) (bt_insert name session sessions))"

definition sessions_new ::
  "basic_info list \<Rightarrow> subjects \<Rightarrow> subjects \<Rightarrow> instrument_subjects \<Rightarrow>
   session_posix_attributes \<Rightarrow> sessions" where
  "sessions_new bs direct proposal instr posix =
     sessions_loop bs direct proposal instr posix []"

text \<open>\<^verbatim>\<open>Sessions::fetch\<close>: five queries in order; the first error ends it.\<close>

definition sessions_fetch ::
  "'e + basic_info_row list \<Rightarrow> 'e + subject_row list \<Rightarrow> 'e + subject_row list \<Rightarrow>
   'e + ldap_attrs list \<Rightarrow> 'e + ldap_attrs list \<Rightarrow> 'e + sessions" where
  "sessions_fetch basic_rows direct_rows proposal_rows groups posix_groups =
     rbind (basic_info_fetch basic_rows) (\<lambda>basic_info.
     rbind (direct_subjects_fetch direct_rows) (\<lambda>direct.
     rbind (proposal_subjects_fetch proposal_rows) (\<lambda>proposal.
     rbind (instrument_subjects_fetch groups) (\<lambda>instr.
     rbind (posix_attributes_fetch posix_groups) (\<lambda>posix.
     Inr (sessions_new basic_info direct proposal instr posix))))))"

section \<open>Static sessions\<close>

record static_session_entry =
  e_data_directory :: string
  e_proposal_code :: string
  e_proposal_number :: u32
  e_visits :: "u32 list"
  e_instrument :: instrument
  e_members :: "string set"
  e_gid :: "u32 option"
  e_start_date :: datetime
  e_end_date :: datetime

text \<open>
  How the fields of an entry are read: an instrument by its name, a date and time by \<open>parse\<close>, the
  parser for \<^verbatim>\<open>[year]-[month]-[day] [hour]:[minute]:[second]\<close>. The argument is the field's text.
\<close>

definition deserialize_instrument :: "(string \<Rightarrow> 'e) \<Rightarrow> 'e + string \<Rightarrow> 'e + instrument" where
  "deserialize_instrument custom field =
     rbind field (\<lambda>s. ok_or (custom ''Matching variant not found'') (instrument_from_str s))"

definition deserialize_datetime ::
  "(string \<Rightarrow> 'e) \<Rightarrow> (string \<Rightarrow> string + datetime) \<Rightarrow> 'e + string \<Rightarrow> 'e + datetime" where
  "deserialize_datetime custom parse field = rbind field (\<lambda>s. map_err custom (parse s))"

lemma deserialize_instrument_iff:
  "deserialize_instrument custom field = Inr i \<longleftrightarrow> field = Inr (instrument_to_string i)"
proof (cases field)
  case (Inr s)
  then have "deserialize_instrument custom field = Inr i \<longleftrightarrow> instrument_from_str s = Some i"
    by (cases "instrument_from_str s") (simp_all add: deserialize_instrument_def ok_or_def)
  with Inr show ?thesis by (auto simp: instrument_from_str_iff)
qed (simp add: deserialize_instrument_def)

definition into_sessions :: "static_session_entry \<Rightarrow> (string \<times> session) list" where
  "into_sessions e =
     map (\<lambda>visit.
       (e_proposal_code e @ show_u32 (e_proposal_number e) @ ''-'' @ show_u32 visit,
        \<lparr>s_proposal_code = e_proposal_code e, s_proposal_number = e_proposal_number e,
         s_visit = visit, s_instrument = e_instrument e, s_members = e_members e,
         s_gid = e_gid e, s_start_date = e_start_date e, s_end_date = e_end_date e,
         s_data_directory = Some (e_data_directory e)\<rparr>)) (e_visits e)"

text \<open>
  \<^verbatim>\<open>StaticSessions::from_path\<close>: reading the file and deserialising it are the arguments
  (\<open>Inl\<close> is either error).
\<close>

definition static_sessions_from_path ::
  "'e + string \<Rightarrow> (string \<Rightarrow> 'e + static_session_entry list) \<Rightarrow> 'e + sessions" where
  "static_sessions_from_path content from_str =
     rbind content (\<lambda>c. rbind (from_str c) (\<lambda>entries.
       Inr (fold (\<lambda>e m. fold (\<lambda>(n, s). bt_insert n s) (into_sessions e) m) entries [])))"

definition merge_into :: "sessions \<Rightarrow> sessions \<Rightarrow> sessions" where
  "merge_into static target = fold (\<lambda>(name, session). bt_or_insert name session) static target"

section \<open>Specification\<close>

text \<open>The session one row stands for, read off the tables.\<close>

definition bi_name :: "basic_info \<Rightarrow> string" where
  "bi_name b = session_name (bi_proposal_code b) (bi_proposal_number b) (bi_visit b)"

definition session_of ::
  "subjects \<Rightarrow> subjects \<Rightarrow> instrument_subjects \<Rightarrow> session_posix_attributes \<Rightarrow> basic_info \<Rightarrow> session" where
  "session_of direct proposal instr posix b =
     \<lparr>s_proposal_code = bi_proposal_code b, s_proposal_number = bi_proposal_number b,
      s_visit = bi_visit b, s_instrument = bi_instrument b,
      s_members = unwrap_or {} (bt_get direct (bi_id b)) \<union>
                  unwrap_or {} (bt_get proposal (bi_proposal_id b)) \<union>
                  unwrap_or {} (bt_get instr (bi_instrument b)),
      s_gid = map_option gid (bt_get posix (bi_name b)),
      s_start_date = bi_start_date b, s_end_date = bi_end_date b, s_data_directory = None\<rparr>"

section \<open>Sample data\<close>

text \<open>Concrete rows the witnesses run the model on.\<close>

definition sample_date :: datetime where
  "sample_date = \<lparr>dt_year = 2009, dt_month = 6, dt_day = 19, dt_hour = 9, dt_minute = 0,
     dt_second = 0, dt_nanosecond = 0\<rparr>"

definition sample_row :: basic_info_row where
  "sample_row = \<lparr>row_id = 40, row_proposal_id = 30, row_proposal_code = Some ''sw'',
     row_proposal_number = Some ''10030'', row_visit = Some 1, row_instrument = Some ''i03'',
     row_start_date = Some sample_date, row_end_date = Some sample_date\<rparr>"

definition sample_info :: basic_info where
  "sample_info = \<lparr>bi_id = 40, bi_proposal_id = 30, bi_proposal_code = ''sw'',
     bi_proposal_number = 10030, bi_visit = 1, bi_instrument = I03,
     bi_start_date = sample_date, bi_end_date = sample_date\<rparr>"

definition sample_group :: ldap_attrs where
  "sample_group = [''cn'' \<mapsto> [''i03_staff''], ''memberUid'' \<mapsto> [''staff1'']]"

definition static_sample :: session where
  "static_sample = (session_of [] [] [] [] sample_info)\<lparr>s_data_directory := Some ''/dls/x''\<rparr>"

section \<open>Lemmas\<close>

lemma sessions_loop_Cons:
  "sessions_loop (b # bs) direct proposal instr posix m =
     sessions_loop bs (bt_remove (bi_id b) direct) proposal instr (bt_remove (bi_name b) posix)
       (bt_insert (bi_name b) (session_of direct proposal instr posix b) m)"
  by (simp add: Let_def bi_name_def session_name_def session_of_def)

declare sessions_loop.simps(2) [simp del]

text \<open>
  The last row of a name is the one that stays. Its people are there whatever came before, as long
  as no other row has its id.
\<close>

lemma sessions_loop_keeps:
  "n \<notin> bi_name ` set bs \<Longrightarrow> bt_get (sessions_loop bs direct proposal instr posix m) n = bt_get m n"
  by (induction bs arbitrary: direct posix m) (auto simp: sessions_loop_Cons)

lemma sessions_loop_last:
  assumes "distinct (map bi_id (xs @ b # ys))" and "bi_name b \<notin> bi_name ` set ys"
  shows "\<exists>g. bt_get (sessions_loop (xs @ b # ys) direct proposal instr posix m) (bi_name b) =
    Some ((session_of direct proposal instr posix b)\<lparr>s_gid := g\<rparr>)"
  using assms
proof (induction xs arbitrary: direct posix m)
  case Nil
  let ?s = "session_of direct proposal instr posix b"
  have "?s\<lparr>s_gid := s_gid ?s\<rparr> = ?s" by simp
  with Nil show ?case by (auto simp: sessions_loop_Cons sessions_loop_keeps intro: exI [of _ "s_gid ?s"])
next
  case (Cons x xs)
  have "(session_of (bt_remove (bi_id x) direct) proposal instr posix' b)\<lparr>s_gid := g\<rparr> =
      (session_of direct proposal instr posix b)\<lparr>s_gid := g\<rparr>" for g posix'
    using Cons.prems(1) by (auto simp: session_of_def)
  with Cons.IH [of "bt_remove (bi_id x) direct"] Cons.prems show ?case
    by (simp add: sessions_loop_Cons)
qed

lemma sessions_loop_names:
  "bt_get (sessions_loop bs direct proposal instr posix m) n = None \<longleftrightarrow>
     n \<notin> bi_name ` set bs \<and> bt_get m n = None"
  by (induction bs arbitrary: direct posix m) (auto simp: sessions_loop_Cons)

lemma sessions_loop_wf: "bt_wf m \<Longrightarrow> bt_wf (sessions_loop bs direct proposal instr posix m)"
  by (induction bs arbitrary: direct posix m) (auto simp: sessions_loop_Cons bt_wf_insert)

lemma show_nat_10030: "show_nat 10030 = ''10030''" "show_nat (Suc 0) = ''1''"
  by (simp_all add: show_nat.simps)

lemma sample_try_from: "basic_info_try_from sample_row = Inr sample_info"
proof -
  have "parse_u32 ''10030'' = Inr 10030"
    using parse_show_u32 [of 10030] by (simp add: show_u32_def show_nat_10030)
  moreover have "instrument_from_str ''i03'' = Some I03"
    by (simp add: instrument_from_str_iff)
  ultimately show ?thesis
    by (simp add: basic_info_try_from_def sample_row_def sample_info_def row_code_def
        row_visit_number_def is_alphanumeric_def is_ascii_letter_def code_def)
qed

lemma sample_name: "bi_name sample_info = ''sw10030-1''"
  by (simp add: bi_name_def session_name_def sample_info_def show_u32_def show_nat_10030)

text \<open>
  C34. Who gets into a namespace. When the five queries succeed, and the rows have different session
  ids, there is one session for every name among the rows and no other. It is that of the last
  row of its name: it has that row's instrument, and its members are exactly the people
  the session table lists for the row, the people the proposal table lists for its proposal, and
  the members of the directory groups that open its instrument.
\<close>

theorem sessions_fetch_members:
  assumes fetched: "sessions_fetch (Inr rows) (Inr drows) (Inr prows) (Inr groups) (Inr pgroups) = (Inr ss :: 'e + _)"
    and rows: "basic_info_fetch (Inr rows) = (Inr bs :: 'e + _)"
    and ids: "distinct (map bi_id bs)"
  shows "(\<forall>n. bt_get ss n \<noteq> None \<longleftrightarrow> n \<in> bi_name ` set bs) \<and>
    (\<forall>xs b ys. bs = xs @ b # ys \<and> bi_name b \<notin> bi_name ` set ys \<longrightarrow>
      (\<exists>s. bt_get ss (bi_name b) = Some s \<and> s_instrument s = bi_instrument b \<and>
        (\<forall>u. u \<in> s_members s \<longleftrightarrow>
           (Some u, bi_id b) \<in> set drows \<or> (Some u, bi_proposal_id b) \<in> set prows \<or>
           (\<exists>e \<in> set groups. entry_grants e (bi_instrument b) u))))"
proof -
  let ?d = "fold add_subject drows []" and ?p = "fold add_subject prows []"
    and ?i = "fold add_instrument_entry groups []" and ?g = "fold add_posix_entry pgroups []"
  have ss: "ss = sessions_loop bs ?d ?p ?i ?g []"
    using fetched rows
    by (simp add: sessions_fetch_def direct_subjects_fetch_def proposal_subjects_fetch_def
        instrument_subjects_fetch_def posix_attributes_fetch_def sessions_new_def)
  have "\<exists>s. bt_get ss (bi_name b) = Some s \<and> s_instrument s = bi_instrument b \<and>
        (\<forall>u. u \<in> s_members s \<longleftrightarrow>
           (Some u, bi_id b) \<in> set drows \<or> (Some u, bi_proposal_id b) \<in> set prows \<or>
           (\<exists>e \<in> set groups. entry_grants e (bi_instrument b) u))"
    if bs: "bs = xs @ b # ys" and last: "bi_name b \<notin> bi_name ` set ys" for xs b ys
  proof -
    have "distinct (map bi_id (xs @ b # ys))" using ids unfolding bs .
    from sessions_loop_last [OF this last, of ?d ?p ?i ?g "[]"]
    obtain g where "bt_get ss (bi_name b) = Some ((session_of ?d ?p ?i ?g b)\<lparr>s_gid := g\<rparr>)"
      unfolding ss bs by blast
    then show ?thesis
      by (auto simp: session_of_def fold_add_subject_get fold_add_instrument_entry_get)
  qed
  moreover have "bt_get ss n \<noteq> None \<longleftrightarrow> n \<in> bi_name ` set bs" for n
    unfolding ss sessions_loop_names by simp
  ultimately show ?thesis by blast
qed

theorem sessions_fetch_members_witness:
  "\<exists>ss s. sessions_fetch (Inr [sample_row]) (Inr [(Some ''user1'', 40), (None, 40)])
        (Inr [(Some ''user2'', 30), (Some ''user3'', 31)]) (Inr [sample_group]) (Inr [])
        = (Inr ss :: string + sessions)
     \<and> bt_get ss ''sw10030-1'' = Some s
     \<and> ''user1'' \<in> s_members s \<and> ''user2'' \<in> s_members s \<and> ''staff1'' \<in> s_members s
     \<and> ''user3'' \<notin> s_members s"
proof -
  let ?d = "[(Some ''user1'', 40), (None, 40)] :: subject_row list"
  let ?p = "[(Some ''user2'', 30), (Some ''user3'', 31)] :: subject_row list"
  obtain ss :: sessions where f: "sessions_fetch (Inr [sample_row]) (Inr ?d) (Inr ?p)
      (Inr [sample_group]) (Inr []) = (Inr ss :: string + sessions)"
    by (simp add: sessions_fetch_def basic_info_fetch_def direct_subjects_fetch_def
        proposal_subjects_fetch_def instrument_subjects_fetch_def posix_attributes_fetch_def)
  have rows: "basic_info_fetch (Inr [sample_row]) = (Inr [sample_info] :: string + _)"
    by (simp add: basic_info_fetch_def sample_try_from map_filter_simps)
  have g: "instrument_group_from_str ''i03_staff'' = Some I03Staff"
    by (simp add: instrument_group_from_str_def instrument_group_table_def)
  have "[sample_info] = [] @ sample_info # []" "bi_name sample_info \<notin> bi_name ` set []" by simp_all
  with sessions_fetch_members [OF f rows, THEN conjunct2, rule_format, of "[]" sample_info "[]"] obtain s
    where s: "bt_get ss (bi_name sample_info) = Some s"
      and m: "\<forall>u. u \<in> s_members s \<longleftrightarrow> (Some u, bi_id sample_info) \<in> set ?d \<or>
         (Some u, bi_proposal_id sample_info) \<in> set ?p \<or>
         (\<exists>e \<in> set [sample_group]. entry_grants e (bi_instrument sample_info) u)"
    by auto
  have "u \<in> s_members s \<longleftrightarrow> u = ''user1'' \<or> u = ''user2'' \<or> u = ''staff1''" for u
    using m by (auto simp: sample_info_def entry_grants_def sample_group_def g)
  with f s show ?thesis by (auto simp: sample_name)
qed

text \<open>
  Two rows with the same namespace: the posix attributes are taken out of their map when
  the first of them is built, so the session that replaces it has no group id, whatever the
  directory says.
\<close>

theorem duplicate_name_loses_gid:
  assumes "bi_name b \<in> bi_name ` set xs" and "bi_name b \<notin> bi_name ` set ys"
  shows "\<exists>s. bt_get (sessions_new (xs @ b # ys) direct proposal instr posix) (bi_name b) = Some s
    \<and> s_gid s = None"
proof -
  have keep: "bt_get (sessions_loop ys direct proposal instr posix m) n = bt_get m n"
    if "n \<notin> bi_name ` set ys" for direct posix m n ys
    using that by (induction ys arbitrary: direct posix m) (auto simp: sessions_loop_Cons)
  have "\<exists>s. bt_get (sessions_loop (xs @ b # ys) direct proposal instr posix m) (bi_name b) = Some s
      \<and> s_gid s = None"
    if "bt_get posix (bi_name b) = None \<or> bi_name b \<in> bi_name ` set xs" for direct posix m
    using that
  proof (induction xs arbitrary: direct posix m)
    case Nil
    with assms(2) show ?case by (auto simp: sessions_loop_Cons keep session_of_def)
  next
    case (Cons x xs)
    then have "bt_get (bt_remove (bi_name x) posix) (bi_name b) = None
        \<or> bi_name b \<in> bi_name ` set xs" by auto
    then show ?case using Cons.IH by (simp add: sessions_loop_Cons)
  qed
  with assms(1) show ?thesis by (simp add: sessions_new_def)
qed

theorem duplicate_name_loses_gid_witness:
  "\<exists>s. bt_get (sessions_new [sample_info, sample_info] [] [] [] [(''sw10030-1'', \<lparr>gid = 7\<rparr>)])
      ''sw10030-1'' = Some s \<and> s_gid s = None"
  using duplicate_name_loses_gid
    [of sample_info "[sample_info]" "[]" "[]" "[]" "[]" "[(''sw10030-1'', \<lparr>gid = 7\<rparr>)]"]
  by (simp add: sample_name)

text \<open>
  Static sessions never replace a session of ISPyB with the same name, and every static
  session whose name is free is added.
\<close>

theorem merge_into_get:
  assumes "bt_wf target"
  shows "bt_get (merge_into static target) n =
    (case bt_get target n of Some s \<Rightarrow> Some s | None \<Rightarrow> bt_get static n)"
  using bt.look_or_ins_all [OF assms, of static n]
  by (simp add: merge_into_def bt_get_def [of static] cong: option.case_cong)

theorem merge_into_get_witness:
  "bt_get (merge_into [(''a1-1'', static_sample), (''b1-1'', static_sample)]
       [(''a1-1'', session_of [] [] [] [] sample_info)]) ''a1-1''
     = Some (session_of [] [] [] [] sample_info)
   \<and> bt_get (merge_into [(''a1-1'', static_sample), (''b1-1'', static_sample)]
       [(''a1-1'', session_of [] [] [] [] sample_info)]) ''b1-1'' = Some static_sample"
proof -
  have wf: "bt_wf [(''a1-1'', session_of [] [] [] [] sample_info)]" by (simp add: bt_wf_def)
  show ?thesis
    using merge_into_get [OF wf, of "[(''a1-1'', static_sample), (''b1-1'', static_sample)]"]
    by simp
qed

lemma session_name_inj:
  assumes "visit_code_ok c" and "visit_code_ok c'" and "session_name c n v = session_name c' n' v'"
  shows "c = c' \<and> n = n' \<and> v = v'"
proof -
  have "Some (c, show_u32 n, show_u32 v) = Some (c', show_u32 n', show_u32 v')"
    using visit_captures_display [OF assms(1), of n v]
      visit_captures_display [OF assms(2), of n' v'] assms(3)
    unfolding session_name_def append_Cons append_Nil by (simp only:)
  then show ?thesis by (simp add: show_u32_inj)
qed

end
