(* ===== verification/Reconciler.thy ===== *)
theory Reconciler
  imports Sessions
begin

text \<open>
  The control loop of \<^verbatim>\<open>sessionspaces/src/main.rs\<close> and the Kubernetes resources of
  \<^verbatim>\<open>sessionspaces/src/resources\<close>: each tick compares the sessions it last applied with the
  sessions it fetched and creates, updates or deletes one namespace per difference.

  The Kubernetes API is a parameter: a record of requests on the state \<open>'w\<close> of the cluster,
  each with its answer. \<open>documented_client\<close> states what the API promises of them.
\<close>

section \<open>Resources\<close>

definition MANAGED_BY_LABEL :: string where
  "MANAGED_BY_LABEL = ''app.kubernetes.io/managed-by''"

definition MANAGED_BY :: string where
  "MANAGED_BY = ''sessionspaces''"

definition NAME :: string where
  "NAME = ''sessionspaces''"

record k8s_namespace =
  ns_name :: string
  ns_labels :: "(string, string) btmap"

record configmap =
  cm_name :: string
  cm_labels :: "(string, string) btmap"
  cm_data :: "(string, string) btmap"

datatype kube_error = KubeApi nat string | KubeOther string

datatype update_error = KubeFailed kube_error | SerializeFailed string

text \<open>The requests the resources make: get, delete and server-side apply.\<close>

record 'w kube_client =
  get_namespace :: "string \<Rightarrow> ('w, kube_error, unit) eff"
  delete_namespace_req :: "string \<Rightarrow> ('w, kube_error, unit) eff"
  apply_namespace :: "string \<Rightarrow> k8s_namespace \<Rightarrow> ('w, kube_error, unit) eff"
  apply_configmap :: "string \<Rightarrow> string \<Rightarrow> configmap \<Rightarrow> ('w, kube_error, unit) eff"

definition delete_namespace :: "'w kube_client \<Rightarrow> string \<Rightarrow> ('w, kube_error, unit) eff" where
  "delete_namespace client namespace w =
     (case get_namespace client namespace w of
        (Inr _, w') \<Rightarrow> delete_namespace_req client namespace w'
      | (Inl (KubeApi c msg), w') \<Rightarrow>
          (if c = 404 then (Inr (), w') else (Inl (KubeApi c msg), w'))
      | (Inl e, w') \<Rightarrow> (Inl e, w'))"

definition create_namespace :: "'w kube_client \<Rightarrow> string \<Rightarrow> ('w, kube_error, unit) eff" where
  "create_namespace client namespace =
     apply_namespace client namespace
       \<lparr>ns_name = namespace, ns_labels = [(MANAGED_BY_LABEL, MANAGED_BY)]\<rparr>"

text \<open>
  What the libraries print: the set of members as JSON (which may fail) and a date.
\<close>

record printers =
  members_json :: "string set \<Rightarrow> string + string"
  show_datetime :: "datetime \<Rightarrow> string"

definition configmap_data :: "printers \<Rightarrow> session \<Rightarrow> string + (string, string) btmap" where
  "configmap_data pr session =
     (let mount_path = (case s_data_directory session of
                          Some d \<Rightarrow> Some d | None \<Rightarrow> session_directory session)
      in rbind (members_json pr (s_members session)) (\<lambda>members.
         let data = fold (\<lambda>(k, v). bt_insert k v)
               [(''proposal_code'', s_proposal_code session),
                (''proposal_number'', show_u32 (s_proposal_number session)),
                (''visit'', show_u32 (s_visit session)),
                (''instrument'', instrument_to_string (s_instrument session)),
                (''members'', members),
                (''start_date'', show_datetime pr (s_start_date session)),
                (''end_date'', show_datetime pr (s_end_date session))] [];
             data = (case s_gid session of
                       Some g \<Rightarrow> bt_insert ''gid'' (show_u32 g) data | None \<Rightarrow> data);
             data = (case mount_path of
                       Some p \<Rightarrow> bt_insert ''data_directory'' p data | None \<Rightarrow> data)
         in Inr data))"

definition session_configmap :: "(string, string) btmap \<Rightarrow> configmap" where
  "session_configmap data =
     \<lparr>cm_name = NAME, cm_labels = [(MANAGED_BY_LABEL, MANAGED_BY)], cm_data = data\<rparr>"

definition create_configmap ::
  "printers \<Rightarrow> 'w kube_client \<Rightarrow> string \<Rightarrow> session \<Rightarrow> ('w, update_error, unit) eff" where
  "create_configmap pr client namespace session =
     ebind (lift_res (map_err SerializeFailed (configmap_data pr session))) (\<lambda>data.
     emap_err KubeFailed (apply_configmap client namespace NAME (session_configmap data)))"

section \<open>One namespace\<close>

text \<open>The two session maps \<^verbatim>\<open>update_sessionspace\<close> mutates, and the cluster.\<close>

record 'w recon =
  current_sessions :: sessions
  new_sessions :: sessions
  cluster :: 'w

definition on_cluster :: "('w, 'e, 'a) eff \<Rightarrow> ('w recon, 'e, 'a) eff" where
  "on_cluster m st = (case m (cluster st) of (r, w) \<Rightarrow> (r, st\<lparr>cluster := w\<rparr>))"

definition set_current :: "(sessions \<Rightarrow> sessions) \<Rightarrow> ('w recon, 'e, unit) eff" where
  "set_current f st = (Inr (), st\<lparr>current_sessions := f (current_sessions st)\<rparr>)"

definition update_sessionspace ::
  "printers \<Rightarrow> 'w kube_client \<Rightarrow> string \<Rightarrow> ('w recon, update_error, unit) eff" where
  "update_sessionspace pr client namespace st =
     (let current = bt_get (current_sessions st) namespace;
          new = bt_get (new_sessions st) namespace;
          st = st\<lparr>new_sessions := bt_remove namespace (new_sessions st)\<rparr>
      in case (current, new) of
           (Some _, None) \<Rightarrow>
             ebind (on_cluster (emap_err KubeFailed (delete_namespace client namespace)))
               (\<lambda>_. set_current (bt_remove namespace)) st
         | (None, Some new_session) \<Rightarrow>
             ebind (on_cluster (emap_err KubeFailed (create_namespace client namespace))) (\<lambda>_.
             ebind (on_cluster (create_configmap pr client namespace new_session)) (\<lambda>_.
             set_current (bt_insert namespace new_session))) st
         | (Some current_session, Some new_session) \<Rightarrow>
             (if current_session \<noteq> new_session
              then ebind (on_cluster (create_configmap pr client namespace new_session)) (\<lambda>_.
                   set_current (bt_insert namespace new_session)) st
              else (Inr (), st))
         | (None, None) \<Rightarrow> (Inr (), st))"

section \<open>All namespaces\<close>

text \<open>The loop goes on after an error, which is only logged; \<open>warnings\<close> is that log.\<close>

fun update_each ::
  "printers \<Rightarrow> 'w kube_client \<Rightarrow> string list \<Rightarrow> 'w recon \<Rightarrow>
   (string \<times> update_error) list \<times> 'w recon" where
  "update_each pr client [] st = ([], st)"
| "update_each pr client (n # ns) st =
     (case update_sessionspace pr client n st of (r, st') \<Rightarrow>
      case update_each pr client ns st' of (warnings, st'') \<Rightarrow>
        ((case r of Inl e \<Rightarrow> [(n, e)] | Inr _ \<Rightarrow> []) @ warnings, st''))"

definition names_to_update :: "sessions \<Rightarrow> sessions \<Rightarrow> string list" where
  "names_to_update current new = sort (remdups (bt_keys current @ bt_keys new))"

definition update_sessionspaces ::
  "printers \<Rightarrow> 'w kube_client \<Rightarrow> 'w recon \<Rightarrow> (string \<times> update_error) list \<times> 'w recon" where
  "update_sessionspaces pr client st =
     update_each pr client (names_to_update (current_sessions st) (new_sessions st)) st"

text \<open>One turn of the loop in \<^verbatim>\<open>main\<close>: the sessions applied so far, and the cluster.\<close>

definition tick ::
  "printers \<Rightarrow> 'w kube_client \<Rightarrow> sessions option \<Rightarrow> 'e + sessions \<Rightarrow>
   sessions \<times> 'w \<Rightarrow> (string \<times> update_error) list \<times> sessions \<times> 'w" where
  "tick pr client static fetched cw =
     (case fetched of
        Inl _ \<Rightarrow> ([], cw)
      | Inr new \<Rightarrow>
          (let new = (case static of Some s \<Rightarrow> merge_into s new | None \<Rightarrow> new)
           in case update_sessionspaces pr client
                     \<lparr>current_sessions = fst cw, new_sessions = new, cluster = snd cw\<rparr> of
                (warnings, st) \<Rightarrow> (warnings, current_sessions st, cluster st)))"

fun run_ticks ::
  "printers \<Rightarrow> 'w kube_client \<Rightarrow> sessions option \<Rightarrow> ('e + sessions) list \<Rightarrow>
   sessions \<times> 'w \<Rightarrow> sessions \<times> 'w" where
  "run_ticks pr client static [] cw = cw"
| "run_ticks pr client static (f # fs) cw =
     run_ticks pr client static fs (snd (tick pr client static f cw))"

section \<open>What one update does\<close>

lemma update_sessionspace_sessions:
  assumes "update_sessionspace pr client n st = (r, st')"
  shows "new_sessions st' = bt_remove n (new_sessions st)"
    and "bt_get (current_sessions st') k =
      (if k = n \<and> r = Inr () then bt_get (new_sessions st) n else bt_get (current_sessions st) k)"
  using assms
  by (auto simp: update_sessionspace_def Let_def on_cluster_def ebind_def set_current_def
      split: option.splits prod.splits sum.splits if_splits)

text \<open>A list of distinct names is worked through once, whatever fails on the way.\<close>

lemma update_each_sessions:
  assumes "update_each pr client ns st = (warnings, st')" and "distinct ns"
  shows "bt_get (new_sessions st') k = (if k \<in> set ns then None else bt_get (new_sessions st) k) \<and>
    bt_get (current_sessions st') k =
      (if k \<in> set ns \<and> k \<notin> fst ` set warnings then bt_get (new_sessions st) k
       else bt_get (current_sessions st) k) \<and>
    fst ` set warnings \<subseteq> set ns \<and> distinct (map fst warnings)"
  using assms
proof (induction ns arbitrary: st warnings)
  case (Cons n ns)
  obtain r st1 where one: "update_sessionspace pr client n st = (r, st1)"
    by (cases "update_sessionspace pr client n st")
  obtain ws where rest: "update_each pr client ns st1 = (ws, st')"
    and ws: "warnings = (case r of Inl e \<Rightarrow> [(n, e)] | Inr _ \<Rightarrow> []) @ ws"
    using Cons.prems one by (auto split: prod.splits)
  have "n \<notin> set ns" "distinct ns" using Cons.prems by simp_all
  then show ?case
    using Cons.IH[OF rest] update_sessionspace_sessions(1)[OF one]
      update_sessionspace_sessions(2)[OF one, of k] ws
    by (cases r) (auto)
qed simp

lemma names_to_update_set:
  "set (names_to_update cur new) = {k. bt_get cur k \<noteq> None \<or> bt_get new k \<noteq> None}"
  "distinct (names_to_update cur new)"
  by (auto simp: names_to_update_def set_bt_keys)

lemma update_each_idle:
  assumes "\<And>n. n \<in> set ns \<Longrightarrow> bt_get (current_sessions st) n = bt_get (new_sessions st) n"
    and "distinct ns"
  shows "\<exists>new. update_each pr client ns st = ([], st\<lparr>new_sessions := new\<rparr>)"
  using assms
proof (induction ns arbitrary: st)
  case (Cons n ns)
  let ?st = "st\<lparr>new_sessions := bt_remove n (new_sessions st)\<rparr>"
  have "update_sessionspace pr client n st = (Inr (), ?st)"
    using Cons.prems(1)[of n]
    by (auto simp: update_sessionspace_def Let_def split: option.splits)
  moreover have "\<exists>new. update_each pr client ns ?st = ([], ?st\<lparr>new_sessions := new\<rparr>)"
    using Cons.prems by (intro Cons.IH) (auto simp: image_iff)
  ultimately show ?case by auto
next
  case Nil
  show ?case by (auto intro: exI[of _ "new_sessions st"])
qed

section \<open>The cluster\<close>

text \<open>
  A cluster as the reconciler sees it: each namespace is gone, or being terminated, or there, with its
  ConfigMap \<^verbatim>\<open>sessionspaces\<close> once it has one. At any time the termination of a namespace may come
  to its end; nobody else changes what the reconciler looks after.
\<close>

datatype namespace_state = Gone | Terminating | There "configmap option"

type_synonym cluster_view = "string \<Rightarrow> namespace_state"

definition settles :: "namespace_state \<Rightarrow> namespace_state \<Rightarrow> bool" where
  "settles x y \<longleftrightarrow> y = x \<or> x = Terminating \<and> y = Gone"

text \<open>
  What a request does that takes effect. Deleting only starts the termination. Applying a namespace
  makes one that is gone, keeps the content of one that is there, and does not stop a termination. A
  ConfigMap is applied in a namespace that is not gone; what a namespace that is being
  terminated holds does not matter.
\<close>

definition ns_deleted :: "namespace_state \<Rightarrow> namespace_state \<Rightarrow> bool" where
  "ns_deleted x y \<longleftrightarrow> (\<forall>c. y \<noteq> There c)"

definition ns_applied :: "namespace_state \<Rightarrow> namespace_state \<Rightarrow> bool" where
  "ns_applied x y \<longleftrightarrow>
     (case x of
        Gone \<Rightarrow> y = There None
      | There c \<Rightarrow> y = There c
      | Terminating \<Rightarrow> y \<in> {Terminating, Gone, There None})"

definition cm_applied :: "configmap \<Rightarrow> namespace_state \<Rightarrow> namespace_state \<Rightarrow> bool" where
  "cm_applied cm x y \<longleftrightarrow>
     (case x of
        Gone \<Rightarrow> False
      | There c \<Rightarrow> y = There (Some cm)
      | Terminating \<Rightarrow> y \<in> {Terminating, Gone})"

text \<open>
  A request that is answered takes effect; one that is refused, with a status from 400 on and below
  500, does not. After any other error, a server error, a time-out or a lost connection, it may have
  taken effect or not. No request changes another namespace.
\<close>

definition refused :: "kube_error \<Rightarrow> bool" where
  "refused e = (case e of KubeApi c msg \<Rightarrow> 400 \<le> c \<and> c < 500 | KubeOther msg \<Rightarrow> False)"

definition refused_update :: "update_error \<Rightarrow> bool" where
  "refused_update e = (case e of KubeFailed k \<Rightarrow> refused k | SerializeFailed msg \<Rightarrow> True)"

definition changes_one ::
  "('e \<Rightarrow> bool) \<Rightarrow> (namespace_state \<Rightarrow> namespace_state \<Rightarrow> bool) \<Rightarrow> string \<Rightarrow> 'e + unit \<Rightarrow>
     cluster_view \<Rightarrow> cluster_view \<Rightarrow> bool" where
  "changes_one no_effect takes_effect n r v v' \<longleftrightarrow>
     (case r of
        Inr _ \<Rightarrow> takes_effect (v n) (v' n)
      | Inl e \<Rightarrow> settles (v n) (v' n) \<or> \<not> no_effect e \<and> takes_effect (v n) (v' n)) \<and>
     (\<forall>k. k \<noteq> n \<longrightarrow> settles (v k) (v' k))"

text \<open>
  What the Kubernetes API promises: reading changes nothing and answers 404 only for a namespace
  that is gone, and the other requests do what they say.
\<close>

definition documented_client :: "'w kube_client \<Rightarrow> ('w \<Rightarrow> cluster_view) \<Rightarrow> bool" where
  "documented_client client view \<longleftrightarrow>
     (\<forall>n w r w'. get_namespace client n w = (r, w') \<longrightarrow>
        (\<forall>k. settles (view w k) (view w' k)) \<and>
        (\<forall>msg. r = Inl (KubeApi 404 msg) \<longrightarrow> view w' n = Gone)) \<and>
     (\<forall>n w r w'. delete_namespace_req client n w = (r, w') \<longrightarrow>
        changes_one refused ns_deleted n r (view w) (view w')) \<and>
     (\<forall>n ns w r w'. apply_namespace client n ns w = (r, w') \<longrightarrow>
        changes_one refused ns_applied n r (view w) (view w')) \<and>
     (\<forall>n cm w r w'. apply_configmap client n NAME cm w = (r, w') \<longrightarrow>
        changes_one refused (cm_applied cm) n r (view w) (view w'))"

definition holds_session :: "printers \<Rightarrow> cluster_view \<Rightarrow> string \<Rightarrow> session \<Rightarrow> bool" where
  "holds_session pr v n s =
     (case configmap_data pr s of
        Inl _ \<Rightarrow> False
      | Inr data \<Rightarrow> v n = There (Some (session_configmap data)))"

text \<open>The record is right about a name; what is not recorded is not being terminated.\<close>

definition realised :: "printers \<Rightarrow> cluster_view \<Rightarrow> sessions \<Rightarrow> string \<Rightarrow> bool" where
  "realised pr v current n =
     (case bt_get current n of
        Some s \<Rightarrow> holds_session pr v n s
      | None \<Rightarrow> v n \<noteq> Terminating)"

lemma settles_simps [simp]:
  "settles x x" "settles Gone y \<longleftrightarrow> y = Gone" "settles (There c) y \<longleftrightarrow> y = There c"
  by (auto simp: settles_def)

lemma settles_trans: "settles x y \<Longrightarrow> settles y z \<Longrightarrow> settles x z"
  by (auto simp: settles_def)

lemma settles_not_there: "settles x y \<Longrightarrow> \<forall>c. x \<noteq> There c \<Longrightarrow> \<forall>c. y \<noteq> There c"
  by (auto simp: settles_def)

lemma holds_session_settles: "settles (v n) (v' n) \<Longrightarrow> holds_session pr v n s \<Longrightarrow> holds_session pr v' n s"
  by (auto simp: holds_session_def split: sum.splits)

lemma realised_settles:
  "settles (v n) (v' n) \<Longrightarrow> bt_get cur' n = bt_get cur n \<Longrightarrow> realised pr v cur n \<Longrightarrow> realised pr v' cur' n"
  by (auto simp: realised_def settles_def holds_session_def split: option.splits sum.splits)

lemma changes_one_frame: "changes_one f E n r v v' \<Longrightarrow> k \<noteq> n \<Longrightarrow> settles (v k) (v' k)"
  by (simp add: changes_one_def)

lemma documented_clientD:
  assumes "documented_client client view"
  shows "get_namespace client n w = (r, w') \<Longrightarrow> settles (view w k) (view w' k)"
    and "get_namespace client n w = (Inl (KubeApi 404 msg), w') \<Longrightarrow> view w' n = Gone"
    and "delete_namespace_req client n w = (r, w') \<Longrightarrow> changes_one refused ns_deleted n r (view w) (view w')"
    and "apply_namespace client n ns w = (r, w') \<Longrightarrow> changes_one refused ns_applied n r (view w) (view w')"
    and "apply_configmap client n NAME cm w = (r, w') \<Longrightarrow>
      changes_one refused (cm_applied cm) n r (view w) (view w')"
  using assms unfolding documented_client_def by blast+

lemma delete_namespace_changes:
  assumes dc: "documented_client client view" and "delete_namespace client n w = (r, w')"
  shows "changes_one refused ns_deleted n r (view w) (view w')"
proof -
  obtain g w1 where g: "get_namespace client n w = (g, w1)" by (cases "get_namespace client n w")
  note get = documented_clientD(1) [OF dc g]
  consider "delete_namespace_req client n w1 = (r, w')"
    | "r = Inr ()" "w' = w1" "view w1 n = Gone" | e where "r = Inl e" "w' = w1"
    using assms(2) g documented_clientD(2) [OF dc]
    by (fastforce simp: delete_namespace_def split: sum.splits kube_error.splits if_splits)
  then show ?thesis
  proof cases
    case 1
    then have "changes_one refused ns_deleted n r (view w1) (view w')" by (rule documented_clientD(3) [OF dc])
    then show ?thesis using get settles_trans by (fastforce simp: changes_one_def ns_deleted_def split: sum.splits)
  qed (use get in \<open>auto simp: changes_one_def ns_deleted_def\<close>)
qed

lemma create_configmap_changes:
  assumes dc: "documented_client client view" and "create_configmap pr client n s w = (r, w')"
  shows "(\<exists>data. configmap_data pr s = Inr data \<and>
      changes_one refused_update (cm_applied (session_configmap data)) n r (view w) (view w')) \<or>
    (\<exists>msg. configmap_data pr s = Inl msg \<and> r = Inl (SerializeFailed msg) \<and> w' = w)"
proof (cases "configmap_data pr s")
  case (Inr data)
  then obtain r1 where "apply_configmap client n NAME (session_configmap data) w = (r1, w')"
    and r: "r = map_err KubeFailed r1"
    using assms(2) by (auto simp: create_configmap_def ebind_def emap_err_def split: prod.splits)
  from documented_clientD(5) [OF dc this(1)] Inr r show ?thesis
    by (cases r1) (auto simp: changes_one_def refused_update_def)
next
  case (Inl msg)
  then show ?thesis using assms(2) by (auto simp: create_configmap_def ebind_def)
qed

lemma on_cluster_run:
  "on_cluster m st = (r, st') \<longleftrightarrow> (\<exists>w. m (cluster st) = (r, w) \<and> st' = st\<lparr>cluster := w\<rparr>)"
  by (auto simp: on_cluster_def split: prod.splits)

section \<open>What an update does to the cluster\<close>

text \<open>
  An update deletes the namespace, applies it with its ConfigMap, applies the ConfigMap, or does
  nothing; \<open>updated\<close> is what that makes of the namespace, by its result.
\<close>

definition updated ::
  "printers \<Rightarrow> session option \<Rightarrow> session option \<Rightarrow> update_error + unit \<Rightarrow>
     namespace_state \<Rightarrow> namespace_state \<Rightarrow> bool" where
  "updated pr current new r x y \<longleftrightarrow>
     (case new of
        None \<Rightarrow>
          (if current = None then y = x
           else case r of Inr _ \<Rightarrow> ns_deleted x y | Inl e \<Rightarrow> settles x y \<or> \<not> refused_update e)
      | Some s \<Rightarrow>
          (if current = new then y = x \<and> r = Inr ()
           else case r of
             Inr _ \<Rightarrow> \<exists>data z. configmap_data pr s = Inr data \<and>
               (if current = None then ns_applied x z else z = x) \<and> cm_applied (session_configmap data) z y
           | Inl e \<Rightarrow> (if current = None then x \<noteq> Terminating \<longrightarrow> y \<noteq> Terminating
                       else settles x y \<or> \<not> refused_update e)))"

lemma terminating_simps [simp]:
  "settles x Terminating \<longleftrightarrow> x = Terminating" "ns_applied x Terminating \<longleftrightarrow> x = Terminating"
  "cm_applied cm x Terminating \<longleftrightarrow> x = Terminating"
  by (cases x; auto simp: settles_def ns_applied_def cm_applied_def)+

lemma there_simps [simp]:
  "ns_applied (There c) y \<longleftrightarrow> y = There c" "ns_applied Gone y \<longleftrightarrow> y = There None"
  "cm_applied cm (There c) y \<longleftrightarrow> y = There (Some cm)" "\<not> cm_applied cm Gone y"
  by (simp_all add: ns_applied_def cm_applied_def)

lemma update_sessionspace_updated:
  assumes dc: "documented_client client view" and u: "update_sessionspace pr client n st = (r, st')"
  shows "updated pr (bt_get (current_sessions st) n) (bt_get (new_sessions st) n) r
      (view (cluster st) n) (view (cluster st') n) \<and>
    (k \<noteq> n \<longrightarrow> settles (view (cluster st) k) (view (cluster st') k))"
proof (cases "bt_get (current_sessions st) n"; cases "bt_get (new_sessions st) n")
  fix s
  assume c: "bt_get (current_sessions st) n = Some s" and new: "bt_get (new_sessions st) n = None"
  then obtain r1 where "delete_namespace client n (cluster st) = (r1, cluster st')" "r = map_err KubeFailed r1"
    using u by (auto simp: update_sessionspace_def Let_def ebind_def on_cluster_def emap_err_def
        set_current_def map_err_def split: prod.splits sum.splits)
  with delete_namespace_changes [OF dc this(1)] c new show ?thesis
    by (cases r1) (auto simp: updated_def changes_one_def refused_update_def)
next
  fix s
  assume c: "bt_get (current_sessions st) n = None" and new: "bt_get (new_sessions st) n = Some s"
  obtain r1 w1 where ns: "create_namespace client n (cluster st) = (r1, w1)"
    by (cases "create_namespace client n (cluster st)")
  have applied: "changes_one refused ns_applied n r1 (view (cluster st)) (view w1)"
    using ns documented_clientD(4) [OF dc] unfolding create_namespace_def by blast
  show ?thesis
  proof (cases r1)
    case (Inl e)
    then have "r = Inl (KubeFailed e)" "cluster st' = w1"
      using u ns c new by (auto simp: update_sessionspace_def Let_def ebind_def on_cluster_def emap_err_def)
    with applied Inl c new show ?thesis
      by (auto simp: updated_def changes_one_def)
  next
    case (Inr v)
    then have "create_configmap pr client n s w1 = (r, cluster st')"
      using u ns c new
      by (auto simp: update_sessionspace_def Let_def ebind_def on_cluster_def emap_err_def set_current_def
          split: prod.splits sum.splits)
    from create_configmap_changes [OF dc this] applied Inr c new show ?thesis
      by (cases r) (auto simp: updated_def changes_one_def intro: settles_trans)
  qed
next
  fix s s'
  assume c: "bt_get (current_sessions st) n = Some s" and new: "bt_get (new_sessions st) n = Some s'"
  show ?thesis
  proof (cases "s = s'")
    case False
    then have "create_configmap pr client n s' (cluster st) = (r, cluster st')"
      using u c new
      by (auto simp: update_sessionspace_def Let_def ebind_def on_cluster_def set_current_def
          split: prod.splits sum.splits)
    from create_configmap_changes [OF dc this] False c new show ?thesis
      by (cases r) (auto simp: updated_def changes_one_def)
  qed (use u c new in \<open>auto simp: update_sessionspace_def Let_def updated_def\<close>)
qed (use u in \<open>auto simp: update_sessionspace_def Let_def updated_def\<close>)

text \<open>For a name the record is right about: what a success makes of it, and when it stays right.\<close>

definition as_wanted :: "printers \<Rightarrow> cluster_view \<Rightarrow> string \<Rightarrow> session option \<Rightarrow> session option \<Rightarrow> bool" where
  "as_wanted pr v n current new \<longleftrightarrow>
     (case new of
        Some s \<Rightarrow> holds_session pr v n s
      | None \<Rightarrow> current \<noteq> None \<longrightarrow> (\<forall>c. v n \<noteq> There c))"

lemma as_wanted_settles:
  "settles (v n) (v' n) \<Longrightarrow> as_wanted pr v n current new \<Longrightarrow> as_wanted pr v' n current new"
  by (auto simp: as_wanted_def intro: holds_session_settles dest: settles_not_there split: option.splits)

lemma updated_success:
  assumes "updated pr (bt_get cur n) new (Inr ()) (v0 n) (v n)" and "realised pr v0 cur n"
  shows "as_wanted pr v n (bt_get cur n) new"
  using assms
  by (cases "v0 n") (auto simp: updated_def holds_session_def ns_deleted_def realised_def as_wanted_def
      split: option.splits sum.splits if_splits)

lemma update_sessionspace_realised:
  assumes dc: "documented_client client view" and u: "update_sessionspace pr client n st = (r, st')"
    and rl: "realised pr (view (cluster st)) (current_sessions st) n"
  shows "bt_get (current_sessions st) n \<noteq> None \<and>
      ((\<exists>e. r = Inl e \<and> \<not> refused_update e) \<or> bt_get (current_sessions st') n = None) \<or>
    realised pr (view (cluster st')) (current_sessions st') n"
proof (cases r)
  case (Inr v)
  then have upd: "updated pr (bt_get (current_sessions st) n) (bt_get (new_sessions st) n) (Inr ())
      (view (cluster st) n) (view (cluster st') n)"
    using update_sessionspace_updated [OF dc u] by simp
  have "as_wanted pr (view (cluster st')) n (bt_get (current_sessions st) n) (bt_get (new_sessions st) n)"
    using upd rl by (rule updated_success)
  with upd rl Inr update_sessionspace_sessions(2) [OF u, of n] show ?thesis
    by (auto simp: realised_def as_wanted_def updated_def split: option.splits if_splits)
next
  case (Inl e)
  then show ?thesis
    using update_sessionspace_updated [OF dc u] rl update_sessionspace_sessions(2) [OF u, of n]
    by (fastforce simp: realised_def holds_session_def updated_def split: option.splits sum.splits if_splits)
qed

lemma update_each_frame:
  assumes "documented_client client view" and "update_each pr client ns st = (ws, st')"
    and "k \<notin> set ns"
  shows "settles (view (cluster st) k) (view (cluster st') k) \<and>
    bt_get (current_sessions st') k = bt_get (current_sessions st) k"
  using assms(2,3)
proof (induction ns arbitrary: st ws)
  case (Cons n ns)
  obtain r st1 ws1 where one: "update_sessionspace pr client n st = (r, st1)"
    and rest: "update_each pr client ns st1 = (ws1, st')"
    using Cons.prems by (auto split: prod.splits)
  then show ?case
    using Cons.IH [OF rest] Cons.prems(2) update_sessionspace_updated [OF assms(1) one, of k]
      update_sessionspace_sessions(2) [OF one, of k]
    by (auto intro: settles_trans)
qed simp

text \<open>A name the record was right about, after all the names of a list have had their turn.\<close>

lemma update_each_realised:
  assumes dc: "documented_client client view" and "update_each pr client ns st = (ws, st')"
    and "distinct ns" and "realised pr (view (cluster st)) (current_sessions st) k"
  shows "(k \<in> set ns \<and> k \<notin> fst ` set ws \<longrightarrow>
      as_wanted pr (view (cluster st')) k (bt_get (current_sessions st) k) (bt_get (new_sessions st) k)) \<and>
    (bt_get (current_sessions st) k \<noteq> None \<and>
       ((\<exists>e. (k, e) \<in> set ws \<and> \<not> refused_update e) \<or> bt_get (current_sessions st') k = None) \<or>
     realised pr (view (cluster st')) (current_sessions st') k)"
  using assms(2-)
proof (induction ns arbitrary: st ws)
  case (Cons n ns)
  obtain r st1 ws1 where one: "update_sessionspace pr client n st = (r, st1)"
    and rest: "update_each pr client ns st1 = (ws1, st')"
    and ws: "ws = (case r of Inl e \<Rightarrow> [(n, e)] | Inr _ \<Rightarrow> []) @ ws1"
    using Cons.prems(1) by (auto split: prod.splits)
  note upd = update_sessionspace_updated [OF dc one]
  note ses = update_sessionspace_sessions [OF one]
  show ?case
  proof (cases "k = n")
    case True
    have k: "k \<notin> set ns" using Cons.prems(2) True by simp
    note frame = update_each_frame [OF dc rest k]
    have "as_wanted pr (view (cluster st')) k (bt_get (current_sessions st) k) (bt_get (new_sessions st) k)"
      if "k \<notin> fst ` set ws"
    proof -
      have "r = Inr ()" using that ws True by (cases r) auto
      then have "updated pr (bt_get (current_sessions st) k) (bt_get (new_sessions st) k) (Inr ())
          (view (cluster st) k) (view (cluster st1) k)" using upd True by simp
      then have "as_wanted pr (view (cluster st1)) k (bt_get (current_sessions st) k) (bt_get (new_sessions st) k)"
        using Cons.prems(3) by (rule updated_success)
      then show ?thesis using frame as_wanted_settles by blast
    qed
    moreover have "bt_get (current_sessions st) k \<noteq> None \<and>
       ((\<exists>e. (k, e) \<in> set ws \<and> \<not> refused_update e) \<or> bt_get (current_sessions st') k = None) \<or>
     realised pr (view (cluster st')) (current_sessions st') k"
      using update_sessionspace_realised [OF dc one] Cons.prems(3) True ws frame
        realised_settles [of "view (cluster st1)" k "view (cluster st')" "current_sessions st'" "current_sessions st1" pr]
      by auto
    ultimately show ?thesis by blast
  next
    case False
    then have "realised pr (view (cluster st1)) (current_sessions st1) k"
      using realised_settles [OF _ _ Cons.prems(3)] upd [of k] ses(2) [of k] by simp
    moreover have "(k, e) \<in> set ws \<longleftrightarrow> (k, e) \<in> set ws1" "k \<in> fst ` set ws \<longleftrightarrow> k \<in> fst ` set ws1" for e
      using ws False by (cases r; auto)+
    moreover have "bt_get (current_sessions st1) k = bt_get (current_sessions st) k"
      "bt_get (new_sessions st1) k = bt_get (new_sessions st) k"
      using ses False by simp_all
    ultimately show ?thesis using Cons.IH [OF rest] Cons.prems(2) False by simp
  qed
qed simp

section \<open>The loop\<close>

text \<open>What a tick is meant to realise: the fetched sessions with the static ones.\<close>

definition desired :: "sessions option \<Rightarrow> sessions \<Rightarrow> sessions" where
  "desired static new = (case static of Some s \<Rightarrow> merge_into s new | None \<Rightarrow> new)"

lemma tick_Inr:
  assumes "tick pr client static (Inr new) (cur, w) = (ws, cur', w')"
  obtains st' where
    "update_each pr client (names_to_update cur (desired static new))
       \<lparr>current_sessions = cur, new_sessions = desired static new, cluster = w\<rparr> = (ws, st')"
    "cur' = current_sessions st'" "w' = cluster st'"
  using assms by (auto simp: tick_def desired_def update_sessionspaces_def Let_def split: prod.splits)

text \<open>
  C12. One turn of the reconciler converges. Against an API that does what it documents, take a
  name the record is right about before the turn: if it is recorded, its session is in the cluster, and if
  not, no namespace of that name is being terminated. If its update raised no warning, then after the turn it is
  as the fetched (and static) sessions want it: recorded as fetched; in the cluster, in a
  namespace of its name, with the ConfigMap of its data; or, when it is gone, out of the record and
  its namespace deleted. A session whose update failed is recorded as before, so that the next turn
  tries again, and the turn warns at most once about a session.
\<close>

theorem tick_converges:
  assumes "documented_client client view" and "realised pr (view w) cur n"
    and "tick pr client static (Inr new) (cur, w) = (warnings, cur', w')"
  shows "bt_get cur' n = (if n \<in> fst ` set warnings then bt_get cur n
                          else bt_get (desired static new) n) \<and>
    (n \<notin> fst ` set warnings \<longrightarrow>
       (case bt_get (desired static new) n of
          Some s \<Rightarrow> holds_session pr (view w') n s
        | None \<Rightarrow> bt_get cur n \<noteq> None \<longrightarrow> (\<forall>c. view w' n \<noteq> There c))) \<and>
    distinct (map fst warnings)"
proof -
  let ?new = "desired static new"
  obtain st' where u: "update_each pr client (names_to_update cur ?new)
      \<lparr>current_sessions = cur, new_sessions = ?new, cluster = w\<rparr> = (warnings, st')"
    and st': "cur' = current_sessions st'" "w' = cluster st'"
    using assms(3) by (rule tick_Inr)
  have "bt_get cur' n = (if n \<in> fst ` set warnings then bt_get cur n else bt_get ?new n)"
    "distinct (map fst warnings)"
    using update_each_sessions[OF u names_to_update_set(2), of n] st'
    by (auto simp: names_to_update_set)
  moreover have "case bt_get ?new n of
      Some s \<Rightarrow> holds_session pr (view w') n s
    | None \<Rightarrow> bt_get cur n \<noteq> None \<longrightarrow> (\<forall>c. view w' n \<noteq> There c)" if "n \<notin> fst ` set warnings"
    using update_each_realised [OF assms(1) u names_to_update_set(2), of n] assms(2) that st'
    by (auto simp: names_to_update_set as_wanted_def split: option.splits)
  ultimately show ?thesis by blast
qed

text \<open>The turns of a run: the record before and after each, and its warnings.\<close>

type_synonym turn = "sessions \<times> (string \<times> update_error) list \<times> sessions"

fun run_turns ::
  "printers \<Rightarrow> 'w kube_client \<Rightarrow> sessions option \<Rightarrow> ('e + sessions) list \<Rightarrow>
   sessions \<times> 'w \<Rightarrow> turn list" where
  "run_turns pr client static [] cw = []"
| "run_turns pr client static (f # fs) cw =
     (case tick pr client static f cw of
        (warnings, cw') \<Rightarrow> (fst cw, warnings, fst cw') # run_turns pr client static fs cw')"

text \<open>
  After a turn that drops a recorded session, or whose update of it ends in an error that is not a
  refusal, the cluster is in doubt.
\<close>

definition leaves_doubt :: "string \<Rightarrow> turn \<Rightarrow> bool" where
  "leaves_doubt n turn \<longleftrightarrow>
     (case turn of (cur, warnings, cur') \<Rightarrow> bt_get cur n \<noteq> None \<and>
        ((\<exists>e. (n, e) \<in> set warnings \<and> \<not> refused_update e) \<or> bt_get cur' n = None))"

lemma tick_realised:
  assumes "documented_client client view" and "tick pr client static f (cur, w) = (ws, cur', w')"
    and "realised pr (view w) cur n" and "\<not> leaves_doubt n (cur, ws, cur')"
  shows "realised pr (view w') cur' n"
proof (cases f)
  case (Inr new)
  then obtain st' where u: "update_each pr client (names_to_update cur (desired static new))
      \<lparr>current_sessions = cur, new_sessions = desired static new, cluster = w\<rparr> = (ws, st')"
    and st': "cur' = current_sessions st'" "w' = cluster st'"
    using assms(2) by (auto elim: tick_Inr)
  show ?thesis
    using update_each_realised [OF assms(1) u names_to_update_set(2), of n] assms(3,4) st'
    by (auto simp: leaves_doubt_def)
qed (use assms in \<open>simp add: tick_def\<close>)

lemma tick_frame:
  assumes "documented_client client view" and "tick pr client static f (cur, w) = (ws, cur', w')"
    and "bt_get cur n = None" and "\<And>new. f = Inr new \<Longrightarrow> bt_get (desired static new) n = None"
  shows "settles (view w n) (view w' n)" and "bt_get cur' n = None"
proof -
  have "settles (view w n) (view w' n) \<and> bt_get cur' n = None"
  proof (cases f)
    case (Inr new)
    then obtain st' where u: "update_each pr client (names_to_update cur (desired static new))
        \<lparr>current_sessions = cur, new_sessions = desired static new, cluster = w\<rparr> = (ws, st')"
      and st': "cur' = current_sessions st'" "w' = cluster st'"
      using assms(2) by (auto elim: tick_Inr)
    have "n \<notin> set (names_to_update cur (desired static new))"
      using assms(3) assms(4) [OF Inr] by (simp add: names_to_update_set)
    from update_each_frame [OF assms(1) u this] assms(3) st' show ?thesis by simp
  qed (use assms in \<open>simp add: tick_def\<close>)
  then show "settles (view w n) (view w' n)" and "bt_get cur' n = None" by simp_all
qed

lemma run_ticks_realised:
  assumes "documented_client client view" and "realised pr (view (snd cw)) (fst cw) n"
    and "list_all (\<lambda>t. \<not> leaves_doubt n t) (run_turns pr client static fs cw)"
  shows "realised pr (view (snd (run_ticks pr client static fs cw))) (fst (run_ticks pr client static fs cw)) n"
  using assms(2,3)
proof (induction fs arbitrary: cw)
  case (Cons f fs)
  obtain ws cur' w' where t: "tick pr client static f (fst cw, snd cw) = (ws, cur', w')"
    by (metis prod_cases3)
  then show ?case using Cons tick_realised [OF assms(1) t, of n] by simp
qed simp

lemma run_ticks_frame:
  assumes "documented_client client view" and "bt_get (fst cw) n = None"
    and "\<And>new. Inr new \<in> set fs \<Longrightarrow> bt_get (desired static new) n = None"
  shows "settles (view (snd cw) n) (view (snd (run_ticks pr client static fs cw)) n)"
  using assms(2,3)
proof (induction fs arbitrary: cw)
  case (Cons f fs)
  obtain ws cur' w' where t: "tick pr client static f (fst cw, snd cw) = (ws, cur', w')"
    by (metis prod_cases3)
  from Cons.IH [of "(cur', w')"] Cons.prems tick_frame [OF assms(1) t, of n] t show ?case
    by (auto intro: settles_trans)
qed simp

text \<open>
  C21. The reconciler is safe over its whole life. Started with no session recorded, against an
  API that does what it documents and whatever the fetches return (errors included), after any
  number of turns a namespace no fetch ever named is as it was, but that a termination under way may
  have come to its end: the reconciler touches its own namespaces only. And every recorded
  session is in the cluster with the ConfigMap of its data, if its namespace was not being terminated at the start
  and no turn has left it in doubt, by dropping it from the record or by an update of it, while it was recorded,
  that ended in an error other than a refusal. Errors when it is first created do no harm, whatever became
  of the requests.
\<close>

theorem reconciler_safe:
  assumes "documented_client client view"
    and "run_ticks pr client static fetches ([], w) = (cur, w')"
  shows "(\<forall>n s. bt_get cur n = Some s \<and> view w n \<noteq> Terminating \<and>
         list_all (\<lambda>t. \<not> leaves_doubt n t) (run_turns pr client static fetches ([], w)) \<longrightarrow>
         holds_session pr (view w') n s) \<and>
    (\<forall>n. (\<forall>new. Inr new \<in> set fetches \<longrightarrow> bt_get (desired static new) n = None) \<longrightarrow>
         settles (view w n) (view w' n))"
proof (intro conjI allI impI)
  fix n s
  assume n: "bt_get cur n = Some s \<and> view w n \<noteq> Terminating \<and>
    list_all (\<lambda>t. \<not> leaves_doubt n t) (run_turns pr client static fetches ([], w))"
  then have "realised pr (view w) [] n" by (simp add: realised_def)
  then have "realised pr (view w') cur n"
    using run_ticks_realised [OF assms(1), of pr "([], w)" n static fetches] assms(2) n by simp
  then show "holds_session pr (view w') n s" using n by (simp add: realised_def)
next
  fix n
  assume "\<forall>new. Inr new \<in> set fetches \<longrightarrow> bt_get (desired static new) n = None"
  then show "settles (view w n) (view w' n)"
    using run_ticks_frame [OF assms(1), of "([], w)" n fetches static pr] assms(2) by simp
qed

text \<open>
  A turn that fetches what is already recorded does nothing: it makes no request, warns
  about nothing and leaves the record and the cluster untouched. A turn whose fetch fails does
  nothing either, in particular it deletes no namespace.
\<close>

theorem tick_idle:
  assumes "\<And>n. bt_get cur n = bt_get (desired static new) n"
  shows "tick pr client static (Inr new :: 'e + sessions) (cur, w) = ([], cur, w) \<and>
    tick pr client static (Inl e :: 'e + sessions) (cur, w) = ([], cur, w)"
proof -
  let ?st = "\<lparr>current_sessions = cur, new_sessions = desired static new, cluster = w\<rparr>"
  have "\<exists>n'. update_each pr client (names_to_update cur (desired static new)) ?st =
      ([], ?st\<lparr>new_sessions := n'\<rparr>)"
    by (rule update_each_idle) (simp_all add: assms names_to_update_set(2))
  then show ?thesis
    by (auto simp: tick_def update_sessionspaces_def desired_def)
qed

subsection \<open>A cluster that refuses one namespace\<close>

definition demo_client :: "cluster_view kube_client" where
  "demo_client =
     \<lparr>get_namespace = (\<lambda>n w. (if w n = Gone then Inl (KubeApi 404 ''not found'') else Inr (), w)),
      delete_namespace_req = (\<lambda>n w. (Inr (), w(n := Terminating))),
      apply_namespace = (\<lambda>n ns w.
        if n = ''cm2-1'' then (Inl (KubeApi 403 ''forbidden''), w)
        else (Inr (), if w n = Gone then w(n := There None) else w)),
      apply_configmap = (\<lambda>n nm cm w.
        (case w n of
           There c \<Rightarrow> (Inr (), w(n := There (Some cm)))
         | _ \<Rightarrow> (Inl (KubeApi 404 ''not found''), w)))\<rparr>"

definition demo_printers :: printers where
  "demo_printers = \<lparr>members_json = (\<lambda>_. Inr ''[]''), show_datetime = (\<lambda>_. ''now'')\<rparr>"

lemma demo_client_documented: "documented_client demo_client id"
  by (auto simp: documented_client_def demo_client_def changes_one_def refused_def ns_deleted_def
      ns_applied_def cm_applied_def split: namespace_state.splits if_splits)

definition demo_session :: session where
  "demo_session = session_of [] [] [] [] sample_info"

abbreviation demo_sessions :: sessions where
  "demo_sessions \<equiv> [(''cm1-1'', demo_session), (''cm2-1'', demo_session)]"

abbreviation demo_fetch :: "unit + sessions" where
  "demo_fetch \<equiv> Inr demo_sessions"

lemma demo_data: "\<exists>data. configmap_data demo_printers s = Inr data"
  by (simp add: configmap_data_def demo_printers_def Let_def)

lemma demo_tick:
  assumes "w ''cm1-1'' = Gone" and "w ''ab1-1'' \<noteq> Gone"
  shows "\<exists>w'. tick demo_printers demo_client None demo_fetch ([(''ab1-1'', static_sample)], w) =
     ([(''cm2-1'', KubeFailed (KubeApi 403 ''forbidden''))], [(''cm1-1'', demo_session)], w')"
proof -
  have n: "names_to_update [(''ab1-1'', static_sample)] demo_sessions = [''ab1-1'', ''cm1-1'', ''cm2-1'']"
    by (simp add: names_to_update_def bt_keys_def)
  obtain data where d: "configmap_data demo_printers demo_session = Inr data"
    using demo_data by blast
  show ?thesis
    using assms
    by (simp add: tick_def update_sessionspaces_def n update_sessionspace_def Let_def ebind_def
        on_cluster_def emap_err_def delete_namespace_def create_namespace_def create_configmap_def
        demo_client_def d set_current_def bt_remove_def lift_res_def map_err_def)
qed

definition demo_cluster :: cluster_view where
  "demo_cluster = (\<lambda>_. Gone)(''ab1-1'' :=
     There (res_ok (rbind (configmap_data demo_printers static_sample) (\<lambda>data. Inr (session_configmap data)))))"

lemma demo_realised: "realised demo_printers (id demo_cluster) [(''ab1-1'', static_sample)] n"
  using demo_data [of static_sample]
  by (auto simp: realised_def holds_session_def demo_cluster_def res_ok_def)

theorem tick_converges_witness:
  "\<exists>w'. tick demo_printers demo_client None demo_fetch
       ([(''ab1-1'', static_sample)], demo_cluster) =
     ([(''cm2-1'', KubeFailed (KubeApi 403 ''forbidden''))], [(''cm1-1'', demo_session)], w') \<and>
   holds_session demo_printers w' ''cm1-1'' demo_session \<and> (\<forall>c. w' ''ab1-1'' \<noteq> There c)"
proof -
  obtain w' where t: "tick demo_printers demo_client None demo_fetch
       ([(''ab1-1'', static_sample)], demo_cluster) =
     ([(''cm2-1'', KubeFailed (KubeApi 403 ''forbidden''))], [(''cm1-1'', demo_session)], w')"
    using demo_tick [of demo_cluster] by (auto simp: demo_cluster_def)
  note conv = tick_converges [OF demo_client_documented demo_realised t]
  show ?thesis
    using t conv [of "''cm1-1''"] conv [of "''ab1-1''"] by (auto simp: desired_def)
qed

theorem reconciler_safe_witness:
  "holds_session demo_printers
     (snd (run_ticks demo_printers demo_client None [Inl (), Inr [(''cm1-1'', demo_session)]]
        ([], demo_cluster))) ''cm1-1'' demo_session"
proof -
  let ?fetches = "[Inl (), Inr [(''cm1-1'', demo_session)]]"
  let ?run = "run_ticks demo_printers demo_client None ?fetches ([], demo_cluster)"
  obtain data where d: "configmap_data demo_printers demo_session = Inr data"
    using demo_data by blast
  have n: "names_to_update [] [(''cm1-1'', demo_session)] = [''cm1-1'']"
    by (simp add: names_to_update_def bt_keys_def)
  obtain cur w' where r: "?run = (cur, w')" by (cases ?run)
  have "demo_cluster ''cm1-1'' = Gone" by (simp add: demo_cluster_def)
  then have t: "\<exists>w1. tick demo_printers demo_client None (Inr [(''cm1-1'', demo_session)] :: unit + sessions)
      ([], demo_cluster) = ([], [(''cm1-1'', demo_session)], w1)"
    by (simp add: tick_def update_sessionspaces_def n update_sessionspace_def Let_def ebind_def
        on_cluster_def emap_err_def create_namespace_def create_configmap_def
        demo_client_def d set_current_def lift_res_def map_err_def)
  moreover have "tick demo_printers demo_client None (Inl () :: unit + sessions) ([], demo_cluster)
      = ([], [], demo_cluster)" by (simp add: tick_def)
  ultimately have "cur = [(''cm1-1'', demo_session)]"
    "list_all (\<lambda>t. \<not> leaves_doubt ''cm1-1'' t) (run_turns demo_printers demo_client None ?fetches ([], demo_cluster))"
    using r by (auto simp: leaves_doubt_def)
  then show ?thesis
    using reconciler_safe [OF demo_client_documented r] unfolding r by (simp add: demo_cluster_def)
qed

theorem tick_idle_witness:
  "tick demo_printers demo_client None demo_fetch (demo_sessions, demo_cluster) =
     ([], demo_sessions, demo_cluster)"
  using tick_idle [of demo_sessions None demo_sessions demo_printers demo_client demo_cluster
      "()"]
  by (simp add: desired_def)

subsection \<open>A reply that is lost\<close>

text \<open>
  The record alone decides what is done. When the reply to an update is lost and the session then
  goes back to what it was, the record agrees with the fetches, and no turn ever corrects the cluster.
\<close>

definition lossy_client :: "(nat \<times> cluster_view) kube_client" where
  "lossy_client =
     \<lparr>get_namespace = (\<lambda>n w. (if snd w n = Gone then Inl (KubeApi 404 ''not found'') else Inr (), w)),
      delete_namespace_req = (\<lambda>n w. (Inr (), (fst w, (snd w)(n := Terminating)))),
      apply_namespace = (\<lambda>n ns w. (Inr (), (fst w, if snd w n = Gone then (snd w)(n := There None) else snd w))),
      apply_configmap = (\<lambda>n nm cm w.
        (case snd w n of
           There c \<Rightarrow> (if fst w = 1 then Inl (KubeOther ''timeout'') else Inr (),
                       (Suc (fst w), (snd w)(n := There (Some cm))))
         | _ \<Rightarrow> (Inl (KubeApi 404 ''not found''), w)))\<rparr>"

lemma lossy_client_documented: "documented_client lossy_client snd"
  by (auto simp: documented_client_def lossy_client_def changes_one_def refused_def ns_deleted_def
      ns_applied_def cm_applied_def split: namespace_state.splits if_splits)

lemma configmap_data_gid:
  "configmap_data pr s = Inr data \<Longrightarrow> bt_get data ''gid'' = map_option show_u32 (s_gid s)"
  by (auto simp: configmap_data_def Let_def rbind_eq_Inr split: option.splits)

definition demo_changed :: session where
  "demo_changed = demo_session\<lparr>s_gid := Some 7\<rparr>"

lemma run_ticks_idle:
  "run_ticks pr client None (replicate k (Inr cur :: 'e + sessions)) (cur, w) = (cur, w)"
proof (induction k)
  case (Suc k)
  have "tick pr client None (Inr cur :: 'e + sessions) (cur, w) = ([], cur, w)"
    by (rule tick_idle [THEN conjunct1]) (simp add: desired_def)
  with Suc show ?case by simp
qed simp

lemma run_ticks_append:
  "run_ticks pr client static (fs @ gs) cw = run_ticks pr client static gs (run_ticks pr client static fs cw)"
  by (induction fs arbitrary: cw) simp_all

lemma lost_reply_never_repaired:
  assumes "run_ticks demo_printers lossy_client None
      (([Inr [(''cm1-1'', demo_session)], Inr [(''cm1-1'', demo_changed)]] :: (unit + sessions) list) @
        replicate k (Inr [(''cm1-1'', demo_session)])) ([], (0, \<lambda>_. Gone)) = (cur, w)"
  shows "bt_get cur ''cm1-1'' = Some demo_session \<and> \<not> holds_session demo_printers (snd w) ''cm1-1'' demo_session"
proof -
  have n: "names_to_update [] [(''cm1-1'', s)] = [''cm1-1'']"
    "names_to_update [(''cm1-1'', s)] [(''cm1-1'', s')] = [''cm1-1'']" for s s' :: session
    by (simp_all add: names_to_update_def bt_keys_def)
  obtain d d' where d: "configmap_data demo_printers demo_session = Inr d"
    "configmap_data demo_printers demo_changed = Inr d'"
    using demo_data by blast
  have gid: "s_gid demo_session = None" "s_gid demo_changed = Some 7"
    by (simp_all add: demo_session_def demo_changed_def session_of_def)
  then have ne: "demo_session \<noteq> demo_changed" by auto
  have dd: "d \<noteq> d'"
    using configmap_data_gid [OF d(1)] configmap_data_gid [OF d(2)] gid by auto
  let ?w = "(2, (\<lambda>_. Gone)(''cm1-1'' := There (Some (session_configmap d'))))"
  have run: "run_ticks demo_printers lossy_client None
      ([Inr [(''cm1-1'', demo_session)], Inr [(''cm1-1'', demo_changed)]] :: (unit + sessions) list) ([], (0, \<lambda>_. Gone)) =
    ([(''cm1-1'', demo_session)], ?w)"
    using ne
    by (simp add: tick_def update_sessionspaces_def n update_sessionspace_def Let_def ebind_def
        on_cluster_def emap_err_def create_namespace_def create_configmap_def
        lossy_client_def d set_current_def lift_res_def map_err_def bt_remove_def numeral_2_eq_2)
  then have "cur = [(''cm1-1'', demo_session)]" "w = ?w"
    using assms unfolding run_ticks_append run run_ticks_idle by simp_all
  then show ?thesis using d dd by (simp add: holds_session_def session_configmap_def)
qed

end
