(* ===== verification/Service_Mains.thy ===== *)
theory Service_Mains
  imports Routers Reconciler
begin

text \<open>
  What the graph proxy and the session spaces reconciler do before their loops: the telemetry of
  \<^verbatim>\<open>telemetry/src/lib.rs\<close>, the instruments of \<^verbatim>\<open>graph-proxy/src/metrics.rs\<close>, the client of
  \<^verbatim>\<open>s3client.rs\<close>, and \<^verbatim>\<open>main.rs\<close> of both. An \<^verbatim>\<open>unwrap\<close> or \<^verbatim>\<open>expect\<close> that fails ends the
  program: it is the left value, with its message.
\<close>

section \<open>Telemetry\<close>

datatype telemetry_error =
    SdkError string
  | TracingSubscriberInitError string
  | ExporterBuildError string

record telemetry_config =
  tc_metrics_endpoint :: "string option"
  tc_tracing_endpoint :: "string option"
  tc_telemetry_level :: string

text \<open>A provider exports to the endpoint it was built for; \<open>tl_init\<close> installs the layers.\<close>

record telemetry_services =
  tl_metric_exporter :: "string \<Rightarrow> string + string"
  tl_span_exporter :: "string \<Rightarrow> string + string"
  tl_init :: "string \<Rightarrow> string option \<Rightarrow> string option \<Rightarrow> string + unit"

record otel_guard =
  og_tracer_provider :: "string option"
  og_meter_provider :: "string option"

definition exporter_for :: "(string \<Rightarrow> string + 'p) \<Rightarrow> string option \<Rightarrow> telemetry_error + 'p option" where
  "exporter_for build endpoint =
     (case endpoint of
        Some e \<Rightarrow> rbind (map_err ExporterBuildError (build e)) (\<lambda>p. Inr (Some p))
      | None \<Rightarrow> Inr None)"

definition setup_telemetry :: "telemetry_services \<Rightarrow> telemetry_config \<Rightarrow> telemetry_error + otel_guard" where
  "setup_telemetry ts config =
     rbind (exporter_for (tl_metric_exporter ts) (tc_metrics_endpoint config)) (\<lambda>meter_provider.
     rbind (exporter_for (tl_span_exporter ts) (tc_tracing_endpoint config)) (\<lambda>tracer_provider.
     rbind (map_err TracingSubscriberInitError
       (tl_init ts (tc_telemetry_level config) meter_provider tracer_provider)) (\<lambda>_.
     Inr \<lparr>og_tracer_provider = tracer_provider, og_meter_provider = meter_provider\<rparr>)))"

text \<open>Dropping the guard shuts both providers down; the errors are printed.\<close>

definition drop_guard :: "(string \<Rightarrow> string + unit) \<Rightarrow> otel_guard \<Rightarrow> telemetry_error list" where
  "drop_guard shutdown guard =
     concat (map (\<lambda>p. case p of
         Some pv \<Rightarrow> (case shutdown pv of Inl err \<Rightarrow> [SdkError err] | Inr _ \<Rightarrow> [])
       | None \<Rightarrow> [])
       [og_tracer_provider guard, og_meter_provider guard])"

section \<open>Instruments and the S3 client\<close>

datatype instrument_kind = CounterU64 | HistogramF64 | HistogramU64

record meter_instrument =
  in_kind :: instrument_kind
  in_name :: string
  in_description :: string
  in_unit :: "string option"

record metrics =
  mt_total_requests :: meter_instrument
  mt_request_duration_ms :: meter_instrument
  mt_total_errors :: meter_instrument
  mt_query_depth :: meter_instrument
  mt_query_complexity :: meter_instrument

definition metrics_new :: metrics where
  "metrics_new =
     \<lparr>mt_total_requests = \<lparr>in_kind = CounterU64, in_name = ''graph_proxy_total_requests'',
        in_description = ''The total requests on all routes made since the last restart.'', in_unit = None\<rparr>,
      mt_request_duration_ms = \<lparr>in_kind = HistogramF64, in_name = ''graph_proxy_request_duration_ms'',
        in_description = ''GraphQL request duration'', in_unit = Some ''ms''\<rparr>,
      mt_total_errors = \<lparr>in_kind = CounterU64, in_name = ''graph_proxy_total_errors'',
        in_description = ''The total errors on all querys and mutations.'', in_unit = None\<rparr>,
      mt_query_depth = \<lparr>in_kind = HistogramU64, in_name = ''graph_proxy_query_depth'',
        in_description = ''GraphQL query depth'', in_unit = None\<rparr>,
      mt_query_complexity = \<lparr>in_kind = HistogramU64, in_name = ''graph_proxy_query_complexity'',
        in_description = ''GraphQL query complexity'', in_unit = None\<rparr>\<rparr>"

record s3_client_args =
  sa_endpoint_url :: "string option"
  sa_access_key_id :: "string option"
  sa_secret_access_key :: "string option"
  sa_force_path_style :: bool
  sa_region :: "string option"

record s3_client =
  sc_access_key_id :: string
  sc_secret_access_key :: string
  sc_endpoint_url :: "string option"
  sc_force_path_style :: bool
  sc_region :: string

definition s3_client_from :: "s3_client_args \<Rightarrow> s3_client" where
  "s3_client_from args =
     \<lparr>sc_access_key_id = unwrap_or [] (sa_access_key_id args),
      sc_secret_access_key = unwrap_or [] (sa_secret_access_key args),
      sc_endpoint_url = sa_endpoint_url args, sc_force_path_style = sa_force_path_style args,
      sc_region = unwrap_or ''undefined'' (sa_region args)\<rparr>"

section \<open>The graph proxy\<close>

record serve_args =
  sv_argo_server_url :: url
  sv_kubernetes_api_url :: string
  sv_host :: string
  sv_port :: "16 word"
  sv_prefix_path :: string
  sv_telemetry_config :: telemetry_config
  sv_cors_allow :: "(string \<Rightarrow> bool) list option"
  sv_s3_bucket :: string
  sv_s3_client :: s3_client_args
  sv_oidc_issuer_url :: string
  sv_oidc_client_id :: string
  sv_oidc_client_secret :: "string option"
  sv_oidc_audiences :: "string list"

record schema_args =
  sm_path :: "string option"
  sm_federation :: bool

datatype graph_command = Serve serve_args | SchemaCommand schema_args

text \<open>What the router's handlers and the schema's resolvers are given.\<close>

record 'r graph_server =
  gv_argo_server_url :: url
  gv_kubernetes_api_url :: string
  gv_s3_client :: s3_client
  gv_s3_bucket :: string
  gv_metrics :: metrics
  gv_token_validator :: token_validator
  gv_router :: 'r
  gv_address :: "string \<times> 16 word"

definition unwrap :: "('e \<Rightarrow> string) \<Rightarrow> 'e + 'a \<Rightarrow> string + 'a" where
  "unwrap show r = map_err show r"

definition show_telemetry_error :: "telemetry_error \<Rightarrow> string" where
  "show_telemetry_error e =
     (case e of
        SdkError s \<Rightarrow> ''OTEL SDK error: '' @ s
      | TracingSubscriberInitError s \<Rightarrow> ''Tracing Subscriber initialization error: '' @ s
      | ExporterBuildError s \<Rightarrow> ''Exporter build error: '' @ s)"

definition graph_serve ::
  "('r, graph_handler, cors_layer) axum \<Rightarrow> telemetry_services \<Rightarrow> ('n, 'key) oidc_services \<Rightarrow> serve_args \<Rightarrow>
     ('n, string, 'r graph_server) eff" where
  "graph_serve ax ts os args =
     ebind (lift_res (unwrap show_telemetry_error (setup_telemetry ts (sv_telemetry_config args)))) (\<lambda>otlp_guard.
     ebind (lift_res (ok_or ''called unwrap on None'' (og_meter_provider otlp_guard))) (\<lambda>_.
     ebind (emap_err (\<lambda>_. ''Failed to build OIDC token validator, Is Keycloak down?'')
       (token_validator_new os (sv_oidc_issuer_url args) (sv_oidc_client_id args)
         (sv_oidc_client_secret args) (sv_oidc_audiences args))) (\<lambda>validator.
     ret \<lparr>gv_argo_server_url = sv_argo_server_url args,
          gv_kubernetes_api_url = sv_kubernetes_api_url args,
          gv_s3_client = s3_client_from (sv_s3_client args), gv_s3_bucket = sv_s3_bucket args,
          gv_metrics = metrics_new, gv_token_validator = validator,
          gv_router = setup_graph_router ax (sv_prefix_path args) (sv_cors_allow args),
          gv_address = (sv_host args, sv_port args)\<rparr>)))"

text \<open>
  The schema as a plain or a federated document (\<open>sdl\<close>): what is written to which file, or
  printed.
\<close>

definition graph_schema ::
  "telemetry_services \<Rightarrow> (bool \<Rightarrow> string) \<Rightarrow> (string \<Rightarrow> string \<Rightarrow> string + unit) \<Rightarrow> schema_args \<Rightarrow>
     string + string list" where
  "graph_schema ts sdl write_file args =
     rbind (unwrap show_telemetry_error (setup_telemetry ts
       \<lparr>tc_metrics_endpoint = None, tc_tracing_endpoint = None, tc_telemetry_level = ''INFO''\<rparr>)) (\<lambda>_.
     case sm_path args of
       Some path \<Rightarrow> rbind (write_file path (sdl (sm_federation args))) (\<lambda>_. Inr [])
     | None \<Rightarrow> Inr [sdl (sm_federation args)])"

section \<open>The session spaces reconciler\<close>

record sessionspaces_args =
  ss_telemetry :: telemetry_config
  ss_static_sessions :: "string option"

text \<open>
  \<open>connect\<close> stands for the connections to ISPyB, to the directory and to the cluster, in this order;
  each is unwrapped. Then the loop takes its turns over what is fetched, from no sessions.
\<close>

definition sessionspaces_main ::
  "telemetry_services \<Rightarrow> (string + unit) list \<Rightarrow> (string \<Rightarrow> string + sessions) \<Rightarrow> printers \<Rightarrow>
     'w Reconciler.kube_client \<Rightarrow> sessionspaces_args \<Rightarrow> ('e + sessions) list \<Rightarrow> 'w \<Rightarrow>
     string + sessions \<times> 'w" where
  "sessionspaces_main ts connect from_path pr client args fetches w =
     rbind (unwrap show_telemetry_error (setup_telemetry ts (ss_telemetry args))) (\<lambda>_.
     rbind (try_map id connect) (\<lambda>_.
     rbind (case ss_static_sessions args of
              None \<Rightarrow> Inr None
            | Some path \<Rightarrow> rbind (from_path path) (\<lambda>s. Inr (Some s))) (\<lambda>static_sessions.
     Inr (run_ticks pr client static_sessions fetches ([], w)))))"

section \<open>Lemmas\<close>

lemma setup_telemetry_ok:
  "setup_telemetry ts config = Inr guard \<Longrightarrow>
     (og_meter_provider guard = None \<longleftrightarrow> tc_metrics_endpoint config = None) \<and>
     (og_tracer_provider guard = None \<longleftrightarrow> tc_tracing_endpoint config = None)"
  by (auto simp: setup_telemetry_def exporter_for_def rbind_eq_Inr split: option.splits)

text \<open>
  The endpoint of the metrics is optional, but without one the graph proxy never serves: it panics
  when it unwraps the missing provider.
\<close>

lemma graph_serve_needs_metrics:
  "tc_metrics_endpoint (sv_telemetry_config args) = None \<Longrightarrow> \<exists>e. graph_serve ax ts os args n = (Inl e, n)"
  by (cases "setup_telemetry ts (sv_telemetry_config args)")
    (auto simp: graph_serve_def ebind_def unwrap_def ok_or_def dest: setup_telemetry_ok)

text \<open>A server that started validates tokens of the configured issuer and audiences.\<close>

lemma graph_serve_ok:
  "graph_serve ax ts os args n = (Inr server, n') \<Longrightarrow>
     gv_argo_server_url server = sv_argo_server_url args \<and>
     gv_router server = setup_graph_router ax (sv_prefix_path args) (sv_cors_allow args) \<and>
     jv_audience (tv_validation (gv_token_validator server)) = accepted_audiences (sv_oidc_audiences args) \<and>
     tc_metrics_endpoint (sv_telemetry_config args) \<noteq> None"
  by (auto simp: graph_serve_def eff_elims emap_err_def unwrap_def token_validator_new_def ok_or_def
      map_err_eq_Inr dest!: setup_telemetry_ok split: option.splits prod.splits sum.splits)

lemma drop_guard_errors: "length (drop_guard shutdown guard) \<le> 2"
  by (simp add: drop_guard_def split: option.split sum.split)

end
