(* ===== verification/Serving.thy ===== *)
theory Serving
  imports Service_Mains
begin

text \<open>
  The ends of the services' \<^verbatim>\<open>main.rs\<close>: which configuration file they read, listening, and what a
  \<^verbatim>\<open>SIGTERM\<close> does to the requests under way. Sockets and the server loop of \<^verbatim>\<open>axum\<close> are services.
\<close>

section \<open>Arguments\<close>

text \<open>A flag goes before the environment variable, and that before the default.\<close>

definition argument :: "string option \<Rightarrow> (string \<rightharpoonup> string) \<Rightarrow> string \<Rightarrow> string option" where
  "argument given environment variable =
     (case given of Some v \<Rightarrow> Some v | None \<Rightarrow> environment variable)"

record gateway_args =
  ga_config :: string
  ga_graph_url :: string

definition gateway_args_of ::
  "(string \<rightharpoonup> string) \<Rightarrow> string option \<Rightarrow> string option \<Rightarrow> string + gateway_args" where
  "gateway_args_of environment config graph_url =
     rbind (ok_or ''GRAPH_URL'' (argument graph_url environment ''GRAPH_URL'')) (\<lambda>url.
     Inr \<lparr>ga_config = unwrap_or ''config.yaml'' (argument config environment ''WORKFLOWS_AUTH_GATEWAY_CONFIG''),
          ga_graph_url = url\<rparr>)"

record config_args =
  ca_config :: string

definition daemon_args_of :: "(string \<rightharpoonup> string) \<Rightarrow> string option \<Rightarrow> config_args" where
  "daemon_args_of environment config =
     \<lparr>ca_config = unwrap_or ''config.yaml'' (argument config environment ''WORKFLOWS_AUTH_DAEMON_CONFIG'')\<rparr>"

definition broker_args_of :: "(string \<rightharpoonup> string) \<Rightarrow> string option \<Rightarrow> config_args" where
  "broker_args_of environment config =
     \<lparr>ca_config = unwrap_or ''config.yaml'' (argument config environment ''WORKFLOWS_AUTH_BROKER_CONFIG'')\<rparr>"

section \<open>Serving\<close>

text \<open>
  \<open>nt_accept\<close> answers requests until the server fails, or until \<^verbatim>\<open>SIGTERM\<close> arrives (\<open>Inr\<close>);
  \<open>nt_drain\<close> then finishes the requests under way.
\<close>

record ('n, 'l, 'r) net_services =
  nt_bind :: "string \<Rightarrow> 16 word \<Rightarrow> 'n \<Rightarrow> (string + 'l) \<times> 'n"
  nt_accept :: "'l \<Rightarrow> 'r \<Rightarrow> 'n \<Rightarrow> (string + unit) \<times> 'n"
  nt_drain :: "'r \<Rightarrow> 'n \<Rightarrow> 'n"

text \<open>
  What the future given to \<^verbatim>\<open>with_graceful_shutdown\<close> does once the signal has arrived: it ends the
  process with a code, or it completes.
\<close>

datatype shutdown = ExitProcess nat | Complete

datatype program_end = Exited nat | Returned | Killed

definition gateway_shutdown_signal :: shutdown where
  "gateway_shutdown_signal = ExitProcess 0"

definition daemon_shutdown_signal :: shutdown where
  "daemon_shutdown_signal = ExitProcess 0"

definition broker_shutdown_signal :: shutdown where
  "broker_shutdown_signal = Complete"

text \<open>\<^verbatim>\<open>axum::serve\<close> with a graceful shutdown: it drains when the future completes.\<close>

definition serve_with_graceful_shutdown ::
  "('n, 'l, 'r) net_services \<Rightarrow> shutdown \<Rightarrow> 'l \<Rightarrow> 'r \<Rightarrow> ('n, string, program_end) eff" where
  "serve_with_graceful_shutdown nt signal listener router n =
     (case nt_accept nt listener router n of
        (Inl e, n) \<Rightarrow> (Inl e, n)
      | (Inr _, n) \<Rightarrow>
          (case signal of
             ExitProcess c \<Rightarrow> (Inr (Exited c), n)
           | Complete \<Rightarrow> (Inr Returned, nt_drain nt router n)))"

definition gateway_serve ::
  "('n, 'l, 'r) net_services \<Rightarrow> 'r \<Rightarrow> 16 word \<Rightarrow> ('n, auth_error, program_end) eff" where
  "gateway_serve nt router port =
     ebind (emap_err auth_error.Failed (nt_bind nt ''0.0.0.0'' port)) (\<lambda>listener.
     emap_err auth_error.Failed (serve_with_graceful_shutdown nt gateway_shutdown_signal listener router))"

definition daemon_serve ::
  "('n, 'l, 'r) net_services \<Rightarrow> 'r \<Rightarrow> string \<Rightarrow> 16 word \<Rightarrow> ('n, string, program_end) eff" where
  "daemon_serve nt router host port =
     ebind (nt_bind nt host port) (\<lambda>listener.
     serve_with_graceful_shutdown nt daemon_shutdown_signal listener router)"

definition broker_serve ::
  "('n, 'l, 'r) net_services \<Rightarrow> 'r \<Rightarrow> 16 word \<Rightarrow> ('n, auth_error, program_end) eff" where
  "broker_serve nt router port =
     (let addr = ''0.0.0.0:'' @ show_nat (unat port) in
      ebind (emap_err (\<lambda>e. auth_error.Failed (''failed to bind on '' @ addr @ '': '' @ e))
        (nt_bind nt ''0.0.0.0'' port)) (\<lambda>listener.
      emap_err (\<lambda>e. auth_error.Failed (''server error: '' @ e))
        (serve_with_graceful_shutdown nt broker_shutdown_signal listener router)))"

text \<open>The graph proxy installs no handler: the signal kills the process.\<close>

definition graph_proxy_serve ::
  "('n, 'l, 'r) net_services \<Rightarrow> 'r \<Rightarrow> string \<Rightarrow> 16 word \<Rightarrow> ('n, string, program_end) eff" where
  "graph_proxy_serve nt router host port =
     ebind (nt_bind nt host port) (\<lambda>listener n.
     case nt_accept nt listener router n of
       (Inl e, n) \<Rightarrow> (Inl e, n)
     | (Inr _, n) \<Rightarrow> (Inr Killed, n))"

section \<open>Whole programs\<close>

definition serving :: "('n, 'e, 'a) eff \<Rightarrow> (('n, 'z) auth_env_scheme, 'e, 'a) eff" where
  "serving m = ebind (outside m) lift_res"

text \<open>Installing the TLS provider, whose failure is a panic.\<close>

definition install_provider :: "'e \<Rightarrow> bool \<Rightarrow> ('s, 'e, unit) eff" where
  "install_provider panic ok = (if ok then ret () else throw panic)"

definition gateway_program ::
  "('r, gateway_handler, gateway_layer) axum \<Rightarrow> 'n startup_services \<Rightarrow> ('n, 'l, 'r) net_services \<Rightarrow> bool \<Rightarrow>
     (string \<Rightarrow> auth_error + gateway_config) \<Rightarrow> string + gateway_args \<Rightarrow>
     (('n, 'z) auth_env_scheme, auth_error, program_end) eff" where
  "gateway_program ax su nt install_tls from_file parsed =
     ebind (lift_res (map_err auth_error.Failed parsed)) (\<lambda>args.
     ebind (gateway_main ax su install_tls (ga_graph_url args) (from_file (ga_config args))) (\<lambda>(port, router, _).
     serving (gateway_serve nt router port)))"

definition daemon_program ::
  "('r, daemon_handler, daemon_layer) axum \<Rightarrow> 'n startup_services \<Rightarrow> ('n, 'y) daemon_services_scheme \<Rightarrow>
     ('n, 'l, 'r) net_services \<Rightarrow> bool \<Rightarrow> (auth_error \<Rightarrow> string) \<Rightarrow>
     (string \<Rightarrow> auth_error + daemon_file_config) \<Rightarrow> config_args \<Rightarrow> auth_error + string \<Rightarrow>
     ('n, 'z, program_end) daemon_eff" where
  "daemon_program ax su sv nt install_tls show_debug from_file args resolved =
     ebind (install_provider (auth_error.Panicked ''Failed to install rustls CryptoProvider'') install_tls) (\<lambda>_.
     ebind (daemon_main ax su sv show_debug from_file (ca_config args) resolved) (\<lambda>(port, router).
     emap_err (\<lambda>_. auth_error.Failed (''failed to bind/serve on port '' @ show_nat (unat port)))
       (serving (daemon_serve nt router ''0.0.0.0'' port))))"

definition broker_program ::
  "('r, broker_handler, unit) axum \<Rightarrow> 'n startup_services \<Rightarrow> ('n, 'l, 'r) net_services \<Rightarrow>
     bool \<Rightarrow> (auth_error \<Rightarrow> string) \<Rightarrow> (string \<Rightarrow> auth_error + broker_config) \<Rightarrow> config_args \<Rightarrow>
     ('n, 'z, auth_error, program_end) broker_eff" where
  "broker_program ax su nt install_tls show_debug from_file args =
     ebind (install_provider (auth_error.Panicked ''Failed to install rustls CryptoProvider'') install_tls) (\<lambda>_.
     ebind (broker_main ax su show_debug from_file (ca_config args)) (\<lambda>(port, router, _).
     serving (broker_serve nt router port)))"

definition graph_proxy_program ::
  "('r, graph_handler, cors_layer) axum \<Rightarrow> telemetry_services \<Rightarrow> ('n, 'key) oidc_services \<Rightarrow>
     ('n, 'l, 'r) net_services \<Rightarrow> bool \<Rightarrow> serve_args \<Rightarrow> ('n, string, program_end) eff" where
  "graph_proxy_program ax ts os nt install_tls args =
     ebind (install_provider ''Failed to install rust TLS cryptography'' install_tls) (\<lambda>_.
     ebind (graph_serve ax ts os args) (\<lambda>server.
     case gv_address server of (host, port) \<Rightarrow> graph_proxy_serve nt (gv_router server) host port))"

section \<open>Lemmas\<close>

text \<open>
  At a \<^verbatim>\<open>SIGTERM\<close> the gateway and the daemon end with code 0 where they are, whatever finishing the
  requests under way would do: the future that should start the graceful shutdown ends the process
  instead. The broker finishes them first.
\<close>

lemma sigterm_drops_requests:
  assumes "nt_bind nt host port n = (Inr listener, n1)" and "nt_accept nt listener router n1 = (Inr (), n2)"
  shows "host = ''0.0.0.0'' \<Longrightarrow> gateway_serve nt router port n = (Inr (Exited 0), n2)"
    and "daemon_serve nt router host port n = (Inr (Exited 0), n2)"
    and "host = ''0.0.0.0'' \<Longrightarrow> broker_serve nt router port n = (Inr Returned, nt_drain nt router n2)"
  using assms
  by (simp_all add: gateway_serve_def daemon_serve_def broker_serve_def ebind_def emap_err_def Let_def
      serve_with_graceful_shutdown_def gateway_shutdown_signal_def daemon_shutdown_signal_def
      broker_shutdown_signal_def)

text \<open>What a started broker serves with: fitting keys and empty caches.\<close>

lemma broker_main_ok:
  assumes "broker_main ax su show_debug from_file path w = (Inr (port, router, keys, k8s), w')"
  shows "\<exists>config. from_file path = Inr config \<and> port = cc_port (bc_common config) \<and>
    router = broker_router ax \<and> rk_audience k8s = bc_token_review_audience config \<and>
    decode_public_key su (cc_encryption_public_key (bc_common config)) = Inr (bk_public keys) \<and>
    decode_secret_key su (bc_encryption_private_key config) = Inr (bk_secret keys) \<and>
    subject_cache w' = Map.empty \<and> token_cache w' = Map.empty"
proof -
  obtain config oc hc where "from_file path = Inr config"
    and new: "broker_new su config w = (Inr (keys, k8s, oc, hc), w')"
    and "port = cc_port (bc_common config)" "router = broker_router ax"
    using assms
    by (auto simp: broker_main_def eff_elims map_err_eq_Inr)
  with broker_new_keys [OF new] show ?thesis by blast
qed

text \<open>A failing answer is a 500 with the error's text and no headers, so it carries no token.\<close>

lemma error_answer:
  "resp_status (into_response show_error respond (Inl e)) = 500 \<and>
   resp_headers (into_response show_error respond (Inl e)) = (\<lambda>_. [])"
  by (simp add: into_response_def error_response_def status_response_def)

end
