(* ===== verification/Broker_Locks.thy ===== *)
theory Broker_Locks
  imports Prelude
begin

text \<open>
  The concurrency of \<^verbatim>\<open>AuthBrokerState\<close> (\<^verbatim>\<open>auth-broker/src/state.rs\<close>): requests that refresh
  the token of a subject under the mutex they find for it in \<^verbatim>\<open>refresh_locks\<close>, and the task
  that removes mutexes of subjects without a cached token every minute.

  A mutex is a number, a thread a number; \<open>cached\<close> is the subjects with an entry in the token
  cache, \<open>fresh\<close> those whose entry lasts longer than the grace period. Between two steps of a
  thread any other may run: each step is what happens between two \<^verbatim>\<open>await\<close> points at most.

  \<^verbatim>\<open>refresh_locks\<close> is a \<^verbatim>\<open>DashMap\<close>, whose keys are spread over shards, each under a lock of its own. Iterating
  over it holds the read lock of the shard it is in, also while the loop body waits for the
  cache; \<^verbatim>\<open>entry\<close> needs the write lock of the shard of its key. In which shard a key is, is the
  parameter \<open>shard\<close>.
\<close>

section \<open>State and steps\<close>

datatype location =
    Idle
  | Missed string
  | Waiting string nat
  | Holding string nat
  | Refreshing string nat

text \<open>
  Where the cleanup task is: asleep, at the keys of a shard it has yet to look at, waiting for what
  the cache says about one of them, or past the loop.
\<close>

datatype sweep_position =
    Sleeping
  | InShard nat "string list"
  | Looking nat string "string list"
  | Removing

record lock_state =
  loc :: "nat \<Rightarrow> location"
  refresh_locks :: "string \<rightharpoonup> nat"
  next_mutex :: nat
  holder :: "nat \<rightharpoonup> nat"
  cached :: "string set"
  fresh :: "string set"
  stale :: "string set"
  sweep :: sweep_position

definition lock_init :: lock_state where
  "lock_init = \<lparr>loc = (\<lambda>_. Idle), refresh_locks = Map.empty, next_mutex = 0, holder = Map.empty,
     cached = {}, fresh = {}, stale = {}, sweep = Sleeping\<rparr>"

text \<open>The shard whose read lock the cleanup task holds.\<close>

definition guarded_shard :: "lock_state \<Rightarrow> nat option" where
  "guarded_shard st =
     (case sweep st of
        Sleeping \<Rightarrow> None
      | InShard i keys \<Rightarrow> Some i
      | Looking i s keys \<Rightarrow> Some i
      | Removing \<Rightarrow> None)"

definition shard_keys :: "(string \<Rightarrow> nat) \<Rightarrow> nat \<Rightarrow> lock_state \<Rightarrow> string set" where
  "shard_keys shard i st = {s \<in> dom (refresh_locks st). shard s = i}"

definition at :: "nat \<Rightarrow> location \<Rightarrow> lock_state \<Rightarrow> lock_state" where
  "at t l st = st\<lparr>loc := (loc st)(t := l)\<rparr>"

definition release :: "nat \<Rightarrow> lock_state \<Rightarrow> lock_state" where
  "release m st = st\<lparr>holder := (holder st)(m := None)\<rparr>"

text \<open>\<^verbatim>\<open>entry(subject).or_insert_with(new mutex)\<close>\<close>

definition lock_entry :: "string \<Rightarrow> lock_state \<Rightarrow> nat \<times> lock_state" where
  "lock_entry s st =
     (case refresh_locks st s of
        Some m \<Rightarrow> (m, st)
      | None \<Rightarrow> (next_mutex st, st\<lparr>refresh_locks := (refresh_locks st)(s \<mapsto> next_mutex st),
                                  next_mutex := Suc (next_mutex st)\<rparr>))"

text \<open>The steps of \<^verbatim>\<open>get_or_refresh_token\<close>, and of the cache, whose entries expire and get evicted.\<close>

inductive request_step :: "(string \<Rightarrow> nat) \<Rightarrow> lock_state \<Rightarrow> lock_state \<Rightarrow> bool" for shard where
  miss: "\<lbrakk>loc st t = Idle; s \<notin> fresh st\<rbrakk> \<Longrightarrow> request_step shard st (at t (Missed s) st)"
| entry: "\<lbrakk>loc st t = Missed s; guarded_shard st \<noteq> Some (shard s); lock_entry s st = (m, st')\<rbrakk> \<Longrightarrow>
    request_step shard st (at t (Waiting s m) st')"
| acquire: "\<lbrakk>loc st t = Waiting s m; holder st m = None\<rbrakk> \<Longrightarrow>
    request_step shard st (at t (Holding s m) (st\<lparr>holder := (holder st)(m \<mapsto> t)\<rparr>))"
| hit: "\<lbrakk>loc st t = Holding s m; s \<in> fresh st\<rbrakk> \<Longrightarrow>
    request_step shard st (at t Idle (release m st))"
| exchange: "\<lbrakk>loc st t = Holding s m; s \<notin> fresh st\<rbrakk> \<Longrightarrow>
    request_step shard st (at t (Refreshing s m) st)"
| refreshed: "loc st t = Refreshing s m \<Longrightarrow>
    request_step shard st (at t Idle (release m
      (st\<lparr>cached := insert s (cached st), fresh := insert s (fresh st)\<rparr>)))"
| failed: "loc st t = Refreshing s m \<Longrightarrow> request_step shard st (at t Idle (release m st))"
| expire: "request_step shard st (st\<lparr>fresh := fresh st - {s}\<rparr>)"
| evict: "request_step shard st (st\<lparr>cached := cached st - {s}, fresh := fresh st - {s}\<rparr>)"

text \<open>
  The task: it wakes up, goes through the shards one by one and in each through its keys, asks the cache
  about every key, collects those without a cached token, then removes them.
\<close>

inductive cleanup_step :: "(string \<Rightarrow> nat) \<Rightarrow> lock_state \<Rightarrow> lock_state \<Rightarrow> bool" for shard where
  wake: "\<lbrakk>sweep st = Sleeping; set keys = shard_keys shard 0 st; distinct keys\<rbrakk> \<Longrightarrow>
    cleanup_step shard st (st\<lparr>sweep := InShard 0 keys\<rparr>)"
| look: "sweep st = InShard i (s # keys) \<Longrightarrow> cleanup_step shard st (st\<lparr>sweep := Looking i s keys\<rparr>)"
| looked: "sweep st = Looking i s keys \<Longrightarrow>
    cleanup_step shard st (st\<lparr>sweep := InShard i keys,
      stale := (if s \<in> cached st then stale st else insert s (stale st))\<rparr>)"
| next_shard: "\<lbrakk>sweep st = InShard i []; \<exists>s \<in> dom (refresh_locks st). i < shard s;
      set keys = shard_keys shard (Suc i) st; distinct keys\<rbrakk> \<Longrightarrow>
    cleanup_step shard st (st\<lparr>sweep := InShard (Suc i) keys\<rparr>)"
| collected: "\<lbrakk>sweep st = InShard i []; \<forall>s \<in> dom (refresh_locks st). shard s \<le> i\<rbrakk> \<Longrightarrow>
    cleanup_step shard st (st\<lparr>sweep := Removing\<rparr>)"
| remove: "\<lbrakk>sweep st = Removing; s \<in> stale st\<rbrakk> \<Longrightarrow>
    cleanup_step shard st (st\<lparr>refresh_locks := (refresh_locks st)(s := None), stale := stale st - {s}\<rparr>)"
| sleep: "\<lbrakk>sweep st = Removing; stale st = {}\<rbrakk> \<Longrightarrow> cleanup_step shard st (st\<lparr>sweep := Sleeping\<rparr>)"

inductive broker_step :: "(string \<Rightarrow> nat) \<Rightarrow> lock_state \<Rightarrow> lock_state \<Rightarrow> bool" for shard where
  by_request: "request_step shard st st' \<Longrightarrow> broker_step shard st st'"
| by_cleanup: "cleanup_step shard st st' \<Longrightarrow> broker_step shard st st'"

inductive_cases broker_stepE: "broker_step shard st st'"

inductive_simps broker_step_iff: "broker_step shard st st'"

lemma requests_run: "(request_step shard)\<^sup>*\<^sup>* a b \<Longrightarrow> (broker_step shard)\<^sup>*\<^sup>* a b"
  by (induction rule: rtranclp_induct) (auto intro: by_request rtranclp.rtrancl_into_rtrancl)

lemma cleanup_runs: "(cleanup_step shard)\<^sup>*\<^sup>* a b \<Longrightarrow> (broker_step shard)\<^sup>*\<^sup>* a b"
  by (induction rule: rtranclp_induct) (auto intro: by_cleanup rtranclp.rtrancl_into_rtrancl)

section \<open>Invariants\<close>

lemmas step_simps = at_def release_def lock_entry_def

text \<open>A mutex is held by exactly the thread that is inside, whoever runs.\<close>

definition inside :: "location \<Rightarrow> nat \<Rightarrow> bool" where
  "inside l m \<longleftrightarrow> (\<exists>s. l = Holding s m \<or> l = Refreshing s m)"

definition held_ok :: "lock_state \<Rightarrow> bool" where
  "held_ok st \<longleftrightarrow> (\<forall>t m. inside (loc st t) m \<longleftrightarrow> holder st m = Some t)"

lemma inside_simps [simp]:
  "\<not> inside Idle m" "\<not> inside (Missed s) m" "\<not> inside (Waiting s k) m"
  "inside (Holding s k) m \<longleftrightarrow> k = m" "inside (Refreshing s k) m \<longleftrightarrow> k = m"
  by (auto simp: inside_def)

lemma held_ok_cong: "held_ok st \<Longrightarrow> loc st' = loc st \<Longrightarrow> holder st' = holder st \<Longrightarrow> held_ok st'"
  by (simp add: held_ok_def)

lemma held_ok_move:
  "held_ok st \<Longrightarrow> (\<And>m. inside l m \<longleftrightarrow> inside (loc st t) m) \<Longrightarrow> held_ok (at t l st)"
  by (auto simp: held_ok_def at_def)

lemma held_ok_acquire:
  assumes "held_ok st" and "holder st m = None" and "\<And>m'. \<not> inside (loc st t) m'"
    and "\<And>m'. inside l m' \<longleftrightarrow> m' = m"
  shows "held_ok (at t l (st\<lparr>holder := (holder st)(m \<mapsto> t)\<rparr>))"
proof -
  have "inside (loc st t') m' \<longleftrightarrow> holder st m' = Some t'" for t' m'
    using assms(1) by (simp add: held_ok_def)
  then show ?thesis
    using assms(2-4) by (auto simp: held_ok_def at_def)
qed

lemma held_ok_release:
  assumes "held_ok st" and "inside (loc st t) m"
  shows "held_ok (at t Idle (release m st))"
proof -
  have i: "holder st m' = Some t' \<longleftrightarrow> inside (loc st t') m'" for t' m'
    using assms(1) by (simp add: held_ok_def)
  have one: "m' = m" if "inside (loc st t) m'" for m'
    using that assms(2) by (auto simp: inside_def)
  have other: "t' = t" if "inside (loc st t') m" for t'
    using that assms(2) i by (metis option.inject)
  show ?thesis unfolding held_ok_def
  proof (intro allI)
    fix t' m'
    show "inside (loc (at t Idle (release m st)) t') m' \<longleftrightarrow>
        holder (at t Idle (release m st)) m' = Some t'"
    proof (cases "m' = m")
      case True
      then show ?thesis using other[of t'] by (auto simp: at_def release_def)
    next
      case False
      then show ?thesis using one[of m'] i[of m' t'] by (auto simp: at_def release_def)
    qed
  qed
qed

lemma request_held_ok:
  assumes "request_step shard st st'" and "held_ok st"
  shows "held_ok st'"
  using assms
proof (induction rule: request_step.induct)
  case (entry st t s m st')
  then have "held_ok st'" "loc st' t = Missed s"
    by (auto simp: lock_entry_def split: option.splits simp: held_ok_def)
  then show ?case by (auto intro: held_ok_move)
next
  case (acquire st t s m)
  then show ?case by (intro held_ok_acquire) auto
next
  case (hit st t s m)
  then show ?case by (intro held_ok_release) auto
next
  case (exchange st t s m)
  then show ?case by (intro held_ok_move) auto
next
  case (refreshed st t s m)
  then show ?case
    by (intro held_ok_release) (simp_all add: held_ok_def)
next
  case (failed st t s m)
  then show ?case by (intro held_ok_release) auto
next
  case (miss st t s)
  then show ?case by (intro held_ok_move) auto
qed (simp_all add: held_ok_def)

lemma cleanup_held_ok: "cleanup_step shard st st' \<Longrightarrow> held_ok st \<Longrightarrow> held_ok st'"
  by (induction rule: cleanup_step.induct) (simp_all add: held_ok_def)

lemma broker_held_ok: "broker_step shard st st' \<Longrightarrow> held_ok st \<Longrightarrow> held_ok st'"
  by (elim broker_stepE) (blast intro: request_held_ok cleanup_held_ok)+

text \<open>
  While nothing is removed, whoever waits for a subject's mutex or holds it has the one that is
  registered for the subject, and different subjects have different mutexes.
\<close>

definition on_mutex :: "location \<Rightarrow> string \<Rightarrow> nat \<Rightarrow> bool" where
  "on_mutex l s m \<longleftrightarrow> l = Waiting s m \<or> l = Holding s m \<or> l = Refreshing s m"

definition registered_ok :: "lock_state \<Rightarrow> bool" where
  "registered_ok st \<longleftrightarrow> (\<forall>t s m. on_mutex (loc st t) s m \<longrightarrow> refresh_locks st s = Some m)"

lemma on_mutex_simps [simp]:
  "\<not> on_mutex Idle s m" "\<not> on_mutex (Missed s') s m"
  "on_mutex (Waiting s' k) s m \<longleftrightarrow> s' = s \<and> k = m"
  "on_mutex (Holding s' k) s m \<longleftrightarrow> s' = s \<and> k = m"
  "on_mutex (Refreshing s' k) s m \<longleftrightarrow> s' = s \<and> k = m"
  by (auto simp: on_mutex_def)

lemma request_registered_ok:
  assumes "request_step shard st st'" and "registered_ok st"
  shows "registered_ok st'"
  using assms
proof (induction rule: request_step.induct)
  case (entry st t s m st')
  then show ?case
    by (auto simp: registered_ok_def step_simps split: option.splits)
next
  case (acquire st t s m)
  then have "refresh_locks st s = Some m" by (metis registered_ok_def on_mutex_simps(3))
  with acquire show ?case by (auto simp: registered_ok_def step_simps)
next
  case (exchange st t s m)
  then have "refresh_locks st s = Some m" by (metis registered_ok_def on_mutex_simps(4))
  with exchange show ?case by (auto simp: registered_ok_def step_simps)
qed (auto simp: registered_ok_def step_simps)

lemma refreshing_holder: "held_ok st \<Longrightarrow> loc st t = Refreshing s m \<Longrightarrow> holder st m = Some t"
  by (metis held_ok_def inside_simps(5))

lemma init_ok: "held_ok lock_init" "registered_ok lock_init"
  by (simp_all add: held_ok_def registered_ok_def lock_init_def)

lemma request_reachable_ok:
  "(request_step shard)\<^sup>*\<^sup>* lock_init st \<Longrightarrow> held_ok st \<and> registered_ok st"
  by (induction rule: rtranclp_induct) (blast intro: init_ok request_held_ok request_registered_ok)+

lemma broker_reachable_ok: "(broker_step shard)\<^sup>*\<^sup>* lock_init st \<Longrightarrow> held_ok st"
  by (induction rule: rtranclp_induct) (blast intro: init_ok broker_held_ok)+

section \<open>Properties\<close>

text \<open>
  C9. As long as the cleanup task does not run, the refreshes of a subject are serialised: however
  requests, expiries and evictions interleave, no two requests are exchanging the refresh token of
  one subject at the same time.
\<close>

theorem refresh_exclusive:
  assumes "(request_step shard)\<^sup>*\<^sup>* lock_init st"
    and "loc st t = Refreshing s m" and "loc st t' = Refreshing s m'"
  shows "t = t'"
proof -
  have "held_ok st" "registered_ok st" using request_reachable_ok[OF assms(1)] by auto
  moreover have "on_mutex (loc st t) s m" "on_mutex (loc st t') s m'" using assms(2,3) by simp_all
  ultimately have "m = m'" by (metis registered_ok_def option.inject)
  then have "holder st m = Some t" "holder st m = Some t'"
    using \<open>held_ok st\<close> assms(2,3) by (auto intro: refreshing_holder)
  then show ?thesis by simp
qed

text \<open>The run that breaks it, as the states after its three parts.\<close>

definition race_first :: lock_state where
  "race_first = \<lparr>loc = (\<lambda>_. Idle)(0 := Refreshing ''s'' 0), refresh_locks = [''s'' \<mapsto> 0],
     next_mutex = 1, holder = [0 \<mapsto> 0], cached = {}, fresh = {}, stale = {}, sweep = Sleeping\<rparr>"

definition race_swept :: lock_state where
  "race_swept = race_first\<lparr>refresh_locks := Map.empty, sweep := Removing\<rparr>"

definition race_second :: lock_state where
  "race_second = race_swept\<lparr>loc := (loc race_swept)(1 := Refreshing ''s'' 1),
     refresh_locks := [''s'' \<mapsto> 1], next_mutex := Suc (Suc 0), holder := [0 \<mapsto> 0, 1 \<mapsto> 1]\<rparr>"

text \<open>A request alone, from the lookup in the cache to the exchange of the refresh token.\<close>

lemma request_alone:
  assumes "loc st t = Idle" and "s \<notin> fresh st" and "lock_entry s st = (m, st')"
    and "holder st m = None" and "guarded_shard st \<noteq> Some (shard s)"
  shows "(request_step shard)\<^sup>*\<^sup>* st (at t (Refreshing s m) (st'\<lparr>holder := (holder st')(m \<mapsto> t)\<rparr>))"
proof -
  have st': "loc st' = loc st" "holder st' = holder st" "fresh st' = fresh st"
    using assms(3) by (auto simp: lock_entry_def split: option.splits)
  let ?a = "at t (Missed s) st" and ?b = "at t (Waiting s m) st'"
  let ?c = "at t (Holding s m) (st'\<lparr>holder := (holder st')(m \<mapsto> t)\<rparr>)"
  have a: "request_step shard st ?a" using assms(1,2) by (rule request_step.miss)
  have b: "request_step shard ?a ?b"
    using request_step.entry[of ?a t s shard m "at t (Missed s) st'"] assms(3,5)
    by (auto simp: lock_entry_def at_def guarded_shard_def split: option.splits)
  have c: "request_step shard ?b ?c"
    using request_step.acquire[of ?b t s m] assms(4) st' by (simp add: at_def)
  have d: "request_step shard ?c (at t (Refreshing s m) (st'\<lparr>holder := (holder st')(m \<mapsto> t)\<rparr>))"
    using request_step.exchange[of ?c t s m] assms(2) st' by (simp add: at_def)
  show ?thesis
    using a b c d by (meson converse_rtranclp_into_rtranclp rtranclp.rtrancl_refl)
qed

text \<open>
  The cleanup task alone comes to the end of its loop: it goes on through the keys of a shard and through
  the shards, of which only finitely many have keys. Requests and the cache are as before.
\<close>

definition same_requests :: "lock_state \<Rightarrow> lock_state \<Rightarrow> bool" where
  "same_requests st st' \<longleftrightarrow> loc st' = loc st \<and> holder st' = holder st \<and> next_mutex st' = next_mutex st \<and>
     refresh_locks st' = refresh_locks st \<and> cached st' = cached st \<and> fresh st' = fresh st"

lemma same_requests_refl [simp]: "same_requests st st"
  by (simp add: same_requests_def)

lemma same_requests_trans: "same_requests a b \<Longrightarrow> same_requests b c \<Longrightarrow> same_requests a c"
  by (simp add: same_requests_def)

lemma sweep_shard:
  "sweep st = InShard i keys \<Longrightarrow> \<exists>st'. (cleanup_step shard)\<^sup>*\<^sup>* st st' \<and> same_requests st st' \<and>
     sweep st' = InShard i [] \<and> stale st' = stale st \<union> (set keys - cached st)"
proof (induction keys arbitrary: st)
  case (Cons s keys)
  let ?a = "st\<lparr>sweep := Looking i s keys\<rparr>"
  let ?b = "?a\<lparr>sweep := InShard i keys, stale := (if s \<in> cached ?a then stale ?a else insert s (stale ?a))\<rparr>"
  have "cleanup_step shard st ?a" using Cons.prems by (rule cleanup_step.look)
  moreover have "cleanup_step shard ?a ?b" by (rule cleanup_step.looked) simp
  moreover obtain st' where st': "(cleanup_step shard)\<^sup>*\<^sup>* ?b st'" "same_requests ?b st'"
    "sweep st' = InShard i []" "stale st' = stale ?b \<union> (set keys - cached ?b)"
    using Cons.IH [of ?b] by auto
  ultimately have "(cleanup_step shard)\<^sup>*\<^sup>* st st'"
    by (meson converse_rtranclp_into_rtranclp)
  moreover have "same_requests st st'" using st'(2) by (simp add: same_requests_def)
  moreover have "stale st' = stale st \<union> (set (s # keys) - cached st)" using st'(4) by auto
  ultimately show ?case using st'(3) by blast
qed auto

lemma sweep_shards:
  assumes "sweep st = InShard i []" and "finite (dom (refresh_locks st))"
  shows "\<exists>st'. (cleanup_step shard)\<^sup>*\<^sup>* st st' \<and> same_requests st st' \<and> sweep st' = Removing \<and>
    stale st' = stale st \<union> {s \<in> dom (refresh_locks st). i < shard s \<and> s \<notin> cached st}"
  using assms
proof (induction "Max (insert 0 (shard ` dom (refresh_locks st))) - i" arbitrary: st i)
  case 0
  have "shard s \<le> i" if "s \<in> dom (refresh_locks st)" for s
  proof -
    have "shard s \<le> Max (insert 0 (shard ` dom (refresh_locks st)))"
      using that 0(3) by (intro Max_ge) auto
    with 0(1) show ?thesis by linarith
  qed
  then have "cleanup_step shard st (st\<lparr>sweep := Removing\<rparr>)"
    and "{s \<in> dom (refresh_locks st). i < shard s \<and> s \<notin> cached st} = {}"
    using cleanup_step.collected [OF 0(2), of shard] by (auto simp: not_less)
  then show ?case by (intro exI [of _ "st\<lparr>sweep := Removing\<rparr>"]) (auto simp: same_requests_def)
next
  case (Suc k)
  let ?m = "Max (insert 0 (shard ` dom (refresh_locks st)))"
  have "?m \<in> insert 0 (shard ` dom (refresh_locks st))" using Suc(4) by (intro Max_in) auto
  with Suc(2) obtain s where "s \<in> dom (refresh_locks st)" "?m = shard s" by force
  with Suc(2) have more: "\<exists>s \<in> dom (refresh_locks st). i < shard s"
    by (intro bexI [of _ s]) simp_all
  obtain keys where keys: "set keys = shard_keys shard (Suc i) st" "distinct keys"
    using finite_distinct_list [of "shard_keys shard (Suc i) st"] Suc(4) by (auto simp: shard_keys_def)
  let ?a = "st\<lparr>sweep := InShard (Suc i) keys\<rparr>"
  have a: "cleanup_step shard st ?a" using Suc(3) more keys by (rule cleanup_step.next_shard)
  obtain st1 where st1: "(cleanup_step shard)\<^sup>*\<^sup>* ?a st1" "same_requests ?a st1"
    "sweep st1 = InShard (Suc i) []" "stale st1 = stale st \<union> (set keys - cached st)"
    using sweep_shard [of ?a "Suc i" keys shard] by auto
  then have locks: "refresh_locks st1 = refresh_locks st" "cached st1 = cached st"
    by (simp_all add: same_requests_def)
  have "k = ?m - Suc i" using Suc(2) by linarith
  then obtain st' where st': "(cleanup_step shard)\<^sup>*\<^sup>* st1 st'" "same_requests st1 st'" "sweep st' = Removing"
    "stale st' = stale st1 \<union> {s \<in> dom (refresh_locks st). Suc i < shard s \<and> s \<notin> cached st}"
    using Suc(1) [of st1 "Suc i"] Suc(4) st1(3) unfolding locks by blast
  have "(cleanup_step shard)\<^sup>*\<^sup>* st st'"
    using a st1(1) st'(1) by (meson converse_rtranclp_into_rtranclp rtranclp_trans)
  moreover have "same_requests st st'" using st1(2) st'(2) by (simp add: same_requests_def)
  moreover have "stale st' = stale st \<union> {s \<in> dom (refresh_locks st). i < shard s \<and> s \<notin> cached st}"
    using st'(4) st1(4) keys(1) by (auto simp: shard_keys_def)
  ultimately show ?case using st'(3) by blast
qed

lemma sweep_to_end:
  assumes "guarded_shard st \<noteq> None" and "finite (dom (refresh_locks st))"
  shows "\<exists>st'. (cleanup_step shard)\<^sup>*\<^sup>* st st' \<and> same_requests st st' \<and> sweep st' = Removing"
proof -
  have in_shard: "\<exists>st'. (cleanup_step shard)\<^sup>*\<^sup>* a st' \<and> same_requests a st' \<and> sweep st' = Removing"
    if a1: "sweep a = InShard i keys" and a2: "finite (dom (refresh_locks a))" for a i keys
  proof -
    obtain b where b: "(cleanup_step shard)\<^sup>*\<^sup>* a b" "same_requests a b" "sweep b = InShard i []"
      using sweep_shard [OF a1, of shard] by blast
    with a2 have "finite (dom (refresh_locks b))" by (simp add: same_requests_def)
    from sweep_shards [OF b(3) this, of shard] b(1,2) show ?thesis
      by (meson rtranclp_trans same_requests_trans)
  qed
  show ?thesis
  proof (cases "sweep st")
    case (InShard i keys)
    then show ?thesis using in_shard assms(2) by blast
  next
    case (Looking i s keys)
    let ?a = "st\<lparr>sweep := InShard i keys, stale := (if s \<in> cached st then stale st else insert s (stale st))\<rparr>"
    have "cleanup_step shard st ?a" using Looking by (rule cleanup_step.looked)
    moreover obtain st' where "(cleanup_step shard)\<^sup>*\<^sup>* ?a st'" "same_requests ?a st'" "sweep st' = Removing"
      using in_shard [of ?a i keys] assms(2) by auto
    ultimately show ?thesis
      by (intro exI [of _ st']) (auto simp: same_requests_def intro: converse_rtranclp_into_rtranclp)
  qed (use assms(1) in \<open>simp_all add: guarded_shard_def\<close>)
qed

text \<open>A whole sweep from sleep on finds the keys without a cached token.\<close>

lemma sweep_all:
  assumes "sweep st = Sleeping" and "finite (dom (refresh_locks st))"
  shows "\<exists>st'. (cleanup_step shard)\<^sup>*\<^sup>* st st' \<and> same_requests st st' \<and> sweep st' = Removing \<and>
    stale st' = stale st \<union> (dom (refresh_locks st) - cached st)"
proof -
  obtain keys where keys: "set keys = shard_keys shard 0 st" "distinct keys"
    using finite_distinct_list [of "shard_keys shard 0 st"] assms(2) by (auto simp: shard_keys_def)
  let ?a = "st\<lparr>sweep := InShard 0 keys\<rparr>"
  have a: "cleanup_step shard st ?a" using assms(1) keys by (rule cleanup_step.wake)
  obtain b where b: "(cleanup_step shard)\<^sup>*\<^sup>* ?a b" "same_requests ?a b" "sweep b = InShard 0 []"
    "stale b = stale st \<union> (set keys - cached st)"
    using sweep_shard [of ?a 0 keys shard] by auto
  then have locks: "refresh_locks b = refresh_locks st" "cached b = cached st"
    by (simp_all add: same_requests_def)
  obtain st' where st': "(cleanup_step shard)\<^sup>*\<^sup>* b st'" "same_requests b st'" "sweep st' = Removing"
    "stale st' = stale b \<union> {s \<in> dom (refresh_locks st). 0 < shard s \<and> s \<notin> cached st}"
    using sweep_shards [OF b(3), of shard] assms(2) unfolding locks by blast
  have "(cleanup_step shard)\<^sup>*\<^sup>* st st'"
    using a b(1) st'(1) by (meson converse_rtranclp_into_rtranclp rtranclp_trans)
  moreover have "same_requests st st'" using b(2) st'(2) by (simp add: same_requests_def)
  moreover have "stale st' = stale st \<union> (dom (refresh_locks st) - cached st)"
    using st'(4) b(4) keys(1) by (auto simp: shard_keys_def)
  ultimately show ?thesis using st'(3) by blast
qed

lemma race_steps:
  "(request_step shard)\<^sup>*\<^sup>* lock_init race_first" "(cleanup_step shard)\<^sup>*\<^sup>* race_first race_swept"
  "(request_step shard)\<^sup>*\<^sup>* race_swept race_second"
proof -
  show "(request_step shard)\<^sup>*\<^sup>* lock_init race_first"
    using request_alone[of lock_init 0 "''s''" 0 _ shard]
    by (simp add: lock_init_def lock_entry_def at_def race_first_def guarded_shard_def)
  have "sweep race_first = Sleeping" "finite (dom (refresh_locks race_first))"
    by (simp_all add: race_first_def)
  from sweep_all [OF this, of shard] obtain a where a: "(cleanup_step shard)\<^sup>*\<^sup>* race_first a"
    "same_requests race_first a" "sweep a = Removing" "stale a = {''s''}"
    by (auto simp: race_first_def)
  have "a\<lparr>refresh_locks := (refresh_locks a)(''s'' := None), stale := stale a - {''s''}\<rparr> = race_swept"
    using a(2-4) by (cases a) (simp add: same_requests_def race_first_def race_swept_def)
  then have "cleanup_step shard a race_swept"
    using cleanup_step.remove [OF a(3), of "''s''" shard] a(4) by simp
  with a(1) show "(cleanup_step shard)\<^sup>*\<^sup>* race_first race_swept" by (rule rtranclp.rtrancl_into_rtrancl)
  show "(request_step shard)\<^sup>*\<^sup>* race_swept race_second"
    using request_alone[of race_swept 1 "''s''" 1 _ shard]
    by (simp add: race_first_def race_swept_def race_second_def lock_entry_def at_def guarded_shard_def)
qed

text \<open>A mutex is still held by one request at a time.\<close>

lemma mutex_exclusive:
  assumes "(broker_step shard)\<^sup>*\<^sup>* lock_init st"
    and "loc st t = Refreshing s m" and "loc st t' = Refreshing s' m"
  shows "t = t'"
  using refreshing_holder[OF broker_reachable_ok[OF assms(1)]] assms(2,3) by (metis option.inject)

section \<open>Progress\<close>

text \<open>The steps of one request, as facts about where it is before and after.\<close>

lemma leave_refreshing:
  assumes "loc st t = Refreshing s m"
  shows "\<exists>st'. (request_step shard)\<^sup>*\<^sup>* st st' \<and> st' = at t Idle (release m st)"
  using request_step.failed [OF assms] by blast

lemma leave_inside:
  assumes "inside (loc st t) m"
  shows "\<exists>st'. (request_step shard)\<^sup>*\<^sup>* st st' \<and> loc st' = (loc st)(t := Idle) \<and> holder st' m = None"
proof -
  from assms obtain s where "loc st t = Holding s m \<or> loc st t = Refreshing s m"
    by (auto simp: inside_def)
  then show ?thesis
  proof
    assume h: "loc st t = Holding s m"
    show ?thesis
    proof (cases "s \<in> fresh st")
      case True
      then show ?thesis
        using request_step.hit [OF h True] by (auto simp: at_def release_def intro!: exI r_into_rtranclp)
    next
      case False
      let ?r = "at t (Refreshing s m) st"
      have "request_step shard st ?r" by (rule request_step.exchange [OF h False])
      moreover have "loc ?r t = Refreshing s m" by (simp add: at_def)
      ultimately have "(request_step shard)\<^sup>*\<^sup>* st (at t Idle (release m ?r))"
        by (meson leave_refreshing converse_rtranclp_into_rtranclp)
      then show ?thesis by (fastforce simp: at_def release_def)
    qed
  next
    assume "loc st t = Refreshing s m"
    then show ?thesis using leave_refreshing by (fastforce simp: at_def release_def)
  qed
qed

lemma leave_waiting:
  assumes "held_ok st" and "loc st t = Waiting s m"
  shows "\<exists>st'. (request_step shard)\<^sup>*\<^sup>* st st' \<and> loc st' t = Idle"
proof -
  have "\<exists>st1. (request_step shard)\<^sup>*\<^sup>* st st1 \<and> loc st1 t = Waiting s m \<and> holder st1 m = None"
  proof (cases "holder st m")
    case None
    with assms(2) show ?thesis by blast
  next
    case (Some t')
    then have i: "inside (loc st t') m" using assms(1) by (simp add: held_ok_def)
    with assms(2) have "t' \<noteq> t" by auto
    with leave_inside [OF i] assms(2) show ?thesis by fastforce
  qed
  then obtain st1 where st1: "(request_step shard)\<^sup>*\<^sup>* st st1" "loc st1 t = Waiting s m" "holder st1 m = None" by blast
  let ?a = "at t (Holding s m) (st1\<lparr>holder := (holder st1)(m \<mapsto> t)\<rparr>)"
  have "request_step shard st1 ?a" by (rule request_step.acquire [OF st1(2,3)])
  moreover obtain st2 where "(request_step shard)\<^sup>*\<^sup>* ?a st2" "loc st2 t = Idle"
    using leave_inside [of ?a t m] by (fastforce simp: at_def)
  ultimately show ?thesis using st1(1) by (meson rtranclp.rtrancl_into_rtrancl rtranclp_trans)
qed

text \<open>Only finitely many subjects have a mutex.\<close>

lemma finite_locks_step: "broker_step shard st st' \<Longrightarrow> finite (dom (refresh_locks st)) \<Longrightarrow> finite (dom (refresh_locks st'))"
proof (elim broker_stepE)
  assume "request_step shard st st'" "finite (dom (refresh_locks st))"
  then show ?thesis
    by (induction rule: request_step.induct) (auto simp: step_simps split: option.splits)
next
  assume "cleanup_step shard st st'" "finite (dom (refresh_locks st))"
  then show ?thesis by (induction rule: cleanup_step.induct) auto
qed

lemma finite_locks: "(broker_step shard)\<^sup>*\<^sup>* lock_init st \<Longrightarrow> finite (dom (refresh_locks st))"
  by (induction rule: rtranclp_induct) (simp_all add: lock_init_def finite_locks_step)

lemma leave_missed:
  assumes "held_ok st" and "loc st t = Missed s" and "guarded_shard st \<noteq> Some (shard s)"
  shows "\<exists>st'. (request_step shard)\<^sup>*\<^sup>* st st' \<and> loc st' t = Idle"
proof -
  obtain m st1 where e: "lock_entry s st = (m, st1)" by force
  have step: "request_step shard st (at t (Waiting s m) st1)" using assms(2,3) e by (rule request_step.entry)
  moreover have "held_ok (at t (Waiting s m) st1)" by (rule request_held_ok [OF step assms(1)])
  ultimately show ?thesis
    using leave_waiting [of "at t (Waiting s m) st1" t s m shard]
    by (auto simp: at_def intro: converse_rtranclp_into_rtranclp)
qed

text \<open>A request before \<^verbatim>\<open>entry\<close> does not move while the cleanup task is in the shard of its subject.\<close>

lemma entry_blocked:
  assumes "loc st t = Missed s" and "guarded_shard st = Some (shard s)" and "request_step shard st st'"
  shows "loc st' t = Missed s \<and> guarded_shard st' = Some (shard s)"
  using assms(3,1,2)
  by (induction rule: request_step.induct)
    (auto simp: step_simps guarded_shard_def split: option.splits if_splits)



text \<open>
  C10. With the cleanup task the refreshes of a subject are not serialised any more: while a request
  refreshes a subject that has no cached token, the task removes the mutex it holds, and the next
  request registers another mutex and exchanges the same refresh token a second time.
\<close>

theorem cleanup_breaks_exclusion:
  "\<exists>st. (broker_step shard)\<^sup>*\<^sup>* lock_init st \<and>
     loc st 0 = Refreshing ''s'' 0 \<and> loc st 1 = Refreshing ''s'' 1"
proof -
  have "(broker_step shard)\<^sup>*\<^sup>* lock_init race_second"
    using requests_run [OF race_steps(1)] cleanup_runs [OF race_steps(2)] requests_run [OF race_steps(3)]
    by (meson rtranclp_trans)
  then show ?thesis
    by (rule exI[where x = race_second, OF conjI]) (simp add: race_second_def race_swept_def race_first_def)
qed

theorem refresh_exclusive_witness:
  "{t. loc race_first t = Refreshing ''s'' 0} = {0}"
proof -
  have "loc race_first 0 = Refreshing ''s'' 0" by (simp add: race_first_def)
  then show ?thesis using refresh_exclusive [OF race_steps(1)] by blast
qed

end
