(* ===== verification/Graph_Objects.thy ===== *)
theory Graph_Objects
  imports Graph_Subscription Graph_Templates
begin

text \<open>
  The fields of the objects a client reads, as \<^verbatim>\<open>graph-proxy/src/graphql/workflows.rs\<close> resolves
  them, and what holds of every workflow the graph proxy hands out, whichever query, mutation or
  subscription it comes from.
\<close>

section \<open>Resolvers of a workflow\<close>

definition workflow_name :: "workflow \<Rightarrow> string" where
  "workflow_name w = md_name (wk_metadata w)"

definition workflow_visit :: "workflow \<Rightarrow> visit" where
  "workflow_visit w = md_visit (wk_metadata w)"

definition workflow_status_of :: "workflow \<Rightarrow> workflow_parsing_error + workflow_state option" where
  "workflow_status_of w = workflow_state_new (wk_manifest w) (wk_metadata w)"

text \<open>The members of the status union have resolvers of their own; all but one have tasks.\<close>

definition status_with_tasks :: "workflow_state \<Rightarrow> (workflow_status \<times> metadata) option" where
  "status_with_tasks ws =
     (case ws of
        Pending wst \<Rightarrow> None
      | Running wst md \<Rightarrow> Some (wst, md)
      | Succeeded wst md \<Rightarrow> Some (wst, md)
      | Failed wst md \<Rightarrow> Some (wst, md)
      | Errored wst md \<Rightarrow> Some (wst, md))"

definition pending_message :: "workflow_status \<Rightarrow> string option" where
  "pending_message status = wf_message status"

definition running_start_time :: "workflow_status \<Rightarrow> workflow_parsing_error + int" where
  "running_start_time manifest = ok_or MissingStartTime (wf_started_at manifest)"

definition running_message :: "workflow_status \<Rightarrow> string option" where
  "running_message manifest = wf_message manifest"

definition running_tasks ::
  "'n argo_services \<Rightarrow> graph_ctx \<Rightarrow> workflow_status \<Rightarrow> metadata \<Rightarrow>
     ('n graph_env, graph_error, task list) eff" where
  "running_tasks sv ctx manifest md =
     ebind (ctx_token ctx) (\<lambda>token.
     ebind (fetch_missing_task_info sv (cx_argo_url ctx) token manifest md) (\<lambda>nodes.
     ret (into_tasks nodes)))"

definition complete_message :: "workflow_status \<Rightarrow> string option" where
  "complete_message manifest = wf_message manifest"

lemma running_tasks_eq: "running_tasks sv ctx manifest md = workflow_tasks sv ctx manifest md"
  by (simp add: running_tasks_def workflow_tasks_def)

section \<open>Resolvers of an artifact and a task\<close>

definition artifact_name :: "artifact \<Rightarrow> workflow_parsing_error + string" where
  "artifact_name a = artifact_filename a"

definition task_id_of :: "task \<Rightarrow> string" where
  "task_id_of t = n_id (tk_node t)"

definition task_depends :: "task \<Rightarrow> string list" where
  "task_depends t = tk_depends t"

definition task_step_type :: "task \<Rightarrow> string" where
  "task_step_type t = n_type (tk_node t)"

definition task_start_time :: "task \<Rightarrow> int option" where
  "task_start_time t = n_started_at (tk_node t)"

definition task_end_time :: "task \<Rightarrow> int option" where
  "task_end_time t = n_finished_at (tk_node t)"

definition task_message :: "task \<Rightarrow> string option" where
  "task_message t = n_message (tk_node t)"

section \<open>Scalars of the filters\<close>

text \<open>
  A creator and a template are scalars: GraphQL strings, on which parsing and printing agree. A
  value of the language is given as JSON.
\<close>

definition creator_parse :: "json \<Rightarrow> string + string" where
  "creator_parse value = (case value of JString s \<Rightarrow> Inr s | _ \<Rightarrow> Inl ''expected type Creator'')"

definition creator_to_value :: "string \<Rightarrow> json" where
  "creator_to_value c = JString c"

definition template_parse :: "json \<Rightarrow> string + string" where
  "template_parse value = (case value of JString s \<Rightarrow> Inr s | _ \<Rightarrow> Inl ''expected type Template'')"

definition template_to_value :: "string \<Rightarrow> json" where
  "template_to_value t = JString t"

lemma scalar_roundtrip:
  "creator_parse v = Inr c \<longleftrightarrow> v = creator_to_value c" "template_parse v = Inr t \<longleftrightarrow> v = template_to_value t"
  by (auto simp: creator_parse_def creator_to_value_def template_parse_def template_to_value_def split: json.splits)

section \<open>Well-formed workflows\<close>

text \<open>
  A workflow object agrees with the manifest it carries and belongs to the visit that was asked
  for; so its identifier names it.
\<close>

definition workflow_of_visit :: "visit_input \<Rightarrow> workflow \<Rightarrow> bool" where
  "workflow_of_visit v w \<longleftrightarrow>
     om_name (wm_metadata (wk_manifest w)) = Some (workflow_name w) \<and>
     om_uid (wm_metadata (wk_manifest w)) = Some (md_uid (wk_metadata w)) \<and>
     workflow_visit w = visit_of_input v \<and>
     workflow_id w = visit_input_to_string v @ '':'' @ workflow_name w @ '':'' @ md_uid (wk_metadata w)"

lemma workflow_new_of_visit: "workflow_new m (visit_of_input v) = Inr w \<Longrightarrow> workflow_of_visit v w"
  by (auto simp: workflow_new_ok workflow_of_visit_def workflow_name_def workflow_visit_def workflow_id_def)

lemma yields_guarded [yields_intros]: "yields P m \<Longrightarrow> yields P (guarded ctx m)"
  unfolding guarded_def by (intro yields_intros)

lemma yields_get_workflow:
  "yields (pred_option (workflow_of_visit v)) (get_workflow_from_argo_api sv ctx v name uid)"
  unfolding get_workflow_from_argo_api_def Let_def
  by (rule yields_lift_bind yields_continue yields_if yields_ret | simp add: workflow_new_of_visit)+

text \<open>A workflow asked for by id belongs to the visit the id starts with.\<close>

definition workflow_of_id :: "string \<Rightarrow> workflow \<Rightarrow> bool" where
  "workflow_of_id i w \<longleftrightarrow>
     (case visit_input_from_str (split_char CHR '':'' i ! 0) of
        Inr v \<Rightarrow> visit_code_ok (proposal_code v) \<and> workflow_of_visit v w
      | Inl _ \<Rightarrow> False)"

lemma yields_by_id: "yields (pred_option (workflow_of_id i)) (workflow_by_id sv ctx i)"
  unfolding workflow_by_id_def Let_def
proof (intro yields_if yields_throw)
  show "yields (pred_option (workflow_of_id i))
    (ebind (lift_res (map_err BadVisit (visit_input_from_str (split_char CHR '':'' i ! 0))))
      (\<lambda>v. get_workflow_from_argo_api sv ctx v (split_char CHR '':'' i ! 1) (Some (split_char CHR '':'' i ! 2))))"
    by (rule yields_ebind [where Q = "\<lambda>v. visit_input_from_str (split_char CHR '':'' i ! 0) = Inr v"])
      (auto intro!: yields_lift_res intro: yields_weaken [OF yields_get_workflow] visit_from_str_code_ok
        simp: map_err_eq_Inr workflow_of_id_def pred_option_def)
qed

lemma yields_node_query: "yields (pred_option (workflow_of_id i)) (node_query sv ctx i)"
proof -
  have "yields (pred_option (workflow_of_id i))
      (\<lambda>env. case workflow_by_id sv ctx i env of (r, env') \<Rightarrow> (node_value r, env'))"
    using yieldsD [OF yields_by_id [of i sv ctx]]
    by (fastforce simp: yields_def node_value_def split: prod.splits sum.splits option.splits graph_error.splits)
  then show ?thesis unfolding node_query_def by (rule yields_guarded)
qed

lemma yields_try_map: "try_map f xs = Inr ys \<Longrightarrow> (\<And>x y. f x = Inr y \<Longrightarrow> P y) \<Longrightarrow> list_all P ys"
  by (induction xs arbitrary: ys) (auto simp: rbind_eq_Inr)

lemma page_of_all:
  assumes "page_of i f r = Inr c" and "\<And>x y. f x = Inr y \<Longrightarrow> P y"
  shows "list_all P (map snd (edges c))"
  using assms(1)
  by (auto simp: page_of_def rbind_eq_Inr page_connection_def empty_connection_def comp_def case_prod_unfold
      split: sum.splits if_splits intro: yields_try_map [of f _ _ P] assms(2))

lemma yields_page: "yields (\<lambda>c. list_all (workflow_of_visit v) (map snd (edges c)))
    (workflows_query sv dec ctx v cursor limit flt)"
  unfolding workflows_query_def Let_def
  by (intro yields_intros) (metis page_of_all workflow_new_of_visit)

lemma yields_submissions:
  "yields (workflow_of_visit v) (submit_workflow sv from_yaml ctx v manifest)"
  "yields (workflow_of_visit v) (submit_workflow_template sv to_string ctx name v parameters)"
  unfolding submit_workflow_def submit_workflow_template_def Let_def
  by (intro yields_intros workflow_new_of_visit; assumption)+

text \<open>The items a subscription yields to its client: an error text, or a workflow.\<close>

definition item_ok :: "(workflow \<Rightarrow> bool) \<Rightarrow> graph_error + (string + workflow) \<Rightarrow> bool" where
  "item_ok P item = (case item of Inr (Inr w) \<Rightarrow> P w | _ \<Rightarrow> True)"

lemma yields_subscription:
  "yields (list_all (item_ok (workflow_of_visit v))) (workflow_subscription sv ctx v name)"
proof -
  have "item_ok (workflow_of_visit v) (watch_item sv v e)" for e
    by (auto simp: item_ok_def watch_item_def rbind_eq_Inr workflow_new_of_visit
        split: sum.splits option.splits dest!: workflow_new_of_visit)
  then show ?thesis
    unfolding workflow_subscription_def Let_def
    by (intro yields_intros) (simp add: list_all_iff)
qed

text \<open>
  C36. Every workflow the graph proxy hands out is well-formed: its name and uid are those of the
  manifest it carries, its visit is the one the client asked for, and its identifier is made of the
  three. This holds of the queries by name and by id, the node query, the pages, both submissions
  and the subscription; a workflow asked for by id belongs to the visit the id starts with, which
  parses.
\<close>

theorem workflows_well_formed:
  "yields (pred_option (workflow_of_visit v)) (workflow_query sv ctx v name) \<and>
   yields (\<lambda>c. list_all (workflow_of_visit v) (map snd (edges c)))
     (workflows_query sv dec ctx v cursor limit flt) \<and>
   yields (workflow_of_visit v) (submit_workflow sv from_yaml ctx v manifest) \<and>
   yields (workflow_of_visit v) (submit_workflow_template sv to_string ctx template v parameters) \<and>
   yields (list_all (item_ok (workflow_of_visit v))) (workflow_subscription ssv ctx v name) \<and>
   yields (pred_option (workflow_of_id i)) (workflow_by_id_query sv ctx i) \<and>
   yields (pred_option (workflow_of_id i)) (node_query sv ctx i)"
  unfolding workflow_query_def workflow_by_id_query_def
  by (intro conjI yields_guarded yields_get_workflow yields_page yields_submissions yields_subscription
      yields_by_id yields_node_query)

end
