(* ===== verification/Cli_Env.thy ===== *)
theory Cli_Env
  imports Sessions
begin

text \<open>
  What the command line tool works with: YAML values as \<^verbatim>\<open>serde_yaml\<close> has them, the file system
  and the commands it runs (\<^verbatim>\<open>argo\<close>, \<^verbatim>\<open>helm\<close>) as services on a state \<open>'n\<close>, and a log of the
  changes it makes to files. A path is its text, joined as \<^verbatim>\<open>PathBuf::push\<close> does.
\<close>

section \<open>YAML values\<close>

datatype yaml =
    YNull
  | YBool bool
  | YNumber string
  | YString string
  | YSequence "yaml list"
  | YMapping "(yaml \<times> yaml) list"
  | YTagged string yaml

type_synonym mapping_entries = "(yaml \<times> yaml) list"

text \<open>Access by a text goes through tags to the mapping below them, if there is one.\<close>

fun untag :: "yaml \<Rightarrow> yaml" where
  "untag (YTagged _ v) = untag v"
| "untag v = v"

definition as_mapping :: "yaml \<Rightarrow> mapping_entries option" where
  "as_mapping v = (case untag v of YMapping m \<Rightarrow> Some m | _ \<Rightarrow> None)"

definition entry :: "mapping_entries \<Rightarrow> string \<Rightarrow> yaml option" where
  "entry m k = map_of m (YString k)"

definition yaml_get :: "yaml \<Rightarrow> string \<Rightarrow> yaml option" where
  "yaml_get v k = (case as_mapping v of Some m \<Rightarrow> entry m k | None \<Rightarrow> None)"

definition yaml_as_str :: "yaml \<Rightarrow> string option" where
  "yaml_as_str v = (case untag v of YString s \<Rightarrow> Some s | _ \<Rightarrow> None)"

text \<open>Indexing with a missing key reads as null.\<close>

definition yaml_index :: "yaml \<Rightarrow> string \<Rightarrow> yaml" where
  "yaml_index v k = unwrap_or YNull (yaml_get v k)"

text \<open>
  \<^verbatim>\<open>Mapping::insert\<close> keeps the place of a key it overwrites; \<^verbatim>\<open>Mapping::remove\<close> moves the last
  entry into the place of the removed one.
\<close>

fun entries_insert :: "yaml \<Rightarrow> yaml \<Rightarrow> mapping_entries \<Rightarrow> mapping_entries" where
  "entries_insert k v [] = [(k, v)]"
| "entries_insert k v (e # es) = (if fst e = k then (k, v) # es else e # entries_insert k v es)"

fun entries_remove :: "yaml \<Rightarrow> mapping_entries \<Rightarrow> mapping_entries" where
  "entries_remove k [] = []"
| "entries_remove k (e # es) =
     (if fst e = k then (if es = [] then [] else last es # butlast es)
      else e # entries_remove k es)"

lemma entry_insert: "entry (entries_insert (YString k) v m) k' = (if k' = k then Some v else entry m k')"
  by (induction m) (auto simp: entry_def)

lemma set_entries_remove: "distinct (map fst m) \<Longrightarrow> set (entries_remove k m) = {e \<in> set m. fst e \<noteq> k}"
proof (induction m)
  case (Cons e es)
  have "set (last es # butlast es) = set es" if "es \<noteq> []"
    using that by (metis append_butlast_last_id insert_is_Un list.set(1,2) set_append sup_commute)
  moreover have "fst f \<noteq> fst e" if "f \<in> set es" for f
  proof -
    have "fst f \<in> fst ` set es" using that by (rule imageI)
    moreover have "fst e \<notin> fst ` set es" using Cons.prems by simp
    ultimately show ?thesis by metis
  qed
  ultimately show ?case using Cons by auto
qed simp

lemma distinct_entries_remove: "distinct (map fst m) \<Longrightarrow> distinct (map fst (entries_remove k m))"
proof (induction m)
  case (Cons e es)
  have *: "distinct (map fst (last es # butlast es))" if "es \<noteq> []"
  proof -
    have "distinct (map fst (butlast es @ [last es]))" using Cons.prems that by simp
    then show ?thesis by (simp add: distinct_map)
  qed
  have "fst e \<notin> fst ` set (entries_remove k es)" using Cons.prems by (auto simp: set_entries_remove)
  with * Cons show ?case by auto
qed simp

lemma entry_remove:
  assumes "distinct (map fst m)"
  shows "entry (entries_remove (YString k) m) k' = (if k' = k then None else entry m k')"
proof -
  have "entry (entries_remove (YString k) m) k' = Some v \<longleftrightarrow> k' \<noteq> k \<and> entry m k' = Some v" for v
    using assms distinct_entries_remove [OF assms, of "YString k"]
    by (simp add: entry_def map_of_eq_Some_iff set_entries_remove) blast
  then show ?thesis by (cases "entry m k'"; cases "entry (entries_remove (YString k) m) k'") auto
qed

lemma distinct_entries_insert: "distinct (map fst m) \<Longrightarrow> distinct (map fst (entries_insert k v m))"
proof -
  have "fst ` set (entries_insert k v m) = insert k (fst ` set m)" for m
    by (induction m) auto
  then show "distinct (map fst m) \<Longrightarrow> distinct (map fst (entries_insert k v m))"
    by (induction m) auto
qed

section \<open>Files and commands\<close>

datatype fs_change =
    CreateDir string
  | CreateDirAll string
  | RemoveFile string
  | RemoveDirAll string
  | WriteFile string string
  | CopyFile string string
  | MakeSymlink string string

record command_output =
  co_success :: bool
  co_stdout :: string
  co_stderr :: string

text \<open>
  A directory entry is its name, or an error for one that cannot be read. Questions about paths
  and reads do not change anything; a change may fail.
\<close>

record 'n cli_services =
  cs_read_dir :: "string \<Rightarrow> 'n \<Rightarrow> (string + (string + string) list) \<times> 'n"
  cs_read :: "string \<Rightarrow> 'n \<Rightarrow> (string + string) \<times> 'n"
  cs_exists :: "string \<Rightarrow> 'n \<Rightarrow> bool \<times> 'n"
  cs_is_file :: "string \<Rightarrow> 'n \<Rightarrow> bool \<times> 'n"
  cs_is_dir :: "string \<Rightarrow> 'n \<Rightarrow> bool \<times> 'n"
  cs_change :: "fs_change \<Rightarrow> 'n \<Rightarrow> (string + unit) \<times> 'n"
  cs_command :: "string list \<Rightarrow> string option \<Rightarrow> 'n \<Rightarrow> (string + command_output) \<times> 'n"
  cs_yaml :: "string \<Rightarrow> string + yaml"

record 'n cli_env =
  ce_net :: 'n
  ce_changes :: "fs_change list"
  ce_commands :: "(string list \<times> string option) list"

definition ask :: "('n \<Rightarrow> 'a \<times> 'n) \<Rightarrow> ('n cli_env, 'e, 'a) eff" where
  "ask f env = (case f (ce_net env) of (a, n) \<Rightarrow> (Inr a, env\<lparr>ce_net := n\<rparr>))"

definition try_io :: "('n \<Rightarrow> ('e + 'a) \<times> 'n) \<Rightarrow> ('n cli_env, 'e, 'a) eff" where
  "try_io f env = (case f (ce_net env) of (r, n) \<Rightarrow> (r, env\<lparr>ce_net := n\<rparr>))"

definition change :: "'n cli_services \<Rightarrow> fs_change \<Rightarrow> ('n cli_env, string, unit) eff" where
  "change cs c env =
     (case cs_change cs c (ce_net env) of
        (r, n) \<Rightarrow> (r, env\<lparr>ce_net := n, ce_changes := ce_changes env @ [c]\<rparr>))"

definition run_command ::
  "'n cli_services \<Rightarrow> string list \<Rightarrow> string option \<Rightarrow> ('n cli_env, string, command_output) eff" where
  "run_command cs args stdin env =
     (case cs_command cs args stdin (ce_net env) of
        (r, n) \<Rightarrow> (r, env\<lparr>ce_net := n, ce_commands := ce_commands env @ [(args, stdin)]\<rparr>))"

lemma ask_frames [simp]:
  "ask f env = (r, env') \<Longrightarrow> ce_changes env' = ce_changes env \<and> ce_commands env' = ce_commands env"
  by (auto simp: ask_def split: prod.splits)

lemma try_io_frames:
  "try_io f env = (r, env') \<Longrightarrow> ce_changes env' = ce_changes env \<and> ce_commands env' = ce_commands env"
  by (auto simp: try_io_def split: prod.splits)

lemma change_frames:
  "change cs c env = (r, env') \<Longrightarrow>
     ce_changes env' = ce_changes env @ [c] \<and> ce_commands env' = ce_commands env"
  by (auto simp: change_def split: prod.splits)

lemma run_command_frames:
  "run_command cs args i env = (r, env') \<Longrightarrow>
     ce_changes env' = ce_changes env \<and> ce_commands env' = ce_commands env @ [(args, i)]"
  by (auto simp: run_command_def split: prod.splits)

text \<open>A loop over a list in which each step may fail, and one that collects results.\<close>

fun each :: "('a \<Rightarrow> ('s, 'e, unit) eff) \<Rightarrow> 'a list \<Rightarrow> ('s, 'e, unit) eff" where
  "each f [] = ret ()"
| "each f (x # xs) = ebind (f x) (\<lambda>_. each f xs)"

fun map_eff :: "('a \<Rightarrow> ('s, 'e, 'b) eff) \<Rightarrow> 'a list \<Rightarrow> ('s, 'e, 'b list) eff" where
  "map_eff f [] = ret []"
| "map_eff f (x # xs) = ebind (f x) (\<lambda>y. ebind (map_eff f xs) (\<lambda>ys. ret (y # ys)))"

text \<open>\<^verbatim>\<open>Path::join\<close>.\<close>

definition path_join :: "string \<Rightarrow> string \<Rightarrow> string" where
  "path_join p n = path_push p n"

section \<open>Changes of a run\<close>

abbreviation alters :: "(fs_change \<Rightarrow> bool) \<Rightarrow> ('n cli_env, 'e, 'a) eff \<Rightarrow> bool" where
  "alters P m \<equiv> emits ce_changes P m"

lemma alters_quiet [emits_intros]:
  "alters P (ask f :: ('n cli_env, 'e, 'a) eff)" "alters P (try_io g :: ('n cli_env, 'e, 'a) eff)"
  by (auto intro!: frame_emits frameI dest: ask_frames try_io_frames)

lemma alters_run_command [emits_intros]: "alters P (run_command cs args i)"
  by (auto intro!: frame_emits frameI dest: run_command_frames)

lemma alters_change [emits_intros]: "P c \<Longrightarrow> alters P (change cs c)"
  by (auto simp: emits_def change_def split: prod.splits)

text \<open>A result that is only reported.\<close>

definition attempt :: "('s, 'e, 'a) eff \<Rightarrow> ('s, 'f, 'e + 'a) eff" where
  "attempt m s = (case m s of (r, s') \<Rightarrow> (Inr r, s'))"

lemma alters_attempt [emits_intros]: "alters P m \<Longrightarrow> alters P (attempt m)"
  by (auto simp: emits_def attempt_def split: prod.splits) (metis snd_conv)

lemma emits_each [emits_intros]:
  "(\<And>x. x \<in> set xs \<Longrightarrow> emits log P (f x)) \<Longrightarrow> emits log P (each f xs)"
  by (induction xs) (auto intro!: emits_intros)

lemma emits_map_eff [emits_intros]:
  "(\<And>x. x \<in> set xs \<Longrightarrow> emits log P (f x)) \<Longrightarrow> emits log P (map_eff f xs)"
  by (induction xs) (auto intro!: emits_intros)

end
