(* ===== verification/Cli_Command.thy ===== *)
theory Cli_Command
  imports Cli_Env
begin

text \<open>
  The traits behind which the command line runs other programs, and their two implementations:
  \<^verbatim>\<open>workflows-cli/src/command_runner.rs\<close>. Every use of them in the other theories is written
  as \<open>run_command\<close> on the whole command line, which is what the builder of the real one comes to.
\<close>

section \<open>The real runner\<close>

text \<open>\<^verbatim>\<open>std::process::Command\<close> is the program with its arguments; running it is a service.\<close>

record real_command =
  rc_cmd :: "string list"

definition real_new_command :: "string \<Rightarrow> real_command" where
  "real_new_command cmd = \<lparr>rc_cmd = [cmd]\<rparr>"

definition real_arg :: "string \<Rightarrow> real_command \<Rightarrow> real_command" where
  "real_arg a c = c\<lparr>rc_cmd := rc_cmd c @ [a]\<rparr>"

definition real_output :: "'n cli_services \<Rightarrow> real_command \<Rightarrow> ('n cli_env, string, command_output) eff" where
  "real_output cs c = run_command cs (rc_cmd c) None"

definition real_output_with_stdin ::
  "'n cli_services \<Rightarrow> string \<Rightarrow> real_command \<Rightarrow> ('n cli_env, string, command_output) eff" where
  "real_output_with_stdin cs input c = run_command cs (rc_cmd c) (Some input)"

section \<open>The mock runner\<close>

text \<open>
  The mock answers from a table read from a file, of which an environment variable chooses the
  active part. A missing or unreadable table, an unset variable and a command without an entry
  are panics (\<open>None\<close>); parsing the file is a parameter. The lines it prints about its calls are left out.
\<close>

record mock_entry =
  me_command :: string
  me_response :: string
  me_code :: int

record mock_command =
  mc_cmd :: string
  mc_args :: "string list"
  mc_mappings :: "mock_entry list"

definition mock_new ::
  "(string \<Rightarrow> (string \<Rightarrow> mock_entry list option) option) \<Rightarrow> (string \<Rightarrow> string option) \<Rightarrow>
     (string \<Rightarrow> string option) \<Rightarrow> string \<Rightarrow> mock_command option" where
  "mock_new from_yaml read_file env_var cmd =
     Option.bind (read_file ''./tests/mock_commands.yaml'') (\<lambda>yaml_str.
     Option.bind (from_yaml yaml_str) (\<lambda>mappings.
     Option.bind (env_var ''WORKFLOW_CLI_TEST_ACTIVE_MAPPING'') (\<lambda>target_mapping.
     Option.bind (mappings target_mapping) (\<lambda>active_mapping.
     Some \<lparr>mc_cmd = cmd, mc_args = [], mc_mappings = active_mapping\<rparr>))))"

definition mock_arg :: "string \<Rightarrow> mock_command \<Rightarrow> mock_command" where
  "mock_arg a c = c\<lparr>mc_args := mc_args c @ [a]\<rparr>"

definition full_command :: "mock_command \<Rightarrow> string" where
  "full_command c = mc_cmd c @ '' '' @ join '' '' (mc_args c)"

definition get_response :: "mock_command \<Rightarrow> (string \<times> int) option" where
  "get_response c =
     map_option (\<lambda>e. (me_response e, me_code e))
       (List.find (\<lambda>e. me_command e = full_command c) (mc_mappings c))"

text \<open>\<^verbatim>\<open>ExitStatus::from_raw\<close> succeeds for the status 0 only.\<close>

definition mock_output :: "mock_command \<Rightarrow> command_output option" where
  "mock_output c =
     map_option (\<lambda>(response, code). \<lparr>co_success = (code = 0), co_stdout = response, co_stderr = []\<rparr>)
       (get_response c)"

definition mock_output_with_stdin :: "string \<Rightarrow> mock_command \<Rightarrow> command_output option" where
  "mock_output_with_stdin input c = mock_output c"

datatype command_factory = MockCommandFactory | RealCommandFactory

definition get_command_factory :: "(string \<Rightarrow> string option) \<Rightarrow> command_factory" where
  "get_command_factory env_var =
     (if env_var ''WORKFLOWS_CLI_TEST_ENABLE_MOCK_COMMAND'' = Some ''1'' then MockCommandFactory
      else RealCommandFactory)"

section \<open>The trait\<close>

text \<open>
  \<^verbatim>\<open>CommandLike\<close>: a command stands for a command line. A new one is the program alone, every
  argument is added at the end, and running it, with or without input, is running its line.
\<close>

locale command_like =
  fixes new_command :: "string \<Rightarrow> 'c"
    and add_arg :: "string \<Rightarrow> 'c \<Rightarrow> 'c"
    and run_output :: "'c \<Rightarrow> 'o"
    and output_with_stdin :: "string \<Rightarrow> 'c \<Rightarrow> 'o"
    and stands_for :: "'c \<Rightarrow> string list \<Rightarrow> bool"
    and run :: "string list \<Rightarrow> string option \<Rightarrow> 'o"
  assumes new_line: "stands_for (new_command cmd) [cmd]"
    and arg_line: "stands_for c line \<Longrightarrow> stands_for (add_arg a c) (line @ [a])"
    and output_runs: "stands_for c line \<Longrightarrow> run_output c = run line None"
    and stdin_runs: "stands_for c line \<Longrightarrow> output_with_stdin i c = run line (Some i)"
begin

lemma args_line: "stands_for c line \<Longrightarrow> stands_for (fold add_arg as c) (line @ as)"
proof (induction as arbitrary: c line)
  case (Cons a as)
  from Cons.IH [OF arg_line [OF Cons.prems]] show ?case by simp
qed simp

lemma built_runs:
  "run_output (fold add_arg as (new_command cmd)) = run (cmd # as) None"
  "output_with_stdin i (fold add_arg as (new_command cmd)) = run (cmd # as) (Some i)"
  using args_line [OF new_line] output_runs stdin_runs by force+

text \<open>Arguments may be added in several rounds.\<close>

lemma built_in_rounds:
  "run_output (fold add_arg bs (fold add_arg as (new_command cmd))) = run (cmd # as @ bs) None"
  using built_runs(1) [of "as @ bs"] by simp

end

interpretation real: command_like real_new_command real_arg "real_output cs"
    "real_output_with_stdin cs" "\<lambda>c line. rc_cmd c = line" "run_command cs"
  by unfold_locales
    (simp_all add: real_new_command_def real_arg_def real_output_def real_output_with_stdin_def)

text \<open>
  The mock looks the whole line up, its words joined by single spaces: two lines that print alike
  get one answer. A program run without arguments is looked up with a space at its end.
\<close>

definition mock_run :: "mock_entry list \<Rightarrow> string list \<Rightarrow> string option \<Rightarrow> command_output option" where
  "mock_run mappings line input =
     map_option (\<lambda>e. \<lparr>co_success = (me_code e = 0), co_stdout = me_response e, co_stderr = []\<rparr>)
       (List.find (\<lambda>e. me_command e = hd line @ '' '' @ join '' '' (tl line)) mappings)"

interpretation mock: command_like
    "\<lambda>cmd. \<lparr>mc_cmd = cmd, mc_args = [], mc_mappings = mappings\<rparr>" mock_arg mock_output mock_output_with_stdin
    "\<lambda>c line. mc_mappings c = mappings \<and> mc_cmd c # mc_args c = line" "mock_run mappings"
  by unfold_locales
    (auto simp: mock_arg_def mock_output_def mock_output_with_stdin_def mock_run_def get_response_def
      full_command_def option.map_comp comp_def)

lemma mock_new_Some:
  "mock_new from_yaml read_file env_var cmd = Some c \<Longrightarrow>
     \<exists>mappings. c = \<lparr>mc_cmd = cmd, mc_args = [], mc_mappings = mappings\<rparr>"
  by (auto simp: mock_new_def Option.bind_eq_Some_conv)

text \<open>Whatever the mock is asked, it answers from its table or panics.\<close>

lemma mock_answers:
  assumes "mock_new from_yaml read_file env_var cmd = Some c"
  shows "mock_output (fold mock_arg as c) = mock_run (mc_mappings c) (cmd # as) None"
  using mock_new_Some [OF assms] mock.built_runs(1) by force

lemma mock_run_entry:
  "mock_run mappings line input = Some out \<Longrightarrow>
     \<exists>e \<in> set mappings. co_stdout out = me_response e \<and> (co_success out \<longleftrightarrow> me_code e = 0)"
  by (auto simp: mock_run_def find_Some_iff)

end
