(* ===== verification/Cli_Lint.thy ===== *)
theory Cli_Lint
  imports Cli_Command Filters
begin

text \<open>
  The linter of the command line tool: \<^verbatim>\<open>workflows-cli/src/linter/\<close>, with the rule set the
  binary includes (\<^verbatim>\<open>.workflow_metadata_ruleset.yaml\<close>). The file system, YAML parsing and
  the \<^verbatim>\<open>argo\<close> and \<^verbatim>\<open>helm\<close> commands are services.
\<close>

section \<open>Label rules\<close>

datatype location = Annotation | Label

record required_key =
  rk_key :: string
  rk_location :: location

record stem =
  sm_stem :: string
  sm_possible_values :: "string list"
  sm_location :: location

datatype critical_rule = Stem stem | RequiredKey required_key

definition location_text :: "location \<Rightarrow> string" where
  "location_text l = (case l of Annotation \<Rightarrow> ''annotations'' | Label \<Rightarrow> ''labels'')"

definition at_location :: "location \<Rightarrow> yaml \<Rightarrow> yaml \<Rightarrow> string \<Rightarrow> yaml option" where
  "at_location l labels annotations k =
     (case l of Annotation \<Rightarrow> yaml_get annotations k | Label \<Rightarrow> yaml_get labels k)"

definition required_key_check :: "required_key \<Rightarrow> yaml \<Rightarrow> yaml \<Rightarrow> string + unit" where
  "required_key_check self labels annotations =
     (if at_location (rk_location self) labels annotations (rk_key self) = None
      then Inl (''Expected '' @ rk_key self @ '' in '' @ location_text (rk_location self))
      else Inr ())"

definition stem_key :: "stem \<Rightarrow> string \<Rightarrow> string" where
  "stem_key self option = sm_stem self @ ''-'' @ option"

fun stem_entries :: "stem \<Rightarrow> yaml \<Rightarrow> yaml \<Rightarrow> string list \<Rightarrow> (string \<times> yaml) list" where
  "stem_entries self labels annotations [] = []"
| "stem_entries self labels annotations (option # options) =
     (case at_location (sm_location self) labels annotations (stem_key self option) of
        Some val \<Rightarrow> (stem_key self option, val) # stem_entries self labels annotations options
      | None \<Rightarrow> stem_entries self labels annotations options)"

definition malformed :: "yaml \<Rightarrow> bool" where
  "malformed v \<longleftrightarrow> yaml_as_str v \<noteq> Some ''true'' \<and> yaml_as_str v \<noteq> Some ''false''"

definition stem_check :: "stem \<Rightarrow> yaml \<Rightarrow> yaml \<Rightarrow> string + unit" where
  "stem_check self labels annotations =
     (let entries = stem_entries self labels annotations (sm_possible_values self);
          malformed_tags = filter (\<lambda>(_, v). malformed v) entries in
      if entries = [] then
        Inl (''Expected '' @ sm_stem self @ ''-<'' @ join '', '' (sm_possible_values self) @ ''> in '' @
             location_text (sm_location self))
      else if malformed_tags \<noteq> [] then
        Inl (''Expected values to be 'true' or 'false'. The following tags failed: '' @ join '', '' (map fst malformed_tags))
      else Inr ())"

definition rule_check :: "critical_rule \<Rightarrow> yaml \<Rightarrow> yaml \<Rightarrow> string + unit" where
  "rule_check rule labels annotations =
     (case rule of
        RequiredKey m \<Rightarrow> required_key_check m labels annotations
      | Stem s \<Rightarrow> stem_check s labels annotations)"

text \<open>The rules the binary is built with.\<close>

definition ruleset :: "critical_rule list" where
  "ruleset =
     [Stem \<lparr>sm_stem = ''workflows.diamond.ac.uk/science-group'',
        sm_possible_values =
          [''mx'', ''examples'', ''magnetic-materials'', ''condensed-matter'', ''imaging'',
           ''bio-cryo-imaging'', ''surfaces'', ''crystallography'', ''spectroscopy''],
        sm_location = Label\<rparr>,
      RequiredKey \<lparr>rk_key = ''workflows.diamond.ac.uk/repository'', rk_location = Annotation\<rparr>]"

definition validate_labels :: "critical_rule list \<Rightarrow> yaml \<Rightarrow> yaml \<Rightarrow> string list" where
  "validate_labels rules labels annotations =
     concat (map (\<lambda>rule. case rule_check rule labels annotations of Inl e \<Rightarrow> [e] | Inr _ \<Rightarrow> []) rules)"

section \<open>Reading a manifest\<close>

definition get_manifest :: "'n cli_services \<Rightarrow> string \<Rightarrow> ('n cli_env, string, yaml) eff" where
  "get_manifest cs target =
     ebind (emap_err (\<lambda>err. ''Couldn't read file '' @ target @ '': '' @ err) (try_io (cs_read cs target)))
       (\<lambda>text. lift_res (map_err (\<lambda>e. ''Could not parse manifest to string: '' @ e) (cs_yaml cs text)))"

definition get_template_name :: "'n cli_services \<Rightarrow> string \<Rightarrow> ('n cli_env, string, string) eff" where
  "get_template_name cs path =
     ebind (get_manifest cs path) (\<lambda>y.
     lift_res (ok_or ''Template has no name''
       (case yaml_as_str (yaml_index (yaml_index y ''metadata'') ''name'') of
          Some name \<Rightarrow> Some name
        | None \<Rightarrow> yaml_as_str (yaml_index (yaml_index y ''metadata'') ''generateName''))))"

definition lint_labels_of :: "yaml \<Rightarrow> string + string list" where
  "lint_labels_of manifest =
     rbind (ok_or ''Invalid manifest: expected a YAML object (key-value pairs), but got a different type.''
       (as_mapping manifest)) (\<lambda>m.
     rbind (ok_or (''Invalid manifest: metadata is missing. Metadata must be an object containing fields '' @
                   ''like name, labels and annotations. The metadata format is described at '' @
                   ''https://diamondlightsource.github.io/workflows/docs'') (entry m ''metadata'')) (\<lambda>metadata.
     rbind (ok_or (''Invalid labels: Labels are missing. The labels format is described at '' @
                   ''https://diamondlightsource.github.io/workflows/docs'') (yaml_get metadata ''labels'')) (\<lambda>labels.
     rbind (ok_or (''Invalid annotations: Annotations are missing. The annotations format is described at '' @
                   ''https://diamondlightsource.github.io/workflows/docs'') (yaml_get metadata ''annotations''))
       (\<lambda>annotations. Inr (validate_labels ruleset labels annotations)))))"

definition label_checker_lint :: "'n cli_services \<Rightarrow> string \<Rightarrow> ('n cli_env, string, string list) eff" where
  "label_checker_lint cs target =
     ebind (get_manifest cs target) (\<lambda>manifest. lift_res (lint_labels_of manifest))"

section \<open>The Argo linter\<close>

definition after_pattern :: "string \<Rightarrow> string \<Rightarrow> string" where
  "after_pattern pat msg = (case split_once pat msg of Some (_, remainder) \<Rightarrow> trim_start remainder | None \<Rightarrow> msg)"

definition argo_messages :: "string \<Rightarrow> string \<Rightarrow> string list" where
  "argo_messages stdout stderr =
     map (\<lambda>msg. filter (\<lambda>c. c \<noteq> CHR 0x22) (after_pattern '':'' (after_pattern ''msg=failed to parse YAML from file'' msg)))
       (filter (\<lambda>msg. \<not> str_contains ''no linting errors'' msg)
         (filter (\<lambda>msg. \<not> str_contains ''couldn't find cluster workflow template'' msg)
           (filter (\<lambda>msg. msg \<noteq> []) (lines (stdout @ [newline] @ stderr)))))"

definition argo_cli_lint :: "'n cli_services \<Rightarrow> string \<Rightarrow> ('n cli_env, string, string list) eff" where
  "argo_cli_lint cs target =
     ebind (emap_err (\<lambda>e. ''Failed to run Argo CLI: '' @ e)
       (run_command cs [''argo'', ''lint'', target, ''--offline'', ''--output'', ''simple''] None))
       (\<lambda>command. ret (argo_messages (co_stdout command) (co_stderr command)))"

section \<open>Linting paths\<close>

record lint_result =
  lr_name :: string
  lr_errors :: "string list"

definition lint_template :: "'n cli_services \<Rightarrow> string \<Rightarrow> ('n cli_env, string, string list) eff" where
  "lint_template cs target =
     ebind (argo_cli_lint cs target) (\<lambda>argo.
     ebind (label_checker_lint cs target) (\<lambda>labels.
     ret (argo @ labels)))"

definition lint_path :: "'n cli_services \<Rightarrow> string \<Rightarrow> ('n cli_env, string, lint_result) eff" where
  "lint_path cs target =
     ebind (get_template_name cs target) (\<lambda>template_name.
     ebind (lint_template cs target) (\<lambda>result.
     ret \<lparr>lr_name = template_name, lr_errors = result\<rparr>))"

definition lint_path_result :: "'n cli_services \<Rightarrow> string \<Rightarrow> ('n cli_env, string, lint_result) eff" where
  "lint_path_result cs path env =
     (case lint_path cs path env of
        (Inr result, env') \<Rightarrow> (Inr result, env')
      | (Inl err, env') \<Rightarrow> (Inr \<lparr>lr_name = path, lr_errors = [err]\<rparr>, env'))"

text \<open>The entries of a directory that could be read, in the order it lists them.\<close>

definition readable_entries :: "string \<Rightarrow> (string + string) list \<Rightarrow> string list" where
  "readable_entries dir entries =
     concat (map (\<lambda>e. case e of Inr n \<Rightarrow> [path_join dir n] | Inl _ \<Rightarrow> []) entries)"

definition lint_from_manifest ::
  "'n cli_services \<Rightarrow> string \<Rightarrow> bool \<Rightarrow> ('n cli_env, string, lint_result list) eff" where
  "lint_from_manifest cs target all =
     ebind (if all then
              ebind (emap_err (\<lambda>e. ''Error reading directory '' @ target @ '': '' @ e)
                       (try_io (cs_read_dir cs target))) (\<lambda>entries.
              ret (readable_entries target entries))
            else ret [target]) (\<lambda>paths.
     map_eff (lint_path_result cs) paths)"

text \<open>\<^verbatim>\<open>print_and_exit\<close>: the printed lines, and the exit code.\<close>

definition report_lines :: "lint_result \<Rightarrow> string list" where
  "report_lines result =
     (if lr_errors result = [] then [''Template Name: '' @ lr_name result @ '' - No errors'']
      else (''Template Name: '' @ lr_name result @ '' - Errors found:'') # map ((@) ''    '') (lr_errors result))"

definition print_and_exit :: "lint_result list \<Rightarrow> string list \<times> nat" where
  "print_and_exit results =
     (concat (map report_lines results), if list_ex (\<lambda>r. lr_errors r \<noteq> []) results then 1 else 0)"

section \<open>Helm charts\<close>

datatype manifest_type = Manifest | Helm

text \<open>
  \<^verbatim>\<open>str::split("---")\<close>, which cuts at every occurrence from the left, with the empty pieces
  dropped.
\<close>

function split_str :: "string \<Rightarrow> string \<Rightarrow> string list" where
  "split_str pat s =
     (if pat = [] then [s]
      else case split_once pat s of None \<Rightarrow> [s] | Some (a, b) \<Rightarrow> a # split_str pat b)"
  by pat_completeness auto
termination
  by (relation "measure (\<lambda>(_, s). length s)") (auto dest!: split_once_Some)

declare split_str.simps [simp del]

definition helm_template ::
  "'n cli_services \<Rightarrow> string \<Rightarrow> string option \<Rightarrow> ('n cli_env, string, string list) eff" where
  "helm_template cs target template =
     ebind (emap_err (\<lambda>_. ''Failed to run 'helm'. Is it installed?'')
       (run_command cs ([''helm'', ''template'', target] @
          (case template of Some t \<Rightarrow> [''-s'', path_join ''templates'' t] | None \<Rightarrow> [])) None)) (\<lambda>output.
     ret (filter (\<lambda>s. s \<noteq> []) (split_str ''---'' (co_stdout output))))"

text \<open>The arguments of \<^verbatim>\<open>helm\<close> are added in two rounds.\<close>

lemma helm_command:
  "real_output cs (fold real_arg (case template of Some t \<Rightarrow> [''-s'', path_join ''templates'' t] | None \<Rightarrow> [])
     (fold real_arg [''template'', target] (real_new_command ''helm''))) =
   run_command cs ([''helm'', ''template'', target] @
     (case template of Some t \<Rightarrow> [''-s'', path_join ''templates'' t] | None \<Rightarrow> [])) None"
  using real.built_in_rounds [of cs _ "[''template'', target]" "''helm''"] by simp

definition fetch_all_helm_manifests ::
  "'n cli_services \<Rightarrow> string \<Rightarrow> string option \<Rightarrow> ('n cli_env, string, string list) eff" where
  "fetch_all_helm_manifests cs target template =
     ebind (emap_err (\<lambda>_. ''Failed to build helm templates. Does '' @ target @ '' contain chart.yaml?'')
       (try_io (cs_read_dir cs target))) (\<lambda>files.
     if list_ex (\<lambda>f. f = Inr ''Chart.yaml'') files then helm_template cs target template
     else throw (''Could not find 'Chart.yaml' in '' @ target @ '' ''))"

text \<open>The nearest of a path and its parents that holds a chart.\<close>

fun find_chart ::
  "'n cli_services \<Rightarrow> string list \<Rightarrow> ('n cli_env, string, string) eff" where
  "find_chart cs [] = throw ''Could not find a parent directory containing Chart.yaml''"
| "find_chart cs (p # ps) =
     ebind (ask (cs_exists cs (path_join p ''Chart.yaml''))) (\<lambda>e.
     if e then ret p else find_chart cs ps)"

definition helm_to_manifest ::
  "'n cli_services \<Rightarrow> string \<Rightarrow> bool \<Rightarrow>
     ('n cli_env, string, string list) eff" where
  "helm_to_manifest cs target all =
     (let target = (if target \<noteq> [] \<and> hd target = CHR ''/'' then target else path_join ''./'' target) in
      ebind (lift_res (if all then Inr None
               else rbind (ok_or (target @ '' is a directory. Please use the --all flag.'') (path_file_name target))
                 (\<lambda>n. Inr (Some n)))) (\<lambda>select_template.
      ebind (if all then ret target else find_chart cs (path_ancestors target)) (\<lambda>chart_root.
      ebind (fetch_all_helm_manifests cs chart_root select_template) (\<lambda>manifests.
      if manifests \<noteq> [] then ret manifests
      else if all then throw (''Found no workflows in '' @ target)
      else throw (target @ '' is not a valid workflow/template'')))))"

definition clean_entry :: "'n cli_services \<Rightarrow> string \<Rightarrow> string + string \<Rightarrow> ('n cli_env, string, unit) eff" where
  "clean_entry cs path e =
     ebind (lift_res e) (\<lambda>n.
     let entry_path = path_join path n in
     ebind (ask (cs_is_file cs entry_path)) (\<lambda>f.
     if f then change cs (RemoveFile entry_path)
     else ebind (ask (cs_is_dir cs entry_path)) (\<lambda>d.
          if d then change cs (RemoveDirAll entry_path) else ret ())))"

definition workflow_file :: "string \<Rightarrow> nat \<Rightarrow> string" where
  "workflow_file path i = path_join path (''workflow_'' @ show_nat i @ ''.yaml'')"

definition write_to_clean_folder ::
  "'n cli_services \<Rightarrow> string \<Rightarrow> string list \<Rightarrow> ('n cli_env, string, unit) eff" where
  "write_to_clean_folder cs path contents =
     ebind (ask (cs_exists cs path)) (\<lambda>e.
     ebind (if e then ret () else change cs (CreateDirAll path)) (\<lambda>_.
     ebind (try_io (cs_read_dir cs path)) (\<lambda>entries.
     ebind (each (clean_entry cs path) entries) (\<lambda>_.
     each (\<lambda>(i, content). change cs (WriteFile (workflow_file path i) content)) (enumerate 0 contents)))))"

definition lint_from_helm ::
  "'n cli_services \<Rightarrow> string \<Rightarrow> bool \<Rightarrow>
     ('n cli_env, string, lint_result list) eff" where
  "lint_from_helm cs target all =
     ebind (helm_to_manifest cs target all) (\<lambda>manifests.
     ebind (emap_err (\<lambda>_. ''Couldn't create temporary file for helm templates.'')
       (write_to_clean_folder cs ''/tmp/argo-lint'' manifests)) (\<lambda>_.
     lint_from_manifest cs ''/tmp/argo-lint'' True))"

section \<open>The entry points\<close>

definition lint ::
  "'n cli_services \<Rightarrow> manifest_type \<Rightarrow> string \<Rightarrow> bool \<Rightarrow>
     'n cli_env \<Rightarrow> (string list \<times> nat) \<times> 'n cli_env" where
  "lint cs ty target all env =
     (case (case ty of
              Manifest \<Rightarrow> lint_from_manifest cs target all env
            | Helm \<Rightarrow> lint_from_helm cs target all env) of
        (Inr results, env') \<Rightarrow> (print_and_exit results, env')
      | (Inl e, env') \<Rightarrow> (([''Something went wrong while linting:'', e], 0), env'))"

record lint_config =
  lc_manifests :: "string list option"
  lc_charts :: "string list option"

definition quoted :: "string \<Rightarrow> string" where
  "quoted s = [CHR 0x27] @ s @ [CHR 0x27]"

definition config_results ::
  "'n cli_services \<Rightarrow> lint_config \<Rightarrow>
     ('n cli_env, string, lint_result list) eff" where
  "config_results cs config =
     ebind (map_eff (\<lambda>m. emap_err (\<lambda>e. ''Error linting manifest '' @ quoted m @ '': '' @ e)
              (lint_from_manifest cs m True)) (unwrap_or [] (lc_manifests config))) (\<lambda>ms.
     ebind (map_eff (\<lambda>c. emap_err (\<lambda>e. ''Error linting chart '' @ quoted c @ '': '' @ e)
              (lint_from_helm cs c True)) (unwrap_or [] (lc_charts config))) (\<lambda>hs.
     ret (concat ms @ concat hs)))"

definition lint_from_config ::
  "'n cli_services \<Rightarrow> string + lint_config \<Rightarrow>
     string \<Rightarrow> 'n cli_env \<Rightarrow> (string list \<times> nat) \<times> 'n cli_env" where
  "lint_from_config cs parsed config_path env =
     (case parsed of
        Inl e \<Rightarrow> (([''Could not open config file '' @ config_path @ '': '' @ e], 1), env)
      | Inr config \<Rightarrow>
          (case config_results cs config env of
             (Inr results, env') \<Rightarrow> (print_and_exit results, env')
           | (Inl e, env') \<Rightarrow> (([e], 1), env')))"

section \<open>Lemmas\<close>

definition science_groups :: "science_group list" where
  "science_groups =
     [Mx, Examples, MagneticMaterials, CondensedMatter, Imaging, BioCryoImaging, Surfaces,
      Crystallography, Spectroscopy]"

lemma science_groups_all: "set science_groups = UNIV"
proof -
  have "g \<in> set science_groups" for g by (cases g) (simp_all add: science_groups_def)
  then show ?thesis by auto
qed

definition group_stem :: stem where
  "group_stem = \<lparr>sm_stem = ''workflows.diamond.ac.uk/science-group'',
     sm_possible_values = map science_group_key science_groups, sm_location = Label\<rparr>"

lemma ruleset_eq:
  "ruleset = [Stem group_stem,
     RequiredKey \<lparr>rk_key = ''workflows.diamond.ac.uk/repository'', rk_location = Annotation\<rparr>]"
  by (simp add: ruleset_def group_stem_def science_groups_def)

lemma group_stem_key: "stem_key group_stem (science_group_key g) = science_group_label g"
  by (simp add: stem_key_def group_stem_def science_group_label_def)

lemma set_stem_entries:
  "set (stem_entries s labels annotations options) =
     {(stem_key s opt, v) | opt v. opt \<in> set options \<and>
        at_location (sm_location s) labels annotations (stem_key s opt) = Some v}"
  by (induction options) (auto split: option.splits)

lemma group_entries:
  "set (stem_entries group_stem labels annotations (sm_possible_values group_stem)) =
     {(science_group_label g, v) | g v. yaml_get labels (science_group_label g) = Some v}"
proof -
  have "set (sm_possible_values group_stem) = range science_group_key"
    by (simp add: group_stem_def science_groups_all)
  then show ?thesis
    by (auto simp: set_stem_entries group_stem_key at_location_def
        group_stem_def [THEN arg_cong [where f = sm_location]]) (metis group_stem_key rangeI)
qed

lemma stem_check_ok:
  "stem_check s labels annotations = Inr () \<longleftrightarrow>
     (let es = set (stem_entries s labels annotations (sm_possible_values s)) in
      es \<noteq> {} \<and> (\<forall>e \<in> es. \<not> malformed (snd e)))"
  by (auto simp: stem_check_def Let_def filter_empty_conv split_beta)

lemma concat_errors_Nil:
  "concat (map (\<lambda>r. case f r of Inl e \<Rightarrow> [e] | Inr _ \<Rightarrow> []) rs) = [] \<longleftrightarrow> (\<forall>r \<in> set rs. f r = Inr ())"
  by (induction rs) (auto split: sum.split)



text \<open>
  The folder a chart is rendered into: after a successful run the files written are the
  manifests, in order, and everything else done before was making or emptying that folder.
\<close>

definition folder_cleaning :: "string \<Rightarrow> fs_change \<Rightarrow> bool" where
  "folder_cleaning path c \<longleftrightarrow>
     c = CreateDirAll path \<or> (\<exists>n. c = RemoveFile (path_join path n) \<or> c = RemoveDirAll (path_join path n))"

lemma each_changes:
  "each (\<lambda>x. change cs (h x)) xs env = (Inr (), env') \<Longrightarrow> ce_changes env' = ce_changes env @ map h xs"
  by (induction xs arbitrary: env) (auto simp: eff_elims dest!: change_frames)

lemma alters_clean_entry: "alters (folder_cleaning path) (clean_entry cs path e)"
  unfolding clean_entry_def Let_def by (intro emits_intros) (auto simp: folder_cleaning_def)

lemma write_to_clean_folder_changes:
  assumes "write_to_clean_folder cs path contents env = (Inr (), env')"
  shows "\<exists>pre. ce_changes env' = ce_changes env @ pre @
      map (\<lambda>(i, c). WriteFile (workflow_file path i) c) (enumerate 0 contents) \<and>
    list_all (folder_cleaning path) pre"
proof -
  obtain e env1 env2 es env3 env4 where e: "ask (cs_exists cs path) env = (Inr e :: string + bool, env1)"
    and mk: "(if e then ret () else change cs (CreateDirAll path)) env1 = (Inr (), env2)"
    and rd: "try_io (cs_read_dir cs path) env2 = (Inr es, env3)"
    and cl: "each (clean_entry cs path) es env3 = (Inr (), env4)"
    and wr: "each (\<lambda>(i, content). change cs (WriteFile (workflow_file path i) content))
      (enumerate 0 contents) env4 = (Inr (), env')"
    using assms unfolding write_to_clean_folder_def ebind_eq_Inr by force
  have "ce_changes env' = ce_changes env4 @
      map (\<lambda>(i, c). WriteFile (workflow_file path i) c) (enumerate 0 contents)"
    by (rule each_changes [of cs]) (use wr in \<open>simp add: case_prod_unfold\<close>)
  moreover obtain new where "ce_changes env4 = ce_changes env3 @ new" "list_all (folder_cleaning path) new"
    using emitsD [OF emits_each cl] alters_clean_entry by blast
  moreover have "\<exists>mkd. ce_changes env3 = ce_changes env @ mkd \<and> list_all (folder_cleaning path) mkd"
    using mk ask_frames [OF e] try_io_frames [OF rd]
    by (auto simp: folder_cleaning_def split: if_splits dest!: change_frames)
  ultimately show ?thesis by force
qed

section \<open>What linting changes\<close>

text \<open>
  The trait \<^verbatim>\<open>Linter\<close>: a linter reads a file and answers with messages. None of them changes a
  file, whichever of them is run and whatever it answers.
\<close>

locale linter =
  fixes lint_file :: "string \<Rightarrow> ('n cli_env, string, string list) eff"
  assumes changes_nothing: "alters P (lint_file target)"
begin

lemma untouched: "lint_file target env = (r, env') \<Longrightarrow> ce_changes env' = ce_changes env"
  using emitsD [OF changes_nothing [where P = "\<lambda>_. False"]] by (fastforce simp: list_all_iff)

lemma many_change_nothing: "alters P (map_eff lint_file targets)"
  by (intro emits_intros changes_nothing)

end

lemma alters_get_manifest [emits_intros]: "alters P (get_manifest cs target)"
  unfolding get_manifest_def by (intro emits_intros)

interpretation argo_linter: linter "argo_cli_lint cs"
  by unfold_locales (auto simp: argo_cli_lint_def intro!: emits_intros)

interpretation label_linter: linter "label_checker_lint cs"
  by unfold_locales (auto simp: label_checker_lint_def intro!: emits_intros)

interpretation template_linter: linter "lint_template cs"
  by unfold_locales
    (auto simp: lint_template_def intro!: emits_intros argo_linter.changes_nothing label_linter.changes_nothing)

lemma lint_path_result_eq: "lint_path_result cs path = ebind (attempt (lint_path cs path))
   (\<lambda>r. ret (case r of Inr result \<Rightarrow> result | Inl err \<Rightarrow> \<lparr>lr_name = path, lr_errors = [err]\<rparr>))"
  by (rule ext) (auto simp: lint_path_result_def attempt_def ebind_def ret_def split: prod.splits sum.splits)

lemma alters_lint_from_manifest [emits_intros]: "alters P (lint_from_manifest cs target all)"
  unfolding lint_from_manifest_def lint_path_result_eq lint_path_def get_template_name_def
  by (intro emits_intros template_linter.changes_nothing)

lemma alters_write_to_clean_folder:
  "alters (\<lambda>c. folder_cleaning path c \<or> (\<exists>i text. c = WriteFile (workflow_file path i) text))
     (write_to_clean_folder cs path contents)"
  unfolding write_to_clean_folder_def
  by (intro emits_intros) (auto simp: folder_cleaning_def intro: emits_weaken [OF alters_clean_entry])

definition scratch_change :: "fs_change \<Rightarrow> bool" where
  "scratch_change c \<longleftrightarrow> folder_cleaning ''/tmp/argo-lint'' c \<or>
     (\<exists>i text. c = WriteFile (workflow_file ''/tmp/argo-lint'' i) text)"

lemma alters_find_chart: "alters P (find_chart cs ps)"
  by (induction ps) (simp_all only: find_chart.simps emits_intros)

lemma alters_scratch_folder: "alters scratch_change (write_to_clean_folder cs ''/tmp/argo-lint'' contents)"
  by (rule emits_weaken [OF alters_write_to_clean_folder]) (simp add: scratch_change_def)

lemma alters_lint_from_helm: "alters scratch_change (lint_from_helm cs target all)"
  unfolding lint_from_helm_def helm_to_manifest_def fetch_all_helm_manifests_def helm_template_def Let_def
  by (intro emits_intros alters_find_chart alters_scratch_folder)

lemma lint_from_helm_scratch_only:
  "lint_from_helm cs target all env = (r, env') \<Longrightarrow>
     \<exists>new. ce_changes env' = ce_changes env @ new \<and> list_all scratch_change new"
  using emitsD [OF alters_lint_from_helm] by blast

end
