(* ===== verification/Cli_Submit.thy ===== *)
theory Cli_Submit
  imports Cli_Lint Graph_Templates
begin

text \<open>
  Submitting a workflow from the command line: \<^verbatim>\<open>workflows-cli/src/submit_workflow/mod.rs\<close>,
  and its agreement with the graph proxy's submission (\<^verbatim>\<open>Graph_Templates\<close>).
\<close>

section \<open>Turning a manifest into a workflow\<close>

text \<open>
  A run of the tool stops with an error message, or with a panic. \<^verbatim>\<open>as_mapping_mut\<close> and
  \<^verbatim>\<open>get_mut\<close> go through tags; the match on the metadata does not.
\<close>

datatype cli_failure = Failed string | Panicked string

fun with_mapping :: "(mapping_entries \<Rightarrow> mapping_entries) \<Rightarrow> yaml \<Rightarrow> yaml option" where
  "with_mapping f (YTagged t v) = map_option (YTagged t) (with_mapping f v)"
| "with_mapping f (YMapping m) = Some (YMapping (f m))"
| "with_mapping f _ = None"

definition generated_name :: "mapping_entries \<Rightarrow> cli_failure + mapping_entries" where
  "generated_name metadata =
     (case entry metadata ''name'' of
        None \<Rightarrow> Inl (Failed ''Could not find name of template'')
      | Some name \<Rightarrow>
          (case yaml_as_str name of
             None \<Rightarrow> Inl (Panicked ''called unwrap on None'')
           | Some n \<Rightarrow>
               Inr (entries_insert (YString ''generateName'') (YString (n @ ''-''))
                      (entries_remove (YString ''name'') metadata))))"

definition coerce_yaml :: "yaml \<Rightarrow> cli_failure + yaml" where
  "coerce_yaml parsed =
     (case with_mapping (entries_insert (YString ''kind'') (YString ''Workflow'')) parsed of
        None \<Rightarrow> Inl (Failed ''Malformed manifest. Expected a dictionary.'')
      | Some parsed \<Rightarrow>
          (case yaml_get parsed ''metadata'' of
             None \<Rightarrow> Inl (Failed ''Could not find metadata tag in template'')
           | Some (YMapping metadata) \<Rightarrow>
               rbind (generated_name metadata) (\<lambda>metadata.
               ok_or (Failed ''Malformed manifest. Expected a dictionary.'')
                 (with_mapping (entries_insert (YString ''metadata'') (YMapping metadata)) parsed))
           | Some _ \<Rightarrow> Inr parsed))"

section \<open>Submitting\<close>

definition submitted_name :: "string \<Rightarrow> string option" where
  "submitted_name response =
     (case lines response of
        [] \<Rightarrow> None
      | line # _ \<Rightarrow>
          (case split_char (CHR '':'') line of
             _ # name # _ \<Rightarrow> Some (trim name)
           | _ \<Rightarrow> None))"

text \<open>
  The text of the manifest for \<^verbatim>\<open>argo\<close> is what \<^verbatim>\<open>serde_json::to_string\<close> makes of it, which
  fails on keys that are not texts; the answer's bytes may not be UTF-8.
\<close>

definition submit_from_str ::
  "'n cli_services \<Rightarrow> (yaml \<Rightarrow> string + string) \<Rightarrow> (string \<Rightarrow> string + string) \<Rightarrow> string \<Rightarrow> string \<Rightarrow>
     ('n cli_env, cli_failure, string) eff" where
  "submit_from_str cs to_json from_bytes raw_manifest session =
     ebind (lift_res (map_err (\<lambda>e. Failed (''Could not parse the manifest '' @ e)) (cs_yaml cs raw_manifest))) (\<lambda>parsed.
     ebind (lift_res (coerce_yaml parsed)) (\<lambda>parsed.
     ebind (lift_res (map_err Panicked (to_json parsed))) (\<lambda>yaml.
     ebind (emap_err (\<lambda>e. Failed (''Failed to run argo command: '' @ e))
       (run_command cs [''argo'', ''submit'', ''-'', ''-n'', session] (Some yaml))) (\<lambda>response.
     if \<not> co_success response then throw (Failed (co_stderr response))
     else
       ebind (lift_res (map_err (\<lambda>e. Failed (''Could not parse error response: '' @ e))
         (from_bytes (co_stdout response)))) (\<lambda>response.
       lift_res (ok_or (Failed ''Could not extract submitted workflow name'') (submitted_name response)))))))"

definition read_manifest :: "'n cli_services \<Rightarrow> string \<Rightarrow> ('n cli_env, cli_failure, string) eff" where
  "read_manifest cs target =
     ebind (ask (cs_exists cs target)) (\<lambda>e.
     ebind (if e then ask (cs_is_file cs target) else ret False) (\<lambda>f.
     if \<not> f then throw (Failed (''Template at '' @ target @ '' does not exist''))
     else emap_err (\<lambda>e. Failed (''Failed to read file '' @ e)) (try_io (cs_read cs target))))"

definition submit_manifest ::
  "'n cli_services \<Rightarrow> (yaml \<Rightarrow> string + string) \<Rightarrow> (string \<Rightarrow> string + string) \<Rightarrow> string \<Rightarrow> string \<Rightarrow>
     ('n cli_env, cli_failure, string) eff" where
  "submit_manifest cs to_json from_bytes target session =
     ebind (read_manifest cs target) (\<lambda>raw_manifest.
     submit_from_str cs to_json from_bytes raw_manifest session)"

definition submit_helm ::
  "'n cli_services \<Rightarrow>
     (yaml \<Rightarrow> string + string) \<Rightarrow> (string \<Rightarrow> string + string) \<Rightarrow> string \<Rightarrow> string \<Rightarrow>
     ('n cli_env, cli_failure, string) eff" where
  "submit_helm cs to_json from_bytes target session =
     ebind (emap_err Failed (helm_to_manifest cs target False)) (\<lambda>manifest.
     if length manifest > 1 then
       throw (Failed (''Found more than one template in '' @ target @
         ''. Templates can only be tested one at a time.''))
     else
       ebind (lift_res (ok_or (Failed ''No manifests returned'')
         (case manifest of [] \<Rightarrow> None | m # _ \<Rightarrow> Some m))) (\<lambda>raw_manifest.
       submit_from_str cs to_json from_bytes raw_manifest session))"

text \<open>The lines printed, and the exit code; a panic leaves with code 101.\<close>

definition submit ::
  "'n cli_services \<Rightarrow>
     (yaml \<Rightarrow> string + string) \<Rightarrow> (string \<Rightarrow> string + string) \<Rightarrow> manifest_type \<Rightarrow> string \<Rightarrow> string \<Rightarrow>
     'n cli_env \<Rightarrow> (string list \<times> nat) \<times> 'n cli_env" where
  "submit cs to_json from_bytes ty target session env =
     (case (case ty of
              Manifest \<Rightarrow> submit_manifest cs to_json from_bytes target session env
            | Helm \<Rightarrow> submit_helm cs to_json from_bytes target session env) of
        (Inr workflow_name, env') \<Rightarrow>
          (([''Submitted Workflow '' @ workflow_name @ '' to https://workflows.diamond.ac.uk/workflows/'' @
              session @ ''/'' @ workflow_name], 0), env')
      | (Inl (Failed e), env') \<Rightarrow>
          (([if str_contains ''authentication error'' e then
               ''Authentication error, please run 'kubectl get workflows -n '' @ session @
               ''' to prompt a login, and try again.''
             else ''There was an error when trying to submit the workflow:'' @ newline # e], 1), env')
      | (Inl (Panicked e), env') \<Rightarrow> (([e], 101), env'))"
section \<open>Agreement with the graph proxy\<close>

lemma with_mapping_as_mapping: "with_mapping f y = Some y' \<Longrightarrow> as_mapping y' = map_option f (as_mapping y)"
  by (induction f y arbitrary: y' rule: with_mapping.induct) (auto simp: as_mapping_def)

lemma with_mapping_None: "with_mapping f y = None \<longleftrightarrow> as_mapping y = None"
  by (induction f y rule: with_mapping.induct) (auto simp: as_mapping_def)

lemma with_mapping_get:
  assumes "with_mapping (entries_insert (YString k) v) y = Some y'"
  shows "yaml_get y' k' = (if k' = k then Some v else yaml_get y k')"
proof -
  obtain m where "as_mapping y = Some m"
    using assms with_mapping_None [of "entries_insert (YString k) v" y] by auto
  then show ?thesis
    using with_mapping_as_mapping [OF assms] by (simp add: yaml_get_def entry_insert)
qed

lemma yaml_get_mapping: "yaml_get y k = Some v \<Longrightarrow> as_mapping y \<noteq> None"
  by (auto simp: yaml_get_def split: option.splits)

text \<open>
  When the graph proxy reads a YAML manifest as a record: the texts of the record are the texts of
  the entries, and what has a structure of its own is what the generated types make of
  its entry, or of there being none.
\<close>

definition entry_text :: "mapping_entries \<Rightarrow> string \<Rightarrow> string option" where
  "entry_text m k = Option.bind (entry m k) yaml_as_str"

record field_readers =
  fr_labels :: "yaml option \<Rightarrow> string_map"
  fr_annotations :: "yaml option \<Rightarrow> string_map"
  fr_spec :: "yaml option \<Rightarrow> workflow_spec"
  fr_status :: "yaml option \<Rightarrow> workflow_status option"

definition reads_metadata :: "field_readers \<Rightarrow> mapping_entries \<Rightarrow> object_meta \<Rightarrow> bool" where
  "reads_metadata fr md om \<longleftrightarrow> distinct (map fst md) \<and>
     om_name om = entry_text md ''name'' \<and>
     om_generate_name om = entry_text md ''generateName'' \<and>
     om_uid om = entry_text md ''uid'' \<and>
     om_labels om = fr_labels fr (entry md ''labels'') \<and>
     om_annotations om = fr_annotations fr (entry md ''annotations'')"

definition reads_manifest :: "field_readers \<Rightarrow> yaml \<Rightarrow> workflow_manifest \<Rightarrow> bool" where
  "reads_manifest fr y w \<longleftrightarrow>
     wm_kind w = Option.bind (yaml_get y ''kind'') yaml_as_str \<and>
     wm_spec w = fr_spec fr (yaml_get y ''spec'') \<and> wm_status w = fr_status fr (yaml_get y ''status'') \<and>
     (case yaml_get y ''metadata'' of
        Some (YMapping md) \<Rightarrow> reads_metadata fr md (wm_metadata w)
      | _ \<Rightarrow> False)"

text \<open>The entry of the metadata under a key.\<close>

definition metadata_entry :: "yaml \<Rightarrow> string \<Rightarrow> yaml option" where
  "metadata_entry y k = Option.bind (yaml_get y ''metadata'') (\<lambda>md. yaml_get md k)"

lemma mapping_get: "yaml_get (YMapping md) k = entry md k"
  by (simp add: yaml_get_def as_mapping_def)

lemma generated_name_entry:
  assumes "distinct (map fst md)"
  shows "generated_name md = Inr md' \<longleftrightarrow>
    (\<exists>n. entry_text md ''name'' = Some n \<and>
       md' = entries_insert (YString ''generateName'') (YString (n @ ''-'')) (entries_remove (YString ''name'') md))"
  by (auto simp: generated_name_def entry_text_def split: option.splits)

lemma generated_name_result:
  assumes "distinct (map fst md)" "generated_name md = Inr md'"
  shows "entry md' k = (if k = ''generateName'' then
      map_option (\<lambda>n. YString (n @ ''-'')) (entry_text md ''name'') else if k = ''name'' then None
      else entry md k)" and "distinct (map fst md')"
  using assms
  by (auto simp: generated_name_entry distinct_entries_insert distinct_entries_remove entry_insert entry_remove)

lemma generated_name_reads:
  assumes "reads_metadata fr md om" "generated_name md = Inr md'"
  shows "\<exists>n. om_name om = Some n \<and>
    reads_metadata fr md' (om\<lparr>om_name := None, om_generate_name := Some (n @ ''-'')\<rparr>)"
proof -
  have d: "distinct (map fst md)" using assms(1) by (simp add: reads_metadata_def)
  then obtain n where "entry_text md ''name'' = Some n"
    using assms(2) by (auto simp: generated_name_entry)
  with assms(1) generated_name_result [OF d assms(2)] show ?thesis
    by (auto simp: reads_metadata_def entry_text_def yaml_as_str_def)
qed

text \<open>
  C15. The tool and the graph proxy make the same workflow of a manifest: whatever record the
  graph proxy reads a YAML manifest as, the manifest the tool sends reads as the record the graph
  proxy sends, with its kind, names, labels, annotations, specification and status. No entry of the manifest is
  changed but the kind and the metadata, and no entry of the metadata but the two names. The tool refuses a manifest
  exactly when it has no name, which the graph proxy submits as it is.
\<close>

theorem submit_coercions_agree:
  assumes "reads_manifest fr y w"
  shows "case coerce_yaml y of
      Inr y' \<Rightarrow> om_name (wm_metadata w) \<noteq> None \<and> reads_manifest fr y' (coerce_manifest w) \<and>
        (\<forall>k. k = ''kind'' \<or> k = ''metadata'' \<or> yaml_get y' k = yaml_get y k) \<and>
        (\<forall>k. k = ''name'' \<or> k = ''generateName'' \<or> metadata_entry y' k = metadata_entry y k) \<and>
        metadata_entry y' ''name'' = None
    | Inl e \<Rightarrow> om_name (wm_metadata w) = None"
proof -
  let ?kind = "entries_insert (YString ''kind'') (YString ''Workflow'')"
  from assms obtain md where md: "yaml_get y ''metadata'' = Some (YMapping md)"
    and reads: "reads_metadata fr md (wm_metadata w)"
    by (auto simp: reads_manifest_def split: option.splits yaml.splits)
  then have distinct: "distinct (map fst md)" and name: "om_name (wm_metadata w) = entry_text md ''name''"
    by (simp_all add: reads_metadata_def)
  from yaml_get_mapping [OF md] obtain y1 where y1: "with_mapping ?kind y = Some y1"
    using with_mapping_None [of ?kind y] by auto
  note get1 = with_mapping_get [OF y1]
  show ?thesis
  proof (cases "generated_name md")
    case (Inl e)
    moreover have "entry_text md ''name'' = None"
      using Inl generated_name_entry [OF distinct] by (cases "entry_text md ''name''") auto
    ultimately show ?thesis using y1 md name by (simp add: coerce_yaml_def get1)
  next
    case (Inr md')
    let ?meta = "entries_insert (YString ''metadata'') (YMapping md')"
    from get1 md have "yaml_get y1 ''metadata'' = Some (YMapping md)" by simp
    from yaml_get_mapping [OF this] obtain y2 where y2: "with_mapping ?meta y1 = Some y2"
      using with_mapping_None [of ?meta y1] by auto
    note get2 = with_mapping_get [OF y2]
    from generated_name_reads [OF reads Inr] obtain n where n: "om_name (wm_metadata w) = Some n"
      and reads': "reads_metadata fr md' ((wm_metadata w)\<lparr>om_name := None, om_generate_name := Some (n @ ''-'')\<rparr>)"
      by blast
    have run: "coerce_yaml y = Inr y2" using y1 md Inr y2 by (simp add: coerce_yaml_def get1)
    have "reads_manifest fr y2 (coerce_manifest w)"
      using assms n reads' by (simp add: reads_manifest_def get2 get1 yaml_as_str_def coerce_manifest_def)
    moreover have "metadata_entry y2 k = entry md' k" "metadata_entry y k = entry md k" for k
      using md by (simp_all add: metadata_entry_def get2 mapping_get)
    ultimately show ?thesis
      using run n generated_name_result [OF distinct Inr] by (simp add: get2 get1)
  qed
qed

text \<open>The labels of a manifest, read as the texts of its mapping, and nothing else.\<close>

definition demo_readers :: field_readers where
  "demo_readers = \<lparr>fr_labels = (\<lambda>v k. Option.bind v (\<lambda>m. Option.bind (yaml_get m k) yaml_as_str)),
     fr_annotations = (\<lambda>_. Map.empty), fr_spec = (\<lambda>_. wm_spec demo_manifest), fr_status = (\<lambda>_. None)\<rparr>"

definition demo_labels :: yaml where
  "demo_labels = YMapping [(YString ''beamline'', YString ''i03'')]"

definition demo_yaml :: yaml where
  "demo_yaml = YMapping
     [(YString ''kind'', YString ''WorkflowTemplate''),
      (YString ''metadata'', YMapping [(YString ''name'', YString ''numpy''), (YString ''labels'', demo_labels)])]"

definition demo_record :: workflow_manifest where
  "demo_record = demo_manifest\<lparr>wm_kind := Some ''WorkflowTemplate'',
     wm_metadata := \<lparr>om_name = Some ''numpy'', om_generate_name = None, om_uid = None,
       om_labels = [''beamline'' \<mapsto> ''i03''], om_annotations = Map.empty\<rparr>\<rparr>"

theorem submit_coercions_agree_witness:
  "reads_manifest demo_readers demo_yaml demo_record \<and>
   (\<exists>y'. coerce_yaml demo_yaml = Inr y' \<and> metadata_entry y' ''labels'' = Some demo_labels \<and>
      metadata_entry y' ''generateName'' = Some (YString ''numpy-'') \<and>
      reads_manifest demo_readers y' (coerce_manifest demo_record))"
proof -
  have "Option.bind (yaml_get demo_labels k) yaml_as_str = [''beamline'' \<mapsto> ''i03''] k" for k
    by (simp add: demo_labels_def yaml_get_def as_mapping_def entry_def yaml_as_str_def)
  then have reads: "reads_manifest demo_readers demo_yaml demo_record"
    by (simp add: reads_manifest_def reads_metadata_def demo_yaml_def demo_record_def demo_readers_def
        demo_manifest_def yaml_get_def as_mapping_def entry_def entry_text_def yaml_as_str_def fun_eq_iff)
  have run: "coerce_yaml demo_yaml = Inr (YMapping
     [(YString ''kind'', YString ''Workflow''),
      (YString ''metadata'', YMapping
        [(YString ''labels'', demo_labels), (YString ''generateName'', YString ''numpy-'')])])"
    by (simp add: coerce_yaml_def demo_yaml_def yaml_get_def as_mapping_def entry_def generated_name_def
        yaml_as_str_def)
  from submit_coercions_agree [OF reads] reads run show ?thesis
    by (simp add: metadata_entry_def yaml_get_def as_mapping_def entry_def)
qed

text \<open>A successful submission ran \<^verbatim>\<open>argo submit\<close> once, on what the manifest was turned into.\<close>

lemma submit_from_str_runs:
  assumes "submit_from_str cs to_json from_bytes raw session env = (Inr name, env')"
  shows "\<exists>y y' text (out :: command_output). cs_yaml cs raw = Inr y \<and> coerce_yaml y = Inr y' \<and> to_json y' = Inr text \<and>
    ce_commands env' = ce_commands env @ [([''argo'', ''submit'', ''-'', ''-n'', session], Some text)] \<and>
    co_success out \<and> rbind (from_bytes (co_stdout out)) (\<lambda>r. ok_or '''' (submitted_name r)) = Inr name"
  using assms
  by (auto simp: submit_from_str_def eff_elims rbind_eq_Inr split: if_splits dest!: run_command_frames)

end
