(* ===== verification/Cli_Create.thy ===== *)
theory Cli_Create
  imports Cli_Env "HOL-Library.Sublist"
begin

text \<open>
  Generating a repository of templates: \<^verbatim>\<open>workflows-cli/src/create/mod.rs\<close>. The tool passes
  \<^verbatim>\<open>prompt\<close> as the function that asks; the definitions that take it have it as an argument.
  The source folder is what reading it shows, and is not changed by copying.
\<close>

section \<open>Asking\<close>

text \<open>\<^verbatim>\<open>to_lowercase\<close>, up to U+00FF.\<close>

definition lower_char :: "char \<Rightarrow> char" where
  "lower_char c =
     (if (65 \<le> code c \<and> code c \<le> 90) \<or> (192 \<le> code c \<and> code c \<le> 222 \<and> code c \<noteq> 215)
      then char_of (code c + 32) else c)"

definition to_lowercase :: "string \<Rightarrow> string" where
  "to_lowercase s = map lower_char s"

definition answer :: "string \<Rightarrow> string" where
  "answer selection = trim (to_lowercase selection)"

text \<open>
  The standard input is the list of what its reads return, a line with its end or an error;
  after its end every read returns an empty text. \<^verbatim>\<open>read_line\<close> appends to the buffer, which
  the loop never clears; a loop that never returns has the value None.
\<close>

type_synonym stdin = "(string + string) list"

fun read_line :: "stdin \<Rightarrow> (string + string) \<times> stdin" where
  "read_line [] = (Inr [], [])"
| "read_line (r # rest) = (r, rest)"

partial_function (option) prompt_loop :: "string \<Rightarrow> stdin \<Rightarrow> ((string + bool) \<times> stdin) option" where
  "prompt_loop selection input =
     (case read_line input of
        (Inl e, rest) \<Rightarrow> Some (Inl ''Failed to read line'', rest)
      | (Inr line, rest) \<Rightarrow>
          (if answer (selection @ line) = ''y'' then Some (Inr True, rest)
           else if answer (selection @ line) = ''n'' then Some (Inr False, rest)
           else prompt_loop (selection @ line) rest))"

definition prompt :: "stdin \<Rightarrow> ((string + bool) \<times> stdin) option" where
  "prompt input = prompt_loop [] input"

section \<open>When asking returns\<close>

definition blank :: "string \<Rightarrow> bool" where
  "blank s \<longleftrightarrow> list_all is_whitespace s"

lemma lower_whitespace: "is_whitespace (lower_char c) \<longleftrightarrow> is_whitespace c"
proof (cases "(65 \<le> code c \<and> code c \<le> 90) \<or> (192 \<le> code c \<and> code c \<le> 222 \<and> code c \<noteq> 215)")
  case True
  then have "code (char_of (code c + 32)) = code c + 32" by (auto simp: code_def)
  with True show ?thesis by (auto simp: lower_char_def is_whitespace_def)
next
  case False
  then show ?thesis by (auto simp: lower_char_def)
qed

lemma answer_blank: "blank a \<Longrightarrow> answer (a @ b) = answer b"
  by (induction a) (auto simp: blank_def answer_def to_lowercase_def trim_def lower_whitespace)

text \<open>A buffer that holds something else than an answer never becomes one.\<close>

definition spoilt :: "string \<Rightarrow> bool" where
  "spoilt s \<longleftrightarrow> \<not> blank s \<and> answer s \<noteq> ''y'' \<and> answer s \<noteq> ''n''"

lemma dropWhile_rev_append:
  "\<not> list_all P b \<Longrightarrow> rev (dropWhile P (rev (a @ b))) = a @ rev (dropWhile P (rev b))"
  by (auto simp: dropWhile_append1 list_all_iff)

lemma trim_append_single:
  assumes "\<not> blank a" "trim (a @ b) = [c]"
  shows "trim a = [c]"
proof -
  obtain w x r where a: "a = w @ x # r" and w: "blank w" and x: "\<not> is_whitespace x"
    using assms(1) split_list_first_prop [of a "\<lambda>x. \<not> is_whitespace x"]
    by (auto simp: blank_def list_all_iff)
  have drop: "dropWhile is_whitespace (w @ s) = dropWhile is_whitespace s" for s
    using w by (intro dropWhile_append2) (auto simp: blank_def list_all_iff)
  have last: "rev (dropWhile is_whitespace (rev (x # s))) = x # rev (dropWhile is_whitespace (rev s))" for s
    using dropWhile_append3 x by (auto simp: dropWhile_append)
  have "trim (a @ b) = x # rev (dropWhile is_whitespace (rev (r @ b)))"
    using x last [of "r @ b"] by (simp add: trim_def a drop)
  with assms(2) have "c = x" and none: "dropWhile is_whitespace (rev (r @ b)) = []" by auto
  from none have "\<forall>y \<in> set r. is_whitespace y" by (simp add: dropWhile_eq_Nil_conv)
  then have "dropWhile is_whitespace (rev r) = []" by (simp add: dropWhile_eq_Nil_conv)
  then show ?thesis using x last [of r] \<open>c = x\<close> by (simp add: trim_def a drop)
qed

lemma spoilt_append: "spoilt a \<Longrightarrow> spoilt (a @ b)"
  using trim_append_single [of "to_lowercase a" "to_lowercase b"]
  by (auto simp: spoilt_def answer_def to_lowercase_def blank_def list_all_iff lower_whitespace)

text \<open>The states of the loop it does not leave.\<close>

definition stuck :: "string \<Rightarrow> stdin \<Rightarrow> bool" where
  "stuck selection input \<longleftrightarrow>
     spoilt selection \<and> list_all (\<lambda>r. \<not> isl r) input \<or> blank selection \<and> input = []"

lemma stuck_step:
  assumes "stuck selection input"
  obtains line rest where "read_line input = (Inr line, rest)" "stuck (selection @ line) rest"
    "answer (selection @ line) \<noteq> ''y''" "answer (selection @ line) \<noteq> ''n''"
proof (cases input)
  case Nil
  have "answer selection = []" if "blank selection"
    using answer_blank [OF that, of "[]"] by (simp add: answer_def to_lowercase_def trim_def)
  with assms Nil that [of "[]" "[]"] show ?thesis by (auto simp: stuck_def spoilt_def)
next
  case (Cons r rest)
  with assms obtain line where "r = Inr line" by (cases r) (auto simp: stuck_def)
  with assms Cons that [of line rest] spoilt_append [of selection line] show ?thesis
    by (auto simp: stuck_def) (auto simp: spoilt_def)
qed

lemma stuck_loop:
  assumes "prompt_loop selection input = Some out"
  shows "\<not> stuck selection input"
  using assms
proof (rule prompt_loop.raw_induct [rotated])
  fix loop selection input out
  assume IH: "\<And>selection input out. loop selection input = Some out \<Longrightarrow> \<not> stuck selection input"
    and step: "(case read_line input of
        (Inl e, rest) \<Rightarrow> Some (Inl ''Failed to read line'', rest)
      | (Inr line, rest) \<Rightarrow>
          (if answer (selection @ line) = ''y'' then Some (Inr True, rest)
           else if answer (selection @ line) = ''n'' then Some (Inr False, rest)
           else loop (selection @ line) rest)) = Some out"
  show "\<not> stuck selection input"
  proof
    assume "stuck selection input"
    then obtain line rest where read: "read_line input = (Inr line, rest)"
      and stuck: "stuck (selection @ line) rest"
      and no: "answer (selection @ line) \<noteq> ''y''" "answer (selection @ line) \<noteq> ''n''"
      by (rule stuck_step)
    from step read no have "loop (selection @ line) rest = Some out" by simp
    from IH [OF this] stuck show False by contradiction
  qed
qed

lemma stuck_None: "stuck s input \<Longrightarrow> prompt_loop s input = None"
  using stuck_loop by (metis not_None_eq)

lemma prompt_loop_spoilt: "spoilt s \<Longrightarrow> prompt_loop s (map Inr ls) = None"
  by (rule stuck_None) (simp add: stuck_def list_all_iff)

lemma prompt_loop_blank:
  "blank s \<Longrightarrow> prompt_loop s (map Inr ls) =
     (case dropWhile blank ls of
        [] \<Rightarrow> None
      | line # rest \<Rightarrow>
          if answer line = ''y'' then Some (Inr True, map Inr rest)
          else if answer line = ''n'' then Some (Inr False, map Inr rest) else None)"
proof (induction ls arbitrary: s)
  case Nil
  then show ?case by (simp add: stuck_def stuck_None)
next
  case (Cons l ls)
  have a: "answer (s @ l) = answer l" using Cons.prems by (rule answer_blank)
  show ?case
  proof (cases "blank l")
    case True
    have "answer l = []"
      using answer_blank [OF True, of "[]"] by (simp add: answer_def to_lowercase_def trim_def)
    moreover have "blank (s @ l)" using Cons.prems True by (simp add: blank_def)
    ultimately show ?thesis using a True Cons.IH by (subst prompt_loop.simps) simp
  next
    case False
    then have "\<not> blank (s @ l)" by (simp add: blank_def)
    then show ?thesis
      using a False prompt_loop_spoilt [of "s @ l" ls] by (subst prompt_loop.simps) (auto simp: spoilt_def)
  qed
qed

text \<open>
  C31. Asking returns exactly when the first line that is not blank is an answer, and returns it.
  A line that is not an answer is never recovered from, although the user is asked to enter
  another one: the buffer keeps it, so whatever is entered next is refused too. Nor does asking
  return when the input ends.
\<close>

theorem prompt_returns:
  "prompt (map Inr ls) =
     (case dropWhile blank ls of
        [] \<Rightarrow> None
      | line # rest \<Rightarrow>
          if answer line = ''y'' then Some (Inr True, map Inr rest)
          else if answer line = ''n'' then Some (Inr False, map Inr rest) else None)"
  unfolding prompt_def by (rule prompt_loop_blank) (simp add: blank_def)

section \<open>Copying a folder\<close>

text \<open>
  What reading a source folder shows: its entries, those that cannot be read left out, if the
  folder can be read. A symbolic link has its target, if that can be read.
\<close>

datatype dir_node =
    PlainFile
  | Folder bool dir_entries
  | Symlink "string option"
  | Special
and dir_entries =
    NoEntries
  | Entry string dir_node dir_entries

text \<open>
  Making the destination, then the entries; a failure is reported on the standard error and the
  entry, or the folder, left out. A subfolder is made by the loop and again by the call for it.
\<close>

definition into_directory ::
  "'n cli_services \<Rightarrow> string \<Rightarrow> ('n cli_env, string, unit) eff \<Rightarrow> ('n cli_env, string, unit) eff" where
  "into_directory cs dest body =
     ebind (attempt (change cs (CreateDirAll dest))) (\<lambda>r.
     case r of Inl e \<Rightarrow> ret () | Inr _ \<Rightarrow> body)"

primrec copy_entries :: "dir_entries \<Rightarrow> 'n cli_services \<Rightarrow> string \<Rightarrow> string \<Rightarrow> ('n cli_env, string, unit) eff"
and copy_entry :: "dir_node \<Rightarrow> 'n cli_services \<Rightarrow> string \<Rightarrow> string \<Rightarrow> ('n cli_env, string, unit) eff"
where
  "copy_entries NoEntries cs src dest = ret ()"
| "copy_entries (Entry n node rest) cs src dest =
     ebind (copy_entry node cs (path_join src n) (path_join dest n)) (\<lambda>_.
     copy_entries rest cs src dest)"
| "copy_entry (Symlink target) cs src_path dest_path =
     (case target of
        Some t \<Rightarrow> ebind (attempt (change cs (MakeSymlink t dest_path))) (\<lambda>r :: string + unit. ret ())
      | None \<Rightarrow> ret ())"
| "copy_entry (Folder readable entries) cs src_path dest_path =
     into_directory cs dest_path
       (into_directory cs dest_path
          (if readable then copy_entries entries cs src_path dest_path else ret ()))"
| "copy_entry PlainFile cs src_path dest_path =
     ebind (attempt (change cs (CopyFile src_path dest_path))) (\<lambda>r :: string + unit. ret ())"
| "copy_entry Special cs src_path dest_path = ret ()"

definition copy_directory ::
  "'n cli_services \<Rightarrow> (string \<Rightarrow> bool \<times> dir_entries) \<Rightarrow> string \<Rightarrow> string \<Rightarrow> ('n cli_env, string, unit) eff" where
  "copy_directory cs source src dest =
     into_directory cs dest
       (case source src of (readable, entries) \<Rightarrow>
          if readable then copy_entries entries cs src dest else ret ())"

section \<open>Generating a repository\<close>

record create_args =
  ca_name :: string
  ca_manifest :: bool
  ca_helm :: bool
  ca_workflows_home :: string

definition generate_template_repo ::
  "'n cli_services \<Rightarrow> (string \<Rightarrow> bool \<times> dir_entries) \<Rightarrow>
     (string \<Rightarrow> ('n cli_env, string, bool) eff) \<Rightarrow> create_args \<Rightarrow> ('n cli_env, string, unit) eff" where
  "generate_template_repo cs source prompt_fn args =
     ebind (emap_err (\<lambda>e. ''Failed to create directory '' @ ca_name args @ '': '' @ e)
       (change cs (CreateDir (ca_name args)))) (\<lambda>_.
     let conventional_dest = path_join (ca_name args) ''conventional-templates'';
         helm_dest = path_join (ca_name args) ''helm-based-templates'';
         conventional_src = path_join (ca_workflows_home args) ''template-boilerplate/conventional-templates'';
         helm_src = path_join (ca_workflows_home args) ''template-boilerplate/helm-based-templates'' in
     ebind (if ca_manifest args then ret True
            else prompt_fn ''Would you like to store conventional WorkflowTemplate manifests? (y/n)'') (\<lambda>b.
     ebind (if b then copy_directory cs source conventional_src conventional_dest else ret ()) (\<lambda>_.
     ebind (if ca_helm args then ret True
            else prompt_fn ''Would you like to store helm-based WorkflowTemplates? (y/n)'') (\<lambda>b.
     if b then copy_directory cs source helm_src helm_dest else ret ()))))"

definition create ::
  "'n cli_services \<Rightarrow> (string \<Rightarrow> bool \<times> dir_entries) \<Rightarrow>
     (string \<Rightarrow> ('n cli_env, string, bool) eff) \<Rightarrow> create_args \<Rightarrow> 'n cli_env \<Rightarrow>
     (string list \<times> nat) \<times> 'n cli_env" where
  "create cs source prompt_fn args env =
     (case generate_template_repo cs source prompt_fn args env of
        (Inr _, env') \<Rightarrow> (([''Template Repo Created Successfully''], 0), env')
      | (Inl e, env') \<Rightarrow> (([''Failed to create directory '' @ ca_name args @ '': '' @ e], 1), env'))"

text \<open>
  Every file or folder made is inside the repository's, for entries whose names are names (no
  entry of a folder begins with a slash).
\<close>

definition inside :: "string \<Rightarrow> fs_change \<Rightarrow> bool" where
  "inside d c \<longleftrightarrow>
     (case c of
        CreateDir p \<Rightarrow> prefix d p | CreateDirAll p \<Rightarrow> prefix d p | CopyFile s p \<Rightarrow> prefix d p
      | MakeSymlink t p \<Rightarrow> prefix d p | _ \<Rightarrow> False)"

primrec names_ok :: "dir_entries \<Rightarrow> bool" and name_ok :: "dir_node \<Rightarrow> bool" where
  "names_ok NoEntries = True"
| "names_ok (Entry n node rest) = (\<not> prefix ''/'' n \<and> name_ok node \<and> names_ok rest)"
| "name_ok PlainFile = True"
| "name_ok (Folder readable entries) = names_ok entries"
| "name_ok (Symlink t) = True"
| "name_ok Special = True"

lemma prefix_path_join: "prefix d p \<Longrightarrow> \<not> prefix ''/'' n \<Longrightarrow> prefix d (path_join p n)"
  by (cases n) (auto simp: path_join_def path_push_def)

lemma alters_into_directory [emits_intros]:
  "prefix d dest \<Longrightarrow> alters (inside d) body \<Longrightarrow> alters (inside d) (into_directory cs dest body)"
  unfolding into_directory_def
  by (intro emits_intros) (auto simp: inside_def intro: emits_intros split: sum.split)

lemma alters_copy:
  "names_ok es \<Longrightarrow> prefix d dest \<Longrightarrow> alters (inside d) (copy_entries es cs src dest)"
  "name_ok node \<Longrightarrow> prefix d dest \<Longrightarrow> alters (inside d) (copy_entry node cs src dest)"
proof (induction es and node arbitrary: src dest and src dest)
  case (Entry n node rest)
  then show ?case by (auto intro!: emits_intros prefix_path_join)
qed (auto intro!: emits_intros simp: inside_def split: option.split)

lemma alters_copy_directory [emits_intros]:
  "names_ok (snd (source src)) \<Longrightarrow> prefix d dest \<Longrightarrow>
     alters (inside d) (copy_directory cs source src dest)"
  by (auto simp: copy_directory_def split: prod.split intro!: emits_intros alters_copy)

lemma generated_inside:
  assumes "\<And>p. names_ok (snd (source p))" "\<And>message. alters (inside (ca_name args)) (prompt_fn message)"
  shows "alters (inside (ca_name args)) (generate_template_repo cs source prompt_fn args)"
  unfolding generate_template_repo_def Let_def
  by (intro emits_intros assms emits_emap_err) (auto simp: inside_def intro!: prefix_path_join)

end
