(* ===== verification/Cli_Auth.thy ===== *)
theory Cli_Auth
  imports Auth_Core Json Visits Sessions
begin

text \<open>
  The command line tool's access token, from the cache of \<^verbatim>\<open>kubectl\<close>'s login, and its queries
  of the graph: \<^verbatim>\<open>workflows-cli/src/auth.rs\<close>, \<^verbatim>\<open>submit_graph_query\<close> of
  \<^verbatim>\<open>workflows-cli/src/main.rs\<close> and \<^verbatim>\<open>workflows-cli/src/triggers/mod.rs\<close>. The exchange of the
  refresh token is the one of \<^verbatim>\<open>Auth_Core\<close>.
\<close>

section \<open>The token cache\<close>

record cached_tokens =
  ct_id_token :: string
  ct_refresh_token :: "string option"

datatype tool_error =
    UnknownHomeDir
  | FailedCacheAccess string
  | NoCachedTokens
  | InvalidCache string
  | JwtDecode string
  | MissingExpiry
  | RefreshFailed auth_error
  | NoRefreshToken
  | FailedCacheSerialize
  | AuthPanic string

text \<open>
  A directory entry that can be read is its name with the time the file was modified, in
  nanoseconds since the epoch, or the error of asking for it. Opening a file gives what reading
  it as JSON makes of it.
\<close>

type_synonym cache_entry = "string \<times> (string + int)"

record 'n tool_services = "'n auth_services" +
  ts_home_dir :: "string option"
  ts_read_dir :: "string \<Rightarrow> 'n \<Rightarrow> (string + cache_entry option list) \<times> 'n"
  ts_open :: "string \<Rightarrow> 'n \<Rightarrow> (string + (string + cached_tokens)) \<times> 'n"
  ts_decode :: "string \<Rightarrow> string + json"
  ts_oidc_client :: "string \<Rightarrow> string \<Rightarrow> 'n \<Rightarrow> (string + unit) \<times> 'n"
  ts_serialize :: "cached_tokens \<Rightarrow> string option"
  ts_write :: "string \<Rightarrow> string \<Rightarrow> 'n \<Rightarrow> (string + unit) \<times> 'n"

record 'n tool_env = "'n auth_env" +
  te_written :: "(string \<times> string) list"

definition write_file ::
  "'n tool_services \<Rightarrow> string \<Rightarrow> string \<Rightarrow> ('n tool_env, tool_error, unit) eff" where
  "write_file ts path contents w =
     (case ts_write ts path contents (net w) of
        (r, n) \<Rightarrow> (map_err FailedCacheAccess r, w\<lparr>net := n, te_written := te_written w @ [(path, contents)]\<rparr>))"

definition use_refresh_token ::
  "'n tool_services \<Rightarrow> string \<Rightarrow> string \<Rightarrow> ('n tool_env, tool_error, string) eff" where
  "use_refresh_token ts refresh_token path =
     ebind (ebind (outside (ts_oidc_client ts ''workflows-cli'' ''https://identity.diamond.ac.uk/realms/dls''))
       (\<lambda>r. lift_res (map_err (\<lambda>_. AuthPanic ''Failed to set up OIDC client'') r))) (\<lambda>_.
     ebind (emap_err RefreshFailed (exchange_refresh_token ts refresh_token)) (\<lambda>refreshed_tokens.
     let new_cached_tokens =
       \<lparr>ct_id_token = tr_access_token refreshed_tokens,
        ct_refresh_token = tr_refresh_token refreshed_tokens\<rparr> in
     ebind (lift_res (ok_or FailedCacheSerialize (ts_serialize ts new_cached_tokens))) (\<lambda>cache_string.
     ebind (write_file ts path cache_string) (\<lambda>_.
     ret (ct_id_token new_cached_tokens)))))"

text \<open>The loop over the cache: a file counts when it is newer than all before it and than the epoch.\<close>

fun newest_file :: "string option \<Rightarrow> int \<Rightarrow> cache_entry list \<Rightarrow> tool_error + string option" where
  "newest_file newest timestamp [] = Inr newest"
| "newest_file newest timestamp ((n, modified) # files) =
     rbind (map_err FailedCacheAccess modified) (\<lambda>file_timestamp.
     if file_timestamp > timestamp then newest_file (Some n) file_timestamp files
     else newest_file newest timestamp files)"

definition cache_dir :: "string \<Rightarrow> string" where
  "cache_dir home = foldl path_push home [''.kube'', ''cache'', ''workflows'', ''oidc-login'']"

definition token_expiry :: "'n tool_services \<Rightarrow> string \<Rightarrow> tool_error + nat" where
  "token_expiry ts token =
     rbind (map_err JwtDecode (ts_decode ts token)) (\<lambda>claims.
     ok_or MissingExpiry (Option.bind (json_get claims ''exp'') as_u64))"

definition epoch_seconds :: "utc \<Rightarrow> tool_error + nat" where
  "epoch_seconds t =
     (if t < 0 then Inl (AuthPanic ''Cannot read system time'') else Inr (nat t div 1000000000))"

definition get_auth_token :: "'n tool_services \<Rightarrow> ('n tool_env, tool_error, string) eff" where
  "get_auth_token ts =
     ebind (lift_res (ok_or UnknownHomeDir (ts_home_dir ts))) (\<lambda>home.
     let path = cache_dir home in
     ebind (ebind (outside (ts_read_dir ts path)) (\<lambda>r. lift_res (map_err FailedCacheAccess r))) (\<lambda>entries.
     ebind (lift_res (newest_file None 0 (List.map_filter (\<lambda>x. x) entries))) (\<lambda>newest.
     ebind (lift_res (ok_or NoCachedTokens newest)) (\<lambda>n.
     let file_path = path_push path n in
     ebind (ebind (outside (ts_open ts file_path)) (\<lambda>r. lift_res (map_err FailedCacheAccess r))) (\<lambda>file.
     ebind (lift_res (map_err InvalidCache file)) (\<lambda>tokens.
     ebind (lift_res (token_expiry ts (ct_id_token tokens))) (\<lambda>expiry.
     ebind (utc_now ts) (\<lambda>now.
     ebind (lift_res (epoch_seconds now)) (\<lambda>secs.
     if expiry \<ge> secs then ret (ct_id_token tokens)
     else
       ebind (lift_res (ok_or NoRefreshToken (ct_refresh_token tokens))) (\<lambda>refresh_token.
       use_refresh_token ts refresh_token file_path))))))))))"

section \<open>Queries of the graph\<close>

definition GRAPH_URL :: string where
  "GRAPH_URL = ''https://workflows.diamond.ac.uk/graphql''"

datatype query_error = GraphQLError string | FailedGetToken tool_error

text \<open>
  The client library's query is an argument: it takes the address, the headers, the query and its
  variables, and answers what the reply decodes to.
\<close>

type_synonym ('n, 'k) graph_client =
  "string \<Rightarrow> (string \<times> string) list \<Rightarrow> string \<Rightarrow> json \<Rightarrow> 'n \<Rightarrow> (string + 'k) \<times> 'n"

definition submit_graph_query ::
  "'n tool_services \<Rightarrow> ('n, 'k) graph_client \<Rightarrow> string \<Rightarrow> string \<Rightarrow> json \<Rightarrow>
     ('n tool_env, query_error, 'k) eff" where
  "submit_graph_query ts client url query args =
     ebind (emap_err FailedGetToken (get_auth_token ts)) (\<lambda>token.
     ebind (outside (client url [(''Authorization'', ''Bearer '' @ token)] query args)) (\<lambda>r.
     lift_res (map_err GraphQLError r)))"

record trigger_args =
  ta_name :: "string option"
  ta_session :: "visit_input option"
  ta_template_ref :: string

definition opt_json :: "('a \<Rightarrow> json) \<Rightarrow> 'a option \<Rightarrow> json" where
  "opt_json f x = (case x of Some a \<Rightarrow> f a | None \<Rightarrow> JNull)"

definition visit_json :: "visit_input \<Rightarrow> json" where
  "visit_json v = JObject
     [(''number'', JNumber (show_u32 (visit_input.number v))),
      (''proposalCode'', JString (visit_input.proposal_code v)),
      (''proposalNumber'', JNumber (show_u32 (visit_input.proposal_number v)))]"

definition trigger_variables :: "trigger_args \<Rightarrow> json" where
  "trigger_variables args = JObject
     [(''name'', opt_json JString (ta_name args)),
      (''templateRef'', JString (ta_template_ref args)),
      (''visit'', opt_json visit_json (ta_session args))]"
definition CREATE_TRIGGER_MUTATION :: string where
  "CREATE_TRIGGER_MUTATION = join [newline]
     ['''',
      ''    mutation createTrigger($templateRef: String!, $visit: VisitInput, $name: String) {'',
      ''        createTrigger(templateRef: $templateRef, visit: $visit, name: $name) {'',
      ''            name'',
      ''            beamline'',
      ''            templateRef'',
      ''        }'',
      ''    }'', '''']"

record created_trigger =
  ct_name :: string
  ct_template_ref :: "string option"
  ct_beamline :: "string option"

definition show_tool_error :: "(auth_error \<Rightarrow> string) \<Rightarrow> tool_error \<Rightarrow> string" where
  "show_tool_error debug e =
     (case e of
        UnknownHomeDir \<Rightarrow> ''Unable to locate home directory. Is $HOME set?''
      | FailedCacheAccess _ \<Rightarrow> ''Failed to access cluster authorization. Try running `kubectl get pods` to prompt a login''
      | NoCachedTokens \<Rightarrow> ''No cached tokens found''
      | InvalidCache m \<Rightarrow> ''Could not deserialize cached token file: '' @ m
      | JwtDecode m \<Rightarrow> ''Token decode failed: '' @ m
      | MissingExpiry \<Rightarrow> ''Access token does not contain a valid expiry''
      | RefreshFailed a \<Rightarrow> ''Token refresh failed: '' @ debug a
      | NoRefreshToken \<Rightarrow> ''Could not find a cached refresh token''
      | FailedCacheSerialize \<Rightarrow> ''Failed to store refresh response''
      | AuthPanic m \<Rightarrow> m)"

definition show_query_error :: "(auth_error \<Rightarrow> string) \<Rightarrow> query_error \<Rightarrow> string" where
  "show_query_error debug e =
     (case e of
        GraphQLError m \<Rightarrow> ''GraphQL Error: '' @ m
      | FailedGetToken a \<Rightarrow> ''Authentication Error: '' @ show_tool_error debug a)"

text \<open>
  The line printed and the exit code: a failure is printed to the standard output too, and leaves
  with 0; only a panic does not.
\<close>

definition create_trigger ::
  "'n tool_services \<Rightarrow> ('n, created_trigger) graph_client \<Rightarrow> (auth_error \<Rightarrow> string) \<Rightarrow> trigger_args \<Rightarrow>
     'n tool_env \<Rightarrow> (string \<times> nat) \<times> 'n tool_env" where
  "create_trigger ts client debug args env =
     (case submit_graph_query ts client GRAPH_URL CREATE_TRIGGER_MUTATION (trigger_variables args) env of
        (Inl (FailedGetToken (AuthPanic m)), env') \<Rightarrow> ((m, 101), env')
      | (Inl e, env') \<Rightarrow> ((show_query_error debug e, 0), env')
      | (Inr res, env') \<Rightarrow> ((''Created trigger '' @ ct_name res, 0), env'))"

section \<open>Where the token is from\<close>

text \<open>The most recently modified of the entries read, and a renewal of the tokens in a file.\<close>

definition newest_entry :: "cache_entry option list \<Rightarrow> string \<Rightarrow> bool" where
  "newest_entry entries n \<longleftrightarrow>
     (\<exists>m. Some (n, Inr m) \<in> set entries \<and>
        (\<forall>n' r. Some (n', r) \<in> set entries \<longrightarrow> (\<exists>m' \<le> m. r = Inr m')))"

definition renewed ::
  "'n tool_services \<Rightarrow> string \<Rightarrow> cached_tokens \<Rightarrow> string \<Rightarrow> (string \<times> string) list \<Rightarrow> bool" where
  "renewed ts path tokens t written \<longleftrightarrow>
     (\<exists>rt reply text s. ct_refresh_token tokens = Some rt \<and> fst (token_endpoint ts rt s) = Inr reply \<and>
        t = tr_access_token reply \<and>
        ts_serialize ts \<lparr>ct_id_token = t, ct_refresh_token = tr_refresh_token reply\<rparr> = Some text \<and>
        written = [(path, text)])"

lemma newest_file_Some:
  "newest_file newest timestamp es = Inr (Some n) \<Longrightarrow>
     \<exists>m. timestamp \<le> m \<and> (newest = Some n \<and> m = timestamp \<or> (n, Inr m) \<in> set es) \<and>
       (\<forall>n' r. (n', r) \<in> set es \<longrightarrow> (\<exists>m' \<le> m. r = Inr m'))"
proof (induction es arbitrary: newest timestamp)
  case (Cons e files)
  obtain k modified where e: "e = (k, modified)" by force
  with Cons.prems obtain t where t: "modified = Inr t" by (cases modified) auto
  show ?case
  proof (cases "t > timestamp")
    case True
    with Cons.prems e t have "newest_file (Some k) t files = Inr (Some n)" by simp
    from Cons.IH [OF this] obtain m where m: "t \<le> m" "k = n \<and> m = t \<or> (n, Inr m) \<in> set files"
      "\<forall>n' r. (n', r) \<in> set files \<longrightarrow> (\<exists>m' \<le> m. r = Inr m')" by auto
    then show ?thesis using True e t by (intro exI [of _ m]) auto
  next
    case False
    with Cons.prems e t have "newest_file newest timestamp files = Inr (Some n)" by simp
    from Cons.IH [OF this] obtain m where "timestamp \<le> m"
      "newest = Some n \<and> m = timestamp \<or> (n, Inr m) \<in> set files"
      "\<forall>n' r. (n', r) \<in> set files \<longrightarrow> (\<exists>m' \<le> m. r = Inr m')" by auto
    then show ?thesis using False e t by (intro exI [of _ m]) auto
  qed
qed simp

lemma newest_file_found:
  assumes "newest_file None 0 (List.map_filter (\<lambda>x. x) entries) = Inr (Some n)"
  shows "newest_entry entries n"
proof -
  have mem: "x \<in> set (List.map_filter (\<lambda>x. x) entries) \<longleftrightarrow> Some x \<in> set entries" for x :: cache_entry
    by (induction entries) (auto simp: List.map_filter_simps split: option.split)
  from newest_file_Some [OF assms] show ?thesis by (auto simp: mem newest_entry_def)
qed

lemma write_file_ok:
  "write_file ts p c w = (Inr r, w') \<Longrightarrow> te_written w' = te_written w @ [(p, c)]"
  by (auto simp: write_file_def split: prod.splits)

lemma outside_ok:
  "outside f w = (r, w') \<longleftrightarrow> (\<exists>a n. f (net w) = (a, n) \<and> r = Inr a \<and> w' = w\<lparr>net := n\<rparr>)"
  by (auto simp: outside_def split: prod.splits)

lemma outside_Inr_fst:
  "outside f w = (Inr a, w') \<longleftrightarrow> fst (f (net w)) = a \<and> w' = w\<lparr>net := snd (f (net w))\<rparr>"
  by (cases "f (net w)") (auto simp: outside_def)

lemma use_refresh_token_ok:
  "use_refresh_token ts refresh_token path env = (Inr t, env') \<Longrightarrow>
     \<exists>reply text s. fst (token_endpoint ts refresh_token s) = Inr reply \<and> t = tr_access_token reply \<and>
       ts_serialize ts \<lparr>ct_id_token = t, ct_refresh_token = tr_refresh_token reply\<rparr> = Some text \<and>
       te_written env' = te_written env @ [(path, text)]"
  unfolding use_refresh_token_def exchange_refresh_token_def Let_def
  by (auto simp: eff_elims outside_ok dest!: write_file_ok) (metis fst_conv)

text \<open>
  C30. The token the tool uses is from the most recently modified file of the cache. While it has
  not expired it is used as it is and nothing is written; otherwise the file's refresh token is
  exchanged, the new access token used, and the same file rewritten with the new pair of tokens,
  whose refresh token is the one of the reply.
\<close>

theorem auth_token_source:
  assumes "get_auth_token ts env = (Inr t, env')"
  shows "\<exists>home entries n s tokens s' expiry.
    ts_home_dir ts = Some home \<and>
    fst (ts_read_dir ts (cache_dir home) (net env)) = Inr entries \<and>
    newest_entry entries n \<and>
    fst (ts_open ts (path_push (cache_dir home) n) s) = Inr (Inr tokens) \<and>
    token_expiry ts (ct_id_token tokens) = Inr expiry \<and>
    (if fst (clock ts s') div 1000000000 \<le> int expiry
     then t = ct_id_token tokens \<and> te_written env' = te_written env
     else \<exists>written. te_written env' = te_written env @ written \<and>
       renewed ts (path_push (cache_dir home) n) tokens t written)"
proof -
  from assms obtain home entries n s tokens expiry s' secs env1 where
    home: "ts_home_dir ts = Some home"
    and entries: "fst (ts_read_dir ts (cache_dir home) (net env)) = Inr entries"
    and newest: "newest_file None 0 (List.map_filter (\<lambda>x. x) entries) = Inr (Some n)"
    and opened: "fst (ts_open ts (path_push (cache_dir home) n) s) = Inr (Inr tokens)"
    and expiry: "token_expiry ts (ct_id_token tokens) = Inr expiry"
    and secs: "epoch_seconds (fst (clock ts s')) = Inr secs"
    and rest: "(if expiry \<ge> secs then ret (ct_id_token tokens)
       else ebind (lift_res (ok_or NoRefreshToken (ct_refresh_token tokens))) (\<lambda>refresh_token.
         use_refresh_token ts refresh_token (path_push (cache_dir home) n))) env1 = (Inr t, env')"
    and env1: "te_written env1 = te_written env"
    unfolding get_auth_token_def Let_def
    by (clarsimp simp: ebind_eq_Inr outside_Inr_fst)
  have found: "newest_entry entries n" using newest by (rule newest_file_found)
  have le: "secs \<le> expiry \<longleftrightarrow> fst (clock ts s') div 1000000000 \<le> int expiry"
    using secs by (auto simp: epoch_seconds_def split: if_splits)
  have "if fst (clock ts s') div 1000000000 \<le> int expiry
     then t = ct_id_token tokens \<and> te_written env' = te_written env
     else \<exists>written. te_written env' = te_written env @ written \<and>
       renewed ts (path_push (cache_dir home) n) tokens t written"
    using rest env1 unfolding le renewed_def
    by (auto simp: ebind_eq_Inr dest!: use_refresh_token_ok) blast
  with home entries found opened expiry show ?thesis by blast
qed

text \<open>A cache of an older and a newer file, whose token expired in second 50; it is second 60.\<close>

definition demo_tool :: "unit tool_services" where
  "demo_tool =
     \<lparr>clock = \<lambda>n. (60000000000, n), db_fault = \<lambda>n. (None, n), seal = \<lambda>bs k n. (bs, n),
      open_sealed = \<lambda>bs k k'. Some bs,
      token_endpoint = \<lambda>rt n. (Inr \<lparr>tr_access_token = ''new'', tr_refresh_token = Some ''r2'',
        tr_expires_in = None, tr_id_token = None\<rparr>, n),
      ts_home_dir = Some ''/home/u'',
      ts_read_dir = \<lambda>p n. (Inr [Some (''a'', Inr 5), None, Some (''b'', Inr 7)], n),
      ts_open = \<lambda>p n. (Inr (Inr \<lparr>ct_id_token = p, ct_refresh_token = Some ''r1''\<rparr>), n),
      ts_decode = \<lambda>t. Inr (JObject [(''exp'', JNumber ''50'')]),
      ts_oidc_client = \<lambda>c u n. (Inr (), n),
      ts_serialize = \<lambda>ct. Some (ct_id_token ct),
      ts_write = \<lambda>p c n. (Inr (), n)\<rparr>"

definition demo_tool_env :: "unit tool_env" where
  "demo_tool_env = \<lparr>net = (), oidc_tokens = Map.empty, te_written = []\<rparr>"

definition demo_cache_file :: string where
  "demo_cache_file = ''/home/u/.kube/cache/workflows/oidc-login/b''"

lemma demo_tool_fields:
  "clock demo_tool n = (60000000000, n)"
  "fst (token_endpoint demo_tool rt n) = Inr \<lparr>tr_access_token = ''new'',
     tr_refresh_token = Some ''r2'', tr_expires_in = None, tr_id_token = None\<rparr>"
  "ts_home_dir demo_tool = Some ''/home/u''"
  "fst (ts_read_dir demo_tool p n) = Inr [Some (''a'', Inr 5), None, Some (''b'', Inr 7)]"
  "fst (ts_open demo_tool p n) = Inr (Inr \<lparr>ct_id_token = p, ct_refresh_token = Some ''r1''\<rparr>)"
  "fst (ts_oidc_client demo_tool c u n) = Inr ()"
  "ts_serialize demo_tool ct = Some (ct_id_token ct)"
  "fst (ts_write demo_tool p t n) = Inr ()"
  "token_expiry demo_tool t = Inr 50"
  by (simp_all add: demo_tool_def token_expiry_def json_get_def bt_get_def as_u64_def code_def
      is_ascii_digit_def)

lemma outside_unit: "outside f w = (Inr (fst (f ())), w)" for w :: "unit tool_env"
  by (cases "f ()") (simp add: outside_def)

lemma write_file_unit:
  "write_file ts p c w = (map_err FailedCacheAccess (fst (ts_write ts p c ())), w\<lparr>te_written := te_written w @ [(p, c)]\<rparr>)"
  for w :: "unit tool_env"
  by (cases "ts_write ts p c ()") (simp add: write_file_def)

lemma demo_tool_run:
  "get_auth_token demo_tool demo_tool_env = (Inr ''new'', demo_tool_env\<lparr>te_written := [(demo_cache_file, ''new'')]\<rparr>)"
proof -
  have path: "path_push (cache_dir ''/home/u'') ''b'' = demo_cache_file"
    by (simp add: cache_dir_def path_push_def demo_cache_file_def)
  have newest: "newest_file None 0 (List.map_filter (\<lambda>x. x)
      [Some (''a'', Inr 5), None, Some (''b'', Inr 7)]) = Inr (Some ''b'')"
    by (simp add: List.map_filter_simps)
  show ?thesis
    unfolding get_auth_token_def use_refresh_token_def exchange_refresh_token_def Let_def
    by (simp add: ebind_def outside_unit write_file_unit emap_err_def demo_tool_fields newest path
        epoch_seconds_def) (simp add: demo_tool_env_def)
qed

theorem auth_token_source_witness:
  "get_auth_token demo_tool demo_tool_env = (Inr ''new'', demo_tool_env\<lparr>te_written := [(demo_cache_file, ''new'')]\<rparr>) \<and>
   (\<exists>home entries n. ts_home_dir demo_tool = Some home \<and> newest_entry entries n)"
  using demo_tool_run auth_token_source [OF demo_tool_run] by blast

end
