(* ===== verification/Cli_Main.thy ===== *)
theory Cli_Main
  imports Cli_Submit Cli_Create Cli_Auth
begin

text \<open>
  The command line tool's entry point: \<^verbatim>\<open>workflows-cli/src/main.rs\<close>. Parsing the arguments is
  a library's; what reading a lint config file gives is an argument.
\<close>

definition which :: "'n cli_services \<Rightarrow> string \<Rightarrow> ('n cli_env, string, unit) eff" where
  "which cs tool =
     ebind (emap_err (\<lambda>_. ''Failed to run '' @ quoted (''which '' @ tool) @ ''. Is it installed?'')
       (run_command cs [''which'', tool] None)) (\<lambda>output.
     if co_success output then ret ()
     else throw (''Could not find '' @ quoted tool @ '' on PATH. Is it installed?''))"

definition ensure_cli :: "'n cli_services \<Rightarrow> ('n cli_env, string, unit) eff" where
  "ensure_cli cs = ebind (which cs ''helm'') (\<lambda>_. which cs ''argo'')"

record lint_config_args =
  lc_config_file :: string

record lint_args =
  la_manifest_type :: manifest_type
  la_all :: bool
  la_file_name :: string

record submit_args =
  sa_manifest_type :: manifest_type
  sa_session :: string
  sa_file_path :: string

datatype cli =
    Lint lint_args
  | LintConfig lint_config_args
  | Submit submit_args
  | Create create_args
  | TriggerCreate trigger_args

text \<open>What the subcommands work with besides the arguments.\<close>

record 'n cli_parts =
  cp_services :: "'n cli_services"
  cp_tools :: "'n tool_services"
  cp_config :: "string \<Rightarrow> string + lint_config"
  cp_json :: "yaml \<Rightarrow> string + string"
  cp_utf8 :: "string \<Rightarrow> string + string"
  cp_source :: "string \<Rightarrow> bool \<times> dir_entries"
  cp_prompt :: "string \<Rightarrow> ('n cli_env, string, bool) eff"
  cp_client :: "('n, created_trigger) graph_client"
  cp_debug :: "auth_error \<Rightarrow> string"

definition run_trigger ::
  "'n cli_parts \<Rightarrow> trigger_args \<Rightarrow> 'n cli_env \<Rightarrow> (string list \<times> nat) \<times> 'n cli_env" where
  "run_trigger cp args env =
     (case create_trigger (cp_tools cp) (cp_client cp) (cp_debug cp) args
             \<lparr>net = ce_net env, oidc_tokens = Map.empty, te_written = []\<rparr> of
        ((line, exit_code), w) \<Rightarrow> (([line], exit_code),
          env\<lparr>ce_net := net w,
              ce_changes := ce_changes env @ map (\<lambda>(p, c). WriteFile p c) (te_written w)\<rparr>))"

definition cli_main :: "'n cli_parts \<Rightarrow> cli \<Rightarrow> 'n cli_env \<Rightarrow> (string list \<times> nat) \<times> 'n cli_env" where
  "cli_main cp args env =
     (case ensure_cli (cp_services cp) env of
        (Inl err, env') \<Rightarrow> (([''Error: '' @ err], 1), env')
      | (Inr _, env') \<Rightarrow>
          (case args of
             Lint a \<Rightarrow>
               lint (cp_services cp) (la_manifest_type a) (la_file_name a) (la_all a) env'
           | LintConfig a \<Rightarrow>
               lint_from_config (cp_services cp)
                 (cp_config cp (lc_config_file a)) (lc_config_file a) env'
           | Submit a \<Rightarrow>
               submit (cp_services cp) (cp_json cp) (cp_utf8 cp)
                 (sa_manifest_type a) (sa_file_path a) (sa_session a) env'
           | Create a \<Rightarrow> create (cp_services cp) (cp_source cp) (cp_prompt cp) a env'
           | TriggerCreate a \<Rightarrow> run_trigger cp a env'))"

text \<open>Without \<^verbatim>\<open>helm\<close> and \<^verbatim>\<open>argo\<close> nothing is done but looking for them.\<close>

lemma ensure_cli_first:
  assumes "ensure_cli (cp_services cp) env = (Inl err, env')"
  shows "cli_main cp args env = (([''Error: '' @ err], 1), env') \<and> ce_changes env' = ce_changes env \<and>
    list_all (\<lambda>c. c \<in> {([''which'', ''helm''], None), ([''which'', ''argo''], None)})
      (drop (length (ce_commands env)) (ce_commands env'))"
proof -
  have which: "ce_changes w' = ce_changes w \<and> ce_commands w' = ce_commands w @ [([''which'', t], None)]"
    if "which cs t w = (r, w')" for cs :: "'a cli_services" and t r w w'
    using that by (cases r)
      (auto simp: which_def eff_elims split: if_splits dest!: run_command_frames)
  have "cli_main cp args env = (([''Error: '' @ err], 1), env')" using assms by (simp add: cli_main_def)
  with assms show ?thesis by (auto simp: ensure_cli_def eff_elims dest!: which)
qed

end
