(* ===== verification/Argo_Build.thy ===== *)
theory Argo_Build
  imports Rust_Strings Ordered_Map
begin

text \<open>
  The build script of the Argo API types, \<^verbatim>\<open>argo-workflows-openapi/build.rs\<close>: it fetches the
  upstream JSON Schema, changes the types of three fields to what the server really answers,
  and writes the Rust types a generator makes of it. The network, the JSON parser, the generator,
  the formatter and the file system are services. A panic is the left value, with the message of
  the error it is about.
\<close>

section \<open>Schemas\<close>

datatype instance_type = StringType | IntegerType | OtherType string

datatype 'a single_or_vec = Single 'a | Vec "'a list"

text \<open>
  \<^verbatim>\<open>schemars::schema::Schema\<close>: the type and the validation of an object, with its properties,
  and all that the script leaves alone (\<open>'o\<close> of an object's validation, \<open>'x\<close> of a schema).
\<close>

datatype ('x, 'o) schema =
    BoolSchema bool
  | ObjectSchema "instance_type single_or_vec option"
      "((string, ('x, 'o) schema) btmap \<times> 'o) option" 'x

record ('x, 'o, 'r) root_schema =
  rs_definitions :: "(string, ('x, 'o) schema) btmap"
  rs_rest :: 'r

definition unwrap_none :: string where
  "unwrap_none = ''called `Option::unwrap()` on a `None` value''"

definition unwrap_option :: "'a option \<Rightarrow> string + 'a" where
  "unwrap_option = ok_or unwrap_none"

text \<open>A schema of a type and nothing else; \<open>d\<close> is the default of the rest.\<close>

definition of_type :: "'x \<Rightarrow> instance_type \<Rightarrow> ('x, 'o) schema" where
  "of_type d ty = ObjectSchema (Some (Single ty)) None d"

section \<open>The three changes\<close>

text \<open>
  The steps each change is made of: the definition, which has to be an object, its validation, the
  field in its properties, and the assignment through the references to them.
\<close>

definition set_field ::
  "string \<Rightarrow> string \<Rightarrow> string \<Rightarrow> ('x, 'o) schema \<Rightarrow> (string, ('x, 'o) schema) btmap \<Rightarrow>
     string + (string, ('x, 'o) schema) btmap" where
  "set_field name short field new definitions =
     rbind (unwrap_option (bt_get definitions name)) (\<lambda>definition.
     case definition of
       BoolSchema _ \<Rightarrow> Inl (''Expected '' @ short @ '' to be a SchemaObject'')
     | ObjectSchema ty obj rest \<Rightarrow>
         rbind (unwrap_option obj) (\<lambda>(properties, validation).
         rbind (unwrap_option (bt_get properties field)) (\<lambda>_.
         Inr (bt_set name
           (ObjectSchema ty (Some (bt_set field new properties, validation)) rest) definitions))))"

definition POD_GC :: string where
  "POD_GC = ''io.argoproj.workflow.v1alpha1.PodGC''"

definition RETRY_STRATEGY :: string where
  "RETRY_STRATEGY = ''io.argoproj.workflow.v1alpha1.RetryStrategy''"

definition HTTP_GET_ACTION :: string where
  "HTTP_GET_ACTION = ''io.k8s.api.core.v1.HTTPGetAction''"

definition patch_pod_gc ::
  "'x \<Rightarrow> (string, ('x, 'o) schema) btmap \<Rightarrow> string + (string, ('x, 'o) schema) btmap" where
  "patch_pod_gc d =
     set_field POD_GC ''PodGC'' ''deleteDelayDuration'' (of_type d StringType)"

definition patch_retry_strategy ::
  "'x \<Rightarrow> (string, ('x, 'o) schema) btmap \<Rightarrow> string + (string, ('x, 'o) schema) btmap" where
  "patch_retry_strategy d =
     set_field RETRY_STRATEGY ''RetryStrategy'' ''limit'' (of_type d IntegerType)"

definition patch_http_get ::
  "'x \<Rightarrow> (string, ('x, 'o) schema) btmap \<Rightarrow> string + (string, ('x, 'o) schema) btmap" where
  "patch_http_get d =
     set_field HTTP_GET_ACTION ''HTTPGetAction'' ''port'' (of_type d IntegerType)"

definition patch_schema ::
  "'x \<Rightarrow> ('x, 'o, 'r) root_schema \<Rightarrow> string + ('x, 'o, 'r) root_schema" where
  "patch_schema d schema =
     rbind (patch_pod_gc d (rs_definitions schema)) (\<lambda>defs.
     rbind (patch_retry_strategy d defs) (\<lambda>defs.
     rbind (patch_http_get d defs) (\<lambda>defs.
     Inr (schema\<lparr>rs_definitions := defs\<rparr>))))"

section \<open>The script\<close>

datatype env_var = Present string | NotPresent | NotUnicode

record ('n, 'x, 'o, 'r) build_services =
  bs_get :: "string \<Rightarrow> 'n \<Rightarrow> (string + string) \<times> 'n"
  bs_from_str :: "string \<Rightarrow> string + ('x, 'o, 'r) root_schema"
  bs_generate :: "('x, 'o, 'r) root_schema \<Rightarrow> string + string"
  bs_rustfmt :: "string \<Rightarrow> string + string"
  bs_create_dir_all :: "string \<Rightarrow> 'n \<Rightarrow> (string + unit) \<times> 'n"
  bs_create :: "string \<Rightarrow> 'n \<Rightarrow> (string + unit) \<times> 'n"
  bs_write_all :: "string \<Rightarrow> string \<Rightarrow> 'n \<Rightarrow> (string + unit) \<times> 'n"
  bs_default :: 'x

record 'n build_env =
  be_net :: 'n
  be_printed :: "string list"
  be_written :: "(string \<times> string) list"

definition DEFAULT_ARGO_SERVER_SCHEMA_URL :: string where
  "DEFAULT_ARGO_SERVER_SCHEMA_URL =
     ''https://raw.githubusercontent.com/argoproj/argo-workflows/refs/tags/v4.0.6/api/jsonschema/schema.json''"

definition print_line :: "string \<Rightarrow> ('n build_env, 'e, unit) eff" where
  "print_line s env = (Inr (), env\<lparr>be_printed := be_printed env @ [s]\<rparr>)"

definition on_build_net :: "('n \<Rightarrow> (string + 'a) \<times> 'n) \<Rightarrow> ('n build_env, string, 'a) eff" where
  "on_build_net f env = (case f (be_net env) of (r, n) \<Rightarrow> (r, env\<lparr>be_net := n\<rparr>))"

definition get_argo_server_schema_url :: "env_var \<Rightarrow> ('n build_env, string, string) eff" where
  "get_argo_server_schema_url var =
     ebind (print_line ''cargo::rerun-if-env-changed=ARGO_SERVER_SCHEMA_URL'') (\<lambda>_.
     case var of
       Present url \<Rightarrow> ret url
     | NotPresent \<Rightarrow>
         ebind (print_line (''cargo::warning=ARGO_SERVER_SCHEMA_URL is not set; using the default schema URL: ''
           @ DEFAULT_ARGO_SERVER_SCHEMA_URL)) (\<lambda>_. ret DEFAULT_ARGO_SERVER_SCHEMA_URL)
     | NotUnicode \<Rightarrow> throw ''ARGO_SERVER_SCHEMA_URL is set but contains invalid Unicode'')"

text \<open>Creating a file leaves it empty until it is written.\<close>

definition log_file :: "string \<Rightarrow> string \<Rightarrow> ('n build_env, 'e, unit) eff" where
  "log_file path contents env = (Inr (), env\<lparr>be_written := be_written env @ [(path, contents)]\<rparr>)"

definition write_types :: "('n, 'x, 'o, 'r) build_services \<Rightarrow> string \<Rightarrow> string \<Rightarrow> ('n build_env, string, unit) eff" where
  "write_types bs path contents =
     ebind (on_build_net (bs_create_dir_all bs ''src'')) (\<lambda>_.
     ebind (on_build_net (bs_create bs path)) (\<lambda>_.
     ebind (log_file path []) (\<lambda>_.
     ebind (on_build_net (bs_write_all bs path contents)) (\<lambda>_.
     log_file path contents))))"

definition build_main :: "('n, 'x, 'o, 'r) build_services \<Rightarrow> env_var \<Rightarrow> ('n build_env, string, unit) eff" where
  "build_main bs var =
     ebind (get_argo_server_schema_url var) (\<lambda>url.
     ebind (emap_err (\<lambda>_. ''Failed to retrieve argo server schema from '' @ url @
              ''. Is ARGO_SERVER_SCHEMA_URL environment variable set?'')
         (on_build_net (bs_get bs url))) (\<lambda>raw_schema.
     ebind (lift_res (bs_from_str bs raw_schema)) (\<lambda>schema.
     ebind (lift_res (patch_schema (bs_default bs) schema)) (\<lambda>schema.
     ebind (lift_res (bs_generate bs schema)) (\<lambda>types.
     ebind (lift_res (bs_rustfmt bs types)) (\<lambda>contents.
     write_types bs ''src/types.rs'' contents))))))"

section \<open>Lemmas\<close>

text \<open>The schema of a field of a definition, when both are there.\<close>

definition field_of :: "(string, ('x, 'o) schema) btmap \<Rightarrow> string \<Rightarrow> string \<Rightarrow> ('x, 'o) schema option" where
  "field_of defs name field =
     (case bt_get defs name of
        Some (ObjectSchema _ (Some (properties, _)) _) \<Rightarrow> bt_get properties field
      | _ \<Rightarrow> None)"

lemma unwrap_option_iff: "unwrap_option x = Inr a \<longleftrightarrow> x = Some a"
  by (cases x) (simp_all add: unwrap_option_def ok_or_def)

text \<open>A change succeeds exactly when its field is there.\<close>

lemma set_field_ok_iff:
  "(\<exists>defs'. set_field name short field new defs = Inr defs') \<longleftrightarrow> field_of defs name field \<noteq> None"
  by (auto simp: set_field_def field_of_def rbind_eq_Inr unwrap_option_iff
      split: option.splits schema.splits)

text \<open>Then it gives that field the new schema and leaves every other definition and field alone.\<close>

lemma set_field_cases:
  assumes "set_field name short field new defs = Inr defs'"
  obtains ty properties validation rest old
  where "bt_get defs name = Some (ObjectSchema ty (Some (properties, validation)) rest)"
    and "bt_get properties field = Some old"
    and "defs' = bt_set name (ObjectSchema ty (Some (bt_set field new properties, validation)) rest) defs"
proof (cases "bt_get defs name")
  case (Some df)
  with assms that show thesis
    by (cases df) (auto simp: set_field_def rbind_eq_Inr unwrap_option_iff)
next
  case None
  with assms show thesis by (simp add: set_field_def unwrap_option_def ok_or_def)
qed

lemma set_field_result:
  assumes "set_field name short field new defs = Inr defs'"
  shows "field_of defs' n f = (if n = name \<and> f = field then Some new else field_of defs n f)"
    and "n \<noteq> name \<Longrightarrow> bt_get defs' n = bt_get defs n"
    and "map fst defs' = map fst defs"
proof -
  from assms obtain ty properties validation rest old
    where old: "bt_get defs name = Some (ObjectSchema ty (Some (properties, validation)) rest)"
      "bt_get properties field = Some old"
    and defs': "defs' = bt_set name (ObjectSchema ty (Some (bt_set field new properties, validation)) rest) defs"
    by (rule set_field_cases)
  show "field_of defs' n f = (if n = name \<and> f = field then Some new else field_of defs n f)"
    by (cases "n = name") (simp_all add: field_of_def defs' old)
  show "n \<noteq> name \<Longrightarrow> bt_get defs' n = bt_get defs n" "map fst defs' = map fst defs"
    by (simp_all add: defs')
qed

definition retyped :: "'x \<Rightarrow> string \<Rightarrow> string \<Rightarrow> ('x, 'o) schema option" where
  "retyped d name field =
     (if name = POD_GC \<and> field = ''deleteDelayDuration'' then Some (of_type d StringType)
      else if name = RETRY_STRATEGY \<and> field = ''limit'' then Some (of_type d IntegerType)
      else if name = HTTP_GET_ACTION \<and> field = ''port'' then Some (of_type d IntegerType)
      else None)"

lemma patched_names: "POD_GC \<noteq> RETRY_STRATEGY" "POD_GC \<noteq> HTTP_GET_ACTION" "RETRY_STRATEGY \<noteq> HTTP_GET_ACTION"
  by (simp_all add: POD_GC_def RETRY_STRATEGY_def HTTP_GET_ACTION_def)

lemma patch_schema_result:
  assumes "patch_schema d schema = Inr schema'"
  shows "field_of (rs_definitions schema') name field =
    (case retyped d name field of Some new \<Rightarrow> Some new | None \<Rightarrow> field_of (rs_definitions schema) name field)"
    and "map fst (rs_definitions schema') = map fst (rs_definitions schema)"
    and "rs_rest schema' = rs_rest schema"
proof -
  obtain d1 d2 d3 where 1: "patch_pod_gc d (rs_definitions schema) = Inr d1"
    and 2: "patch_retry_strategy d d1 = Inr d2" and 3: "patch_http_get d d2 = Inr d3"
    and s: "schema' = schema\<lparr>rs_definitions := d3\<rparr>"
    using assms by (auto simp: patch_schema_def rbind_eq_Inr)
  note r1 = set_field_result [OF 1 [unfolded patch_pod_gc_def]]
    and r2 = set_field_result [OF 2 [unfolded patch_retry_strategy_def]]
    and r3 = set_field_result [OF 3 [unfolded patch_http_get_def]]
  show "field_of (rs_definitions schema') name field =
    (case retyped d name field of Some new \<Rightarrow> Some new | None \<Rightarrow> field_of (rs_definitions schema) name field)"
  proof -
    have "rs_definitions schema' = d3" using s by simp
    then show ?thesis
      unfolding retyped_def using r1(1) [of name field] r2(1) [of name field] r3(1) [of name field]
      by (smt (verit, ccfv_threshold) option.simps(4) option.simps(5) patched_names)
  qed
  show "map fst (rs_definitions schema') = map fst (rs_definitions schema)" "rs_rest schema' = rs_rest schema"
    by (simp_all add: s r1(3) r2(3) r3(3))
qed

lemma build_net_run:
  "on_build_net f env = (r, env') \<Longrightarrow> be_written env' = be_written env \<and> fst (f (be_net env)) = r"
  by (auto simp: on_build_net_def split: prod.splits)

lemma schema_url_run:
  "get_argo_server_schema_url var env = (r, env') \<Longrightarrow> be_written env' = be_written env \<and>
     (\<forall>url. r = Inr url \<longrightarrow> url = DEFAULT_ARGO_SERVER_SCHEMA_URL \<and> var = NotPresent \<or> var = Present url)"
  by (cases var) (auto simp: get_argo_server_schema_url_def print_line_def ebind_def)

lemma write_types_run:
  assumes "write_types bs path contents env = (r, env')"
  shows "case r of
      Inl _ \<Rightarrow> be_written env' \<in> {be_written env, be_written env @ [(path, [])]}
    | Inr _ \<Rightarrow> be_written env' = be_written env @ [(path, []), (path, contents)]"
  using assms
  by (cases r) (auto simp: write_types_def log_file_def eff_elims dest!: build_net_run)

text \<open>
  What the script writes: its one file, with the formatted types of the schema of the configured
  URL (the default one if none is configured) after the three changes. When it panics it has at
  most created the file.
\<close>

lemma build_main_writes:
  assumes "build_main bs var env = (Inr u, env')"
  shows "\<exists>url n raw schema schema' types contents.
    (url = DEFAULT_ARGO_SERVER_SCHEMA_URL \<and> var = NotPresent \<or> var = Present url) \<and>
    fst (bs_get bs url n) = Inr raw \<and> bs_from_str bs raw = Inr schema \<and>
    patch_schema (bs_default bs) schema = Inr schema' \<and> bs_generate bs schema' = Inr types \<and>
    bs_rustfmt bs types = Inr contents \<and>
    be_written env' = be_written env @ [(''src/types.rs'', []), (''src/types.rs'', contents)]"
proof -
  obtain url e1 raw e2 schema schema' types contents where
    1: "get_argo_server_schema_url var env = (Inr url, e1)"
    and 2: "on_build_net (bs_get bs url) e1 = (Inr raw, e2)"
    and 3: "bs_from_str bs raw = Inr schema" "patch_schema (bs_default bs) schema = Inr schema'"
      "bs_generate bs schema' = Inr types" "bs_rustfmt bs types = Inr contents"
    and 4: "write_types bs ''src/types.rs'' contents e2 = (Inr u, env')"
    using assms by (auto simp: build_main_def eff_elims)
  show ?thesis
    using schema_url_run [OF 1] build_net_run [OF 2] 3 write_types_run [OF 4] by fastforce
qed

lemma build_main_panics:
  assumes "build_main bs var env = (Inl e, env')"
  shows "be_written env' \<in> {be_written env, be_written env @ [(''src/types.rs'', [])]}"
  using assms
  by (auto simp: build_main_def eff_elims dest!: schema_url_run build_net_run write_types_run)

end
