(* ===== verification/Spec2Isabelle.thy ===== *)
theory Spec2Isabelle
  imports Serving Broker_Locks Graph_Objects Cli_Main Argo_Build
begin

text \<open>
  This development models the Rust services of the Diamond workflows platform and proves what
  makes them correct. The sources are under \<^verbatim>\<open>src/\<close>: \<^verbatim>\<open>backend/sessionspaces\<close>, \<^verbatim>\<open>backend/auth-core\<close>,
  \<^verbatim>\<open>backend/auth-gateway\<close>, \<^verbatim>\<open>backend/auth-daemon\<close>, \<^verbatim>\<open>backend/auth-broker\<close>, \<^verbatim>\<open>backend/graph-proxy\<close>,
  \<^verbatim>\<open>backend/argo-workflows-openapi\<close> and \<^verbatim>\<open>workflows-cli\<close>.

  \<^bold>\<open>The program.\<close> The session spaces reconciler keeps one Kubernetes namespace per beamtime session.
  A user logs in through the auth gateway, which stores the refresh token, sealed, in a database.
  A pod of a workflow reaches the APIs through the auth daemon or the auth broker, which read that
  token for the subject the pod belongs to and refresh it. The graph proxy is the GraphQL
  interface to workflows, templates and triggers: it validates the caller's bearer token, asks the
  Argo server or Kubernetes with it, and turns the answers into pages, tasks and schemas. The
  command line tool lints, submits and generates workflow templates and creates triggers through
  the graph proxy.

  \<^bold>\<open>Conventions.\<close> A Rust struct is a record, an enum a datatype, a \<^verbatim>\<open>Result\<close> the sum with \<open>Inl\<close> the
  error, an \<^verbatim>\<open>Option\<close> an option, \<^verbatim>\<open>u32\<close>, \<^verbatim>\<open>usize\<close> and \<^verbatim>\<open>u8\<close> words. A panic is an error value of its
  own. An operation with effects is a function from a state to a result and the state after it
  (\<open>eff\<close>), composed by \<open>ebind\<close> where the code has \<^verbatim>\<open>?\<close>. What is not in the repository, such as HTTP
  servers, databases, the Kubernetes API, cryptography, JSON and YAML parsing, the file system and
  the clock, is a record of services, functions on a state of the outside \<open>'n\<close> that the
  definitions take as an argument; requests, file changes and commands are logged in the state so that a lemma
  can speak of all of them. Hash maps that are only looked up in are partial functions, those
  iterated over lists in an order of their own.

  \<^bold>\<open>Theories.\<close>

  \<^item> \<open>Prelude\<close>, \<open>Rust_Strings\<close>, \<open>Ordered_Map\<close>: results and effects, the part of \<^verbatim>\<open>str\<close>, of integer
    parsing and of \<^verbatim>\<open>BTreeMap\<close> the sources use, with their laws (\<open>Ordered_Map\<close> states them as a
    locale and interprets it on the sorted association list).
  \<^item> \<open>Instruments\<close>, \<open>Permissionables\<close>, \<open>Sessions\<close>, \<open>Reconciler\<close>: \<^verbatim>\<open>sessionspaces/src\<close>. The enum of
    instruments and the groups that open them, the rows and folds of the five queries, the
    sessions they are joined to, and the control loop over the cluster. Shown: who becomes a
    member of a namespace, that a turn realises the fetched sessions, does nothing when nothing
    changed, and over any number of turns never touches a foreign namespace.
  \<^item> \<open>Visits\<close>: the visits of \<^verbatim>\<open>graph-proxy/src/graphql/mod.rs\<close> and \<^verbatim>\<open>workflows-cli/src/visit.rs\<close>,
    which print and parse alike.
  \<^item> \<open>Auth_Core\<close>, \<open>Inject_Token\<close>: \<^verbatim>\<open>auth-core/src/database.rs\<close>, \<^verbatim>\<open>oidc.rs\<close> and the token injection
    middleware over the operations of its traits, whose laws are the locale \<open>token_store_laws\<close> the
    gateway and the daemon interpret.
  \<^item> \<open>Gateway\<close>: \<^verbatim>\<open>auth-gateway/src\<close>. Login, callback, logout, status and the proxy. Shown: a callback
    needs the pending login and its CSRF token, redirects stay within the configured origins,
    logout removes the token, and what is forwarded with which token.
  \<^item> \<open>Daemon\<close>: \<^verbatim>\<open>auth-daemon/src\<close>. Start-up from the database, subject resolution and forwarding.
  \<^item> \<open>Broker\<close>, \<open>Broker_Locks\<close>: \<^verbatim>\<open>auth-broker/src\<close>. Authorization of a pod's request, caches and
    refreshing; and the refresh locks as a step relation over threads, in which refreshes exclude
    each other until the cleanup task removes a lock in use, and no request is ever stuck.
  \<^item> \<open>Json\<close>, \<open>Argo_Types\<close>, \<open>Graph_Env\<close>: JSON values and pointers, the fields of the generated Argo types
    the proxy uses (\<^verbatim>\<open>argo-workflows-openapi/src/lib.rs\<close>), and URLs, requests and the effects of a
    resolver.
  \<^item> \<open>Token_Validation\<close>: \<^verbatim>\<open>graph-proxy/src/validate_token.rs\<close> and \<^verbatim>\<open>graphql/auth_guard.rs\<close>. The guard
    admits exactly verified tokens.
  \<^item> \<open>Filters\<close>: \<^verbatim>\<open>graphql/filters.rs\<close>. The selector sent for a filter, parsed by the grammar of label
    selectors, accepts exactly what the filter means; and when building one panics. The trait
    \<^verbatim>\<open>GraphFilter\<close> is the locale \<open>graph_filter\<close>, interpreted for each kind of filter.
  \<^item> \<open>Parameter_Schema\<close>: \<^verbatim>\<open>graphql/parameter_schema.rs\<close>. The argument schema against a reference
    definition, and where its references point.
  \<^item> \<open>Graph_Workflows\<close>, \<open>Graph_Templates\<close>, \<open>Graph_Triggers\<close>, \<open>Graph_Subscription\<close>: \<^verbatim>\<open>graphql/workflows.rs\<close>,
    \<^verbatim>\<open>workflow_templates.rs\<close>, \<^verbatim>\<open>ui_schema.rs\<close>, \<^verbatim>\<open>triggers.rs\<close> and \<^verbatim>\<open>subscription.rs\<close>, one definition
    per resolver. Shown: which requests they send and for whom, what submitting sends, that
    identifiers lead back, cursors count on, tasks are the nodes with their parents, triggers are
    the caller's own, and log entries do not depend on chunks cut at line ends.
  \<^item> \<open>Graph_Server\<close>: the HTTP handler of \<^verbatim>\<open>graphql/mod.rs\<close> with its metrics, the websocket service of
    \<^verbatim>\<open>graphql/subscription_integration.rs\<close> and the helpers of \<^verbatim>\<open>main.rs\<close>.
  \<^item> \<open>Graph_Objects\<close>: the fields of workflows, tasks and artifacts, and that every workflow handed out, by
    whichever query, mutation or subscription, agrees with its manifest and with the visit asked for.
  \<^item> \<open>Graph_Websocket\<close>: the connection of \<^verbatim>\<open>graphql/subscription_integration.rs\<close> with its builders, and
    what the service serves on an accepted upgrade.
  \<^item> \<open>Auth_Startup\<close>, \<open>Routers\<close>, \<open>Service_Mains\<close>, \<open>Serving\<close>: configuration files, clients and keys, the
    state each service starts with, the routers with their layers over the operations of the router
    library, telemetry, and \<^verbatim>\<open>main.rs\<close> up to the end of serving. Shown: the keys \<^verbatim>\<open>keygen\<close> prints fit
    together in the three services, which requests the gateway injects a token into, and which
    services finish the requests under way when they are asked to end.
  \<^item> \<open>Argo_Build\<close>: \<^verbatim>\<open>argo-workflows-openapi/build.rs\<close>, which changes the types of three fields of the
    upstream schema and no others before it has Rust types generated.
  \<^item> \<open>Cli_Env\<close>, \<open>Cli_Command\<close>, \<open>Cli_Lint\<close>, \<open>Cli_Submit\<close>, \<open>Cli_Create\<close>, \<open>Cli_Auth\<close>, \<open>Cli_Main\<close>: \<^verbatim>\<open>workflows-cli/src\<close>. YAML
    values, files and commands, whose trait \<^verbatim>\<open>CommandLike\<close> is the locale \<open>command_like\<close>, interpreted on
    the real and the mock runner; the label rules and exit codes of the linter, whose trait
    \<^verbatim>\<open>Linter\<close> is the locale \<open>linter\<close>, and that linting changes its scratch folder only; submission, which
    makes of a manifest what the graph proxy makes of it; asking and copying; the token cache;
    and the dispatch.
  \<^item> This theory: the properties that span services. A login in the browser reaches a daemon and,
    through the broker, the pods of the user's workflows; nothing the graph proxy sends the Argo
    server is sent without a verified token, and for a request the gateway has handed on that token is
    one of the browser's session. And a gap: once another service has rotated a session's refresh
    token, the gateway does not find the new one in the database.

  \<^bold>\<open>Hypotheses on services.\<close> Theorems about two uses of a service state what they need: that opening
  a sealed box with its keys gives what was sealed, that the Kubernetes API acts on what it is
  asked (\<open>Reconciler\<close>), that the iteration of a hash set lists each element once, that layers wrap the routes registered
  before them (\<open>axum_laws\<close> of \<open>Routers\<close>), that the services answer (\<open>auth_up\<close>, \<open>provider_up\<close>), that an
  \<^verbatim>\<open>Authorization\<close> header is read as the token it holds, that Kubernetes
  names hold no colon. Each such theorem has a witness on concrete services.

  \<^bold>\<open>Bounds and loops.\<close> Words have the width of the source; parsing a \<^verbatim>\<open>u32\<close> fails on overflow and a
  cursor past the last \<^verbatim>\<open>usize\<close> wraps around, as in a release build. Recursion is structural or has a measure: the
  rewriting of schemas decreases the size of the value. Asking on the command line may not return
  and is a partial function into option. The broker's threads are an inductive step relation.
  No definition takes fuel.

  \<^bold>\<open>Not modelled.\<close> Parsing of command line arguments beyond the sources of their values, logging, the
  inside of sockets and of the server loop, the generated Argo types as a whole and the schema
  document, which libraries make, module lists, and the identity provider of the tests; the Python
  identity mapper, the frontend and the charts. The lines of the Rust sources that no definition
  models are those, imports and the modules of tests. Output to the standard error that does not change
  the exit is left out of copying.
\<close>

section \<open>The refresh token across the services\<close>

text \<open>
  C1. A login in the browser reaches the pods. After a callback of the gateway has succeeded, a
  daemon that starts for the subject of that session, on the same database and with the keys of
  the gateway, and at a time when no stored token has expired, holds the session's refresh token,
  issuer and subject; its first request has to refresh it.
\<close>

theorem session_reaches_daemon:
  fixes w w1 :: "'n gateway_env" and v :: "'m daemon_env"
  assumes "callback gsv st c s w = (Inr url, w1)"
    and "oidc_tokens v = oidc_tokens w1"
    and "\<And>m n. open_sealed dsv (fst (seal gsv m pk n)) pk sk = Some m"
    and "app_public_key st = pk" "dc_public_key config = Some pk" "dc_secret_key config = Some sk"
    and "db_fault dsv (net v) = (None, n)" and "clock dsv n = (now, n')"
    and "\<And>subject row dt. oidc_tokens v subject = Some row \<Longrightarrow> row_expires_at row = Some dt \<Longrightarrow> now \<le> dt"
    and "\<And>iss. issuer_url_ok dsv iss"
  shows "\<exists>t td v'. session_data w1 TOKEN_KEY = Some (TokenV t) \<and>
    daemon_start dsv config (ts_subject t) v = (Inr pk, v') \<and> daemon_token v' = Some td \<and>
    td_subject td = ts_subject t \<and> td_issuer td = ts_issuer t \<and>
    td_refresh_token td = ts_refresh_token t \<and> td_access_token td = None"
  using assms(1)
proof (cases rule: callback_cases)
  case (verified l t wr w1' w2 w3)
  note wrote = write_run[OF verified(6)]
  obtain row where row: "oidc_tokens v (ts_subject t) = Some row" "row_subject row = ts_subject t"
    "row_issuer row = ts_issuer t"
    "\<exists>n. row_encrypted_refresh_token row = fst (seal gsv (as_bytes (ts_refresh_token t)) pk n)"
    using wrote verified(7,10) assms(2,4)
    by (fastforce simp: upsert_get session_token_info_def split: option.splits)
  then obtain v1 where read: "read_token_from_database dsv (ts_subject t) None pk sk v =
      (Inr \<lparr>st_issuer = ts_issuer t, st_subject = ts_subject t,
            st_refresh_token_secret = ts_refresh_token t\<rparr>, v1)"
    using read_ok[OF row(1), of None dsv pk sk "ts_refresh_token t", OF _ _ assms(7,8)]
      assms(3) assms(9)[OF row(1)] by auto
  show ?thesis
    using daemon_start_run[OF assms(5,6) read] assms(10) verified(10) by auto
qed simp

lemma demo_callback_table:
  "\<exists>w'. callback demo_gateway demo_app ''code'' ''csrf''
       (gateway_at 0 Map.empty [LOGIN_KEY \<mapsto> LoginV demo_login_data]) = (Inr ''home'', w') \<and>
     (\<forall>s row. oidc_tokens w' s = Some row \<longrightarrow> row_expires_at row = Some (1 + days 30)) \<and>
     (\<exists>t. session_data w' TOKEN_KEY = Some (TokenV t) \<and> ts_subject t = ''sub'')"
  by (simp add: callback_def callback_token_def ebind_def outside_def demo_gateway_def demo_app_def
      session_insert_def session_remove_login_def session_op_def demo_login_data_def
      check_access_token_hash_def from_token_response_def now_plus_def utc_add_def max_utc_def
      expires_in_def seconds_def days_def write_token_to_database_def db_exec_def demo_auth_def
      Let_def upsert_def)

theorem session_reaches_daemon_witness:
  "\<exists>w1 t td v'. callback demo_gateway demo_app ''code'' ''csrf''
       (gateway_at 0 Map.empty [LOGIN_KEY \<mapsto> LoginV demo_login_data]) = (Inr ''home'', w1) \<and>
     session_data w1 TOKEN_KEY = Some (TokenV t) \<and>
     daemon_start demo_daemon \<lparr>dc_public_key = Some [7], dc_secret_key = Some [8]\<rparr> (ts_subject t)
       \<lparr>net = 9, oidc_tokens = oidc_tokens w1, sent = [], daemon_token = None\<rparr> = (Inr [7], v') \<and>
     daemon_token v' = Some td \<and> td_refresh_token td = ts_refresh_token t"
proof -
  obtain w1 where w1: "callback demo_gateway demo_app ''code'' ''csrf''
       (gateway_at 0 Map.empty [LOGIN_KEY \<mapsto> LoginV demo_login_data]) = (Inr ''home'', w1)"
    and rows: "\<forall>s row. oidc_tokens w1 s = Some row \<longrightarrow> row_expires_at row = Some (1 + days 30)"
    using demo_callback_table by blast
  let ?v = "\<lparr>net = 9, oidc_tokens = oidc_tokens w1, sent = [], daemon_token = None\<rparr>"
  have "\<exists>t td v'. session_data w1 TOKEN_KEY = Some (TokenV t) \<and>
      daemon_start demo_daemon \<lparr>dc_public_key = Some [7], dc_secret_key = Some [8]\<rparr> (ts_subject t)
        ?v = (Inr [7], v') \<and> daemon_token v' = Some td \<and>
      td_subject td = ts_subject t \<and> td_issuer td = ts_issuer t \<and>
      td_refresh_token td = ts_refresh_token t \<and> td_access_token td = None"
  proof (rule session_reaches_daemon [OF w1])
    show "oidc_tokens ?v = oidc_tokens w1" by simp
    show "\<And>m n. open_sealed demo_daemon (fst (seal demo_gateway m [7] n)) [7] [8] = Some m"
      by (simp add: demo_daemon_def demo_gateway_def demo_auth_def)
    show "app_public_key demo_app = [7]" by (simp add: demo_app_def)
    show "db_fault demo_daemon (net ?v) = (None, 9)" by (simp add: demo_daemon_def demo_auth_def)
    show "clock demo_daemon 9 = (9, 10)" by (simp add: demo_daemon_def demo_auth_def)
    show "\<And>subject row dt. oidc_tokens ?v subject = Some row \<Longrightarrow> row_expires_at row = Some dt \<Longrightarrow> 9 \<le> dt"
      using rows by (fastforce simp: days_def seconds_def)
    show "\<And>iss. issuer_url_ok demo_daemon iss" by (simp add: demo_daemon_def)
  qed simp_all
  then show ?thesis using w1 by blast
qed

text \<open>
  C2. A login in the browser reaches a workflow's pods. After a callback of the gateway has
  succeeded, a broker on the same database and with matching keys, which holds nothing in its caches
  for the pod or the subject, answers the request of an identified pod whose workflow was created by
  the subject of that session: with status 200 and the access token the provider gives for the
  session's refresh token, as long as the services answer and the stored token has not expired. It then
  caches that access token with the refresh token to use next, the rotated one if there is one.
\<close>

theorem session_reaches_pod:
  fixes w w1 :: "'n gateway_env" and v v1 :: "'m broker_env"
  assumes "callback gsv st c s w = (Inr url, w1)" "session_data w1 TOKEN_KEY = Some (TokenV t)"
    and "oidc_tokens v = oidc_tokens w1"
    and "\<And>m n. open_sealed bsv (fst (seal gsv m (bk_public keys) n)) (bk_public keys) (bk_secret keys) = Some m"
    and "app_public_key st = bk_public keys"
    and "identify_pod bsv req v = (Inr (identity, pod), v1)"
    and "subject_cache v (pod_key_of identity pod) = None" "token_cache v (ts_subject t) = None"
    and "label_in ''workflows.argoproj.io/workflow'' (pod_meta_labels pod) = Some wname"
    and "\<And>n. fst (get_workflow_labels bsv (unwrap_or ''default'' (pod_meta_namespace pod)) wname n) = Inr labels"
    and "label_in ''workflows.argoproj.io/creator'' labels = Some (ts_subject t)"
    and "auth_up bsv" "provider_up bsv (ts_refresh_token t)"
    and "\<And>iss. broker_issuer_url_ok bsv iss" "\<And>h. broker_header_value_ok bsv h"
    and "\<And>row dt n. oidc_tokens v (ts_subject t) = Some row \<Longrightarrow> row_expires_at row = Some dt \<Longrightarrow>
      fst (clock bsv n) \<le> dt"
  shows "\<exists>n resp answer v' ct. fst (token_endpoint bsv (ts_refresh_token t) n) = Inr resp \<and>
    authorize_request bsv keys req v = (Inr answer :: unit + http_response, v') \<and> resp_status answer = 200 \<and>
    resp_headers answer ''authorization'' = [''Bearer '' @ tr_access_token resp] \<and>
    token_cache v' (ts_subject t) = Some ct \<and> cached_token.ct_access_token ct = tr_access_token resp \<and>
    cached_token.ct_refresh_token ct = unwrap_or (ts_refresh_token t) (tr_refresh_token resp)"
  using assms(1)
proof (cases rule: callback_cases)
  case (verified l t' wr w1' w2 w3)
  then have t': "t' = t" using assms(2) by simp
  note wrote = write_run[OF verified(6)]
  obtain row where row: "oidc_tokens v (ts_subject t) = Some row"
    "\<exists>n. row_encrypted_refresh_token row = fst (seal gsv (as_bytes (ts_refresh_token t)) (bk_public keys) n)"
    using wrote verified(7,10) assms(3,5)
    by (fastforce simp: upsert_get session_token_info_def t' split: option.splits)
  have frame: "frame auth_env.more (identify_pod bsv req)" "frame oidc_tokens (identify_pod bsv req)"
    unfolding identify_pod_def by (intro frame_intros)+
  note same = more_broker[OF frameD[OF frame(1) assms(6)]] frameD[OF frame(2) assms(6)]
  have "\<exists>n resp answer v' ct. fst (token_endpoint bsv (ts_refresh_token t) n) = Inr resp \<and>
    grant_token bsv keys identity pod v1 = (Inr answer, v') \<and> resp_status answer = 200 \<and>
    resp_headers answer ''authorization'' = [''Bearer '' @ tr_access_token resp] \<and>
    token_cache v' (ts_subject t) = Some ct \<and> cached_token.ct_access_token ct = tr_access_token resp \<and>
    cached_token.ct_refresh_token ct = unwrap_or (ts_refresh_token t) (tr_refresh_token resp)"
  proof (rule grant_up[OF assms(12,13) _ _ assms(9,10,11) _ assms(14)])
    show "open_sealed bsv (row_encrypted_refresh_token row) (bk_public keys) (bk_secret keys) =
        Some (as_bytes (ts_refresh_token t))"
      using row(2) assms(4) by auto
  qed (use same row(1) assms(7,8,15,16) in auto)
  then show ?thesis
    using assms(6) by (auto simp: authorize_request_def authorize_request_inner_def ebind_def) blast
qed simp

text \<open>The broker of the demonstration at a fixed time.\<close>

definition demo_broker_at_9 :: "int broker_services" where
  "demo_broker_at_9 = demo_broker\<lparr>clock := (\<lambda>n. (9, n))\<rparr>"

lemma demo_identified:
  "\<exists>v1. identify_pod demo_broker_at_9 demo_pod_request v =
     (Inr (\<lparr>pi_namespace = ''ns1'', pi_name = ''pod1'', pi_uid = Some ''u1''\<rparr>, demo_pod), v1)"
  by (simp add: identify_pod_def ebind_def outside_def extract_service_account_token_def
      demo_pod_request_def demo_broker_at_9_def demo_broker_def demo_review_def pod_identity_new_def
      extra_value_def check_uid_def demo_pod_def)

theorem session_reaches_pod_witness:
  "\<exists>w1 answer v'. callback demo_gateway demo_app ''code'' ''csrf''
       (gateway_at 0 Map.empty [LOGIN_KEY \<mapsto> LoginV demo_login_data]) = (Inr ''home'', w1) \<and>
     authorize_request demo_broker_at_9 demo_keys demo_pod_request
       \<lparr>net = 9, oidc_tokens = oidc_tokens w1, subject_cache = Map.empty, token_cache = Map.empty\<rparr>
       = (Inr answer :: unit + http_response, v') \<and> resp_status answer = 200 \<and>
     resp_headers answer ''authorization'' = [''Bearer at2'']"
proof -
  obtain w1 where w1: "callback demo_gateway demo_app ''code'' ''csrf''
       (gateway_at 0 Map.empty [LOGIN_KEY \<mapsto> LoginV demo_login_data]) = (Inr ''home'', w1)"
    and rows: "\<forall>s row. oidc_tokens w1 s = Some row \<longrightarrow> row_expires_at row = Some (1 + days 30)"
    and t: "\<exists>t. session_data w1 TOKEN_KEY = Some (TokenV t) \<and> ts_subject t = ''sub''"
    using demo_callback_table by blast
  obtain t where t: "session_data w1 TOKEN_KEY = Some (TokenV t)" "ts_subject t = ''sub''"
    using t by blast
  let ?v = "\<lparr>net = 9, oidc_tokens = oidc_tokens w1, subject_cache = Map.empty,
      token_cache = Map.empty\<rparr> :: int broker_env"
  obtain v1 where v1: "identify_pod demo_broker_at_9 demo_pod_request ?v =
     (Inr (\<lparr>pi_namespace = ''ns1'', pi_name = ''pod1'', pi_uid = Some ''u1''\<rparr>, demo_pod), v1)"
    using demo_identified by blast
  have "\<exists>n resp answer v' ct. fst (token_endpoint demo_broker_at_9 (ts_refresh_token t) n) = Inr resp \<and>
    authorize_request demo_broker_at_9 demo_keys demo_pod_request ?v =
      (Inr answer :: unit + http_response, v') \<and> resp_status answer = 200 \<and>
    resp_headers answer ''authorization'' = [''Bearer '' @ tr_access_token resp] \<and>
    token_cache v' (ts_subject t) = Some ct \<and> cached_token.ct_access_token ct = tr_access_token resp \<and>
    cached_token.ct_refresh_token ct = unwrap_or (ts_refresh_token t) (tr_refresh_token resp)"
  proof (rule session_reaches_pod [OF w1 t(1) _ _ _ v1])
    show "label_in ''workflows.argoproj.io/workflow'' (pod_meta_labels demo_pod) = Some ''wf1''"
      by (simp add: label_in_def demo_pod_def)
    show "fst (get_workflow_labels demo_broker_at_9 ns ''wf1'' n) =
        Inr (Some [''workflows.argoproj.io/creator'' \<mapsto> ''sub''])" for ns n
      by (simp add: demo_broker_at_9_def demo_broker_def)
    show "label_in ''workflows.argoproj.io/creator''
        (Some [''workflows.argoproj.io/creator'' \<mapsto> ''sub'']) = Some (ts_subject t)"
      by (simp add: label_in_def t(2))
    show "auth_up demo_broker_at_9"
      by (simp add: auth_up_def demo_broker_at_9_def demo_broker_def demo_auth_def days_def
          seconds_def max_utc_def)
    show "provider_up demo_broker_at_9 (ts_refresh_token t)"
      by (simp add: provider_up_def demo_broker_at_9_def demo_broker_def demo_auth_def days_def
          seconds_def DEFAULT_TOKEN_EXPIRY_SECS_def)
    show "fst (clock demo_broker_at_9 n) \<le> dt"
      if "oidc_tokens ?v (ts_subject t) = Some row" "row_expires_at row = Some dt" for row dt n
      using rows that by (auto simp: demo_broker_at_9_def days_def seconds_def)
  qed (simp_all add: demo_broker_at_9_def demo_broker_def demo_gateway_def demo_auth_def demo_keys_def
      demo_app_def)
  then show ?thesis
    using w1 by (auto simp: demo_broker_at_9_def demo_broker_def demo_auth_def)
qed

section \<open>Rotated refresh tokens\<close>

text \<open>The requests of one browser, one after the other, with the outcome of each.\<close>

fun proxied ::
  "('n, 'y) gateway_services_scheme \<Rightarrow> app_state \<Rightarrow> http_request list \<Rightarrow> ('n, 'z) gateway_env_scheme \<Rightarrow>
     (auth_error + http_response) list \<times> ('n, 'z) gateway_env_scheme" where
  "proxied sv st [] w = ([], w)"
| "proxied sv st (req # reqs) w =
     (case gateway_inject_token sv st req w of
        (r, w') \<Rightarrow> (case proxied sv st reqs w' of (rs, w'') \<Rightarrow> (r # rs, w'')))"

text \<open>A state from which on the provider refuses the refresh token of the session.\<close>

definition refused_from ::
  "('n, 'y) gateway_services_scheme \<Rightarrow> token_session_data \<Rightarrow> 'n set \<Rightarrow> bool" where
  "refused_from sv t S \<longleftrightarrow>
     (\<forall>n \<in> S. fst (session_fault sv n) = None \<and> snd (session_fault sv n) \<in> S \<and>
        ts_access_token_expires_at t \<le> fst (clock sv n) \<and> snd (clock sv n) \<in> S \<and>
        (\<exists>e. fst (token_endpoint sv (ts_refresh_token t) n) = Inl e) \<and>
        snd (token_endpoint sv (ts_refresh_token t) n) \<in> S)"

lemma refused_request:
  fixes w :: "('n, 'z) gateway_env_scheme"
  assumes "gateway_held w = Some t" and "net w \<in> S" and "refused_from sv t S"
  shows "\<exists>e n. n \<in> S \<and> gateway_inject_token sv st req w = (Inl (OidcError e), w\<lparr>net := n\<rparr>)"
proof -
  obtain n1 where n1: "session_fault sv (net w) = (None, n1)" "n1 \<in> S"
    using assms(2,3) unfolding refused_from_def by (metis prod.collapse)
  obtain now n2 where n2: "clock sv n1 = (now, n2)" "ts_access_token_expires_at t \<le> now" "n2 \<in> S"
    using n1(2) assms(3) unfolding refused_from_def by (metis prod.collapse)
  obtain e n3 where n3: "token_endpoint sv (ts_refresh_token t) n2 = (Inl e, n3)" "n3 \<in> S"
    using n2(3) assms(3) unfolding refused_from_def by (metis prod.collapse)
  have "session_data w TOKEN_KEY = Some (TokenV t)"
    using assms(1) by (auto simp: gateway_held_def split: option.splits session_value.splits)
  then have "gateway_inject_token sv st req w = (Inl (OidcError e), w\<lparr>net := n3\<rparr>)"
    using n1(1) n2(1,2) n3(1)
    by (simp add: gateway_inject_token_def inject_token_with_def gateway_store_def
        session_get_token_def session_op_def ebind_def outside_def gateway_refresh_def
        exchange_refresh_token_def)
  with n3(2) show ?thesis by blast
qed

text \<open>
  C6. The gateway refreshes with the copy of the refresh token that the browser's session holds, and
  does not look into the database. So once another service has refreshed for the same subject at a
  provider that refuses a rotated refresh token, and the session's access token has expired,
  every request of the browser fails: nothing is forwarded, and neither the session nor the table
  changes, so the next request fails too, however fresh the refresh token in the database is.
\<close>

theorem stale_refresh_token_locks_out:
  fixes w :: "('n, 'z) gateway_env_scheme"
  assumes "gateway_held w = Some t" and "net w \<in> S" and "refused_from sv t S"
    and "proxied sv st reqs w = (rs, w')"
  shows "length rs = length reqs \<and> (\<forall>r \<in> set rs. \<exists>e. r = Inl (OidcError e)) \<and>
    gateway_held w' = Some t \<and> sent w' = sent w \<and> oidc_tokens w' = oidc_tokens w"
  using assms(1,2,4)
proof (induction reqs arbitrary: w rs)
  case (Cons req reqs)
  obtain e n where n: "n \<in> S"
    and run: "gateway_inject_token sv st req w = (Inl (OidcError e), w\<lparr>net := n\<rparr>)"
    using refused_request [OF Cons.prems(1,2) assms(3)] by blast
  obtain rs' where rs: "rs = Inl (OidcError e) # rs'" "proxied sv st reqs (w\<lparr>net := n\<rparr>) = (rs', w')"
    using Cons.prems(3) run by (auto split: prod.splits)
  show ?case
    using Cons.IH [OF _ _ rs(2)] Cons.prems(1) n rs(1) by (simp add: gateway_held_def)
qed simp

text \<open>A provider that rotates: the first exchange of \<^verbatim>\<open>rt1\<close> returns \<^verbatim>\<open>rt2\<close> and uses \<^verbatim>\<open>rt1\<close> up.\<close>

definition rotating_endpoint :: "string \<Rightarrow> int \<Rightarrow> (string + token_response) \<times> int" where
  "rotating_endpoint rt n =
     (if rt = ''rt2'' \<or> rt = ''rt1'' \<and> n < 1000
      then (Inr \<lparr>tr_access_token = ''at2'', tr_refresh_token = Some ''rt2'', tr_expires_in = Some 300,
                 tr_id_token = None\<rparr>, 1000)
      else (Inl ''invalid_grant'', n))"

definition rotating_broker :: "int broker_services" where
  "rotating_broker = demo_broker\<lparr>clock := (\<lambda>n. (seconds 400, n)), token_endpoint := rotating_endpoint\<rparr>"

definition rotating_gateway :: "int gateway_services" where
  "rotating_gateway = demo_gateway\<lparr>clock := (\<lambda>n. (seconds 400, n)), token_endpoint := rotating_endpoint\<rparr>"

lemma rotating_refresh:
  "\<exists>v. get_or_refresh_token rotating_broker demo_keys ''sub'' demo_broker_env = (Inr ''at2'', v) \<and>
     net v = 1000 \<and> row_opens rotating_broker [7] [8] (oidc_tokens v) ''sub'' ''rt2''"
  by (simp add: get_or_refresh_token_def fresh_cached_token_def get_cached_token_def ebind_def
      outside_def rotating_broker_def demo_broker_def demo_auth_def demo_keys_def refresh_locked_def
      rotating_endpoint_def read_token_from_database_def db_exec_def find_row_def check_expiry_def
      days_def seconds_def exchange_refresh_token_def duration_from_std_def utc_add_def max_utc_def
      DEFAULT_TOKEN_EXPIRY_SECS_def store_refreshed_def write_token_to_database_def now_plus_def
      insert_cached_token_def Let_def row_opens_def upsert_def cached_token_info_def)

theorem stale_refresh_token_locks_out_witness:
  "\<exists>v r1 r2 w'. get_or_refresh_token rotating_broker demo_keys ''sub'' demo_broker_env = (Inr ''at2'', v) \<and>
     row_opens rotating_broker [7] [8] (oidc_tokens v) ''sub'' ''rt2'' \<and>
     proxied rotating_gateway demo_app [demo_request, demo_request]
       (gateway_at (net v) (oidc_tokens v) [TOKEN_KEY \<mapsto> TokenV demo_token]) =
         ([Inl (OidcError r1), Inl (OidcError r2)], w') \<and> gateway_held w' = Some demo_token"
proof -
  obtain v where v: "get_or_refresh_token rotating_broker demo_keys ''sub'' demo_broker_env = (Inr ''at2'', v)"
      "net v = 1000" "row_opens rotating_broker [7] [8] (oidc_tokens v) ''sub'' ''rt2''"
    using rotating_refresh by blast
  let ?w = "gateway_at (net v) (oidc_tokens v) [TOKEN_KEY \<mapsto> TokenV demo_token]"
  obtain rs w' where run: "proxied rotating_gateway demo_app [demo_request, demo_request] ?w = (rs, w')"
    by fastforce
  have "refused_from rotating_gateway demo_token {1000..}"
    by (simp add: refused_from_def rotating_gateway_def rotating_endpoint_def demo_gateway_def
        demo_token_def seconds_def)
  from stale_refresh_token_locks_out [OF _ _ this run] v(2)
  have "length rs = 2 \<and> (\<forall>r \<in> set rs. \<exists>e. r = Inl (OidcError e)) \<and> gateway_held w' = Some demo_token"
    by (simp add: gateway_held_def)
  moreover from this obtain a b where "rs = [a, b]" by (auto simp: length_Suc_conv numeral_2_eq_2)
  ultimately show ?thesis using v run by auto
qed

section \<open>Tokens and the requests of the graph proxy\<close>

text \<open>
  The context the server makes for a request or a websocket: the configured Argo server and the
  outcome of validating the bearer token, if there is one.
\<close>

definition request_ctx ::
  "('n, 'key) oidc_services \<Rightarrow> token_validator \<Rightarrow> url \<Rightarrow> string option \<Rightarrow> 'n \<Rightarrow> graph_ctx" where
  "request_ctx os validator u header n =
     \<lparr>cx_argo_url = u, cx_auth = Some (fst (validate_token os validator header Jwt n))\<rparr>"

definition with_verified ::
  "('n, 'key) oidc_services \<Rightarrow> token_validator \<Rightarrow> url \<Rightarrow> string option \<Rightarrow> string list \<Rightarrow>
     argo_request \<Rightarrow> bool" where
  "with_verified os validator u header path rq \<longleftrightarrow>
     (\<exists>t rest. header = Some t \<and> verified os validator t \<and> rq_bearer rq = Some t \<and>
        u_base (rq_url rq) = u_base u \<and> u_segments (rq_url rq) = u_segments u @ path @ rest)"

text \<open>The same below the namespace of some visit the parser of visits accepts.\<close>

definition of_some_visit :: "(string list \<Rightarrow> argo_request \<Rightarrow> bool) \<Rightarrow> argo_request \<Rightarrow> bool" where
  "of_some_visit P rq \<longleftrightarrow> (\<exists>v. visit_code_ok (proposal_code v) \<and> P (workflow_path v) rq)"

lemma for_caller_verified:
  "for_caller (request_ctx os validator u header n) path rq \<Longrightarrow>
     with_verified os validator u header path rq"
  by (cases header)
    (auto simp: for_caller_def request_ctx_def with_verified_def validate_token_def validate_jwt_iff)

lemma sends_verified:
  "sends (for_caller (request_ctx os validator u header n) path) m \<Longrightarrow>
     sends (with_verified os validator u header path) m"
  by (erule sends_weaken) (rule for_caller_verified)

lemma sends_verified_visit:
  "sends (\<lambda>rq. \<exists>v. visit_code_ok (proposal_code v) \<and>
       for_caller (request_ctx os validator u header n) (workflow_path v) rq) m \<Longrightarrow>
     sends (of_some_visit (with_verified os validator u header)) m"
  by (erule sends_weaken) (auto simp: of_some_visit_def dest: for_caller_verified)

lemma addressed_verified:
  "addressed (request_ctx os validator u header n) path rq \<Longrightarrow>
     rq_bearer rq = None \<or> with_verified os validator u header path rq"
  by (cases header)
    (auto simp: addressed_def request_ctx_def with_verified_def validate_token_def as_token_def
      validate_jwt_iff split: validated_token.splits)

text \<open>
  C4. Whatever a client asks of the graph proxy, with whatever token or none: every request its
  queries, mutations and subscriptions on workflows and templates send carries the token of the
  client, which has been verified, and goes to the configured Argo server: below the namespace of
  the visit asked for, for an identifier below one whose name the parser of visits accepts, for
  templates below the cluster's templates. Without a verified token nothing is sent. The nodes of
  a workflow are asked for below its visit, with that token or with none.
\<close>

theorem graph_requests_verified:
  "let ctx = request_ctx os validator u header n; P = with_verified os validator u header;
       templates = [''api'', ''v1'', ''cluster-workflow-templates''] in
    sends (P (workflow_path v)) (workflow_query sv ctx v name)
    \<and> sends (P (workflow_path v)) (workflows_query sv dec ctx v cursor limit flt)
    \<and> sends (of_some_visit P) (workflow_by_id_query sv ctx i)
    \<and> sends (of_some_visit P) (node_query sv ctx i)
    \<and> sends (P templates) (workflow_template_query sv ctx name)
    \<and> sends (P templates) (workflow_templates_query sv dec hash_iter ctx cursor limit tflt)
    \<and> sends (P (workflow_path v)) (submit_workflow_template sv to_string ctx name v parameters)
    \<and> sends (P (workflow_path v)) (submit_workflow sv from_yaml ctx v manifest)
    \<and> sends (P (workflow_path v)) (logs streams ctx v name task_id)
    \<and> sends (P [''api'', ''v1'', ''workflow-events'', visit_input_to_string v])
        (workflow_subscription streams ctx v name)
    \<and> sends (\<lambda>rq. rq_bearer rq = None \<or>
          P [''api'', ''v1'', ''workflows'', visit_to_string (md_visit md)] rq)
        (workflow_tasks sv ctx wst md)"
  unfolding Let_def
  by (intro conjI sends_verified [OF sends_workflow_query] sends_verified [OF sends_workflows_query]
      sends_verified_visit [OF sends_by_id_queries(1)] sends_verified_visit [OF sends_by_id_queries(2)]
      sends_verified [OF sends_templates(1)] sends_verified [OF sends_templates(2)]
      sends_verified [OF sends_submissions(1)] sends_verified [OF sends_submissions(2)]
      sends_verified [OF subscriptions_for_caller(1)] sends_verified [OF subscriptions_for_caller(2)]
      sends_weaken [OF sends_workflow_tasks];
    erule addressed_verified)

section \<open>From the browser to the Argo server\<close>

text \<open>
  The resolvers of a request, each with the workflows it hands on to the resolvers of their fields.
  The tasks of a workflow are resolved from its status, which is read off the manifest it carries.
\<close>

definition giving :: "('a \<Rightarrow> workflow list) \<Rightarrow> ('s, 'e, 'a) eff \<Rightarrow> ('s, 'e, workflow list) eff" where
  "giving handed m = ebind m (\<lambda>x. ret (handed x))"

definition found :: "workflow option \<Rightarrow> workflow list" where
  "found w = (case w of Some w \<Rightarrow> [w] | None \<Rightarrow> [])"

lemma sends_giving: "sends P m \<Longrightarrow> sends P (giving f m)"
  unfolding giving_def by (intro sends_intros)

definition watched :: "(graph_error + (string + workflow)) list \<Rightarrow> workflow list" where
  "watched items = List.map_filter (\<lambda>item. case item of Inr (Inr w) \<Rightarrow> Some w | _ \<Rightarrow> None) items"

inductive graph_call ::
  "graph_ctx \<Rightarrow> workflow list \<Rightarrow> ('n graph_env, graph_error, workflow list) eff \<Rightarrow> bool" for ctx known where
  call_workflow:
    "graph_call ctx known (giving found (workflow_query sv ctx v name))"
| call_workflow_by_id: "graph_call ctx known (giving found (workflow_by_id_query sv ctx i))"
| call_node: "graph_call ctx known (giving found (node_query sv ctx i))"
| call_workflows:
    "graph_call ctx known (giving (\<lambda>c. map snd (edges c)) (workflows_query sv dec ctx v cursor limit flt))"
| call_tasks: "\<lbrakk>w \<in> set known; workflow_status_of w = Inr (Some ws);
      status_with_tasks ws = Some (wst, md)\<rbrakk> \<Longrightarrow>
    graph_call ctx known (giving (\<lambda>_. []) (workflow_tasks sv ctx wst md))"
| call_template: "graph_call ctx known (giving (\<lambda>_. []) (workflow_template_query sv ctx name))"
| call_templates:
    "graph_call ctx known (giving (\<lambda>_. []) (workflow_templates_query sv dec hash_iter ctx cursor limit tflt))"
| call_submit_template:
    "graph_call ctx known (giving (\<lambda>w. [w]) (submit_workflow_template sv to_string ctx name v parameters))"
| call_submit: "graph_call ctx known (giving (\<lambda>w. [w]) (submit_workflow sv from_yaml ctx v manifest))"
| call_logs:
    "graph_call ctx known
       (giving (\<lambda>_. []) (logs (streams :: ('n, u8 list) stream_services) ctx v name task_id))"
| call_watch:
    "graph_call ctx known
       (giving watched (workflow_subscription (streams :: ('n, u8 list) stream_services) ctx v name))"

text \<open>
  A document runs resolvers one after the other, each with its own arguments, the resolvers of
  tasks on the workflows it has been handed by then.
\<close>

inductive graph_run :: "graph_ctx \<Rightarrow> 'n graph_env \<Rightarrow> workflow list \<Rightarrow> 'n graph_env \<Rightarrow> bool" for ctx where
  run_done: "graph_run ctx env [] env"
| run_call: "graph_run ctx env ws env1 \<Longrightarrow> graph_call ctx ws m \<Longrightarrow> m env1 = (r, env2) \<Longrightarrow>
    graph_run ctx env (ws @ (case r of Inr new \<Rightarrow> new | Inl _ \<Rightarrow> [])) env2"

text \<open>Only a context with a valid token is handed workflows.\<close>

abbreviation has_valid_token :: "graph_ctx \<Rightarrow> bool" where
  "has_valid_token ctx \<equiv> \<exists>t. cx_auth ctx = Some (TokenValid t)"

lemma yields_guarded_valid: "yields (\<lambda>_. has_valid_token ctx) (guarded ctx m)"
  by (auto simp: yields_def guarded_def auth_guard_ok eff_elims)

lemma yields_giving: "yields (\<lambda>_. Q) m \<Longrightarrow> yields (\<lambda>_. Q) (giving f m)"
  unfolding giving_def by (intro yields_ebind [where Q = "\<lambda>_. Q"] yields_ret)

lemma yields_giving_none: "yields (\<lambda>ws. ws \<noteq> [] \<longrightarrow> Q) (giving (\<lambda>_. []) m)"
  unfolding giving_def by (intro yields_ebind [where Q = "\<lambda>_. True"] yields_ret) (simp_all add: yields_def)

lemma handed_only_valid:
  "graph_call ctx known m \<Longrightarrow> yields (\<lambda>ws. ws \<noteq> [] \<longrightarrow> has_valid_token ctx) m"
proof (induction rule: graph_call.induct)
  case (call_tasks w ws wst md sv)
  show ?case by (rule yields_giving_none)
next
  case (call_workflows sv dec v cursor limit flt)
  show ?case
    unfolding workflows_query_def
    by (rule yields_weaken [where P = "\<lambda>_. has_valid_token ctx"],
        intro yields_giving yields_ebind [where Q = "\<lambda>_. True"] yields_guarded_valid)
      (simp_all add: yields_def)
qed (rule yields_giving_none |
     (rule yields_weaken [where P = "\<lambda>_. has_valid_token ctx"], rule yields_giving,
      simp only: workflow_query_def workflow_by_id_query_def node_query_def submit_workflow_def
        submit_workflow_template_def workflow_subscription_def Let_def,
      rule yields_guarded_valid, blast))+

lemma run_only_valid: "graph_run ctx env ws env' \<Longrightarrow> ws \<noteq> [] \<Longrightarrow> has_valid_token ctx"
proof (induction rule: graph_run.induct)
  case (run_call env ws env1 m r env2)
  then show ?case
    using yieldsD [OF handed_only_valid [OF run_call.hyps(2)]] by (cases r) auto
qed simp

lemma graph_call_for_caller:
  assumes "graph_call ctx known m" and "known \<noteq> [] \<Longrightarrow> has_valid_token ctx"
  shows "sends (\<lambda>rq. \<exists>path. for_caller ctx path rq) m"
  using assms
proof (induction rule: graph_call.induct)
  case (call_workflow_by_id sv i)
  then show ?case by (intro sends_giving sends_weaken [OF sends_by_id_queries(1)]) auto
next
  case (call_node sv i)
  then show ?case by (intro sends_giving sends_weaken [OF sends_by_id_queries(2)]) auto
next
  case (call_tasks w ws wst md sv)
  then obtain t where "cx_auth ctx = Some (TokenValid t)" by (cases known) auto
  then have "addressed ctx path rq \<Longrightarrow> for_caller ctx path rq" for path rq
    by (auto simp: addressed_def for_caller_def as_token_def)
  then show ?case by (intro sends_giving sends_weaken [OF sends_workflow_tasks]) blast
qed (rule sends_giving, rule sends_weaken,
     rule sends_workflow_query sends_workflows_query sends_templates sends_submissions
       subscriptions_for_caller, blast)+

lemma graph_run_for_caller:
  "graph_run ctx env ws env' \<Longrightarrow> \<exists>rqs. ge_requests env' = ge_requests env @ rqs \<and>
     (\<forall>rq \<in> set rqs. \<exists>path. for_caller ctx path rq)"
proof (induction rule: graph_run.induct)
  case (run_call env ws env1 m r env2)
  from run_call.IH obtain rqs where "ge_requests env1 = ge_requests env @ rqs"
    "\<forall>rq \<in> set rqs. \<exists>path. for_caller ctx path rq" by blast
  moreover from emitsD [OF graph_call_for_caller [OF run_call.hyps(2)
      run_only_valid [OF run_call.hyps(1)]] run_call.hyps(3)]
  obtain rqs' where "ge_requests env2 = ge_requests env1 @ rqs'"
    "\<forall>rq \<in> set rqs'. \<exists>path. for_caller ctx path rq"
    by (auto simp: list_all_iff)
  ultimately show ?case by (intro exI [of _ "rqs @ rqs'"]) auto
qed simp

lemma graph_run_verified:
  assumes "graph_run (request_ctx os validator u header n) env ws env'"
  shows "\<exists>rqs. ge_requests env' = ge_requests env @ rqs \<and>
    (\<forall>rq \<in> set rqs. with_verified os validator u header [] rq)"
proof -
  have "with_verified os validator u header [] rq"
    if "for_caller (request_ctx os validator u header n) path rq" for path rq
    using for_caller_verified [OF that] by (auto simp: with_verified_def)
  then show ?thesis using graph_run_for_caller [OF assms] by meson
qed

text \<open>
  C5. From the browser to the Argo server. When the gateway hands a request of a browser on, and
  the graph proxy runs any resolvers for it, then everything they send the Argo server goes to the
  configured server with one token, which has been verified: the access token of the browser's
  session, or one the provider has answered with to its refresh token. The resolvers are all that
  send it requests, those of the tasks of a workflow a resolver before has handed on included. \<open>typed\<close> is
  the reading of an \<^verbatim>\<open>Authorization\<close> header as a bearer token, which returns no other text than
  the one after \<^verbatim>\<open>Bearer\<close>.
\<close>

theorem browser_request_to_argo:
  assumes "gateway_inject_token sv st req w = (r, w')"
    and "sent w' = sent w @ reqs" and "q \<in> set reqs"
    and "\<And>b t. typed [''Bearer '' @ b] = Some t \<Longrightarrow> t = b"
    and "graph_run (request_ctx os validator u (typed (req_headers q ''authorization'')) n) env ws env'"
  shows "\<exists>s t rqs. gateway_held w = Some s \<and> (gateway_renews sv)\<^sup>*\<^sup>* s t \<and> ts_subject t = ts_subject s \<and>
    req_headers q ''cookie'' = [] \<and> ge_requests env' = ge_requests env @ rqs \<and>
    (\<forall>rq \<in> set rqs. with_verified os validator u (Some (ts_access_token t)) [] rq)"
proof -
  from gateway_exchange [OF assms(1)] obtain s t where held: "gateway_held w = Some s" "(gateway_renews sv)\<^sup>*\<^sup>* s t"
    and q: "forwarded req (ts_access_token t) q"
    using assms(2,3) unfolding exchange_ok_def by (metis append_eq_append_conv option.inject)
  have subject: "ts_subject t = ts_subject s"
    using held(2) by induction (auto simp: gateway_renews_def)
  let ?h = "req_headers q ''authorization''"
  have h: "?h = [''Bearer '' @ ts_access_token t]" using q by (simp add: forwarded_def)
  obtain rqs where rqs: "ge_requests env' = ge_requests env @ rqs"
    "\<forall>rq \<in> set rqs. with_verified os validator u (typed ?h) [] rq"
    using graph_run_verified [OF assms(5)] by blast
  have "with_verified os validator u (Some (ts_access_token t)) [] rq" if "rq \<in> set rqs" for rq
    using rqs(2) that assms(4) [of "ts_access_token t"] unfolding h
    by (fastforce simp: with_verified_def)
  then show ?thesis using held subject rqs(1) q by (auto simp: forwarded_def)
qed

text \<open>An issuer whose key verifies the access token that the demo session is renewed with.\<close>

definition demo_verifier :: "(nat, unit) oidc_services" where
  "demo_verifier = demo_oidc\<lparr>os_decode_header := (\<lambda>_. Inr (Some ''k1'')),
     os_decode := (\<lambda>t _ _. if t = ''at2'' then Inr JNull else Inl ''bad'')\<rparr>"

definition demo_keyed_validator :: token_validator where
  "demo_keyed_validator = demo_validator\<lparr>tv_keys := [\<lparr>jwk_kid = Some ''k1'', jwk_content = ''rsa''\<rparr>]\<rparr>"

definition typed_bearer :: "string list \<Rightarrow> string option" where
  "typed_bearer vs = (case vs of v # _ \<Rightarrow> strip_prefix ''Bearer '' v | [] \<Rightarrow> None)"

lemma demo_proxied:
  "sent (snd (gateway_inject_token demo_gateway demo_app demo_request (demo_session_env (seconds 400)))) =
     [demo_request\<lparr>req_headers := (req_headers demo_request)(
       ''authorization'' := [''Bearer at2''], ''cookie'' := [])\<rparr>]"
  by (simp add: gateway_inject_token_def inject_token_with_def gateway_store_def
        session_get_token_def session_op_def ebind_def outside_def demo_gateway_def demo_auth_def
        demo_token_def seconds_def gateway_refresh_def exchange_refresh_token_def update_tokens_def
        now_plus_def utc_add_def max_utc_def expires_in_def write_token_to_database_def days_def
        db_exec_def gateway_save_token_def session_insert_def forward_with_def clone_request_def
        demo_request_def with_bearer_def prepare_headers_def run_next_def status_response_def)

text \<open>A server whose workflows run and come without their nodes: its tasks are asked for again.\<close>

definition demo_running :: workflow_manifest where
  "demo_running = demo_manifest\<lparr>wm_status := Some \<lparr>wf_phase = Some ''Running'', wf_message = None,
     wf_started_at = Some 0, wf_finished_at = None, wf_nodes = []\<rparr>\<rparr>"

definition demo_running_services :: "unit argo_services" where
  "demo_running_services = demo_services\<lparr>as_workflow := (\<lambda>_. Inr (ApiOk demo_running))\<rparr>"

definition demo_running_workflow :: workflow where
  "demo_running_workflow =
     \<lparr>wk_manifest = demo_running, wk_metadata =
       \<lparr>md_name = ''numpy-7k2'', md_visit = visit_of_input demo_visit, md_uid = ''8b1c''\<rparr>\<rparr>"

lemma demo_query_run:
  assumes "cx_auth ctx = Some (TokenValid t)"
  shows "\<exists>env. giving found (workflow_query demo_running_services ctx demo_visit ''w'') demo_graph_env =
    (Inr [demo_running_workflow], env) \<and> length (ge_requests env) = 1"
  using assms
  by (simp add: giving_def found_def workflow_query_def guarded_def auth_guard_def ebind_def ctx_token_def
      get_workflow_from_argo_api_def Let_def send_request_def demo_running_services_def demo_services_def
      demo_graph_env_def workflow_new_def expect_def demo_running_def demo_manifest_def demo_meta_def
      demo_running_workflow_def)

lemma demo_tasks_run:
  assumes "cx_auth ctx = Some (TokenValid t)" and "wf_nodes wst = []"
  shows "\<exists>r env'. giving (\<lambda>_. []) (workflow_tasks demo_running_services ctx wst md) env = (r, env') \<and>
    length (ge_requests env') = Suc (length (ge_requests env))"
  using assms
  by (simp add: giving_def workflow_tasks_def ebind_def ctx_token_def fetch_missing_task_info_def Let_def
      fetch_ok_def fetch_def send_request_def demo_running_services_def demo_services_def demo_running_def
      expect_def)

theorem browser_request_to_argo_witness:
  "\<exists>q env ws rq1 rq2. sent (snd (gateway_inject_token demo_gateway demo_app demo_request
         (demo_session_env (seconds 400)))) = [q] \<and>
     graph_run (request_ctx demo_verifier demo_keyed_validator (cx_argo_url demo_graph_ctx)
           (typed_bearer (req_headers q ''authorization'')) 0) demo_graph_env ws env \<and>
     ge_requests env = [rq1, rq2] \<and> rq_bearer rq1 = Some ''at2'' \<and> rq_bearer rq2 = Some ''at2''"
proof -
  let ?w = "demo_session_env (seconds 400)"
  let ?q = "demo_request\<lparr>req_headers := (req_headers demo_request)(
       ''authorization'' := [''Bearer at2''], ''cookie'' := [])\<rparr>"
  let ?ctx = "request_ctx demo_verifier demo_keyed_validator (cx_argo_url demo_graph_ctx)
      (typed_bearer (req_headers ?q ''authorization'')) 0"
  obtain r w' where run: "gateway_inject_token demo_gateway demo_app demo_request ?w = (r, w')"
    by fastforce
  then have q: "sent w' = sent ?w @ [?q]" using demo_proxied by simp
  have valid: "cx_auth ?ctx = Some (TokenValid ''at2'')"
    by (simp add: request_ctx_def typed_bearer_def validate_token_def validate_token_with_jwt_def
        demo_verifier_def demo_keyed_validator_def demo_oidc_def)
  obtain env1 where env1: "giving found (workflow_query demo_running_services ?ctx demo_visit ''w'')
      demo_graph_env = (Inr [demo_running_workflow], env1)" "length (ge_requests env1) = 1"
    using demo_query_run [OF valid] by blast
  have graph1: "graph_run ?ctx demo_graph_env [demo_running_workflow] env1"
    using run_call [OF run_done call_workflow env1(1)] by simp
  define wst where "wst = the (wm_status demo_running)"
  have wst: "workflow_status_of demo_running_workflow = Inr (Some (Running wst (wk_metadata demo_running_workflow)))"
    "wf_nodes wst = []"
    by (simp_all add: workflow_status_of_def workflow_state_new_def demo_running_workflow_def
        demo_running_def wst_def)
  obtain r2 env2 where env2: "giving (\<lambda>_. []) (workflow_tasks demo_running_services ?ctx wst
      (wk_metadata demo_running_workflow)) env1 = (r2, env2)" "length (ge_requests env2) = 2"
    using demo_tasks_run [OF valid wst(2), of "wk_metadata demo_running_workflow" env1] env1(2) by auto
  obtain ws where graph: "graph_run ?ctx demo_graph_env ws env2"
    using run_call [OF graph1 call_tasks [OF _ wst(1)] env2(1)] by (auto simp: status_with_tasks_def)
  obtain rq1 rq2 where rq: "ge_requests env2 = [rq1, rq2]"
    using env2(2) by (auto simp: numeral_2_eq_2 length_Suc_conv)
  have typed: "typed_bearer [''Bearer '' @ b] = Some t \<Longrightarrow> t = b" for b t
    by (simp add: typed_bearer_def)
  have "?q \<in> set [?q]" by simp
  from browser_request_to_argo [where typed = typed_bearer, OF run q this typed graph] rq
  obtain t :: token_session_data where "with_verified demo_verifier demo_keyed_validator (cx_argo_url demo_graph_ctx)
      (Some (ts_access_token t)) [] rq1" "with_verified demo_verifier demo_keyed_validator
      (cx_argo_url demo_graph_ctx) (Some (ts_access_token t)) [] rq2"
    by (auto simp: demo_graph_env_def)
  then have "rq_bearer rq1 = Some ''at2''" "rq_bearer rq2 = Some ''at2''"
    by (auto simp: with_verified_def verified_def demo_verifier_def split: if_splits)
  then show ?thesis using rq graph demo_proxied by (intro exI [of _ ?q] exI) auto
qed

end
